(* ===== verification/Prelude.thy ===== *)
theory Prelude
  imports Complex_Main
begin

text \<open>
  Shared vocabulary of the development: Python exceptions as values of a sum type, the
  truthiness idioms of the source (\<^verbatim>\<open>a or b\<close>, \<^verbatim>\<open>x if x is not None else d\<close>), insertion-ordered
  dictionaries, and the generic lemmas on lists and options the component theories use.
\<close>

section \<open>Exceptions as values\<close>

text \<open>
  The exception classes the modelled code raises or handles. \<open>OtherError\<close> stands for every
  other subclass of \<^verbatim>\<open>Exception\<close> (its class name is kept), because the handlers of the source
  are all \<^verbatim>\<open>except Exception\<close> or name one of the classes listed here.
\<close>

datatype py_exn = ValueError | TypeError | KeyError | TimeoutError | OtherError string

type_synonym 'a py = "py_exn + 'a"

definition py_bind :: "'a py \<Rightarrow> ('a \<Rightarrow> 'b py) \<Rightarrow> 'b py" where
  "py_bind m f = (case m of Inl e \<Rightarrow> Inl e | Inr x \<Rightarrow> f x)"

text \<open>\<^verbatim>\<open>try: ... except Exception: handler\<close>, which always yields a value.\<close>

definition try_except :: "'a py \<Rightarrow> (py_exn \<Rightarrow> 'a) \<Rightarrow> 'a" where
  "try_except m h = (case m of Inl e \<Rightarrow> h e | Inr x \<Rightarrow> x)"

named_theorems py_simps \<open>computation rules of the Python idioms\<close>

lemma py_bind_simps [simp, py_simps]:
  "py_bind (Inl e) f = Inl e" "py_bind (Inr x) f = f x"
  by (simp_all add: py_bind_def)

lemma try_except_simps [simp, py_simps]:
  "try_except (Inl e) h = h e" "try_except (Inr x) h = x"
  by (simp_all add: try_except_def)

lemma py_bind_Inr_conv [py_simps]: "py_bind m f = Inr y \<longleftrightarrow> (\<exists>x. m = Inr x \<and> f x = Inr y)"
  by (cases m) auto

section \<open>Truthiness idioms\<close>

text \<open>\<^verbatim>\<open>d if x is None else x\<close>: a null check, so a falsy value such as 0.0 is kept.\<close>

definition if_none :: "'a option \<Rightarrow> 'a \<Rightarrow> 'a" where
  "if_none x d = (case x of None \<Rightarrow> d | Some v \<Rightarrow> v)"

lemma if_none_simps [simp, py_simps]: "if_none None d = d" "if_none (Some v) d = v"
  by (simp_all add: if_none_def)

text \<open>\<^verbatim>\<open>s or d\<close> on an optional string: both \<^verbatim>\<open>None\<close> and the empty string fall through.\<close>

definition str_or :: "'a list option \<Rightarrow> 'a list \<Rightarrow> 'a list" where
  "str_or s d = (case s of None \<Rightarrow> d | Some v \<Rightarrow> if v = [] then d else v)"

lemma str_or_simps [simp, py_simps]:
  "str_or None d = d" "str_or (Some []) d = d" "v \<noteq> [] \<Longrightarrow> str_or (Some v) d = v"
  by (simp_all add: str_or_def)

text \<open>\<^verbatim>\<open>if s:\<close> on an optional string.\<close>

definition truthy :: "'a list option \<Rightarrow> bool" where
  "truthy s = (case s of None \<Rightarrow> False | Some v \<Rightarrow> v \<noteq> [])"

lemma truthy_simps [simp, py_simps]: "\<not> truthy None" "truthy (Some v) \<longleftrightarrow> v \<noteq> []"
  by (simp_all add: truthy_def)

section \<open>Insertion-ordered dictionaries\<close>

text \<open>
  A Python dict keeps insertion order and an assignment to an existing key keeps its place;
  \<^verbatim>\<open>d[k] = v\<close> is \<open>dict_set\<close>, \<^verbatim>\<open>d.get(k)\<close> is \<^const>\<open>map_of\<close>.
\<close>

type_synonym ('k, 'v) dict = "('k \<times> 'v) list"

fun dict_set :: "'k \<Rightarrow> 'v \<Rightarrow> ('k, 'v) dict \<Rightarrow> ('k, 'v) dict" where
  "dict_set k v [] = [(k, v)]"
| "dict_set k v ((k', v') # d) = (if k = k' then (k, v) # d else (k', v') # dict_set k v d)"

definition dict_update :: "('k, 'v) dict \<Rightarrow> ('k, 'v) dict \<Rightarrow> ('k, 'v) dict" where
  "dict_update d e = fold (\<lambda>(k, v). dict_set k v) e d"

lemma map_of_dict_set [simp]: "map_of (dict_set k v d) = (map_of d)(k \<mapsto> v)"
  by (induction k v d rule: dict_set.induct) (auto simp: fun_eq_iff)

lemma keys_dict_set [simp]: "fst ` set (dict_set k v d) = insert k (fst ` set d)"
  by (induction k v d rule: dict_set.induct) auto

lemma distinct_dict_set [simp]: "distinct (map fst (dict_set k v d)) \<longleftrightarrow> distinct (map fst d)"
proof (induction k v d rule: dict_set.induct)
  case (2 k v k' v' d)
  have "set (map fst (dict_set k v d)) = insert k (set (map fst d))" by simp
  with 2 show ?case by (auto simp del: keys_dict_set)
qed simp

lemma map_of_dict_update:
  "distinct (map fst e) \<Longrightarrow> map_of (dict_update d e) = map_of d ++ map_of e"
  unfolding dict_update_def
proof (induction e arbitrary: d)
  case (Cons p e)
  obtain k v where p: "p = (k, v)" by (cases p)
  with Cons.prems have "k \<notin> dom (map_of e)" by (auto simp: dom_map_of_conv_image_fst)
  then have "(map_of d)(k \<mapsto> v) ++ map_of e = (map_of d ++ map_of e)(k \<mapsto> v)"
    by (auto simp: map_add_def fun_eq_iff dom_def split: option.splits)
  also have "\<dots> = map_of d ++ map_of (p # e)" by (simp add: p)
  finally have "(map_of d)(k \<mapsto> v) ++ map_of e = map_of d ++ map_of (p # e)" .
  moreover have "map_of (fold (\<lambda>(k, v). dict_set k v) (p # e) d) = map_of (dict_set k v d) ++ map_of e"
    using Cons by (simp add: p del: map_of_dict_set)
  ultimately show ?case by (simp only: map_of_dict_set)
qed simp

section \<open>Lists\<close>

text \<open>
  Collecting the elements that were not seen before, in order of first occurrence:
  the \<^verbatim>\<open>if x not in seen\<close> loops of the source.
\<close>

definition add_new :: "'a list \<Rightarrow> 'a list \<Rightarrow> 'a list" where
  "add_new acc xs = fold (\<lambda>x acc. if x \<in> set acc then acc else acc @ [x]) xs acc"

lemma add_new_simps [simp]:
  "add_new acc [] = acc"
  "add_new acc (x # xs) = add_new (if x \<in> set acc then acc else acc @ [x]) xs"
  by (simp_all add: add_new_def)

lemma set_add_new [simp]: "set (add_new acc xs) = set acc \<union> set xs"
  by (induction xs arbitrary: acc) auto

lemma distinct_add_new [simp]: "distinct acc \<Longrightarrow> distinct (add_new acc xs)"
  by (induction xs arbitrary: acc) auto

lemma filter_empty_iff: "filter P xs = [] \<longleftrightarrow> (\<forall>x\<in>set xs. \<not> P x)"
  by (induction xs) auto

lemma fold_max_ge: "(a :: 'a :: linorder) \<le> fold max xs a"
proof (induction xs arbitrary: a)
  case (Cons x xs)
  have "a \<le> max x a" by simp
  also have "\<dots> \<le> fold max xs (max x a)" by (rule Cons.IH)
  finally show ?case by simp
qed simp

lemma fold_max_ge_elem: "x \<in> set xs \<Longrightarrow> (x :: 'a :: linorder) \<le> fold max xs a"
proof (induction xs arbitrary: a)
  case (Cons y xs)
  show ?case
  proof (cases "x = y")
    case True
    have "x \<le> max y a" using True by simp
    also have "\<dots> \<le> fold max xs (max y a)" by (rule fold_max_ge)
    finally show ?thesis by simp
  next
    case False
    with Cons show ?thesis by simp
  qed
qed simp

lemma fold_max_in: "fold max xs (a :: 'a :: linorder) \<in> insert a (set xs)"
proof (induction xs arbitrary: a)
  case (Cons x xs)
  have "fold max xs (max x a) \<in> insert (max x a) (set xs)" by (rule Cons.IH)
  moreover have "max x a = x \<or> max x a = a" by (simp add: max_def)
  ultimately show ?case by auto
qed simp

end
