(* ===== verification/Py_Float.thy ===== *)
theory Py_Float
  imports Prelude "HOL-Library.Log_Nat"
begin

text \<open>
  Python's \<^verbatim>\<open>float\<close> (IEEE 754 binary64) on the finite values: a double is a rational, and every
  arithmetic operation of the source is the exact rational operation followed by \<open>fl\<close>,
  rounding to nearest with ties to even (53 bits of precision, least exponent $-1074$).
  \<open>round4\<close> is the built-in \<^verbatim>\<open>round(x, 4)\<close>: CPython rounds the exact binary value to four
  decimals, ties to even, and converts the decimal back to the nearest double.
  A literal such as \<^verbatim>\<open>0.7\<close> is \<open>fl (7/10)\<close>, not 7/10.

  Infinities and NaN are not modelled: every float of the modelled code is a score, a
  threshold or a probability, far from the overflow threshold. The lemmas at the end are the
  interface the scoring theories use: \<open>fl\<close> and \<open>round4\<close> are monotone, idempotent and fix 0
  and 1.
\<close>

type_synonym float64 = rat

text \<open>Round half to even.\<close>

definition rhe :: "rat \<Rightarrow> int" where
  "rhe x = (let f = \<lfloor>x\<rfloor>; r = x - of_int f in
     if r < 1 / 2 then f else if 1 / 2 < r then f + 1
     else if even f then f else f + 1)"

text \<open>The binary exponent of a positive rational, computed from the bit lengths.\<close>

definition ilog2 :: "rat \<Rightarrow> int" where
  "ilog2 x = (let (n, d) = quotient_of x; k = bitlen n - bitlen d in
     if 2 powi k \<le> x then k else k - 1)"

text \<open>The exponent of the last place of the double nearest to a positive rational.\<close>

definition fexp :: "rat \<Rightarrow> int" where
  "fexp x = max (- 1074) (ilog2 x - 52)"

definition fl :: "rat \<Rightarrow> float64" where
  "fl x = (if x = 0 then 0
     else let u = 2 powi (fexp \<bar>x\<bar>) in of_int (rhe (x / u)) * u)"

definition fadd :: "float64 \<Rightarrow> float64 \<Rightarrow> float64" where
  "fadd a b = fl (a + b)"

definition fsub :: "float64 \<Rightarrow> float64 \<Rightarrow> float64" where
  "fsub a b = fl (a - b)"

definition fmul :: "float64 \<Rightarrow> float64 \<Rightarrow> float64" where
  "fmul a b = fl (a * b)"

definition fdiv :: "float64 \<Rightarrow> float64 \<Rightarrow> float64" where
  "fdiv a b = fl (a / b)"

definition round4 :: "float64 \<Rightarrow> float64" where
  "round4 x = fl (of_int (rhe (x * 10000)) / 10000)"

section \<open>Rounding to integers\<close>

lemma rhe_of_int [simp]: "rhe (of_int n) = n"
  by (simp add: rhe_def)

lemma rhe_0 [simp]: "rhe 0 = 0" and rhe_1 [simp]: "rhe 1 = 1"
  using rhe_of_int [of 0] rhe_of_int [of 1] by simp_all

lemma rhe_numeral [simp]: "rhe (numeral k) = numeral k"
  using rhe_of_int [of "numeral k"] by simp

lemma rhe_bounds: "\<lfloor>x\<rfloor> \<le> rhe x \<and> rhe x \<le> \<lfloor>x\<rfloor> + 1"
  by (simp add: rhe_def Let_def)

lemma rhe_mono: "x \<le> y \<Longrightarrow> rhe x \<le> rhe y"
proof -
  assume le: "x \<le> y"
  then have f: "\<lfloor>x\<rfloor> \<le> \<lfloor>y\<rfloor>" by (rule floor_mono)
  show ?thesis
  proof (cases "\<lfloor>x\<rfloor> = \<lfloor>y\<rfloor>")
    case True
    with le show ?thesis by (auto simp: rhe_def Let_def)
  next
    case False
    with f have "\<lfloor>x\<rfloor> + 1 \<le> \<lfloor>y\<rfloor>" by simp
    with rhe_bounds [of x] rhe_bounds [of y] show ?thesis by linarith
  qed
qed

lemma rhe_minus: "rhe (- x) = - rhe x"
proof (cases "x = of_int \<lfloor>x\<rfloor>")
  case True
  then have "- x = of_int (- \<lfloor>x\<rfloor>)" by simp
  then have "rhe (- x) = - \<lfloor>x\<rfloor>" by (metis rhe_of_int)
  moreover from True have "rhe x = \<lfloor>x\<rfloor>" by (metis rhe_of_int)
  ultimately show ?thesis by simp
next
  case False
  then have "\<lceil>x\<rceil> = \<lfloor>x\<rfloor> + 1" by (simp only: ceiling_altdef if_False)
  then have f: "\<lfloor>- x\<rfloor> = - \<lfloor>x\<rfloor> - 1" by (simp add: floor_minus)
  show ?thesis
    by (auto simp: rhe_def Let_def f)
qed

section \<open>Binary exponents\<close>

lemma bitlen_powi:
  assumes "0 < n"
  shows "2 powi (bitlen n - 1) \<le> (of_int n :: rat)" and "(of_int n :: rat) < 2 powi bitlen n"
proof -
  have nn: "0 \<le> bitlen n - 1"
    using assms bitlen_eq_zero_iff [of n] bitlen_nonneg [of n] by linarith
  have b: "2 ^ nat (bitlen n - 1) \<le> n" "n < 2 ^ nat (bitlen n)"
    using bitlen_bounds [OF assms] by simp_all
  have "(of_int (2 ^ nat (bitlen n - 1)) :: rat) \<le> of_int n" using b(1) by (simp only: of_int_le_iff)
  then show "2 powi (bitlen n - 1) \<le> (of_int n :: rat)" using nn by (simp add: power_int_def)
  have "(of_int n :: rat) < of_int (2 ^ nat (bitlen n))" using b(2) by (simp only: of_int_less_iff)
  then show "(of_int n :: rat) < 2 powi bitlen n" by (simp add: power_int_def bitlen_nonneg)
qed

lemma ilog2_spec:
  assumes "0 < x"
  shows "2 powi (ilog2 x) \<le> x" and "x < 2 powi (ilog2 x + 1)"
proof -
  obtain n d where q: "quotient_of x = (n, d)" by (cases "quotient_of x")
  have d: "0 < d" using quotient_of_denom_pos [OF q] .
  have x: "x = of_int n / of_int d" using quotient_of_div [OF q] .
  with assms d have n: "0 < n" by (simp add: zero_less_divide_iff)
  define k where "k = bitlen n - bitlen d"
  have lo: "2 powi (k - 1) \<le> x"
  proof -
    have "2 powi (k - 1) * of_int d \<le> (2 powi (k - 1) * 2 powi bitlen d :: rat)"
      using bitlen_powi(2) [OF d] by (intro mult_left_mono) auto
    also have "\<dots> = 2 powi (bitlen n - 1)"
      by (simp add: k_def flip: power_int_add)
    also have "\<dots> \<le> of_int n" using bitlen_powi(1) [OF n] .
    finally show ?thesis using d by (simp add: x field_simps)
  qed
  have hi: "x < 2 powi (k + 1)"
  proof -
    have "of_int n < (2 powi bitlen n :: rat)" using bitlen_powi(2) [OF n] .
    also have "\<dots> = 2 powi (k + 1) * 2 powi (bitlen d - 1)"
      by (simp add: k_def flip: power_int_add)
    also have "\<dots> \<le> 2 powi (k + 1) * of_int d"
      using bitlen_powi(1) [OF d] by (intro mult_left_mono) auto
    finally show ?thesis using d by (simp add: x field_simps)
  qed
  show "2 powi (ilog2 x) \<le> x" using lo
    by (simp add: ilog2_def q k_def [symmetric] Let_def)
  show "x < 2 powi (ilog2 x + 1)" using hi
    by (simp add: ilog2_def q k_def [symmetric] Let_def)
qed

lemma powi2_less_iff [simp]: "(2 powi a < (2 powi b :: rat)) = (a < b)"
proof
  assume "(2 powi a :: rat) < 2 powi b"
  then show "a < b" using power_int_increasing [of b a "2 :: rat"] by force
qed (simp add: power_int_strict_increasing)

lemma powi2_le_iff [simp]: "(2 powi a \<le> (2 powi b :: rat)) = (a \<le> b)"
  using powi2_less_iff [of b a] by (simp only: linorder_not_less [symmetric])

lemma ilog2_mono: "0 < x \<Longrightarrow> x \<le> y \<Longrightarrow> ilog2 x \<le> ilog2 y"
proof -
  assume a: "0 < x" "x \<le> y"
  then have "2 powi (ilog2 x) < (2 powi (ilog2 y + 1) :: rat)"
    using ilog2_spec(1) [of x] ilog2_spec(2) [of y] by linarith
  then show ?thesis by simp
qed

lemma ilog2_unique: "2 powi k \<le> x \<Longrightarrow> x < 2 powi (k + 1) \<Longrightarrow> ilog2 x = k"
proof -
  assume a: "2 powi k \<le> x" "x < 2 powi (k + 1)"
  have "0 < (2 powi k :: rat)" by simp
  with a have p: "0 < x" by linarith
  have "2 powi k < (2 powi (ilog2 x + 1) :: rat)" using a(1) ilog2_spec(2) [OF p] by linarith
  moreover have "2 powi (ilog2 x) < (2 powi (k + 1) :: rat)" using a(2) ilog2_spec(1) [OF p] by linarith
  ultimately show ?thesis by simp
qed

section \<open>Rounding to doubles\<close>

lemma fl_0 [simp]: "fl 0 = 0" by (simp add: fl_def)

lemma fl_minus: "fl (- x) = - fl x"
  by (simp add: fl_def Let_def rhe_minus)

lemma fl_pos: "0 < x \<Longrightarrow> fl x = of_int (rhe (x / 2 powi (fexp x))) * 2 powi (fexp x)"
  by (simp add: fl_def Let_def)

lemma rhe_nonneg: "0 \<le> x \<Longrightarrow> 0 \<le> rhe x"
  using rhe_mono [of 0 x] by simp

lemma fl_nonneg: "0 \<le> x \<Longrightarrow> 0 \<le> fl x"
  by (cases "x = 0") (simp_all add: fl_pos rhe_nonneg)

lemma fl_mono_pos:
  assumes "0 < x" "x \<le> y"
  shows "fl x \<le> fl y"
proof (cases "fexp x = fexp y")
  case True
  have "rhe (x / 2 powi (fexp y)) \<le> rhe (y / 2 powi (fexp y))"
    using assms by (intro rhe_mono divide_right_mono) auto
  with True assms show ?thesis by (simp add: fl_pos)
next
  case False
  let ?u = "2 powi (fexp x) :: rat" and ?v = "2 powi (fexp y) :: rat"
  have m: "ilog2 x \<le> ilog2 y" using ilog2_mono assms by blast
  with False have lt: "fexp x + 1 \<le> fexp y" and ey: "fexp y = ilog2 y - 52" and ex: "ilog2 x \<le> fexp x + 52"
    by (auto simp: fexp_def)
  have "x < 2 powi (ilog2 x + 1)" using ilog2_spec(2) assms(1) by blast
  also have "\<dots> \<le> 2 powi (53 + fexp x)" using ex by simp
  also have "\<dots> = of_int (2 ^ 53) * ?u" by (simp add: power_int_add)
  finally have "x / ?u \<le> of_int (2 ^ 53)" by (simp add: field_simps)
  then have "rhe (x / ?u) \<le> 2 ^ 53" using rhe_mono rhe_of_int by metis
  then have "(of_int (rhe (x / ?u)) :: rat) \<le> of_int (2 ^ 53)" by (simp only: of_int_le_iff)
  then have "fl x \<le> of_int (2 ^ 53) * ?u"
    using assms by (simp add: fl_pos mult_right_mono)
  also have "\<dots> = 2 powi (53 + fexp x)" by (simp add: power_int_add)
  also have "\<dots> \<le> 2 powi (52 + fexp y)" using lt by simp
  also have "\<dots> = of_int (2 ^ 52) * ?v" by (simp add: power_int_add)
  also have "\<dots> \<le> of_int (rhe (y / ?v)) * ?v"
  proof -
    have "2 powi (52 + fexp y) \<le> y" using ilog2_spec(1) [of y] assms ey by simp
    then have "of_int (2 ^ 52) \<le> y / ?v" by (simp add: field_simps power_int_add)
    then have "2 ^ 52 \<le> rhe (y / ?v)" using rhe_mono rhe_of_int by metis
    then have "(of_int (2 ^ 52) :: rat) \<le> of_int (rhe (y / ?v))" by (simp only: of_int_le_iff)
    then show ?thesis by (intro mult_right_mono) auto
  qed
  also have "\<dots> = fl y" using assms by (simp add: fl_pos)
  finally show ?thesis .
qed

lemma fl_mono: "x \<le> y \<Longrightarrow> fl x \<le> fl y"
proof -
  assume le: "x \<le> y"
  consider "0 < x" | "x \<le> 0" "0 \<le> y" | "y < 0" by linarith
  then show ?thesis
  proof cases
    case 1 then show ?thesis using le by (rule fl_mono_pos)
  next
    case 2
    then have "0 \<le> fl (- x)" "0 \<le> fl y" by (simp_all add: fl_nonneg)
    then show ?thesis by (simp add: fl_minus)
  next
    case 3
    with le have "fl (- y) \<le> fl (- x)" by (intro fl_mono_pos) auto
    then show ?thesis by (simp add: fl_minus)
  qed
qed

lemma fl_exact_pos:
  assumes m: "0 < m" "m \<le> 2 ^ 53" and e: "- 1074 \<le> e" and xd: "x = of_int m * 2 powi e"
  shows "fl x = x"
proof -
  have x: "0 < x" using m xd by simp
  have xle: "x \<le> 2 powi (53 + e)"
  proof -
    have "(of_int m :: rat) \<le> of_int (2 ^ 53)" using m by (simp only: of_int_le_iff)
    then have "x \<le> of_int (2 ^ 53) * 2 powi e" unfolding xd by (intro mult_right_mono) auto
    then show ?thesis by (simp add: power_int_add)
  qed
  have "\<exists>i. x / 2 powi (fexp x) = of_int i"
  proof (cases "fexp x \<le> e")
    case True
    define k where "k = nat (e - fexp x)"
    with True have ek: "e = int k + fexp x" by simp
    have "(2 powi e :: rat) = 2 ^ k * 2 powi (fexp x)"
      by (subst ek) (simp add: power_int_add)
    then have "x / 2 powi (fexp x) = of_int (m * 2 ^ k)"
      by (subst xd) (simp add: field_simps)
    then show ?thesis by blast
  next
    case False
    then have fe: "fexp x = ilog2 x - 52" using e by (auto simp: fexp_def)
    have lo: "2 powi (52 + fexp x) \<le> x" using ilog2_spec(1) [OF x] fe by simp
    with xle have "2 powi (52 + fexp x) \<le> (2 powi (53 + e) :: rat)" by linarith
    with False have fe1: "fexp x = e + 1" by simp
    with lo xle have x2: "x = 2 powi (52 + fexp x)" by simp
    have "x / 2 powi (fexp x) = 2 powi (52 + fexp x) / 2 powi (fexp x)"
      by (subst (1) x2) (rule refl)
    then have "x / 2 powi (fexp x) = of_int (2 ^ 52)"
      by (simp add: power_int_add)
    then show ?thesis by blast
  qed
  then obtain i where i: "x / 2 powi (fexp x) = of_int i" ..
  then have "fl x = of_int i * 2 powi (fexp x)" using x by (simp add: fl_pos)
  also have "\<dots> = x" by (simp add: i [symmetric])
  finally show ?thesis .
qed

lemma fl_exact:
  assumes "\<bar>m\<bar> \<le> 2 ^ 53" "- 1074 \<le> e" "x = of_int m * 2 powi e"
  shows "fl x = x"
proof -
  consider "m = 0" | "0 < m" | "m < 0" by linarith
  then show ?thesis
  proof cases
    case 1 with assms(3) show ?thesis by simp
  next
    case 2 with assms show ?thesis by (intro fl_exact_pos [of m e]) auto
  next
    case 3
    with assms have "fl (- x) = - x" by (intro fl_exact_pos [of "- m" e]) auto
    then show ?thesis by (simp add: fl_minus)
  qed
qed

lemma fl_of_int: "\<bar>m\<bar> \<le> 2 ^ 53 \<Longrightarrow> fl (of_int m) = of_int m"
  by (rule fl_exact [of m 0]) auto

lemma fl_1 [simp]: "fl 1 = 1"
  using fl_of_int [of 1] by simp

lemma rhe_scaled_bound:
  assumes "0 < x" shows "rhe (x / 2 powi (fexp x)) \<le> 2 ^ 53"
proof -
  have "x < 2 powi (ilog2 x + 1)" using ilog2_spec(2) assms by blast
  also have "\<dots> \<le> 2 powi (53 + fexp x)" by (simp add: fexp_def)
  also have "\<dots> = of_int (2 ^ 53) * 2 powi (fexp x)" by (simp add: power_int_add)
  finally have "x / 2 powi (fexp x) \<le> of_int (2 ^ 53)" by (simp add: field_simps)
  then show ?thesis using rhe_mono rhe_of_int by metis
qed

lemma fl_fl [simp]: "fl (fl x) = fl x"
proof -
  have pos: "fl (fl y) = fl y" if "0 < y" for y
    using that rhe_scaled_bound [OF that] rhe_nonneg [of "y / 2 powi (fexp y)"]
    by (intro fl_exact [OF _ _ fl_pos]) (auto simp: fexp_def)
  consider "x = 0" | "0 < x" | "x < 0" by linarith
  then show ?thesis
  proof cases
    case 3
    then have "fl (fl (- x)) = fl (- x)" by (intro pos) simp
    then show ?thesis by (simp add: fl_minus)
  qed (simp_all add: pos)
qed

lemma fl_le_1: "x \<le> 1 \<Longrightarrow> fl x \<le> 1"
  using fl_mono [of x 1] by simp

lemma fl_ge_1: "1 \<le> x \<Longrightarrow> 1 \<le> fl x"
  using fl_mono [of 1 x] by simp

lemma round4_mono: "x \<le> y \<Longrightarrow> round4 x \<le> round4 y"
  unfolding round4_def
  by (intro fl_mono divide_right_mono) (simp_all add: rhe_mono)

lemma round4_0 [simp]: "round4 0 = 0" by (simp add: round4_def)

lemma round4_1 [simp]: "round4 1 = 1"
  by (simp add: round4_def)

lemma round4_nonneg: "0 \<le> x \<Longrightarrow> 0 \<le> round4 x"
  using round4_mono [of 0 x] by simp

lemma round4_le_1: "x \<le> 1 \<Longrightarrow> round4 x \<le> 1"
  using round4_mono [of x 1] by simp

lemma rhe_error: "\<bar>of_int (rhe x) - x\<bar> \<le> 1 / 2"
proof -
  have "of_int \<lfloor>x\<rfloor> \<le> x" "x < of_int \<lfloor>x\<rfloor> + 1"
    using floor_correct [of x] by simp_all
  then show ?thesis by (auto simp: rhe_def Let_def abs_le_iff)
qed

lemma rhe_unique: "\<bar>x - of_int n\<bar> < 1 / 2 \<Longrightarrow> rhe x = n"
proof -
  assume a: "\<bar>x - of_int n\<bar> < 1 / 2"
  have "\<bar>of_int (rhe x) - of_int n\<bar> \<le> \<bar>of_int (rhe x) - x\<bar> + \<bar>x - of_int n :: rat\<bar>"
    by linarith
  also have "\<dots> < 1" using a rhe_error [of x] by linarith
  finally have "\<bar>rhe x - n\<bar> < 1" by (metis of_int_abs of_int_diff of_int_less_1_iff)
  then show ?thesis by simp
qed

lemma fl_error_unit:
  assumes "0 \<le> x" "x \<le> 1"
  shows "\<bar>fl x - x\<bar> \<le> 1 / 2 ^ 53"
proof (cases "x = 0")
  case False
  with assms have p: "0 < x" by simp
  let ?u = "2 powi (fexp x) :: rat"
  have "ilog2 x \<le> 0" using ilog2_mono [OF p assms(2)] ilog2_unique [of 0 1] by simp
  then have "fexp x \<le> - 52" by (simp add: fexp_def)
  then have "?u \<le> 2 powi (- 52)" by (simp only: powi2_le_iff)
  then have u: "?u / 2 \<le> 1 / 2 ^ 53" by (simp add: power_int_minus)
  have "fl x - x = (of_int (rhe (x / ?u)) - x / ?u) * ?u"
    using p by (simp add: fl_pos field_simps)
  then have "\<bar>fl x - x\<bar> = \<bar>of_int (rhe (x / ?u)) - x / ?u\<bar> * ?u"
    by (simp add: abs_mult)
  also have "\<dots> \<le> 1 / 2 * ?u" using rhe_error by (intro mult_right_mono) auto
  finally show ?thesis using u by simp
qed simp

text \<open>Rounding twice is rounding once, on the unit interval all scores live in.\<close>

lemma round4_round4:
  assumes "0 \<le> x" "x \<le> 1"
  shows "round4 (round4 x) = round4 x"
proof -
  let ?n = "rhe (x * 10000)"
  have n: "0 \<le> ?n" "?n \<le> 10000"
    using rhe_mono [of 0 "x * 10000"] rhe_mono [of "x * 10000" 10000] assms by simp_all
  let ?q = "of_int ?n / 10000 :: rat"
  have q: "0 \<le> ?q" "?q \<le> 1" using n by simp_all
  have "\<bar>fl ?q * 10000 - of_int ?n\<bar> = \<bar>fl ?q - ?q\<bar> * 10000" by (simp add: abs_mult_pos' field_simps)
  also have "\<dots> \<le> 1 / 2 ^ 53 * 10000" using fl_error_unit [OF q] by (intro mult_right_mono) auto
  also have "\<dots> < 1 / 2" by simp
  finally have "rhe (fl ?q * 10000) = ?n" by (rule rhe_unique)
  then show ?thesis by (simp add: round4_def)
qed

text \<open>The bundle the scoring proofs use.\<close>

named_theorems float_bounds \<open>range and monotonicity facts of the double operations\<close>

lemmas [float_bounds] = fl_mono fl_nonneg fl_le_1 round4_mono round4_nonneg round4_le_1

lemma fmul_nonneg [float_bounds]: "0 \<le> a \<Longrightarrow> 0 \<le> b \<Longrightarrow> 0 \<le> fmul a b"
  by (simp add: fmul_def fl_nonneg)

lemma fadd_nonneg [float_bounds]: "0 \<le> a \<Longrightarrow> 0 \<le> b \<Longrightarrow> 0 \<le> fadd a b"
  by (simp add: fadd_def fl_nonneg)

lemma fmul_mono [float_bounds]: "a \<le> a' \<Longrightarrow> 0 \<le> b \<Longrightarrow> fmul a b \<le> fmul a' b"
  by (simp add: fmul_def fl_mono mult_right_mono)

lemma fadd_mono [float_bounds]: "a \<le> a' \<Longrightarrow> b \<le> b' \<Longrightarrow> fadd a b \<le> fadd a' b'"
  by (simp add: fadd_def fl_mono)

lemma fsub_mono [float_bounds]: "a \<le> a' \<Longrightarrow> fsub a b \<le> fsub a' b"
  by (simp add: fsub_def fl_mono)

lemma fsub_le: "fl a = a \<Longrightarrow> 0 \<le> b \<Longrightarrow> fsub a b \<le> a"
  using fl_mono [of "a - b" a] by (simp add: fsub_def)

end
