(* ===== verification/Py_Text.thy ===== *)
theory Py_Text
  imports Prelude
begin

text \<open>
  Python strings. A \<^verbatim>\<open>str\<close> is a sequence of Unicode code points, so scanned text is a list of
  naturals (\<open>ustr\<close>) and \<^const>\<open>length\<close> counts what Python's \<^verbatim>\<open>len\<close> counts. Identifiers that
  never leave ASCII (detector names, reasons, labels) stay HOL strings; \<open>us\<close> embeds them.

  The tables of the Unicode character database (case mapping, digit and alphanumeric
  classes, printability, NFKC) belong to the interpreter and not to the repository. They are
  a record the definitions take as an argument; \<open>ucd_ok\<close> is the part of them the claims rely
  on, agreement with ASCII, and \<open>ascii_ucd\<close> is a concrete instance to evaluate with.
\<close>

type_synonym uchar = nat
type_synonym ustr = "uchar list"

definition us :: "string \<Rightarrow> ustr" where
  "us s = map of_char s"

lemma us_simps [simp]: "us [] = []" "us (c # s) = of_char c # us s"
  by (simp_all add: us_def)

lemma length_us [simp]: "length (us s) = length s"
  by (simp add: us_def)

record ucd =
  u_lower :: "uchar \<Rightarrow> uchar"
  u_digit :: "uchar \<Rightarrow> bool"
  u_alnum :: "uchar \<Rightarrow> bool"
  u_printable :: "uchar \<Rightarrow> bool"
  u_nfkc :: "ustr \<Rightarrow> ustr"
  u_str_lower :: "ustr \<Rightarrow> ustr"
  u_str_upper :: "ustr \<Rightarrow> ustr"

definition ascii_lower :: "uchar \<Rightarrow> uchar" where
  "ascii_lower c = (if 65 \<le> c \<and> c \<le> 90 then c + 32 else c)"

definition ascii_upper :: "uchar \<Rightarrow> uchar" where
  "ascii_upper c = (if 97 \<le> c \<and> c \<le> 122 then c - 32 else c)"

definition ascii_digit :: "uchar \<Rightarrow> bool" where
  "ascii_digit c \<longleftrightarrow> 48 \<le> c \<and> c \<le> 57"

definition ascii_alnum :: "uchar \<Rightarrow> bool" where
  "ascii_alnum c \<longleftrightarrow> ascii_digit c \<or> (65 \<le> c \<and> c \<le> 90) \<or> (97 \<le> c \<and> c \<le> 122)"

definition ascii_ucd :: ucd where
  "ascii_ucd = \<lparr>u_lower = ascii_lower, u_digit = ascii_digit, u_alnum = ascii_alnum,
     u_printable = (\<lambda>c. 32 \<le> c \<and> c \<le> 126), u_nfkc = (\<lambda>s. s), u_str_lower = map ascii_lower,
     u_str_upper = map ascii_upper\<rparr>"

definition ucd_ok :: "ucd \<Rightarrow> bool" where
  "ucd_ok U \<longleftrightarrow>
     (\<forall>c < 128. u_lower U c = ascii_lower c \<and> u_digit U c = ascii_digit c
        \<and> u_alnum U c = ascii_alnum c \<and> u_printable U c = (32 \<le> c \<and> c \<le> 126)) \<and>
     (\<forall>s. (\<forall>c \<in> set s. c < 128) \<longrightarrow> u_nfkc U s = s \<and> u_str_lower U s = map ascii_lower s
        \<and> u_str_upper U s = map ascii_upper s)"

lemma ucd_ok_ascii: "ucd_ok ascii_ucd"
  by (simp add: ucd_ok_def ascii_ucd_def)

text \<open>
  The characters \<^verbatim>\<open>str.isspace\<close>, \<^verbatim>\<open>str.strip\<close> and \<^verbatim>\<open>\s\<close> treat as white space.
\<close>

definition is_space :: "uchar \<Rightarrow> bool" where
  "is_space c \<longleftrightarrow> (9 \<le> c \<and> c \<le> 13) \<or> (28 \<le> c \<and> c \<le> 32) \<or> c = 133 \<or> c = 160 \<or> c = 5760
     \<or> (8192 \<le> c \<and> c \<le> 8202) \<or> c = 8232 \<or> c = 8233 \<or> c = 8239 \<or> c = 8287 \<or> c = 12288"

definition lstrip :: "ustr \<Rightarrow> ustr" where
  "lstrip s = dropWhile is_space s"

definition strip :: "ustr \<Rightarrow> ustr" where
  "strip s = rev (lstrip (rev (lstrip s)))"

definition startswith :: "'a list \<Rightarrow> 'a list \<Rightarrow> bool" where
  "startswith s p \<longleftrightarrow> take (length p) s = p"

definition endswith :: "'a list \<Rightarrow> 'a list \<Rightarrow> bool" where
  "endswith s p \<longleftrightarrow> startswith (rev s) (rev p)"

text \<open>\<^verbatim>\<open>str.translate\<close> with a table from code points to replacement strings.\<close>

definition translate :: "(uchar \<times> ustr) list \<Rightarrow> ustr \<Rightarrow> ustr" where
  "translate tab s = concat (map (\<lambda>c. case map_of tab c of None \<Rightarrow> [c] | Some r \<Rightarrow> r) s)"

lemma translate_simps [simp]:
  "translate tab [] = []"
  "translate tab (c # s) = (case map_of tab c of None \<Rightarrow> [c] | Some r \<Rightarrow> r) @ translate tab s"
  by (simp_all add: translate_def)

lemma translate_append [simp]: "translate tab (s @ t) = translate tab s @ translate tab t"
  by (simp add: translate_def)

text \<open>A 1:1 table keeps the length; a table whose outputs it does not touch is idempotent.\<close>

lemma length_translate_one:
  "(\<And>c r. map_of tab c = Some r \<Longrightarrow> length r = 1) \<Longrightarrow> length (translate tab s) = length s"
  by (induction s) (auto split: option.splits)

lemma translate_idem:
  assumes "\<And>c r d. map_of tab c = Some r \<Longrightarrow> d \<in> set r \<Longrightarrow> map_of tab d = None"
  shows "translate tab (translate tab s) = translate tab s"
proof (induction s)
  case (Cons c s)
  have keep: "translate tab r = r" if "\<And>d. d \<in> set r \<Longrightarrow> map_of tab d = None" for r
    using that by (induction r) auto
  show ?case
  proof (cases "map_of tab c")
    case (Some r)
    with assms have "translate tab r = r" by (intro keep) blast
    with Cons Some show ?thesis by simp
  qed (use Cons in simp)
qed simp

lemma translate_out:
  assumes "c \<in> set (translate tab s)"
  shows "map_of tab c = None \<or> (\<exists>d r. map_of tab d = Some r \<and> c \<in> set r)"
  using assms by (induction s) (auto split: option.splits)

lemma translate_src:
  "c \<in> set (translate tab s) \<Longrightarrow> c \<in> set s \<or> (\<exists>d r. map_of tab d = Some r \<and> c \<in> set r)"
  by (induction s) (auto split: option.splits)

lemma lstrip_id: "s \<noteq> [] \<Longrightarrow> \<not> is_space (hd s) \<Longrightarrow> lstrip s = s"
  by (cases s) (auto simp: lstrip_def)

lemma strip_no_space: "s \<noteq> [] \<Longrightarrow> \<not> is_space (hd s) \<Longrightarrow> \<not> is_space (last s) \<Longrightarrow> strip s = s"
  by (simp add: strip_def lstrip_id hd_rev)

lemma set_lstrip: "set (lstrip s) \<subseteq> set s"
  by (auto simp: lstrip_def dest: set_dropWhileD)

lemma set_strip: "set (strip s) \<subseteq> set s"
  using set_lstrip [of "rev (lstrip s)"] set_lstrip [of s] by (auto simp: strip_def)

end
