(* ===== verification/Domain.thy ===== *)
theory Domain
  imports Py_Float Py_Text "HOL-Library.List_Lexorder" "HOL-Library.Char_ord"
begin

text \<open>
  The domain layer (\<^verbatim>\<open>src/domain\<close>): the enumerations, the risk-score value object, the severity
  classification, trace identifiers, the request, decision and audit entities, and the
  principal with its permission matching. Definitions come first; the lemmas give the range
  of a risk score, the shape of the severity table, the acceptance condition of a trace id
  and the behaviour of the permission wildcard.
\<close>

section \<open>Enumerations\<close>

datatype decision_type = BLOCK | SANITIZE | ALLOW

datatype risk_level = CRITICAL | HIGH | MEDIUM | LOW

datatype threat_category =
  PROMPT_INJECTION | JAILBREAK | MALICIOUS_INTENT | DATA_EXFILTRATION | PII | TOXICITY | BENIGN

datatype detection_mode = FAST | FULL

datatype execution_mode = SCAN_ONLY | PROXY

datatype principal_type = USER | API_KEY | AGENT | MCP_CLIENT

datatype notification_type =
  USER_INVITED | PASSWORD_CHANGED | PASSWORD_RESET_BY_ADMIN | ACCOUNT_LOCKED
  | ACCOUNT_DEACTIVATED | ACCOUNT_REACTIVATED | ROLE_CHANGED | API_KEY_CREATED | API_KEY_REVOKED

datatype notification_category = ACCOUNT | API_SECURITY | SECURITY

fun decision_value :: "decision_type \<Rightarrow> string" where
  "decision_value BLOCK = ''BLOCK''"
| "decision_value SANITIZE = ''SANITIZE''"
| "decision_value ALLOW = ''ALLOW''"

fun threat_value :: "threat_category \<Rightarrow> string" where
  "threat_value PROMPT_INJECTION = ''PROMPT_INJECTION''"
| "threat_value JAILBREAK = ''JAILBREAK''"
| "threat_value MALICIOUS_INTENT = ''MALICIOUS_INTENT''"
| "threat_value DATA_EXFILTRATION = ''DATA_EXFILTRATION''"
| "threat_value PII = ''PII''"
| "threat_value TOXICITY = ''TOXICITY''"
| "threat_value BENIGN = ''BENIGN''"

definition get_risk_level :: "float64 \<Rightarrow> risk_level" where
  "get_risk_level score =
     (if fl (9/10) \<le> score then CRITICAL
      else if fl (7/10) \<le> score then HIGH
      else if fl (4/10) \<le> score then MEDIUM
      else LOW)"

text \<open>Notification catalogue: every registered type has one category, six are implemented.\<close>

fun NOTIFICATION_CATEGORY :: "notification_type \<Rightarrow> notification_category" where
  "NOTIFICATION_CATEGORY API_KEY_CREATED = API_SECURITY"
| "NOTIFICATION_CATEGORY API_KEY_REVOKED = API_SECURITY"
| "NOTIFICATION_CATEGORY _ = ACCOUNT"

definition IMPLEMENTED_NOTIFICATIONS :: "notification_type list" where
  "IMPLEMENTED_NOTIFICATIONS =
     [PASSWORD_CHANGED, PASSWORD_RESET_BY_ADMIN, ACCOUNT_LOCKED, ACCOUNT_DEACTIVATED,
      ACCOUNT_REACTIVATED, ROLE_CHANGED]"

definition is_implemented :: "notification_type \<Rightarrow> bool" where
  "is_implemented t \<longleftrightarrow> t \<in> set IMPLEMENTED_NOTIFICATIONS"

section \<open>Risk scores\<close>

datatype risk_score = RiskScore (rs_value: float64)

text \<open>The constructor: a value outside the unit interval raises, any other is rounded.\<close>

definition mk_risk_score :: "float64 \<Rightarrow> risk_score py" where
  "mk_risk_score v = (if 0 \<le> v \<and> v \<le> 1 then Inr (RiskScore (round4 v)) else Inl ValueError)"

definition is_above :: "risk_score \<Rightarrow> float64 \<Rightarrow> bool" where
  "is_above rs threshold \<longleftrightarrow> threshold \<le> rs_value rs"

section \<open>Severity\<close>

definition CRITICAL_RISK_THRESHOLD :: float64 where
  "CRITICAL_RISK_THRESHOLD = fl (9/10)"

text \<open>
  The source passes the decision as its string value; the model passes the enumeration and
  classifies with the levels of \<^verbatim>\<open>SEVERITY_LEVELS\<close>.
\<close>

definition compute_severity :: "decision_type \<Rightarrow> float64 \<Rightarrow> string option \<Rightarrow> risk_level" where
  "compute_severity decision score primary_reason =
     (if decision = BLOCK then
        (if truthy primary_reason \<and> endswith (the primary_reason) ''_GUARDRAIL_BLOCK'' then CRITICAL
         else if CRITICAL_RISK_THRESHOLD \<le> score then CRITICAL
         else HIGH)
      else if primary_reason = Some ''SYSTEM_ERROR'' then HIGH
      else if decision = SANITIZE then MEDIUM
      else LOW)"

section \<open>Trace identifiers\<close>

definition TRACE_PREFIX :: string where "TRACE_PREFIX = ''req''"
definition MIN_SUFFIX_LEN :: nat where "MIN_SUFFIX_LEN = 20"
definition MAX_TRACE_LEN :: nat where "MAX_TRACE_LEN = 64"

definition trace_alphabet :: string where
  "trace_alphabet = ''0123456789abcdefghijklmnopqrstuvwxyz-''"

text \<open>
  \<open>mk_trace_id\<close> is \<^verbatim>\<open>TraceId.__init__\<close>; the generated body (a random hex string) is an argument.
  \<open>trace_from_string\<close> is the validating constructor \<^verbatim>\<open>TraceId.from_string\<close>.
\<close>

definition mk_trace_id :: "string \<Rightarrow> string option \<Rightarrow> string" where
  "mk_trace_id ulid value = str_or value (TRACE_PREFIX @ ''_'' @ ulid)"

definition trace_from_string :: "string \<Rightarrow> string py" where
  "trace_from_string value =
     (let pre = TRACE_PREFIX @ ''_''; suffix = drop (length pre) value in
      if \<not> startswith value pre then Inl ValueError
      else if length suffix < MIN_SUFFIX_LEN then Inl ValueError
      else if MAX_TRACE_LEN < length value then Inl ValueError
      else if \<not> list_all (\<lambda>c. c \<in> set trace_alphabet) suffix then Inl ValueError
      else Inr (mk_trace_id [] (Some value)))"

section \<open>Requests\<close>

record request_metadata =
  md_tenant_id :: "string option"
  md_source :: "string option"
  md_user_id :: "string option"

record incoming_request =
  rq_input :: ustr
  rq_trace_id :: string
  rq_detection_mode :: detection_mode
  rq_execution_mode :: execution_mode
  rq_model :: "string option"
  rq_input_source :: "ustr option"
  rq_metadata :: request_metadata
  rq_stream :: bool
  rq_debug :: bool

definition is_proxy_mode :: "incoming_request \<Rightarrow> bool" where
  "is_proxy_mode r \<longleftrightarrow> rq_execution_mode r = PROXY"

definition is_full_detection :: "incoming_request \<Rightarrow> bool" where
  "is_full_detection r \<longleftrightarrow> rq_detection_mode r = FULL"

definition requires_streaming :: "incoming_request \<Rightarrow> bool" where
  "requires_streaming r \<longleftrightarrow> rq_stream r \<and> is_proxy_mode r"

section \<open>Decisions and audit entries\<close>

text \<open>The open-ended score bag: a missing key reads as 0.0.\<close>

type_synonym layer_scores = "(string, float64) dict"

definition ls_get :: "layer_scores \<Rightarrow> string \<Rightarrow> float64" where
  "ls_get ls k = if_none (map_of ls k) 0"

definition ls_update :: "layer_scores \<Rightarrow> layer_scores \<Rightarrow> layer_scores" where
  "ls_update ls other = dict_update ls other"

record posture_info =
  pi_dimension :: string
  pi_input_source :: ustr
  pi_tier :: string
  pi_applied_delta :: float64
  pi_effective_block :: float64
  pi_effective_sanitize :: float64

record gateway_decision =
  gd_trace_id :: string
  gd_decision :: decision_type
  gd_risk_score :: risk_score
  gd_threats :: "threat_category list"
  gd_sanitized_input :: "ustr option"
  gd_output :: "ustr option"
  gd_layer_scores :: "layer_scores option"
  gd_llm_invoked :: bool
  gd_detection_mode :: detection_mode
  gd_execution_mode :: execution_mode
  gd_primary_reason :: "string option"
  gd_confidence :: "float64 option"
  gd_confidence_band :: "string option"
  gd_posture :: "posture_info option"

definition gd_risk_level :: "gateway_decision \<Rightarrow> risk_level" where
  "gd_risk_level d = get_risk_level (rs_value (gd_risk_score d))"

record audit_log =
  al_trace_id :: string
  al_decision :: decision_type
  al_risk_score :: float64
  al_threats :: "threat_category list"
  al_input_hash :: string
  al_detection_mode :: detection_mode
  al_execution_mode :: execution_mode
  al_llm_invoked :: bool
  al_tenant_id :: "string option"
  al_source :: "string option"
  al_user_id :: "string option"

section \<open>Principals\<close>

definition ROLE_PERMISSIONS :: "(string, string list) dict" where
  "ROLE_PERMISSIONS = [
     (''ADMIN'', [''*'']),
     (''DEVELOPER'', [''scan:*'', ''audit:read'', ''settings:read'', ''keys:*'', ''dashboard:read'']),
     (''AUDITOR'', [''audit:read'', ''dashboard:read'', ''settings:read'', ''keys:read'']),
     (''VIEWER'', [''audit:read'', ''dashboard:read''])]"

record principal =
  pr_id :: string
  pr_type :: principal_type
  pr_tenant_id :: string
  pr_dept_id :: "string option"
  pr_roles :: "string list"
  pr_permissions :: "string list"
  pr_is_admin :: bool
  pr_email :: "string option"

definition has_role :: "principal \<Rightarrow> string list \<Rightarrow> bool" where
  "has_role p roles \<longleftrightarrow> list_ex (\<lambda>r. r \<in> set (pr_roles p)) roles"

text \<open>\<^verbatim>\<open>str.split(sep)\<close> with a one-character separator.\<close>

fun split_on :: "char \<Rightarrow> string \<Rightarrow> string list" where
  "split_on sep [] = [[]]"
| "split_on sep (c # cs) =
     (if c = sep then [] # split_on sep cs
      else case split_on sep cs of [] \<Rightarrow> [[c]] | w # ws \<Rightarrow> (c # w) # ws)"

definition segs_match :: "string list \<Rightarrow> string list \<Rightarrow> bool" where
  "segs_match parts p_parts \<longleftrightarrow>
     length p_parts = length parts \<and> list_all (\<lambda>(a, b). a = b \<or> b = ''*'') (zip parts p_parts)"

definition has_permission :: "principal \<Rightarrow> string \<Rightarrow> bool" where
  "has_permission pr permission =
     (if permission = [] then False
      else if ''*'' \<in> set (pr_permissions pr) then True
      else if permission \<in> set (pr_permissions pr) then True
      else list_ex (\<lambda>p. segs_match (split_on (CHR '':'') permission) (split_on (CHR '':'') p))
             (pr_permissions pr))"

section \<open>Orders\<close>

text \<open>
  Threats are ordered by their string value, the key of the source's \<^verbatim>\<open>sorted\<close> call;
  decisions by how strict they are.
\<close>

lemma threat_value_inj: "threat_value a = threat_value b \<longleftrightarrow> a = b"
  by (cases a; cases b) simp_all

instantiation threat_category :: linorder
begin

definition less_eq_threat_category :: "threat_category \<Rightarrow> threat_category \<Rightarrow> bool" where
  "less_eq_threat_category a b \<longleftrightarrow> threat_value a \<le> threat_value b"

definition less_threat_category :: "threat_category \<Rightarrow> threat_category \<Rightarrow> bool" where
  "less_threat_category a b \<longleftrightarrow> threat_value a < threat_value b"

instance
  by standard
    (auto simp: less_eq_threat_category_def less_threat_category_def less_le threat_value_inj)

end

fun strictness :: "decision_type \<Rightarrow> nat" where
  "strictness ALLOW = 0"
| "strictness SANITIZE = 1"
| "strictness BLOCK = 2"

lemma strictness_inj: "strictness a = strictness b \<longleftrightarrow> a = b"
  by (cases a; cases b) simp_all

instantiation decision_type :: linorder
begin

definition less_eq_decision_type :: "decision_type \<Rightarrow> decision_type \<Rightarrow> bool" where
  "less_eq_decision_type a b \<longleftrightarrow> strictness a \<le> strictness b"

definition less_decision_type :: "decision_type \<Rightarrow> decision_type \<Rightarrow> bool" where
  "less_decision_type a b \<longleftrightarrow> strictness a < strictness b"

instance
  by standard (auto simp: less_eq_decision_type_def less_decision_type_def strictness_inj)

end

lemma decision_order [simp]:
  "ALLOW \<le> d" "d \<le> BLOCK" "BLOCK \<le> d \<longleftrightarrow> d = BLOCK" "d \<le> ALLOW \<longleftrightarrow> d = ALLOW"
  "SANITIZE \<le> SANITIZE" "SANITIZE \<le> d \<longleftrightarrow> d \<noteq> ALLOW" "d \<le> SANITIZE \<longleftrightarrow> d \<noteq> BLOCK"
  by (cases d; simp add: less_eq_decision_type_def)+

section \<open>Facts\<close>

lemma mk_risk_score_Inr:
  "mk_risk_score v = Inr rs \<longleftrightarrow> 0 \<le> v \<and> v \<le> 1 \<and> rs = RiskScore (round4 v)"
  by (auto simp: mk_risk_score_def)

lemma mk_risk_score_1 [simp]: "mk_risk_score 1 = Inr (RiskScore 1)"
  by (simp add: mk_risk_score_def)

text \<open>
  A risk score that was constructed lies in the unit interval, and wrapping its value
  again gives the same score: rounding to four decimals is stable on doubles.
\<close>

theorem risk_score_range:
  assumes "mk_risk_score v = Inr rs"
  shows "0 \<le> rs_value rs \<and> rs_value rs \<le> 1 \<and> mk_risk_score (rs_value rs) = Inr rs"
  using assms by (auto simp: mk_risk_score_Inr round4_nonneg round4_le_1 round4_round4)

theorem risk_score_range_witness:
  "mk_risk_score (fl (1/3)) = Inr (RiskScore (fl (3333/10000))) \<and>
   mk_risk_score (fl (3333/10000)) = Inr (RiskScore (fl (3333/10000)))"
proof -
  have h: "mk_risk_score (fl (1/3)) = Inr (RiskScore (fl (3333/10000)))" by code_simp
  from risk_score_range [OF h] h show ?thesis by simp
qed

text \<open>
  Severity classification on every branch: a block is CRITICAL exactly when its reason
  carries the guardrail-block suffix or its score reaches 0.9 and HIGH otherwise, and a
  non-block is HIGH for a system error, MEDIUM for a sanitisation and LOW for an allow.
  So a fail-closed block, which carries risk score 1.0, is CRITICAL whatever its reason.
\<close>

theorem severity_table:
  "compute_severity BLOCK s r =
     (if (\<exists>x y. r = Some (x @ y) \<and> y = ''_GUARDRAIL_BLOCK'') \<or> fl (9/10) \<le> s then CRITICAL else HIGH)
   \<and> (d \<noteq> BLOCK \<longrightarrow> compute_severity d s r =
        (if r = Some ''SYSTEM_ERROR'' then HIGH else if d = SANITIZE then MEDIUM else LOW))
   \<and> compute_severity BLOCK 1 r = CRITICAL"
proof -
  have e: "endswith v w \<longleftrightarrow> (\<exists>x. v = x @ w)" for v w :: string
  proof
    assume "endswith v w"
    then have "rev v = rev w @ drop (length w) (rev v)"
      unfolding endswith_def startswith_def by (metis append_take_drop_id length_rev)
    then have "v = rev (drop (length w) (rev v)) @ w" by (metis rev_append rev_rev_ident)
    then show "\<exists>x. v = x @ w" by blast
  qed (auto simp: endswith_def startswith_def)
  have t: "truthy r \<and> endswith (the r) w \<longleftrightarrow> (\<exists>x. r = Some (x @ w))" if "w \<noteq> []" for w
    using that by (cases r) (auto simp: e)
  have "fl (9/10) \<le> 1" by (rule fl_le_1) simp
  then show ?thesis using t [of "''_GUARDRAIL_BLOCK''"]
    by (simp add: compute_severity_def CRITICAL_RISK_THRESHOLD_def)
qed

theorem severity_table_witness:
  "compute_severity SANITIZE 0 (Some ''PII_GUARDRAIL_SANITIZE'') = MEDIUM"
  using severity_table [of 0 "Some ''PII_GUARDRAIL_SANITIZE''" SANITIZE] by simp

lemma split_on_nonempty: "split_on sep s \<noteq> []"
  by (cases s) (auto split: list.splits)

lemma split_on_no_sep: "sep \<notin> set s \<Longrightarrow> split_on sep s = [s]"
  by (induction s) auto

lemma split_on_append:
  "sep \<notin> set a \<Longrightarrow> split_on sep (a @ sep # b) = a # split_on sep b"
  by (induction a) auto

lemma segs_match_plain:
  "''*'' \<notin> set q \<Longrightarrow> segs_match p q \<longleftrightarrow> p = q"
proof (induction p arbitrary: q)
  case Nil
  then show ?case by (auto simp: segs_match_def)
next
  case (Cons a p)
  then show ?case by (cases q) (auto simp: segs_match_def)
qed

fun join_on :: "char \<Rightarrow> string list \<Rightarrow> string" where
  "join_on sep [] = []"
| "join_on sep [w] = w"
| "join_on sep (w # ws) = w @ sep # join_on sep ws"

lemma join_on_Cons: "ws \<noteq> [] \<Longrightarrow> join_on sep (w # ws) = w @ sep # join_on sep ws"
  by (cases ws) auto

lemma join_split: "join_on sep (split_on sep s) = s"
proof (induction s)
  case (Cons c s)
  obtain w ws where w: "split_on sep s = w # ws"
    using split_on_nonempty [of sep s] by (cases "split_on sep s") auto
  with Cons show ?case by (cases ws) (auto simp: join_on_Cons)
qed simp

lemma split_on_inj: "split_on sep s = split_on sep t \<Longrightarrow> s = t"
  by (metis join_split)

text \<open>A permission list without wildcards grants exactly its own entries.\<close>

lemma has_permission_plain:
  assumes "\<And>q. q \<in> set (pr_permissions pr) \<Longrightarrow> q \<noteq> [] \<and> ''*'' \<notin> set (split_on (CHR '':'') q)"
  shows "has_permission pr p \<longleftrightarrow> p \<in> set (pr_permissions pr)"
proof -
  have star: "''*'' \<notin> set (pr_permissions pr)"
    using assms [of "''*''"] by auto
  have "list_ex (\<lambda>q. segs_match (split_on (CHR '':'') p) (split_on (CHR '':'') q)) (pr_permissions pr)
      \<longleftrightarrow> p \<in> set (pr_permissions pr)"
    using assms by (auto simp: list_ex_iff segs_match_plain dest: split_on_inj)
  with star assms [of p] show ?thesis by (auto simp: has_permission_def)
qed

text \<open>
  The read-only roles of the permission table: AUDITOR grants exactly its four read
  permissions, VIEWER exactly its two, so every permission a VIEWER has an AUDITOR has, and
  neither can write; ADMIN's wildcard grants every non-empty permission.
\<close>

theorem read_only_roles:
  "(map_of ROLE_PERMISSIONS ''AUDITOR'' = Some (pr_permissions a) \<longrightarrow>
      (has_permission a p \<longleftrightarrow> p \<in> {''audit:read'', ''dashboard:read'', ''settings:read'', ''keys:read''}))
   \<and> (map_of ROLE_PERMISSIONS ''VIEWER'' = Some (pr_permissions v) \<longrightarrow>
      (has_permission v p \<longleftrightarrow> p \<in> {''audit:read'', ''dashboard:read''}))
   \<and> (map_of ROLE_PERMISSIONS ''ADMIN'' = Some (pr_permissions r) \<longrightarrow>
      (has_permission r p \<longleftrightarrow> p \<noteq> []))"
proof (intro conjI impI)
  assume "map_of ROLE_PERMISSIONS ''AUDITOR'' = Some (pr_permissions a)"
  then have q: "pr_permissions a = [''audit:read'', ''dashboard:read'', ''settings:read'', ''keys:read'']"
    by (simp add: ROLE_PERMISSIONS_def)
  have "has_permission a p \<longleftrightarrow> p \<in> set (pr_permissions a)"
    by (rule has_permission_plain) (auto simp: q)
  then show "has_permission a p \<longleftrightarrow> p \<in> {''audit:read'', ''dashboard:read'', ''settings:read'', ''keys:read''}"
    by (simp add: q)
next
  assume "map_of ROLE_PERMISSIONS ''VIEWER'' = Some (pr_permissions v)"
  then have q: "pr_permissions v = [''audit:read'', ''dashboard:read'']"
    by (simp add: ROLE_PERMISSIONS_def)
  have "has_permission v p \<longleftrightarrow> p \<in> set (pr_permissions v)"
    by (rule has_permission_plain) (auto simp: q)
  then show "has_permission v p \<longleftrightarrow> p \<in> {''audit:read'', ''dashboard:read''}"
    by (simp add: q)
next
  assume "map_of ROLE_PERMISSIONS ''ADMIN'' = Some (pr_permissions r)"
  then have q: "pr_permissions r = [''*'']" by (simp add: ROLE_PERMISSIONS_def)
  then show "has_permission r p \<longleftrightarrow> p \<noteq> []" by (simp add: has_permission_def q)
qed

definition demo_viewer :: principal where
  "demo_viewer = \<lparr>pr_id = ''user:1'', pr_type = USER, pr_tenant_id = ''t'', pr_dept_id = Some ''d'',
     pr_roles = [''VIEWER''], pr_permissions = [''audit:read'', ''dashboard:read''],
     pr_is_admin = False, pr_email = None\<rparr>"

theorem read_only_roles_witness:
  "map_of ROLE_PERMISSIONS ''VIEWER'' = Some (pr_permissions demo_viewer) \<and>
   has_permission demo_viewer ''audit:read'' \<and> \<not> has_permission demo_viewer ''keys:read''"
proof -
  have h: "map_of ROLE_PERMISSIONS ''VIEWER'' = Some (pr_permissions demo_viewer)"
    by (simp add: ROLE_PERMISSIONS_def demo_viewer_def)
  show ?thesis
    using h read_only_roles [of demo_viewer "''audit:read''" demo_viewer demo_viewer]
      read_only_roles [of demo_viewer "''keys:read''" demo_viewer demo_viewer] by simp
qed

end
