(* ===== verification/Py_Regex.thy ===== *)
theory Py_Regex
  imports Py_Text
begin

text \<open>
  The fragment of Python's \<^verbatim>\<open>re\<close> the detectors use: literals, classes, \<^verbatim>\<open>.\<close>, word boundaries,
  groups, alternation and greedy quantifiers, with \<^verbatim>\<open>IGNORECASE\<close> and \<^verbatim>\<open>DOTALL\<close>.

  The pattern tables of the detector theories are written with the combinators below, one term
  per pattern string of the source. \<open>ends\<close> is the backtracking matcher: the end positions
  of a match at a given start, in the order the engine tries them, so its first element is the
  match Python takes; \<open>sem\<close> is the declarative meaning of an expression, and \<open>ends_sem\<close> shows
  that the matcher finds exactly the matches the meaning allows. \<open>search\<close> and \<open>subn\<close> are
  \<^verbatim>\<open>Pattern.search\<close> and \<^verbatim>\<open>Pattern.subn\<close>.
\<close>

datatype citem = CRange uchar uchar | CSpace | CDigit | CWord

datatype regex =
    Eps
  | Ch uchar
  | Dot
  | Cls "citem list"
  | NCls "citem list"
  | WordB
  | Seq regex regex
  | Alt regex regex
  | Rep nat "nat option" regex

record re_flags =
  icase :: bool
  dotall :: bool

definition at_most :: "nat option \<Rightarrow> nat \<Rightarrow> bool" where
  "at_most hi n \<longleftrightarrow> (case hi of None \<Rightarrow> True | Some h \<Rightarrow> n \<le> h)"

section \<open>One character\<close>

text \<open>
  Case-insensitive comparison: both sides lowered, plus the engine's table of extra
  equivalences, of which only dotless i and long s concern an ASCII pattern.
\<close>

definition ci_eq :: "ucd \<Rightarrow> uchar \<Rightarrow> uchar \<Rightarrow> bool" where
  "ci_eq U p c = (let lp = u_lower U p; lc = u_lower U c in
     lp = lc \<or> (lp = 105 \<and> lc = 305) \<or> (lp = 305 \<and> lc = 105)
     \<or> (lp = 115 \<and> lc = 383) \<or> (lp = 383 \<and> lc = 115))"

definition is_word :: "ucd \<Rightarrow> uchar \<Rightarrow> bool" where
  "is_word U c \<longleftrightarrow> u_alnum U c \<or> c = 95"

fun item_matches :: "ucd \<Rightarrow> re_flags \<Rightarrow> citem \<Rightarrow> uchar \<Rightarrow> bool" where
  "item_matches U F (CRange a b) c =
     (if icase F then list_ex (\<lambda>p. ci_eq U p c) [a..<Suc b] else a \<le> c \<and> c \<le> b)"
| "item_matches U F CSpace c = is_space c"
| "item_matches U F CDigit c = u_digit U c"
| "item_matches U F CWord c = is_word U c"

fun char_matches :: "ucd \<Rightarrow> re_flags \<Rightarrow> regex \<Rightarrow> uchar \<Rightarrow> bool" where
  "char_matches U F (Ch p) c = (if icase F then ci_eq U p c else p = c)"
| "char_matches U F Dot c = (dotall F \<or> c \<noteq> 10)"
| "char_matches U F (Cls items) c = list_ex (\<lambda>it. item_matches U F it c) items"
| "char_matches U F (NCls items) c = (\<not> list_ex (\<lambda>it. item_matches U F it c) items)"
| "char_matches U F _ c = False"

definition word_boundary :: "ucd \<Rightarrow> ustr \<Rightarrow> nat \<Rightarrow> bool" where
  "word_boundary U s i \<longleftrightarrow>
     (0 < i \<and> i \<le> length s \<and> is_word U (s ! (i - 1))) \<noteq> (i < length s \<and> is_word U (s ! i))"

section \<open>The matcher\<close>

text \<open>
  Greedy repetition of a step \<open>f\<close>: more iterations are tried before fewer; past the minimum
  an iteration that consumes nothing is not repeated. The fuel bounds the iterations.
\<close>

primrec iter :: "(nat \<Rightarrow> nat list) \<Rightarrow> nat \<Rightarrow> nat \<Rightarrow> nat option \<Rightarrow> nat \<Rightarrow> nat list" where
  "iter f 0 lo hi i = (if lo = 0 then [i] else [])"
| "iter f (Suc n) lo hi i =
     (if hi = Some 0 then []
      else concat (map (\<lambda>j. if lo = 0 \<and> j = i then []
                            else iter f n (lo - 1) (map_option (\<lambda>h. h - 1) hi) j) (f i)))
     @ (if lo = 0 then [i] else [])"

definition one_char :: "ucd \<Rightarrow> re_flags \<Rightarrow> regex \<Rightarrow> ustr \<Rightarrow> nat \<Rightarrow> nat list" where
  "one_char U F r s i = (if i < length s \<and> char_matches U F r (s ! i) then [Suc i] else [])"

primrec ends :: "ucd \<Rightarrow> re_flags \<Rightarrow> regex \<Rightarrow> ustr \<Rightarrow> nat \<Rightarrow> nat list" where
  "ends U F Eps s i = [i]"
| "ends U F (Ch c) s i = one_char U F (Ch c) s i"
| "ends U F Dot s i = one_char U F Dot s i"
| "ends U F (Cls its) s i = one_char U F (Cls its) s i"
| "ends U F (NCls its) s i = one_char U F (NCls its) s i"
| "ends U F WordB s i = (if word_boundary U s i then [i] else [])"
| "ends U F (Seq r1 r2) s i = concat (map (ends U F r2 s) (ends U F r1 s i))"
| "ends U F (Alt r1 r2) s i = ends U F r1 s i @ ends U F r2 s i"
| "ends U F (Rep lo hi r) s i = iter (ends U F r s) (lo + length s) lo hi i"

text \<open>\<^verbatim>\<open>Pattern.search(s)\<close> as a truth value.\<close>

definition search :: "ucd \<Rightarrow> re_flags \<Rightarrow> regex \<Rightarrow> ustr \<Rightarrow> bool" where
  "search U F r s = list_ex (\<lambda>i. ends U F r s i \<noteq> []) [0..<Suc (length s)]"

text \<open>
  \<^verbatim>\<open>Pattern.subn(repl, s)\<close>: scan left to right, take the first match at each position, and
  resume after it; an empty match is replaced and the next character copied.
\<close>

function subn_from :: "ucd \<Rightarrow> re_flags \<Rightarrow> regex \<Rightarrow> ustr \<Rightarrow> ustr \<Rightarrow> nat \<Rightarrow> ustr \<times> nat" where
  "subn_from U F r repl s i =
     (if length s < i then ([], 0)
      else case ends U F r s i of
        [] \<Rightarrow> (let (out, n) = subn_from U F r repl s (Suc i) in (take 1 (drop i s) @ out, n))
      | j # _ \<Rightarrow>
          (if i < j then (let (out, n) = subn_from U F r repl s j in (repl @ out, Suc n))
           else (let (out, n) = subn_from U F r repl s (Suc i)
                 in (repl @ take 1 (drop i s) @ out, Suc n))))"
  by pat_completeness auto
termination
  by (relation "measure (\<lambda>(U, F, r, repl, s, i). Suc (length s) - i)") auto

declare subn_from.simps [simp del]

definition subn :: "ucd \<Rightarrow> re_flags \<Rightarrow> regex \<Rightarrow> ustr \<Rightarrow> ustr \<Rightarrow> ustr \<times> nat" where
  "subn U F r repl s = subn_from U F r repl s 0"

text \<open>
  \<^verbatim>\<open>Pattern.findall(s)\<close> of a pattern without groups and without an empty match: the texts of
  the successive non-overlapping matches.
\<close>

function findall_from :: "ucd \<Rightarrow> re_flags \<Rightarrow> regex \<Rightarrow> ustr \<Rightarrow> nat \<Rightarrow> ustr list" where
  "findall_from U F r s i =
     (if length s < i then []
      else case ends U F r s i of
        [] \<Rightarrow> findall_from U F r s (Suc i)
      | j # _ \<Rightarrow> take (j - i) (drop i s) # findall_from U F r s (if i < j then j else Suc i))"
  by pat_completeness auto
termination
  by (relation "measure (\<lambda>(U, F, r, s, i). Suc (length s) - i)") auto

declare findall_from.simps [simp del]

definition findall :: "ucd \<Rightarrow> re_flags \<Rightarrow> regex \<Rightarrow> ustr \<Rightarrow> ustr list" where
  "findall U F r s = findall_from U F r s 0"

section \<open>Writing patterns\<close>

text \<open>
  Combinators in which the pattern tables of the source are written: \<open>lit\<close> is a run of
  literal characters, \<open>cat\<close> and \<open>alts\<close> are juxtaposition and \<^verbatim>\<open>|\<close>, \<open>opt\<close>, \<open>many\<close>, \<open>some1\<close> and
  \<open>rep\<close> are the quantifiers \<^verbatim>\<open>?\<close>, \<^verbatim>\<open>*\<close>, \<^verbatim>\<open>+\<close> and \<^verbatim>\<open>{m,n}\<close>, \<open>rngs ''AZ09''\<close> and \<open>chars\<close> build
  the items of a bracketed class (ranges A-Z and 0-9; single characters). Groups only bracket: no modelled call reads one.
\<close>

fun cat :: "regex list \<Rightarrow> regex" where
  "cat [] = Eps"
| "cat [r] = r"
| "cat (r # rs) = Seq r (cat rs)"

fun alts :: "regex list \<Rightarrow> regex" where
  "alts [] = Cls []"
| "alts [r] = r"
| "alts (r # rs) = Alt r (alts rs)"

definition lit :: "string \<Rightarrow> regex" where
  "lit s = cat (map (\<lambda>c. Ch (of_char c)) s)"

definition opt :: "regex list \<Rightarrow> regex" where
  "opt rs = Rep 0 (Some 1) (cat rs)"

definition many :: "regex \<Rightarrow> regex" where
  "many r = Rep 0 None r"

definition some1 :: "regex \<Rightarrow> regex" where
  "some1 r = Rep 1 None r"

definition rep :: "nat \<Rightarrow> nat option \<Rightarrow> regex \<Rightarrow> regex" where
  "rep m n r = Rep m n r"

fun rngs :: "string \<Rightarrow> citem list" where
  "rngs (a # b # s) = CRange (of_char a) (of_char b) # rngs s"
| "rngs _ = []"

definition chars :: "string \<Rightarrow> citem list" where
  "chars s = map (\<lambda>c. CRange (of_char c) (of_char c)) s"

definition sp :: regex where "sp = Cls [CSpace]"
definition digit :: regex where "digit = Cls [CDigit]"

lemmas re_combinators = cat.simps alts.simps lit_def opt_def many_def some1_def rep_def
  rngs.simps chars_def sp_def digit_def

section \<open>The meaning of an expression\<close>

primrec sem :: "ucd \<Rightarrow> re_flags \<Rightarrow> ustr \<Rightarrow> regex \<Rightarrow> (nat \<times> nat) set" where
  "sem U F s Eps = Id"
| "sem U F s (Ch c) = {(i, j). j = Suc i \<and> i < length s \<and> char_matches U F (Ch c) (s ! i)}"
| "sem U F s Dot = {(i, j). j = Suc i \<and> i < length s \<and> char_matches U F Dot (s ! i)}"
| "sem U F s (Cls its) = {(i, j). j = Suc i \<and> i < length s \<and> char_matches U F (Cls its) (s ! i)}"
| "sem U F s (NCls its) = {(i, j). j = Suc i \<and> i < length s \<and> char_matches U F (NCls its) (s ! i)}"
| "sem U F s WordB = {(i, j). j = i \<and> word_boundary U s i}"
| "sem U F s (Seq r1 r2) = sem U F s r1 O sem U F s r2"
| "sem U F s (Alt r1 r2) = sem U F s r1 \<union> sem U F s r2"
| "sem U F s (Rep lo hi r) = (\<Union>n \<in> {n. lo \<le> n \<and> at_most hi n}. sem U F s r ^^ n)"

lemma at_most_Suc: "at_most hi (Suc n) \<longleftrightarrow> hi \<noteq> Some 0 \<and> at_most (map_option (\<lambda>h. h - 1) hi) n"
  by (auto simp: at_most_def split: option.splits)

lemma iter_sound:
  assumes "j \<in> set (iter f n lo hi i)" and "at_most hi lo"
  shows "\<exists>k. lo \<le> k \<and> at_most hi k \<and> (i, j) \<in> {(a, b). b \<in> set (f a)} ^^ k"
  using assms
proof (induction n arbitrary: lo hi i)
  case 0
  then have "lo = 0" "j = i" by (auto split: if_splits)
  with 0 show ?case by (intro exI [of _ 0]) auto
next
  case (Suc n)
  show ?case
  proof (cases "lo = 0 \<and> j = i")
    case True
    with Suc.prems show ?thesis by (intro exI [of _ 0]) auto
  next
    case False
    let ?hi = "map_option (\<lambda>h. h - 1) hi"
    from Suc.prems False have hi: "hi \<noteq> Some 0" by (auto split: if_splits)
    with Suc.prems False obtain m where m: "m \<in> set (f i)" "j \<in> set (iter f n (lo - 1) ?hi m)"
      by (auto split: if_splits)
    have "at_most ?hi (lo - 1)" using Suc.prems(2) hi
      by (auto simp: at_most_def split: option.splits)
    then obtain k where k: "lo - 1 \<le> k" "at_most ?hi k" "(m, j) \<in> {(a, b). b \<in> set (f a)} ^^ k"
      using Suc.IH [OF m(2)] by blast
    have "(i, j) \<in> {(a, b). b \<in> set (f a)} ^^ Suc k"
      using m(1) k(3) by (intro relpow_Suc_I2 [of _ m]) auto
    with k hi show ?thesis by (intro exI [of _ "Suc k"]) (auto simp: at_most_Suc)
  qed
qed

lemma iter_complete:
  assumes "(i, j) \<in> {(a, b). b \<in> set (f a)} ^^ k" and "lo \<le> k" and "at_most hi k"
    and "\<And>a b. b \<in> set (f a) \<Longrightarrow> a \<le> L \<Longrightarrow> a \<le> b \<and> b \<le> L"
    and "i \<le> L" and "lo + (L - i) \<le> n"
  shows "j \<in> set (iter f n lo hi i)"
  using assms
proof (induction k arbitrary: lo hi i n)
  case 0
  then show ?case by (cases n) auto
next
  case (Suc k)
  from Suc.prems(1) obtain m where m: "m \<in> set (f i)" "(m, j) \<in> {(a, b). b \<in> set (f a)} ^^ k"
    using relpow_Suc_D2 [OF Suc.prems(1)] by auto
  have mL: "i \<le> m" "m \<le> L" using Suc.prems(4) [OF m(1)] Suc.prems(5) by auto
  show ?case
  proof (cases "lo = 0 \<and> m = i")
    case True
    have "at_most hi k" using Suc.prems(3) by (auto simp: at_most_def split: option.splits)
    with True Suc.prems m(2) show ?thesis by (intro Suc.IH) auto
  next
    case False
    with mL Suc.prems(6) obtain n' where n': "n = Suc n'" by (cases n) auto
    have hi: "hi \<noteq> Some 0" and wi: "at_most (map_option (\<lambda>h. h - 1) hi) k"
      using Suc.prems(3) by (simp_all add: at_most_Suc)
    have "j \<in> set (iter f n' (lo - 1) (map_option (\<lambda>h. h - 1) hi) m)"
      using Suc.prems m(2) mL wi False n' by (intro Suc.IH) auto
    with False hi m(1) n' show ?thesis by auto
  qed
qed

text \<open>Every end lies between the start and the end of the text.\<close>

lemma iter_bounds:
  assumes "\<And>a b. b \<in> set (f a) \<Longrightarrow> a \<le> L \<Longrightarrow> a \<le> b \<and> b \<le> L"
    and "j \<in> set (iter f n lo hi i)" and "i \<le> L"
  shows "i \<le> j \<and> j \<le> L"
  using assms(2,3)
proof (induction n arbitrary: lo hi i)
  case (Suc n)
  then show ?case using assms(1) by (fastforce split: if_splits)
qed (auto split: if_splits)

lemma ends_bounds: "j \<in> set (ends U F r s i) \<Longrightarrow> i \<le> length s \<Longrightarrow> i \<le> j \<and> j \<le> length s"
proof (induction r arbitrary: i j)
  case (Seq r1 r2)
  then show ?case by fastforce
next
  case (Rep lo hi r)
  have "j \<in> set (iter (ends U F r s) (lo + length s) lo hi i)" using Rep.prems by simp
  then show ?case by (rule iter_bounds [rotated]) (use Rep in auto)
qed (auto simp: one_char_def split: if_splits)

text \<open>The repetition bounds an expression carries are never contradictory.\<close>

primrec re_wf :: "regex \<Rightarrow> bool" where
  "re_wf Eps = True"
| "re_wf (Ch c) = True"
| "re_wf Dot = True"
| "re_wf (Cls its) = True"
| "re_wf (NCls its) = True"
| "re_wf WordB = True"
| "re_wf (Seq r1 r2) = (re_wf r1 \<and> re_wf r2)"
| "re_wf (Alt r1 r2) = (re_wf r1 \<and> re_wf r2)"
| "re_wf (Rep lo hi r) = (at_most hi lo \<and> re_wf r)"

lemma re_wf_combinators [simp]:
  "re_wf (cat rs) = list_all re_wf rs" "re_wf (alts rs) = list_all re_wf rs" "re_wf (lit s)"
  "re_wf (opt rs) = list_all re_wf rs" "re_wf (many r) = re_wf r" "re_wf (some1 r) = re_wf r"
  "re_wf (rep m n r) = (at_most n m \<and> re_wf r)" "re_wf sp" "re_wf digit"
proof -
  show c: "re_wf (cat rs) = list_all re_wf rs" for rs by (induction rs rule: cat.induct) auto
  show "re_wf (alts rs) = list_all re_wf rs" by (induction rs rule: alts.induct) auto
  show "re_wf (lit s)" "re_wf (opt rs) = list_all re_wf rs"
    by (simp_all add: lit_def opt_def c list_all_iff at_most_def)
qed (simp_all add: many_def some1_def rep_def sp_def digit_def at_most_def)

lemma sem_bounds: "(i, j) \<in> sem U F s r \<Longrightarrow> i \<le> length s \<Longrightarrow> i \<le> j \<and> j \<le> length s"
proof (induction r arbitrary: i j)
  case (Seq r1 r2)
  then show ?case by fastforce
next
  case (Rep lo hi r)
  have "(i, j) \<in> sem U F s r ^^ n \<Longrightarrow> i \<le> length s \<Longrightarrow> i \<le> j \<and> j \<le> length s" for n i j
  proof (induction n arbitrary: i)
    case (Suc n)
    obtain m where "(i, m) \<in> sem U F s r" "(m, j) \<in> sem U F s r ^^ n"
      using relpow_Suc_D2 [OF Suc.prems(1)] by blast
    with Suc Rep.IH show ?case by (meson le_trans)
  qed simp
  with Rep.prems show ?case by auto
qed (auto split: if_splits)

lemma ends_sem:
  assumes "re_wf r" and "i \<le> length s"
  shows "j \<in> set (ends U F r s i) \<longleftrightarrow> (i, j) \<in> sem U F s r"
  using assms
proof (induction r arbitrary: i j)
  case (Seq r1 r2)
  have "j \<in> set (ends U F (Seq r1 r2) s i) \<longleftrightarrow>
      (\<exists>m. m \<in> set (ends U F r1 s i) \<and> j \<in> set (ends U F r2 s m))" by auto
  also have "\<dots> \<longleftrightarrow> (\<exists>m. (i, m) \<in> sem U F s r1 \<and> (m, j) \<in> sem U F s r2)"
    using Seq ends_bounds sem_bounds by (metis re_wf.simps(7))
  finally show ?case by auto
next
  case (Rep lo hi r)
  let ?R = "{(a, b). b \<in> set (ends U F r s a)}"
  have pow: "(a, b) \<in> ?R ^^ n \<longleftrightarrow> (a, b) \<in> sem U F s r ^^ n" if "a \<le> length s" for a b n
    using that
  proof (induction n arbitrary: a)
    case (Suc n)
    have "(a, b) \<in> ?R ^^ Suc n \<longleftrightarrow> (\<exists>m. (a, m) \<in> ?R \<and> (m, b) \<in> ?R ^^ n)"
      by (meson relpow_Suc_D2 relpow_Suc_I2)
    also have "\<dots> \<longleftrightarrow> (\<exists>m. (a, m) \<in> sem U F s r \<and> (m, b) \<in> ?R ^^ n)"
      using Rep.IH [of a] Rep.prems(1) Suc.prems by simp
    also have "\<dots> \<longleftrightarrow> (\<exists>m. (a, m) \<in> sem U F s r \<and> (m, b) \<in> sem U F s r ^^ n)"
      using Suc.IH Suc.prems sem_bounds by meson
    also have "\<dots> \<longleftrightarrow> (a, b) \<in> sem U F s r ^^ Suc n"
      by (meson relpow_Suc_D2 relpow_Suc_I2)
    finally show ?case .
  qed simp
  have "j \<in> set (ends U F (Rep lo hi r) s i) \<longleftrightarrow>
      (\<exists>k. lo \<le> k \<and> at_most hi k \<and> (i, j) \<in> ?R ^^ k)"
  proof
    assume "j \<in> set (ends U F (Rep lo hi r) s i)"
    then show "\<exists>k. lo \<le> k \<and> at_most hi k \<and> (i, j) \<in> ?R ^^ k"
      using iter_sound Rep.prems(1) by simp
  next
    assume "\<exists>k. lo \<le> k \<and> at_most hi k \<and> (i, j) \<in> ?R ^^ k"
    then show "j \<in> set (ends U F (Rep lo hi r) s i)"
      using Rep.prems(2) ends_bounds
      by (auto intro!: iter_complete [where L = "length s"])
  qed
  with pow [OF Rep.prems(2)] show ?case by auto
qed (auto simp: one_char_def)

lemma search_iff: "search U F r s \<longleftrightarrow> (\<exists>i \<le> length s. ends U F r s i \<noteq> [])"
  by (simp add: search_def list_ex_iff less_Suc_eq_le Bex_def del: upt_Suc)

lemma search_sem:
  "re_wf r \<Longrightarrow> search U F r s \<longleftrightarrow> (\<exists>i j. i \<le> length s \<and> (i, j) \<in> sem U F s r)"
  unfolding search_iff by (metis ends_sem last_in_set list.set_cases neq_Nil_conv)

section \<open>Substitution\<close>

lemma subn_from_none:
  "(\<And>k. i \<le> k \<Longrightarrow> k \<le> length s \<Longrightarrow> ends U F r s k = []) \<Longrightarrow>
   subn_from U F r repl s i = (drop i s, 0)"
proof (induction U F r repl s i rule: subn_from.induct)
  case (1 U F r repl s i)
  show ?case
  proof (cases "length s < i")
    case False
    then have "ends U F r s i = []" using "1.prems" by simp
    moreover have "take 1 (drop i s) @ drop (Suc i) s = drop i s"
      by (cases "drop i s") (auto simp: drop_Suc drop_tl)
    ultimately show ?thesis using False 1 by (simp add: subn_from.simps [of U F r repl s i])
  qed (simp add: subn_from.simps)
qed

lemma subn_from_some:
  assumes "k \<le> length s" and "i \<le> k" and "ends U F r s k \<noteq> []"
  shows "0 < snd (subn_from U F r repl s i)"
  using assms
proof (induction U F r repl s i rule: subn_from.induct)
  case (1 U F r repl s i)
  show ?case
  proof (cases "ends U F r s i")
    case Nil
    with "1.prems" have "i \<noteq> k" by auto
    with 1 Nil have "0 < snd (subn_from U F r repl s (Suc i))" by simp
    with "1.prems" Nil show ?thesis
      by (simp add: subn_from.simps [of U F r repl s i] case_prod_beta)
  next
    case (Cons j js)
    with "1.prems" show ?thesis
      by (simp add: subn_from.simps [of U F r repl s i] case_prod_beta)
  qed
qed

lemma subn_no_match: "\<not> search U F r s \<Longrightarrow> subn U F r repl s = (s, 0)"
  by (simp add: subn_def subn_from_none search_iff)

lemma subn_match_iff: "0 < snd (subn U F r repl s) \<longleftrightarrow> search U F r s"
proof
  assume "search U F r s"
  then obtain k where "k \<le> length s" "ends U F r s k \<noteq> []" by (auto simp: search_iff)
  then show "0 < snd (subn U F r repl s)" unfolding subn_def by (intro subn_from_some) auto
qed (use subn_no_match in force)

section \<open>Character runs\<close>

text \<open>
  An unbounded repetition of a character class matches, greedily, the run of its characters
  at the position: the ends are the whole run first, then its prefixes down to the minimum.
\<close>

definition run_len :: "ucd \<Rightarrow> re_flags \<Rightarrow> regex \<Rightarrow> ustr \<Rightarrow> nat \<Rightarrow> nat" where
  "run_len U F r s i = length (takeWhile (char_matches U F r) (drop i s))"

lemma run_len_simps:
  "i < length s \<Longrightarrow> char_matches U F r (s ! i) \<Longrightarrow> run_len U F r s i = Suc (run_len U F r s (Suc i))"
  "i < length s \<Longrightarrow> \<not> char_matches U F r (s ! i) \<Longrightarrow> run_len U F r s i = 0"
  "length s \<le> i \<Longrightarrow> run_len U F r s i = 0"
  by (simp_all add: run_len_def Cons_nth_drop_Suc [symmetric])

lemma iter_one_char:
  "length s + lo \<le> n + i \<Longrightarrow> iter (one_char U F r s) n lo None i = rev [i + lo ..< Suc (i + run_len U F r s i)]"
proof (induction n arbitrary: lo i)
  case 0
  then show ?case by (simp add: run_len_simps)
next
  case (Suc n)
  show ?case
  proof (cases "i < length s \<and> char_matches U F r (s ! i)")
    case True
    with Suc have "iter (one_char U F r s) n (lo - 1) None (Suc i) =
        rev [Suc i + (lo - 1) ..< Suc (Suc i + run_len U F r s (Suc i))]"
      by (intro Suc.IH) linarith
    moreover have "one_char U F r s i = [Suc i]" using True by (simp add: one_char_def)
    ultimately show ?thesis using True
      by (cases lo) (auto simp: run_len_simps upt_conv_Cons simp del: upt_Suc)
  next
    case False
    then have "one_char U F r s i = []" by (simp add: one_char_def)
    moreover have "run_len U F r s i = 0"
      using False by (cases "i < length s") (simp_all add: run_len_simps)
    ultimately show ?thesis by (cases lo) auto
  qed
qed

lemma ends_class_run:
  "ends U F (Rep lo None (Cls its)) s i = rev [i + lo ..< Suc (i + run_len U F (Cls its) s i)]"
proof -
  have "ends U F (Cls its) s = one_char U F (Cls its) s" by (rule ext) simp
  then show ?thesis by (simp add: iter_one_char del: upt_Suc)
qed

end
