(* ===== verification/Normalization.thy ===== *)
theory Normalization
  imports Py_Regex Py_Float
begin

text \<open>
  The normalization pipeline of \<^verbatim>\<open>engine/normalization\<close>: the value types (\<^verbatim>\<open>types.py\<close>), the
  resource limits (\<^verbatim>\<open>limits.py\<close>), the confusable table (\<^verbatim>\<open>confusables.py\<close>), the five stages
  (\<^verbatim>\<open>stages.py\<close>) and the fail-soft runner (\<^verbatim>\<open>pipeline.py\<close>). The Base64 and UTF-8 decoders the
  decode stage calls are the strict ones of the standard library (\<^verbatim>\<open>validate=True\<close>: data
  characters, then at most two pads). Unicode's NFKC table is a field of the \<open>ucd\<close> record, the
  stage latencies are read from a clock and the version digest is taken by a hash function: the
  last two are arguments.
\<close>

section \<open>Value types and limits\<close>

record detection_view =
  dv_text :: ustr
  dv_kind :: string
  dv_depth :: nat

record applied_stage =
  as_name :: string
  as_version :: string
  as_changed :: bool
  as_count :: int
  as_latency_ms :: float64
  as_suspicious :: bool
  as_error :: "py_exn option"

record normalized_input =
  ni_canonical :: ustr
  ni_views :: "detection_view list"
  ni_stages :: "applied_stage list"
  ni_version :: string

definition texts :: "normalized_input \<Rightarrow> ustr list" where
  "texts ni = ni_canonical ni # map dv_text (ni_views ni)"

definition obfuscated :: "normalized_input \<Rightarrow> bool" where
  "obfuscated ni = list_ex (\<lambda>s. as_changed s \<and> as_suspicious s) (ni_stages ni)"

record stage_output =
  so_text :: "ustr option"
  so_views :: "detection_view list"
  so_count :: int

definition MAX_DECODE_DEPTH :: nat where "MAX_DECODE_DEPTH = 2"
definition MAX_VIEWS :: nat where "MAX_VIEWS = 8"
definition MAX_VIEW_BYTES :: nat where "MAX_VIEW_BYTES = 8192"

record stage =
  st_name :: string
  st_version :: string
  st_fn :: "ustr \<Rightarrow> stage_output py"
  st_enabled :: bool
  st_suspicious :: bool

section \<open>Canonical stages\<close>

definition INVISIBLE :: "(uchar \<times> ustr) list" where
  "INVISIBLE = map (\<lambda>cp. (cp, [])) [8203, 8204, 8205, 8288, 65279, 173, 8234, 8235, 8236, 8237, 8238, 8294, 8295, 8296, 8297]"

definition text_output :: "ustr \<Rightarrow> int \<Rightarrow> stage_output" where
  "text_output t n = \<lparr>so_text = Some t, so_views = [], so_count = n\<rparr>"

definition strip_invisible :: "ustr \<Rightarrow> stage_output" where
  "strip_invisible text = (let out = translate INVISIBLE text
     in text_output out (int (length text) - int (length out)))"

definition nfkc :: "ucd \<Rightarrow> ustr \<Rightarrow> stage_output" where
  "nfkc U text = (let out = u_nfkc U text in text_output out (if out = text then 0 else 1))"

definition CONFUSABLE_PAIRS :: "(uchar \<times> ustr) list" where
  "CONFUSABLE_PAIRS = [
     (1072, us ''a''), (1077, us ''e''), (1086, us ''o''), (1088, us ''p''), (1089, us ''c''),
     (1091, us ''y''), (1093, us ''x''), (1110, us ''i''), (1109, us ''s''), (1211, us ''h''),
     (1281, us ''d''), (1082, us ''k''), (1090, us ''t''), (1084, us ''m''), (1085, us ''n''),
     (1074, us ''b''), (1040, us ''A''), (1042, us ''B''), (1045, us ''E''), (1050, us ''K''),
     (1052, us ''M''), (1053, us ''H''), (1054, us ''O''), (1056, us ''P''), (1057, us ''C''),
     (1058, us ''T''), (1059, us ''Y''), (1061, us ''X''), (959, us ''o''), (945, us ''a''),
     (949, us ''e''), (957, us ''v''), (961, us ''p''), (964, us ''t''), (953, us ''i''),
     (954, us ''k''), (965, us ''u''), (927, us ''O''), (913, us ''A''), (917, us ''E''),
     (929, us ''P''), (932, us ''T''), (914, us ''B''), (919, us ''H''), (922, us ''K''),
     (924, us ''M''), (925, us ''N''), (918, us ''Z''), (921, us ''I''), (935, us ''X''),
     (933, us ''Y''), (305, us ''i'')]"

definition fold_confusables :: "ustr \<Rightarrow> ustr \<times> nat" where
  "fold_confusables text = (let folded = translate CONFUSABLE_PAIRS text
     in if folded = text then (text, 0)
        else (folded, length (filter (\<lambda>(a, b). a \<noteq> b) (zip text folded))))"

definition fold_confusables_stage :: "ustr \<Rightarrow> stage_output" where
  "fold_confusables_stage text = (let (out, n) = fold_confusables text in text_output out (int n))"

definition no_flags :: re_flags where
  "no_flags = \<lparr>icase = False, dotall = False\<rparr>"

definition WS :: regex where
  "WS = some1 sp"

definition collapse_whitespace :: "ucd \<Rightarrow> ustr \<Rightarrow> stage_output" where
  "collapse_whitespace U text = (let out = strip (fst (subn U no_flags WS (us '' '') text))
     in text_output out (if out = text then 0 else 1))"

section \<open>Decode views\<close>

definition LEET_TABLE :: "(uchar \<times> ustr) list" where
  "LEET_TABLE = [(48, us ''o''), (49, us ''i''), (51, us ''e''), (52, us ''a''), (53, us ''s''),
     (55, us ''t''), (56, us ''b''), (57, us ''g''), (64, us ''a''), (36, us ''s'')]"

definition LEET_SIGNAL :: regex where
  "LEET_SIGNAL = alts [cat [Cls (rngs ''AZaz''), Cls (rngs ''09'' @ chars ''@$'')],
                       cat [Cls (rngs ''09'' @ chars ''@$''), Cls (rngs ''AZaz'')]]"

definition B64 :: regex where
  "B64 = cat [rep 16 None (Cls (rngs ''AZaz09'' @ chars ''+/'')), rep 0 (Some 2) (lit ''='')]"

definition printable_ratio :: "ucd \<Rightarrow> ustr \<Rightarrow> float64" where
  "printable_ratio U s =
     (if s = [] then 0
      else fdiv (of_nat (length (filter (\<lambda>c. u_printable U c \<or> c = 10 \<or> c = 9 \<or> c = 32) s)))
                (of_nat (length s)))"

definition b64_value :: "uchar \<Rightarrow> nat option" where
  "b64_value c = (if 65 \<le> c \<and> c \<le> 90 then Some (c - 65)
     else if 97 \<le> c \<and> c \<le> 122 then Some (c - 71)
     else if 48 \<le> c \<and> c \<le> 57 then Some (c + 4)
     else if c = 43 then Some 62 else if c = 47 then Some 63 else None)"

fun b64_bytes :: "nat list \<Rightarrow> nat list" where
  "b64_bytes (a # b # c # d # r) =
     (a * 4 + b div 16) # ((b mod 16) * 16 + c div 4) # ((c mod 4) * 64 + d) # b64_bytes r"
| "b64_bytes [a, b, c] = [a * 4 + b div 16, (b mod 16) * 16 + c div 4]"
| "b64_bytes [a, b] = [a * 4 + b div 16]"
| "b64_bytes _ = []"

definition b64decode :: "ustr \<Rightarrow> nat list py" where
  "b64decode s =
     (let data = takeWhile (\<lambda>c. b64_value c \<noteq> None) s; pads = drop (length data) s in
      if pads \<noteq> replicate (length pads) 61 \<or> 2 < length pads \<or> length data mod 4 = 1
        \<or> (length data mod 4 = 2 \<and> length pads < 2) \<or> (length data mod 4 = 3 \<and> length pads < 1)
      then Inl ValueError else Inr (b64_bytes (map (the \<circ> b64_value) data)))"

definition utf8_cont :: "nat \<Rightarrow> bool" where
  "utf8_cont b \<longleftrightarrow> 128 \<le> b \<and> b < 192"

fun utf8_decode :: "nat list \<Rightarrow> ustr py" where
  "utf8_decode [] = Inr []"
| "utf8_decode (b # r) =
     (if b < 128 then py_bind (utf8_decode r) (\<lambda>t. Inr (b # t))
      else if 194 \<le> b \<and> b \<le> 223 then
        (case r of c1 # r' \<Rightarrow>
           if utf8_cont c1
           then py_bind (utf8_decode r') (\<lambda>t. Inr (((b - 192) * 64 + (c1 - 128)) # t))
           else Inl ValueError
         | [] \<Rightarrow> Inl ValueError)
      else if 224 \<le> b \<and> b \<le> 239 then
        (case r of c1 # c2 # r' \<Rightarrow>
           let v = (b - 224) * 4096 + (c1 - 128) * 64 + (c2 - 128) in
           if utf8_cont c1 \<and> utf8_cont c2 \<and> 2048 \<le> v \<and> \<not> (55296 \<le> v \<and> v \<le> 57343)
           then py_bind (utf8_decode r') (\<lambda>t. Inr (v # t)) else Inl ValueError
         | _ \<Rightarrow> Inl ValueError)
      else if 240 \<le> b \<and> b \<le> 244 then
        (case r of c1 # c2 # c3 # r' \<Rightarrow>
           let v = (b - 240) * 262144 + (c1 - 128) * 4096 + (c2 - 128) * 64 + (c3 - 128) in
           if utf8_cont c1 \<and> utf8_cont c2 \<and> utf8_cont c3 \<and> 65536 \<le> v \<and> v \<le> 1114111
           then py_bind (utf8_decode r') (\<lambda>t. Inr (v # t)) else Inl ValueError
         | _ \<Rightarrow> Inl ValueError)
      else Inl ValueError)"

definition padded :: "ustr \<Rightarrow> ustr" where
  "padded segment = segment @ replicate ((4 - length segment mod 4) mod 4) 61"

function b64_views :: "ucd \<Rightarrow> ustr \<Rightarrow> nat \<Rightarrow> detection_view list" where
  "b64_views U segment depth =
     (if MAX_DECODE_DEPTH < depth then []
      else case py_bind (b64decode (padded segment)) utf8_decode of
        Inl _ \<Rightarrow> []
      | Inr decoded \<Rightarrow>
          if printable_ratio U decoded < fl (7 / 10) then []
          else \<lparr>dv_text = decoded, dv_kind = ''base64'', dv_depth = depth\<rparr> #
               concat (map (\<lambda>sub. b64_views U sub (Suc depth)) (findall U no_flags B64 decoded)))"
  by pat_completeness auto
termination
  by (relation "measure (\<lambda>(U, segment, depth). Suc MAX_DECODE_DEPTH - depth)") auto

declare b64_views.simps [simp del]

definition leet_views :: "ucd \<Rightarrow> ustr \<Rightarrow> detection_view list" where
  "leet_views U text =
     (if search U no_flags LEET_SIGNAL text \<and> translate LEET_TABLE text \<noteq> text
      then [\<lparr>dv_text = translate LEET_TABLE text, dv_kind = ''leet'', dv_depth = 0\<rparr>] else [])"

definition decode_views :: "ucd \<Rightarrow> ustr \<Rightarrow> stage_output" where
  "decode_views U text =
     (let views = leet_views U text
        @ concat (map (\<lambda>segment. b64_views U segment 1) (findall U no_flags B64 text))
      in \<lparr>so_text = None, so_views = views, so_count = int (length views)\<rparr>)"

definition STAGES :: "ucd \<Rightarrow> stage list" where
  "STAGES U = [
     \<lparr>st_name = ''strip_invisible'', st_version = ''1'', st_fn = \<lambda>t. Inr (strip_invisible t),
        st_enabled = True, st_suspicious = True\<rparr>,
     \<lparr>st_name = ''nfkc'', st_version = ''1'', st_fn = \<lambda>t. Inr (nfkc U t),
        st_enabled = True, st_suspicious = False\<rparr>,
     \<lparr>st_name = ''fold_confusables'', st_version = ''1'', st_fn = \<lambda>t. Inr (fold_confusables_stage t),
        st_enabled = True, st_suspicious = True\<rparr>,
     \<lparr>st_name = ''collapse_whitespace'', st_version = ''1'', st_fn = \<lambda>t. Inr (collapse_whitespace U t),
        st_enabled = True, st_suspicious = False\<rparr>,
     \<lparr>st_name = ''decode_views'', st_version = ''1'', st_fn = \<lambda>t. Inr (decode_views U t),
        st_enabled = True, st_suspicious = True\<rparr>]"

section \<open>The runner\<close>

definition derive_version :: "(string \<Rightarrow> string) \<Rightarrow> stage list \<Rightarrow> string" where
  "derive_version sha256_hex stages =
     take 8 (sha256_hex (concat (case map (\<lambda>s. st_name s @ '':'' @ st_version s) (filter st_enabled stages) of
        [] \<Rightarrow> [] | w # ws \<Rightarrow> w # map (\<lambda>x. '','' @ x) ws)))"

text \<open>The loop over \<open>out.views\<close>: keep views while there is room, each cut to the byte limit.\<close>

primrec add_views :: "detection_view list \<Rightarrow> detection_view list \<Rightarrow> detection_view list" where
  "add_views views [] = views"
| "add_views views (v # vs) =
     (if MAX_VIEWS \<le> length views then views
      else add_views (views @ [v\<lparr>dv_text := take MAX_VIEW_BYTES (dv_text v)\<rparr>]) vs)"

text \<open>One iteration of the runner's loop; \<open>lat\<close> gives the latency measured for the stage.\<close>

definition run_stage :: "(string \<Rightarrow> float64) \<Rightarrow> stage \<Rightarrow>
    ustr \<times> detection_view list \<times> applied_stage list \<Rightarrow>
    ustr \<times> detection_view list \<times> applied_stage list" where
  "run_stage lat stg acc =
     (case acc of (canonical, views, applied) \<Rightarrow>
      if \<not> st_enabled stg then acc
      else let (out, error) = (case st_fn stg canonical of
                   Inr out \<Rightarrow> (out, None)
                 | Inl e \<Rightarrow> (\<lparr>so_text = None, so_views = [], so_count = 0\<rparr>, Some e));
               canonical' = (case so_text out of None \<Rightarrow> canonical | Some t \<Rightarrow> t);
               views' = add_views views (so_views out)
           in (canonical', views',
               applied @ [\<lparr>as_name = st_name stg, as_version = st_version stg,
                  as_changed = (canonical' \<noteq> canonical \<or> length views' \<noteq> length views),
                  as_count = so_count out, as_latency_ms = round4 (lat (st_name stg)),
                  as_suspicious = st_suspicious stg, as_error = error\<rparr>]))"

definition run_stages :: "(string \<Rightarrow> float64) \<Rightarrow> stage list \<Rightarrow> ustr \<Rightarrow>
    ustr \<times> detection_view list \<times> applied_stage list" where
  "run_stages lat stages text = fold (run_stage lat) stages (text, [], [])"

definition normalize_with :: "(string \<Rightarrow> string) \<Rightarrow> (string \<Rightarrow> float64) \<Rightarrow> stage list \<Rightarrow> ustr \<Rightarrow> normalized_input" where
  "normalize_with sha lat stages text =
     (case run_stages lat stages text of (canonical, views, applied) \<Rightarrow>
        \<lparr>ni_canonical = canonical, ni_views = views, ni_stages = applied,
         ni_version = derive_version sha stages\<rparr>)"

definition normalize :: "ucd \<Rightarrow> (string \<Rightarrow> string) \<Rightarrow> (string \<Rightarrow> float64) \<Rightarrow> ustr \<Rightarrow> normalized_input" where
  "normalize U sha lat text = normalize_with sha lat (STAGES U) text"

section \<open>Folding stages\<close>

text \<open>
  The contract of a canonical folding: applying it to its own output changes nothing, so a
  stage built on it reports a change exactly on a text that is not yet canonical, and nothing
  when the pipeline sees the text a second time.
\<close>

locale folding =
  fixes canon :: "ustr \<Rightarrow> ustr" and stage_of :: "ustr \<Rightarrow> stage_output"
  assumes idem: "canon (canon s) = canon s"
    and stage_text: "so_text (stage_of s) = Some (canon s)"
    and stage_views: "so_views (stage_of s) = []"
begin

lemma canonical_fixed: "s \<in> range canon \<longleftrightarrow> canon s = s"
  using idem by (metis rangeE rangeI)

lemma rerun_unchanged:
  assumes "st_fn stg = (\<lambda>t. Inr (stage_of t))" and "st_enabled stg"
  shows "fst (run_stage lat stg (s, vs, ap)) = canon s
    \<and> fst (snd (run_stage lat stg (s, vs, ap))) = vs
    \<and> \<not> as_changed (last (snd (snd (run_stage lat stg (canon s, vs, ap)))))"
  using assms by (simp add: run_stage_def stage_text stage_views idem Let_def)

end

lemma INVISIBLE_empty: "map_of INVISIBLE c = Some r \<Longrightarrow> r = []"
  by (auto simp: INVISIBLE_def split: if_splits)

interpretation strip_inv: folding "translate INVISIBLE" strip_invisible
  by unfold_locales
    (auto simp: strip_invisible_def text_output_def Let_def dest: INVISIBLE_empty intro!: translate_idem)

lemma confusable_ascii:
  "(c, r) \<in> set CONFUSABLE_PAIRS \<Longrightarrow> length r = 1 \<and> 128 \<le> c \<and> (\<forall>d\<in>set r. d < 128)"
  unfolding CONFUSABLE_PAIRS_def by (simp, elim disjE; simp)

lemma confusable_map_of:
  "map_of CONFUSABLE_PAIRS c = Some r \<Longrightarrow> length r = 1 \<and> 128 \<le> c \<and> (\<forall>d\<in>set r. d < 128)"
  by (rule confusable_ascii) (rule map_of_SomeD)

lemma confusable_ascii_None: "c < 128 \<Longrightarrow> map_of CONFUSABLE_PAIRS c = None"
  using confusable_map_of by (meson leD option.exhaust)

interpretation fold_conf: folding "translate CONFUSABLE_PAIRS" fold_confusables_stage
proof
  show "translate CONFUSABLE_PAIRS (translate CONFUSABLE_PAIRS s) = translate CONFUSABLE_PAIRS s" for s
    by (rule translate_idem) (use confusable_map_of confusable_ascii_None in blast)
qed (auto simp: fold_confusables_stage_def fold_confusables_def text_output_def Let_def)

subsection \<open>White space\<close>

function collapse :: "ustr \<Rightarrow> ustr" where
  "collapse [] = []"
| "collapse (c # s) = (if is_space c then 32 # collapse (dropWhile is_space s) else c # collapse s)"
  by pat_completeness auto
termination
  by (relation "measure length") (auto simp: le_imp_less_Suc length_dropWhile_le)

lemma WS_ends: "ends U F WS s i = rev [Suc i ..< Suc (i + length (takeWhile is_space (drop i s)))]"
proof -
  have "run_len U F (Cls [CSpace]) s i = length (takeWhile is_space (drop i s))"
    unfolding run_len_def by (rule arg_cong [where f = length], rule takeWhile_cong) auto
  then show ?thesis by (simp add: WS_def some1_def sp_def ends_class_run del: upt_Suc ends.simps)
qed

lemma subn_WS: "i \<le> length s \<Longrightarrow> fst (subn_from U F WS (us '' '') s i) = collapse (drop i s)"
proof (induction U F WS "us '' ''" s i rule: subn_from.induct)
  case (1 U F s i)
  let ?n = "length (takeWhile is_space (drop i s))"
  show ?case
  proof (cases "drop i s")
    case Nil
    with "1.prems" have "i = length s" by simp
    then show ?thesis by (simp add: subn_from.simps WS_ends)
  next
    case (Cons c r)
    then have i: "i < length s" and r: "r = drop (Suc i) s" and c: "c = s ! i"
      by (metis drop_eq_Nil leI list.distinct(1), metis drop_Suc list.sel(3) tl_drop,
          metis hd_drop_conv_nth drop_eq_Nil leI list.distinct(1) list.sel(1))
    show ?thesis
    proof (cases "is_space c")
      case True
      let ?m = "length (takeWhile is_space r)"
      have n: "?n = Suc ?m" using Cons True by simp
      have "ends U F WS s i = (i + ?n) # rev [Suc i ..< i + ?n]"
        by (simp add: WS_ends n)
      moreover have "drop (i + ?n) s = dropWhile is_space r"
        using n by (simp add: r dropWhile_eq_drop add.commute)
      moreover have "i + ?n \<le> length s"
        using length_takeWhile_le [of is_space "drop i s"] i by simp
      ultimately show ?thesis using i n True Cons 1(2)
        by (simp add: subn_from.simps [of _ _ _ _ _ i] case_prod_beta)
    next
      case False
      then have "ends U F WS s i = []" using Cons by (simp add: WS_ends)
      moreover have "take 1 (drop i s) = [c]" using Cons by simp
      ultimately show ?thesis using i False Cons 1(1)
        by (simp add: subn_from.simps [of _ _ _ _ _ i] case_prod_beta r)
    qed
  qed
qed

definition squeezed :: "ustr \<Rightarrow> bool" where
  "squeezed s \<longleftrightarrow> (\<forall>c\<in>set s. is_space c \<longrightarrow> c = 32) \<and> successively (\<lambda>a b. \<not> (is_space a \<and> is_space b)) s"

definition trimmed :: "ustr \<Rightarrow> bool" where
  "trimmed s \<longleftrightarrow> s \<noteq> [] \<longrightarrow> \<not> is_space (hd s) \<and> \<not> is_space (last s)"

lemma is_space_32 [simp]: "is_space 32" by (simp add: is_space_def)

lemma squeezed_Cons:
  "squeezed (c # s) \<longleftrightarrow> (is_space c \<longrightarrow> c = 32 \<and> (s = [] \<or> \<not> is_space (hd s))) \<and> squeezed s"
proof (cases s)
  case (Cons d r)
  then show ?thesis unfolding squeezed_def by (simp only: successively.simps list.set list.sel) blast
qed (simp add: squeezed_def)

lemma squeezed_append: "squeezed (a @ b) \<Longrightarrow> squeezed a \<and> squeezed b"
  by (auto simp: squeezed_def successively_append_iff)

lemma hd_collapse: "s \<noteq> [] \<Longrightarrow> collapse s \<noteq> [] \<and> (is_space (hd (collapse s)) \<longleftrightarrow> is_space (hd s))"
  by (cases s) auto

lemma squeezed_collapse: "squeezed (collapse s)"
proof (induction s rule: collapse.induct)
  case (2 c s)
  let ?r = "dropWhile is_space s"
  have r: "collapse ?r = [] \<or> \<not> is_space (hd (collapse ?r))"
    using hd_collapse [of ?r] hd_dropWhile [of is_space s] by (cases "?r = []") (simp_all del: dropWhile_eq_Nil_conv)
  show ?case
  proof (cases "is_space c")
    case True
    with 2 r show ?thesis by (simp add: squeezed_Cons)
  qed (use 2 in \<open>simp add: squeezed_Cons\<close>)
qed (simp add: squeezed_def)

lemma collapse_squeezed: "squeezed s \<Longrightarrow> collapse s = s"
proof (induction s rule: collapse.induct)
  case (2 c s)
  then have "squeezed s" and c: "is_space c \<Longrightarrow> c = 32 \<and> (s = [] \<or> \<not> is_space (hd s))"
    by (auto simp: squeezed_Cons)
  moreover have "is_space c \<Longrightarrow> dropWhile is_space s = s" using c by (cases s) auto
  ultimately show ?case using 2 by auto
qed simp

lemma set_collapse: "set (collapse s) \<subseteq> insert 32 (set s)"
  by (induction s rule: collapse.induct) (auto dest: set_dropWhileD)

lemma lstrip_suffix: "\<exists>p. s = p @ lstrip s"
  unfolding lstrip_def by (metis takeWhile_dropWhile_id)

lemma strip_infix: "\<exists>p q. s = p @ strip s @ q"
  using lstrip_suffix [of s] lstrip_suffix [of "rev (lstrip s)"]
  by (metis append.assoc rev_append rev_rev_ident strip_def)

lemma lstrip_hd: "lstrip s = [] \<or> \<not> is_space (hd (lstrip s))"
  unfolding lstrip_def using hd_dropWhile by blast

lemma trimmed_strip: "trimmed (strip s)"
proof (cases "strip s = []")
  case False
  obtain q where q: "rev (lstrip s) = q @ lstrip (rev (lstrip s))" using lstrip_suffix by blast
  then have l: "lstrip s = strip s @ rev q" by (metis rev_append rev_rev_ident strip_def)
  then have "\<not> is_space (hd (strip s))" using False lstrip_hd [of s] by auto
  moreover have "\<not> is_space (last (strip s))"
    using False lstrip_hd [of "rev (lstrip s)"] by (auto simp: strip_def last_rev)
  ultimately show ?thesis by (simp add: trimmed_def)
qed (simp add: trimmed_def)

lemma strip_trimmed: "trimmed s \<Longrightarrow> strip s = s"
  by (cases "s = []") (auto simp: trimmed_def strip_no_space, simp add: strip_def lstrip_def)

lemma squeezed_strip: "squeezed s \<Longrightarrow> squeezed (strip s)"
  using strip_infix [of s] squeezed_append by metis

definition ws_canon :: "ustr \<Rightarrow> ustr" where
  "ws_canon s = strip (collapse s)"

lemma ws_canon_stage: "fst (subn U no_flags WS (us '' '') s) = collapse s"
  using subn_WS [of 0 s U no_flags] by (simp add: subn_def)

interpretation collapse_ws: folding ws_canon "collapse_whitespace U"
proof
  show "ws_canon (ws_canon s) = ws_canon s" for s
    by (simp add: ws_canon_def collapse_squeezed squeezed_strip squeezed_collapse strip_trimmed trimmed_strip)
qed (simp_all add: collapse_whitespace_def Let_def ws_canon_stage ws_canon_def text_output_def del: us_simps)

section \<open>The runner\<close>

lemma add_views_le: "length views \<le> MAX_VIEWS \<Longrightarrow> length (add_views views vs) \<le> MAX_VIEWS"
  by (induction vs arbitrary: views) auto

lemma add_views_take: "length views \<le> MAX_VIEWS \<Longrightarrow> add_views views vs =
    views @ map (\<lambda>v. v\<lparr>dv_text := take MAX_VIEW_BYTES (dv_text v)\<rparr>) (take (MAX_VIEWS - length views) vs)"
proof (induction vs arbitrary: views)
  case (Cons v vs)
  show ?case
  proof (cases "length views = MAX_VIEWS")
    case False
    with Cons.prems have "MAX_VIEWS - length views = Suc (MAX_VIEWS - Suc (length views))" by simp
    with False Cons show ?thesis by simp
  qed simp
qed simp

definition runner_inv :: "ustr \<times> detection_view list \<times> applied_stage list \<Rightarrow> bool" where
  "runner_inv acc = (length (fst (snd acc)) \<le> MAX_VIEWS
     \<and> (\<forall>v\<in>set (fst (snd acc)). length (dv_text v) \<le> MAX_VIEW_BYTES))"

lemma runner_inv_step: "runner_inv acc \<Longrightarrow> runner_inv (run_stage lat stg acc)"
proof (cases acc)
  case (fields c vs ap)
  assume inv: "runner_inv acc"
  have "\<forall>v\<in>set (add_views vs ws). length (dv_text v) \<le> MAX_VIEW_BYTES" for ws
    using inv fields by (auto simp: runner_inv_def add_views_take dest: in_set_takeD)
  with inv fields show ?thesis
    by (auto simp: run_stage_def runner_inv_def Let_def add_views_le split: sum.splits)
qed

lemma runner_inv_fold: "runner_inv acc \<Longrightarrow> runner_inv (fold (run_stage lat) stages acc)"
  by (induction stages arbitrary: acc) (simp_all add: runner_inv_step)

lemma run_stage_record:
  "map (\<lambda>a. (as_name a, as_suspicious a)) (snd (snd (run_stage lat stg acc))) =
   map (\<lambda>a. (as_name a, as_suspicious a)) (snd (snd acc)) @ (if st_enabled stg then [(st_name stg, st_suspicious stg)] else [])"
  by (cases acc) (auto simp: run_stage_def Let_def split: sum.splits)

lemma run_stages_records:
  "map (\<lambda>a. (as_name a, as_suspicious a)) (snd (snd (fold (run_stage lat) stages acc))) =
   map (\<lambda>a. (as_name a, as_suspicious a)) (snd (snd acc)) @ map (\<lambda>s. (st_name s, st_suspicious s)) (filter st_enabled stages)"
  by (induction stages arbitrary: acc) (simp_all add: run_stage_record)

lemmas normalize_defs = normalize_def normalize_with_def run_stages_def

text \<open>
  C33: The resource caps hold whatever the stages return: for every stage list, the runner keeps
  at most 8 views of at most 8192 characters each, and it records every enabled stage exactly
  once, in order.
\<close>

theorem normalize_caps:
  "length (ni_views (normalize_with sha lat stages text)) \<le> 8
   \<and> list_all (\<lambda>v. length (dv_text v) \<le> 8192) (ni_views (normalize_with sha lat stages text))
   \<and> map as_name (ni_stages (normalize_with sha lat stages text)) = map st_name (filter st_enabled stages)"
proof -
  obtain c vs ap where run: "fold (run_stage lat) stages (text, [], []) = (c, vs, ap)"
    by (metis prod_cases3)
  then have inv: "runner_inv (c, vs, ap)"
    using runner_inv_fold [of "(text, [], [])" lat stages] by (simp add: runner_inv_def)
  have "map fst (map (\<lambda>a. (as_name a, as_suspicious a)) ap) = map st_name (filter st_enabled stages)"
    using run_stages_records [of lat stages "(text, [], [])"] by (simp add: run comp_def)
  with inv run show ?thesis
    by (simp add: normalize_defs runner_inv_def MAX_VIEWS_def MAX_VIEW_BYTES_def comp_def list_all_iff)
qed

definition flood_stage :: stage where
  "flood_stage = \<lparr>st_name = ''flood'', st_version = ''1'', st_fn = \<lambda>t. Inr \<lparr>so_text = None,
     so_views = replicate 9 \<lparr>dv_text = t, dv_kind = ''leet'', dv_depth = 0\<rparr>, so_count = 9\<rparr>,
     st_enabled = True, st_suspicious = True\<rparr>"

definition failing_stage :: stage where
  "failing_stage = \<lparr>st_name = ''broken'', st_version = ''1'', st_fn = \<lambda>t. Inl ValueError,
     st_enabled = True, st_suspicious = True\<rparr>"

lemma run_stage_applied:
  "run_stage lat stg (c, vs, ap) =
     (case run_stage lat stg (c, vs, []) of (c', vs', r) \<Rightarrow> (c', vs', ap @ r))"
  by (simp add: run_stage_def Let_def split: sum.splits)

lemma fold_run_applied:
  "fold (run_stage lat) stages (c, vs, ap) =
     (case fold (run_stage lat) stages (c, vs, []) of (c', vs', r) \<Rightarrow> (c', vs', ap @ r))"
proof (induction stages arbitrary: c vs ap)
  case (Cons stg stages)
  obtain c1 vs1 r1 where 1: "run_stage lat stg (c, vs, []) = (c1, vs1, r1)" by (metis prod_cases3)
  then have "run_stage lat stg (c, vs, ap) = (c1, vs1, ap @ r1)"
    by (simp add: run_stage_applied [of lat stg c vs ap])
  then show ?case using 1 Cons.IH [of c1 vs1 "ap @ r1"] Cons.IH [of c1 vs1 r1]
    by (simp split: prod.splits)
qed simp

lemma run_failing_stage:
  assumes "st_enabled bad" and "st_fn bad c = Inl e"
  shows "run_stage lat bad (c, vs, []) = (c, vs,
      [\<lparr>as_name = st_name bad, as_version = st_version bad, as_changed = False, as_count = 0,
       as_latency_ms = round4 (lat (st_name bad)), as_suspicious = st_suspicious bad, as_error = Some e\<rparr>])"
  using assms by (simp add: run_stage_def)

text \<open>
  The runner is fail-soft: a stage that raises leaves the canonical text and the views as
  they are, the run continues with the next stages exactly as if the stage were absent, and the
  failure is one extra record: an unchanged stage that carries the error.
\<close>

theorem normalize_fail_soft:
  assumes "st_enabled bad" and "\<And>t. st_fn bad t = Inl e"
  shows "\<exists>before after.
      ni_stages (normalize_with sha lat (xs @ ys) text) = before @ after
    \<and> ni_stages (normalize_with sha lat (xs @ bad # ys) text) = before @
        \<lparr>as_name = st_name bad, as_version = st_version bad, as_changed = False, as_count = 0,
         as_latency_ms = round4 (lat (st_name bad)), as_suspicious = st_suspicious bad, as_error = Some e\<rparr> # after
    \<and> length before = length (filter st_enabled xs)
    \<and> ni_canonical (normalize_with sha lat (xs @ bad # ys) text) = ni_canonical (normalize_with sha lat (xs @ ys) text)
    \<and> ni_views (normalize_with sha lat (xs @ bad # ys) text) = ni_views (normalize_with sha lat (xs @ ys) text)"
proof -
  obtain c vs ap where x: "fold (run_stage lat) xs (text, [], []) = (c, vs, ap)" by (metis prod_cases3)
  obtain c' vs' r where y: "fold (run_stage lat) ys (c, vs, []) = (c', vs', r)" by (metis prod_cases3)
  have "length ap = length (filter st_enabled xs)"
    using arg_cong [OF run_stages_records [of lat xs "(text, [], [])"], of length] x by simp
  moreover have "fold (run_stage lat) ys (c, vs, q) = (c', vs', q @ r)" for q
    using fold_run_applied [of lat ys c vs q] by (simp only: y prod.case)
  moreover have "run_stage lat bad (c, vs, ap) = (c, vs, ap @
      [\<lparr>as_name = st_name bad, as_version = st_version bad, as_changed = False, as_count = 0,
       as_latency_ms = round4 (lat (st_name bad)), as_suspicious = st_suspicious bad, as_error = Some e\<rparr>])"
    using run_stage_applied [of lat bad c vs ap] run_failing_stage [OF assms, of lat c vs]
    by (simp only: prod.case)
  ultimately show ?thesis by (intro exI [of _ ap] exI [of _ r]) (simp add: normalize_defs x)
qed

theorem normalize_fail_soft_witness:
  "\<exists>before after.
      ni_stages (normalize_with (\<lambda>s. s) (\<lambda>_. 0) ([flood_stage] @ [flood_stage]) (us ''hi'')) = before @ after
    \<and> ni_stages (normalize_with (\<lambda>s. s) (\<lambda>_. 0) ([flood_stage] @ failing_stage # [flood_stage]) (us ''hi'')) = before @
        \<lparr>as_name = ''broken'', as_version = ''1'', as_changed = False, as_count = 0,
         as_latency_ms = 0, as_suspicious = True, as_error = Some ValueError\<rparr> # after
    \<and> length before = 1"
  using normalize_fail_soft [of failing_stage ValueError "\<lambda>s. s" "\<lambda>_. 0" "[flood_stage]" "[flood_stage]" "us ''hi''"]
  by (auto simp: failing_stage_def flood_stage_def)

section \<open>The canonical text\<close>

definition canonical_form :: "ucd \<Rightarrow> ustr \<Rightarrow> ustr" where
  "canonical_form U text =
     ws_canon (translate CONFUSABLE_PAIRS (u_nfkc U (translate INVISIBLE text)))"

lemma normalize_canonical: "ni_canonical (normalize U sha lat text) = canonical_form U text"
  by (simp add: normalize_defs STAGES_def run_stage_def Let_def strip_inv.stage_text strip_inv.stage_views
      fold_conf.stage_text fold_conf.stage_views collapse_ws.stage_text collapse_ws.stage_views
      canonical_form_def nfkc_def text_output_def decode_views_def)

lemma set_ws_canon: "set (ws_canon s) \<subseteq> insert 32 (set s)"
  unfolding ws_canon_def using set_strip set_collapse by blast

lemma fold_conf_out: "c \<in> set (translate CONFUSABLE_PAIRS s) \<Longrightarrow> map_of CONFUSABLE_PAIRS c = None"
  using translate_out [of c CONFUSABLE_PAIRS s] confusable_map_of confusable_ascii_None by blast

text \<open>
  What detection scans is canonical: for every prompt the canonical text contains no
  confusable code point, its white space consists of single inner blanks, and if NFKC never
  introduces a zero-width or bidi control character, none is left in it.
\<close>

theorem canonical_text_folded:
  "let t = ni_canonical (normalize U sha lat inp) in
     squeezed t \<and> trimmed t \<and> list_all (\<lambda>c. map_of CONFUSABLE_PAIRS c = None) t
   \<and> ((\<forall>s. \<forall>c\<in>set (u_nfkc U s). map_of INVISIBLE c \<noteq> None \<longrightarrow> c \<in> set s) \<longrightarrow>
       list_all (\<lambda>c. map_of INVISIBLE c = None) t)"
proof -
  define t where "t = canonical_form U inp"
  have src: "c = 32 \<or> c \<in> set (translate CONFUSABLE_PAIRS (u_nfkc U (translate INVISIBLE inp)))"
    if "c \<in> set t" for c
    using that set_ws_canon unfolding t_def canonical_form_def by blast
  have "squeezed t" "trimmed t"
    by (simp_all add: t_def canonical_form_def ws_canon_def squeezed_strip squeezed_collapse trimmed_strip)
  moreover have "\<forall>c\<in>set t. map_of CONFUSABLE_PAIRS c = None"
    using src fold_conf_out confusable_ascii_None [of 32] by fastforce
  moreover have "\<forall>c\<in>set t. map_of INVISIBLE c = None"
    if nfkc: "\<forall>s. \<forall>c\<in>set (u_nfkc U s). map_of INVISIBLE c \<noteq> None \<longrightarrow> c \<in> set s"
  proof
    fix c assume "c \<in> set t"
    then consider "c < 128" | "c \<in> set (u_nfkc U (translate INVISIBLE inp))"
      using src [of c] translate_src [of c CONFUSABLE_PAIRS] confusable_map_of by fastforce
    then show "map_of INVISIBLE c = None"
    proof cases
      case 1
      then show ?thesis by (auto simp: INVISIBLE_def)
    next
      case 2
      then show ?thesis using nfkc translate_out [of c INVISIBLE inp] INVISIBLE_empty by fastforce
    qed
  qed
  ultimately show ?thesis by (simp add: t_def normalize_canonical Let_def list_all_iff)
qed

theorem canonical_text_folded_witness:
  "list_all (\<lambda>c. map_of INVISIBLE c = None)
     (ni_canonical (normalize ascii_ucd (\<lambda>s. s) (\<lambda>_. 0) (8203 # 1072 # us '' b'')))"
proof -
  have "\<forall>s. \<forall>c\<in>set (u_nfkc ascii_ucd s). map_of INVISIBLE c \<noteq> None \<longrightarrow> c \<in> set s"
    by (simp add: ascii_ucd_def)
  then show ?thesis
    using canonical_text_folded [of ascii_ucd "\<lambda>s. s" "\<lambda>_. 0" "8203 # 1072 # us '' b''"]
    unfolding Let_def by blast
qed

end
