(* ===== verification/PII_Patterns.thy ===== *)
theory PII_Patterns
  imports Py_Regex
begin

text \<open>
  The PII expressions of \<^verbatim>\<open>engine/guardrails/pii/detector.py\<close>, in scan order with their labels
  (all compiled with \<^verbatim>\<open>IGNORECASE\<close>), and the masks of \<^verbatim>\<open>engine/guardrails/pii/redactor.py\<close>.
\<close>

definition PII_PATTERNS :: "(regex \<times> string) list" where
  "PII_PATTERNS = [
     (cat [WordB, lit ''9'', rep 2 (Some 2) digit, opt [Cls (chars ''- '')], Cls (chars
       ''78''), digit, opt [Cls (chars ''- '')], rep 4 (Some 4) digit, WordB], ''ITIN''),
     (cat [WordB, rep 3 (Some 3) digit, lit ''-'', rep 2 (Some 2) digit, lit ''-'', rep 4 (Some
       4) digit, WordB], ''SSN''),
     (cat [WordB, alts [lit ''ssn'', cat [lit ''social'', some1 sp, lit ''security'', opt [alts
       [cat [some1 sp, lit ''number''], cat [some1 sp, lit ''no''], cat [some1 sp, lit
       ''#'']]]]], many sp, opt [lit '':''], many sp, rep 9 (Some 9) digit, WordB], ''SSN_RAW''),
     (cat [WordB, lit ''passport'', many sp, opt [alts [lit ''number'', lit ''no'', lit
       ''#'']], many sp, opt [lit '':''], many sp, rep 1 (Some 2) (Cls (rngs ''AZ'')), rep 6
       (Some 9) digit, WordB], ''PASSPORT''),
     (cat [WordB, alts [cat [lit ''driver'', opt [lit [CHR 0x27]], opt [lit ''s''], many sp,
       lit ''license''], lit ''dl''], many sp, opt [alts [lit ''number'', lit ''no'', lit
       ''#'']], many sp, opt [lit '':''], many sp, rep 5 (Some 15) (Cls (rngs ''AZ09'')),
       WordB], ''DRIVERS_LICENSE''),
     (cat [WordB, rep 2 (Some 2) (Cls (rngs ''AC'' @ chars ''EGH'' @ rngs ''JPRTWZ'')), rep 6
       (Some 6) digit, Cls (rngs ''AD''), WordB], ''UK_NIN''),
     (cat [WordB, alts [cat [lit ''4'', rep 12 (Some 12) (Cls (rngs ''09'')), opt [rep 3 (Some
       3) (Cls (rngs ''09''))]], cat [lit ''5'', Cls (rngs ''15''), rep 14 (Some 14) (Cls (rngs
       ''09''))], cat [lit ''3'', Cls (chars ''47''), rep 13 (Some 13) (Cls (rngs ''09''))], cat
       [lit ''6'', alts [lit ''011'', cat [lit ''5'', rep 2 (Some 2) (Cls (rngs ''09''))]], rep
       12 (Some 12) (Cls (rngs ''09''))]], WordB], ''CREDIT_CARD''),
     (cat [WordB, alts [cat [lit ''credit'', many sp, lit ''card''], cat [lit ''card'', many
       sp, lit ''number''], cat [lit ''cc'', many sp, lit ''number'']], many sp, opt [lit
       '':''], many sp, rep 13 (Some 19) (Cls ([CDigit, CSpace] @ chars ''-'')), WordB],
       ''CREDIT_CARD_LABEL''),
     (cat [WordB, alts [cat [lit ''bank'', many sp, lit ''account''], cat [lit ''account'',
       many sp, lit ''number'']], many sp, opt [lit '':''], many sp, rep 8 (Some 17) digit,
       WordB], ''BANK_ACCOUNT''),
     (cat [WordB, cat [lit ''routing'', many sp, lit ''number''], many sp, opt [lit '':''],
       many sp, rep 9 (Some 9) digit, WordB], ''ROUTING_NUMBER''),
     (cat [WordB, rep 2 (Some 2) (Cls (rngs ''AZ'')), rep 2 (Some 2) digit, rep 11 (Some 30)
       (Cls (rngs ''AZ09'')), WordB], ''IBAN_STRICT''),
     (cat [WordB, lit ''iban'', many sp, opt [lit '':''], many sp, rep 2 (Some 2) (Cls (rngs
       ''AZ'')), rep 2 (Some 2) digit, rep 4 (Some 4) (Cls (rngs ''AZ09'')), rep 7 (Some 7)
       digit, rep 0 (Some 16) (opt [Cls (rngs ''AZ09'')]), WordB], ''IBAN''),
     (cat [WordB, alts [lit ''swift'', lit ''bic''], many sp, opt [alts [lit ''code'', lit
       ''number'']], many sp, opt [lit '':''], many sp, rep 4 (Some 4) (Cls (rngs ''AZ'')), rep
       2 (Some 2) (Cls (rngs ''AZ'')), rep 2 (Some 2) (Cls (rngs ''AZ09'')), opt [rep 3 (Some 3)
       (Cls (rngs ''AZ09''))], WordB], ''SWIFT_BIC''),
     (cat [WordB, some1 (Cls (rngs ''azAZ09'' @ chars ''._%+-'')), lit ''@'', some1 (Cls (rngs
       ''azAZ09'' @ chars ''.-'')), lit ''.'', rep 2 None (Cls (rngs ''azAZ'')), WordB],
       ''EMAIL''),
     (cat [WordB, opt [opt [lit ''+''], lit ''1'', opt [Cls ([CSpace] @ chars ''-.'')]], opt
       [lit ''(''], rep 3 (Some 3) digit, opt [lit '')''], opt [Cls ([CSpace] @ chars ''-.'')],
       rep 3 (Some 3) digit, opt [Cls ([CSpace] @ chars ''-.'')], rep 4 (Some 4) digit, WordB],
       ''PHONE''),
     (cat [WordB, rep 5 (Some 5) (cat [rep 2 (Some 2) (Cls (rngs ''09AFaf'')), Cls (chars
       '':-'')]), rep 2 (Some 2) (Cls (rngs ''09AFaf'')), WordB], ''MAC_ADDRESS''),
     (cat [WordB, alts [cat [lit ''date'', some1 sp, lit ''of'', some1 sp, lit ''birth''], lit
       ''dob''], many sp, opt [lit '':''], many sp, rep 1 (Some 2) digit, Cls (chars ''/-''),
       rep 1 (Some 2) digit, Cls (chars ''/-''), rep 2 (Some 4) digit, WordB], ''DOB''),
     (cat [WordB, alts [cat [lit ''medical'', some1 sp, lit ''record''], lit ''mrn'', cat [lit
       ''patient'', some1 sp, lit ''id'']], many sp, opt [lit '':''], many sp, rep 5 (Some 15)
       (Cls (rngs ''AZ09'')), WordB], ''MEDICAL_RECORD''),
     (cat [WordB, alts [lit ''diagnosis'', lit ''prescription'', lit ''medication''], many sp,
       opt [lit '':''], many sp, rep 3 (Some 50) (Cls (rngs ''azAZ'' @ [CSpace])), WordB],
       ''MEDICAL_INFO''),
     (cat [WordB, alts [lit ''npi'', cat [lit ''national'', some1 sp, lit ''provider'', some1
       sp, lit ''id'', opt [lit ''entifier'']]], many sp, opt [lit '':''], many sp, rep 10 (Some
       10) digit, WordB], ''NPI''),
     (cat [WordB, alts [lit ''password'', lit ''passwd'', lit ''pwd''], many sp, Cls (chars
       '':=''), many sp, some1 (NCls [CSpace])], ''PASSWORD''),
     (cat [WordB, alts [cat [lit ''api'', opt [Cls ([CSpace] @ chars ''_'')], lit ''key''], lit
       ''apikey'', cat [lit ''api'', opt [Cls ([CSpace] @ chars ''_'')], lit ''token'']], many
       sp, Cls (chars '':=''), many sp, rep 16 None (Cls (rngs ''AZaz09'' @ chars ''-_''))],
       ''API_KEY''),
     (cat [WordB, alts [cat [lit ''secret'', opt [Cls ([CSpace] @ chars ''_'')], lit ''key''],
       cat [lit ''secret'', opt [Cls ([CSpace] @ chars ''_'')], lit ''token'']], many sp, Cls
       (chars '':=''), many sp, rep 16 None (Cls (rngs ''AZaz09'' @ chars ''-_''))],
       ''SECRET_KEY''),
     (cat [WordB, lit ''sk'', Cls (chars ''-_''), alts [lit ''live'', lit ''test''], Cls (chars
       ''-_''), rep 20 None (Cls (rngs ''AZaz09'')), WordB], ''STRIPE_KEY''),
     (cat [WordB, lit ''ghp_'', rep 36 (Some 36) (Cls (rngs ''AZaz09'')), WordB],
       ''GITHUB_TOKEN''),
     (cat [WordB, cat [lit ''aws'', opt [Cls ([CSpace] @ chars ''_'')], lit ''access'', opt
       [Cls ([CSpace] @ chars ''_'')], lit ''key'', opt [Cls ([CSpace] @ chars ''_'')], lit
       ''id''], many sp, Cls (chars '':=''), many sp, rep 20 (Some 20) (Cls (rngs ''AZ09'')),
       WordB], ''AWS_KEY''),
     (cat [WordB, lit ''xox'', Cls (chars ''abopr''), lit ''-'', rep 10 None (Cls (rngs
       ''AZaz09'' @ chars ''-'')), WordB], ''SLACK_TOKEN''),
     (cat [WordB, lit ''eyJ'', some1 (Cls (rngs ''AZaz09'' @ chars ''_-'')), lit ''.eyJ'',
       some1 (Cls (rngs ''AZaz09'' @ chars ''_-'')), lit ''.'', some1 (Cls (rngs ''AZaz09'' @
       chars ''_-'')), WordB], ''JWT_TOKEN''),
     (cat [WordB, alts [cat [lit ''zip'', many sp, lit ''code''], lit ''zipcode'', cat [lit
       ''postal'', many sp, lit ''code'']], many sp, opt [lit '':''], many sp, rep 5 (Some 5)
       digit, opt [lit ''-'', rep 4 (Some 4) digit], WordB], ''ZIP_CODE''),
     (cat [WordB, lit ''address'', many sp, opt [lit '':''], many sp, some1 digit, some1 sp,
       rep 3 (Some 50) (Cls (rngs ''AZaz'' @ [CSpace])), alts [lit ''street'', lit ''st'', lit
       ''avenue'', lit ''ave'', lit ''road'', lit ''rd'', lit ''blvd''], WordB], ''ADDRESS'')]"

definition REDACTION_MASKS :: "(string, string) dict" where
  "REDACTION_MASKS = [
     (''ITIN'', ''[ITIN REDACTED]''),
     (''SSN'', ''[SSN REDACTED]''),
     (''SSN_RAW'', ''[SSN REDACTED]''),
     (''PASSPORT'', ''[PASSPORT REDACTED]''),
     (''DRIVERS_LICENSE'', ''[DL REDACTED]''),
     (''UK_NIN'', ''[UK NIN REDACTED]''),
     (''CREDIT_CARD'', ''[CARD REDACTED]''),
     (''CREDIT_CARD_LABEL'', ''[CARD REDACTED]''),
     (''BANK_ACCOUNT'', ''[ACCOUNT REDACTED]''),
     (''ROUTING_NUMBER'', ''[ROUTING REDACTED]''),
     (''IBAN_STRICT'', ''[IBAN REDACTED]''),
     (''IBAN'', ''[IBAN REDACTED]''),
     (''SWIFT_BIC'', ''[SWIFT REDACTED]''),
     (''EMAIL'', ''[EMAIL REDACTED]''),
     (''PHONE'', ''[PHONE REDACTED]''),
     (''MAC_ADDRESS'', ''[MAC REDACTED]''),
     (''DOB'', ''[DOB REDACTED]''),
     (''MEDICAL_RECORD'', ''[MEDICAL REDACTED]''),
     (''MEDICAL_INFO'', ''[MEDICAL REDACTED]''),
     (''NPI'', ''[NPI REDACTED]''),
     (''PASSWORD'', ''[PASSWORD REDACTED]''),
     (''API_KEY'', ''[API KEY REDACTED]''),
     (''SECRET_KEY'', ''[SECRET REDACTED]''),
     (''STRIPE_KEY'', ''[KEY REDACTED]''),
     (''GITHUB_TOKEN'', ''[TOKEN REDACTED]''),
     (''AWS_KEY'', ''[AWS KEY REDACTED]''),
     (''SLACK_TOKEN'', ''[SLACK TOKEN REDACTED]''),
     (''JWT_TOKEN'', ''[JWT REDACTED]''),
     (''ZIP_CODE'', ''[ZIP REDACTED]''),
     (''ADDRESS'', ''[ADDRESS REDACTED]'')]"

definition pii_flags :: re_flags where
  "pii_flags = \<lparr>icase = True, dotall = False\<rparr>"

lemma pii_patterns_wf: "list_all (\<lambda>(r, _). re_wf r) PII_PATTERNS"
  by (simp add: PII_PATTERNS_def at_most_def)

lemma pii_labels:
  "map snd PII_PATTERNS = map fst REDACTION_MASKS" "distinct (map snd PII_PATTERNS)"
  by (simp_all add: PII_PATTERNS_def REDACTION_MASKS_def)

end
