(* ===== verification/Rule_Patterns.thy ===== *)
theory Rule_Patterns
  imports Py_Regex Domain
begin

text \<open>
  The general pattern set of \<^verbatim>\<open>engine/detection/rule_patterns/general.py\<close>, one expression per
  line of the source, and the compiled registry: patterns, category and base score, all compiled
  with \<^verbatim>\<open>IGNORECASE | DOTALL\<close>.
\<close>

definition PROMPT_INJECTION_PATTERNS :: "regex list" where
  "PROMPT_INJECTION_PATTERNS = [
     cat [lit ''ignore'', some1 sp, opt [lit ''all'', some1 sp], lit ''previous'', some1 sp,
       lit ''instruction'', opt [lit ''s'']],
     cat [lit ''disregard'', some1 sp, opt [lit ''all'', some1 sp], lit ''previous'', some1
       sp, lit ''instruction'', opt [lit ''s'']],
     cat [lit ''forget'', some1 sp, opt [lit ''all'', some1 sp], lit ''previous'', some1 sp,
       lit ''instruction'', opt [lit ''s'']],
     cat [lit ''override'', some1 sp, opt [lit ''all'', some1 sp], lit ''previous'', some1 sp,
       lit ''instruction'', opt [lit ''s'']],
     cat [lit ''do'', some1 sp, lit ''not'', some1 sp, lit ''follow'', some1 sp, opt [lit
       ''your'', some1 sp], lit ''instruction'', opt [lit ''s'']],
     cat [lit ''bypass'', some1 sp, opt [lit ''your'', some1 sp], alts [cat [lit
       ''instruction'', opt [lit ''s'']], cat [lit ''guideline'', opt [lit ''s'']], cat [lit
       ''rule'', opt [lit ''s'']]]],
     cat [lit ''ignore'', some1 sp, opt [lit ''your'', some1 sp], alts [cat [lit
       ''guideline'', opt [lit ''s'']], cat [lit ''rule'', opt [lit ''s'']], cat [lit
       ''constraint'', opt [lit ''s'']]]],
     cat [lit ''you'', some1 sp, lit ''are'', some1 sp, lit ''now'', some1 sp, opt [lit ''a'',
       some1 sp], alts [lit ''different'', lit ''new'', lit ''unrestricted'', lit ''evil'']],
     cat [lit ''pretend'', some1 sp, alts [cat [lit ''you'', some1 sp, lit ''are''], cat [lit
       ''to'', some1 sp, lit ''be'']], some1 sp, opt [lit ''a'', some1 sp], alts [lit
       ''different'', lit ''evil'', lit ''unrestricted'']],
     cat [lit ''act'', some1 sp, lit ''as'', some1 sp, lit ''if'', some1 sp, lit ''you'',
       some1 sp, lit ''have'', some1 sp, lit ''no'', some1 sp, alts [cat [lit ''restriction'',
       opt [lit ''s'']], cat [lit ''guideline'', opt [lit ''s'']], cat [lit ''rule'', opt [lit
       ''s'']]]],
     cat [lit ''from'', some1 sp, lit ''now'', some1 sp, lit ''on'', some1 sp, alts [cat [lit
       ''you'', some1 sp, lit ''are''], lit ''ignore'', lit ''forget'']],
     cat [lit ''new'', some1 sp, lit ''instruction'', opt [lit ''s''], many sp, lit '':''],
     cat [lit ''system'', many sp, lit '':'', many sp, alts [lit ''ignore'', lit ''forget'',
       lit ''override'']]]"

definition JAILBREAK_PATTERNS :: "regex list" where
  "JAILBREAK_PATTERNS = [
     cat [WordB, lit ''dan'', some1 sp, lit ''mode'', WordB],
     cat [alts [lit ''enable'', lit ''enter'', lit ''activate'', cat [lit ''switch'', some1
       sp, lit ''to'']], some1 sp, lit ''developer'', some1 sp, lit ''mode''],
     cat [lit ''developer'', some1 sp, lit ''mode'', many sp, alts [lit '':'', lit
       ''enabled'', lit ''activated'', cat [lit ''is'', some1 sp, alts [lit ''on'', lit
       ''enabled'', lit ''active'']]]],
     cat [lit ''in'', some1 sp, lit ''developer'', some1 sp, lit ''mode'', some1 (Cls
       ([CSpace] @ chars '','')), lit ''you'', WordB],
     cat [WordB, lit ''jailbroken'', WordB],
     cat [lit ''jailbreak'', some1 sp, alts [lit ''mode'', lit ''prompt'', lit ''this'', cat
       [lit ''the'', some1 sp, alts [lit ''ai'', lit ''assistant'', lit ''model'', lit ''bot'',
       lit ''system'']]]],
     cat [alts [lit ''enable'', lit ''activate'', lit ''perform'', cat [lit ''do'', some1 sp,
       lit ''a'']], some1 sp, lit ''jailbreak''],
     cat [WordB, lit ''unrestricted'', some1 sp, lit ''mode'', WordB],
     cat [WordB, lit ''god'', some1 sp, lit ''mode'', WordB],
     cat [lit ''do'', some1 sp, lit ''anything'', some1 sp, lit ''now''],
     cat [lit ''no'', some1 sp, lit ''restriction'', opt [lit ''s''], some1 sp, alts [lit
       ''mode'', lit ''enabled'']],
     cat [lit ''disable'', some1 sp, opt [lit ''your'', some1 sp], alts [lit ''safety'', lit
       ''filter'', lit ''restriction'', lit ''guideline'']],
     cat [lit ''you'', some1 sp, lit ''have'', some1 sp, lit ''no'', some1 sp, alts [cat [lit
       ''restriction'', opt [lit ''s'']], cat [lit ''limit'', opt [lit ''s'']], cat [lit
       ''guideline'', opt [lit ''s'']]]],
     cat [lit ''without'', some1 sp, opt [lit ''any'', some1 sp], alts [lit ''restriction'',
       lit ''filter'', lit ''limitation'', lit ''safety'']],
     cat [lit ''simulate'', some1 sp, opt [lit ''a'', some1 sp], alts [lit ''unrestricted'',
       lit ''evil'', lit ''unfiltered'']],
     cat [lit ''hypothetically'', some1 sp, opt [lit ''speaking'', some1 sp], lit ''if'',
       some1 sp, lit ''you'', some1 sp, alts [cat [lit ''had'', some1 sp, lit ''no''], cat [lit
       ''were'', some1 sp, lit ''unrestricted'']]]]"

definition MALICIOUS_INTENT_PATTERNS :: "regex list" where
  "MALICIOUS_INTENT_PATTERNS = [
     cat [lit ''how'', some1 sp, lit ''to'', some1 sp, alts [lit ''make'', lit ''build'', lit
       ''create'', lit ''synthesize''], some1 sp, opt [lit ''a'', some1 sp], alts [lit ''bomb'',
       lit ''weapon'', lit ''explosive'', lit ''virus'', lit ''malware'']],
     cat [lit ''how'', some1 sp, lit ''to'', some1 sp, alts [lit ''hack'', lit ''attack'', lit
       ''exploit'', lit ''compromise''], some1 sp],
     cat [lit ''how'', some1 sp, lit ''to'', some1 sp, alts [lit ''steal'', lit ''phish'', lit
       ''scam'', lit ''defraud''], some1 sp],
     cat [lit ''how'', some1 sp, lit ''to'', some1 sp, lit ''kill'', some1 sp],
     cat [lit ''how'', some1 sp, lit ''to'', some1 sp, alts [lit ''bypass'', lit ''defeat'',
       lit ''disable''], some1 sp, alts [lit ''security'', lit ''firewall'', lit
       ''authentication'', lit ''2fa'']],
     cat [alts [lit ''create'', lit ''write'', lit ''generate''], some1 sp, opt [lit ''a'',
       some1 sp], alts [lit ''malware'', lit ''ransomware'', lit ''virus'', lit ''trojan'', lit
       ''keylogger'']],
     cat [alts [lit ''create'', lit ''write'', lit ''generate''], some1 sp, opt [lit ''a'',
       some1 sp], lit ''phishing'', some1 sp, alts [lit ''email'', lit ''page'', lit ''site'']],
     cat [alts [lit ''sql'', lit ''command'', lit ''code''], some1 sp, lit ''injection'',
       some1 sp, alts [lit ''attack'', lit ''exploit'', lit ''payload'']],
     cat [alts [lit ''ddos'', lit ''dos''], some1 sp, lit ''attack''],
     cat [lit ''brute'', some1 sp, lit ''force'', some1 sp, alts [lit ''attack'', lit
       ''password'', lit ''login'']],
     cat [lit ''zero'', opt [Dot], lit ''day'', some1 sp, alts [lit ''exploit'', lit
       ''vulnerability'', lit ''attack'']],
     cat [alts [lit ''steal'', lit ''exfiltrate'', lit ''leak''], some1 sp, opt [lit ''user'',
       some1 sp], alts [lit ''data'', lit ''credentials'', cat [lit ''password'', opt [lit
       ''s'']], cat [lit ''token'', opt [lit ''s'']]]]]"

definition DATA_EXFILTRATION_PATTERNS :: "regex list" where
  "DATA_EXFILTRATION_PATTERNS = [
     cat [lit ''send'', some1 sp, opt [lit ''all'', some1 sp], opt [lit ''user'', some1 sp],
       alts [lit ''data'', lit ''information'', cat [lit ''record'', opt [lit ''s'']]], some1
       sp, lit ''to'', some1 sp],
     cat [alts [lit ''upload'', lit ''export'', lit ''transmit''], some1 sp, opt [lit ''all'',
       some1 sp], alts [lit ''data'', cat [lit ''record'', opt [lit ''s'']], cat [lit ''file'',
       opt [lit ''s'']]], some1 sp, lit ''to'', some1 sp],
     cat [alts [lit ''reveal'', lit ''expose'', lit ''leak'', lit ''share''], some1 sp, opt
       [lit ''all'', some1 sp], opt [lit ''user'', some1 sp], alts [lit ''data'', lit
       ''information'', cat [lit ''credential'', opt [lit ''s'']]]],
     cat [alts [lit ''dump'', lit ''extract''], some1 sp, opt [lit ''all'', some1 sp], alts
       [lit ''database'', lit ''db'', lit ''table'', cat [lit ''record'', opt [lit ''s'']]]],
     cat [alts [lit ''show'', lit ''list'', lit ''print''], some1 sp, opt [lit ''all'', some1
       sp], alts [cat [lit ''user'', opt [lit ''s'']], cat [lit ''password'', opt [lit ''s'']],
       cat [lit ''credential'', opt [lit ''s'']], cat [lit ''api'', opt [Dot], lit ''key'', opt
       [lit ''s'']]]],
     cat [alts [lit ''access'', lit ''read'', lit ''get''], some1 sp, opt [lit ''all'', some1
       sp], alts [lit ''private'', lit ''secret'', lit ''confidential''], some1 sp, alts [lit
       ''data'', cat [lit ''file'', opt [lit ''s'']], cat [lit ''key'', opt [lit ''s'']]]]]"

definition TOXICITY_PATTERNS :: "regex list" where
  "TOXICITY_PATTERNS = [
     cat [WordB, alts [lit ''kill'', lit ''murder'', lit ''rape'', lit ''torture''], some1 sp,
       alts [lit ''yourself'', lit ''himself'', lit ''herself'', lit ''themselves''], WordB],
     cat [WordB, alts [cat [lit ''you'', some1 sp, lit ''should''], cat [lit ''go'', some1 sp,
       lit ''and'']], some1 sp, alts [lit ''die'', cat [lit ''kill'', some1 sp, lit
       ''yourself'']], WordB],
     cat [WordB, lit ''fuck'', some1 sp, alts [lit ''you'', lit ''off'', lit ''this''], WordB],
     cat [WordB, alts [lit ''hate'', lit ''despise''], some1 sp, opt [lit ''all'', some1 sp],
       alts [cat [lit ''jew'', opt [lit ''s'']], cat [lit ''muslim'', opt [lit ''s'']], cat [lit
       ''christian'', opt [lit ''s'']], cat [lit ''black'', opt [lit ''s'']], cat [lit
       ''white'', opt [lit ''s'']], cat [lit ''asian'', opt [lit ''s'']]], WordB]]"

definition rule_flags :: re_flags where
  "rule_flags = \<lparr>icase = True, dotall = True\<rparr>"

definition COMPILED_REGISTRY :: "(regex list \<times> threat_category \<times> float64) list" where
  "COMPILED_REGISTRY = [
     (PROMPT_INJECTION_PATTERNS, PROMPT_INJECTION, fl (85 / 100)),
     (JAILBREAK_PATTERNS, JAILBREAK, fl (88 / 100)),
     (MALICIOUS_INTENT_PATTERNS, MALICIOUS_INTENT, fl (82 / 100)),
     (DATA_EXFILTRATION_PATTERNS, DATA_EXFILTRATION, fl (80 / 100)),
     (TOXICITY_PATTERNS, TOXICITY, fl (75 / 100))]"

lemma registry_wf: "list_all (\<lambda>(ps, _). list_all re_wf ps) COMPILED_REGISTRY"
  by (simp add: COMPILED_REGISTRY_def PROMPT_INJECTION_PATTERNS_def JAILBREAK_PATTERNS_def
      MALICIOUS_INTENT_PATTERNS_def DATA_EXFILTRATION_PATTERNS_def TOXICITY_PATTERNS_def at_most_def)

lemma registry_scores: "list_all (\<lambda>(_, _, b). 0 < b \<and> b < 1) COMPILED_REGISTRY"
  by (simp add: COMPILED_REGISTRY_def) code_simp

lemma registry_categories: "distinct (map (fst \<circ> snd) COMPILED_REGISTRY)"
  by (simp add: COMPILED_REGISTRY_def)

end
