(* ===== verification/Detection.thy ===== *)
theory Detection
  imports Rule_Patterns Normalization
begin

text \<open>
  The detectors of \<^verbatim>\<open>engine/detection\<close>: the result type (\<^verbatim>\<open>base.py\<close>), the regex input cap
  (\<^verbatim>\<open>limits.py\<close>), the rule detector, the TF-IDF detector with its guarded model load, the
  transformer detector, the LLM detector with its response parser, the scan over all views
  (\<^verbatim>\<open>view_evaluator.py\<close>) and the two-tier pipeline (\<^verbatim>\<open>pipeline.py\<close>). The pickled model, the
  transformer and the LLM client are arguments; each may raise.
\<close>

section \<open>Results\<close>

datatype details =
    D_Rule "(string \<times> regex list) list"
  | D_ML string float64
  | D_Transformer string float64 string
  | D_LLM ustr float64 ustr
  | D_Tiers "(string \<times> details) list"
  | D_PII "string list"
  | D_Toxicity string float64

record det_result =
  dr_score :: float64
  dr_threats :: "threat_category list"
  dr_triggered :: bool
  dr_detector :: string
  dr_details :: "details option"
  dr_failed :: bool

definition clean :: "string \<Rightarrow> det_result" where
  "clean detector = \<lparr>dr_score = 0, dr_threats = [], dr_triggered = False, dr_detector = detector,
     dr_details = None, dr_failed = False\<rparr>"

definition failure :: "string \<Rightarrow> det_result" where
  "failure detector = \<lparr>dr_score = 0, dr_threats = [], dr_triggered = False, dr_detector = detector,
     dr_details = None, dr_failed = True\<rparr>"

definition MAX_REGEX_INPUT_LENGTH :: nat where "MAX_REGEX_INPUT_LENGTH = 65536"

definition clamp_for_regex :: "'a list \<Rightarrow> 'a list" where
  "clamp_for_regex s = (if length s \<le> MAX_REGEX_INPUT_LENGTH then s else take MAX_REGEX_INPUT_LENGTH s)"

section \<open>Rule detector\<close>

text \<open>One iteration of the registry loop over (threats, max score, details).\<close>

definition rule_step :: "ucd \<Rightarrow> ustr \<Rightarrow> regex list \<times> threat_category \<times> float64 \<Rightarrow>
    threat_category list \<times> float64 \<times> (string \<times> regex list) list \<Rightarrow>
    threat_category list \<times> float64 \<times> (string \<times> regex list) list" where
  "rule_step U s = (\<lambda>(patterns, category, base_score) (threats, max_score, det).
     let matched = filter (\<lambda>p. search U rule_flags p s) patterns in
     if matched = [] then (threats, max_score, det)
     else (threats @ [category], max max_score base_score, dict_set (threat_value category) matched det))"

definition rule_detect :: "ucd \<Rightarrow> ustr \<Rightarrow> det_result" where
  "rule_detect U inp =
     (let s = clamp_for_regex inp;
          (threats, max_score, det) = fold (rule_step U s) COMPILED_REGISTRY ([], 0, [])
      in \<lparr>dr_score = max_score, dr_threats = threats, dr_triggered = (0 < max_score),
          dr_detector = ''rule_detector'', dr_details = (if det = [] then None else Some (D_Rule det)),
          dr_failed = False\<rparr>)"

section \<open>TF-IDF detector\<close>

definition LABEL_MAP :: "(nat, threat_category) dict" where
  "LABEL_MAP = [(0, BENIGN), (1, PROMPT_INJECTION), (2, JAILBREAK), (3, MALICIOUS_INTENT),
     (4, DATA_EXFILTRATION), (5, PII), (6, TOXICITY)]"

type_synonym ml_model = "ustr \<Rightarrow> float64 list py"

text \<open>
  \<^verbatim>\<open>_load_model\<close>. The files are read through \<open>model_file\<close> and \<open>hash_file\<close> (\<open>None\<close>: the path does
  not exist; \<open>Inl\<close>: reading raises); unpickling is only ever reached past the digest check.
\<close>

definition load_model :: "ucd \<Rightarrow> (nat list \<Rightarrow> ustr) \<Rightarrow> (nat list \<Rightarrow> ml_model py) \<Rightarrow>
    nat list py option \<Rightarrow> ustr py option \<Rightarrow> ml_model option" where
  "load_model U sha256 unpickle model_file hash_file =
     (case model_file of
        None \<Rightarrow> None
      | Some rd \<Rightarrow>
          try_except (py_bind rd (\<lambda>raw.
            case hash_file of
              None \<Rightarrow> Inr None
            | Some rh \<Rightarrow> py_bind rh (\<lambda>h.
                let expected = u_str_lower U (strip h); actual = u_str_lower U (sha256 raw) in
                if actual \<noteq> expected then Inr None
                else py_bind (unpickle raw) (\<lambda>m. Inr (Some m)))))
          (\<lambda>_. None))"

fun argmax :: "float64 list \<Rightarrow> nat py" where
  "argmax [] = Inl ValueError"
| "argmax (x # xs) = Inr (length (takeWhile (\<lambda>y. y < fold max xs x) (x # xs)))"

definition ml_detect :: "ml_model option \<Rightarrow> ustr \<Rightarrow> det_result" where
  "ml_detect model inp =
     (case model of
        None \<Rightarrow> failure ''ml_detector''
      | Some predict_proba \<Rightarrow>
          try_except
            (py_bind (predict_proba inp) (\<lambda>proba. py_bind (argmax proba) (\<lambda>class_idx.
               let confidence = proba ! class_idx;
                   category = (case map_of LABEL_MAP class_idx of None \<Rightarrow> BENIGN | Some c \<Rightarrow> c) in
               Inr (if category = BENIGN \<or> confidence < fl (25 / 100) then clean ''ml_detector''
                    else \<lparr>dr_score = round4 confidence, dr_threats = [category], dr_triggered = True,
                          dr_detector = ''ml_detector'',
                          dr_details = Some (D_ML (threat_value category) (round4 confidence)),
                          dr_failed = False\<rparr>))))
            (\<lambda>_. failure ''ml_detector''))"

section \<open>Transformer detector\<close>

type_synonym tf_model = "ustr \<Rightarrow> (string \<times> float64) py"

definition transformer_detect :: "string \<Rightarrow> tf_model option \<Rightarrow> ustr \<Rightarrow> det_result" where
  "transformer_detect model_id model inp =
     (case model of
        None \<Rightarrow> clean ''transformer_detector''
      | Some pipeline \<Rightarrow>
          try_except
            (py_bind (pipeline inp) (\<lambda>(label, confidence).
               Inr (if label = ''INJECTION'' \<and> fl (5 / 10) \<le> confidence
                    then \<lparr>dr_score = round4 confidence, dr_threats = [PROMPT_INJECTION],
                          dr_triggered = True, dr_detector = ''transformer_detector'',
                          dr_details = Some (D_Transformer label (round4 confidence) model_id),
                          dr_failed = False\<rparr>
                    else clean ''transformer_detector'')))
            (\<lambda>_. failure ''transformer_detector''))"

section \<open>LLM detector\<close>

definition THREAT_CATEGORY_MAP :: "(ustr, threat_category) dict" where
  "THREAT_CATEGORY_MAP = [(us ''PROMPT_INJECTION'', PROMPT_INJECTION), (us ''JAILBREAK'', JAILBREAK),
     (us ''MALICIOUS_INTENT'', MALICIOUS_INTENT), (us ''DATA_EXFILTRATION'', DATA_EXFILTRATION),
     (us ''PII'', PII), (us ''TOXICITY'', TOXICITY), (us ''BENIGN'', BENIGN)]"

text \<open>
  \<^verbatim>\<open>re.search(pre(grp), s)\<close> and its group 1: the first position, and there the first way, in which
  the prefix and then the group match.
\<close>

definition group_at :: "ucd \<Rightarrow> re_flags \<Rightarrow> regex \<Rightarrow> regex \<Rightarrow> ustr \<Rightarrow> nat \<Rightarrow> ustr list" where
  "group_at U F pre grp s i =
     concat (map (\<lambda>j. map (\<lambda>k. take (k - j) (drop j s)) (ends U F grp s j)) (ends U F pre s i))"

definition search_group :: "ucd \<Rightarrow> re_flags \<Rightarrow> regex \<Rightarrow> regex \<Rightarrow> ustr \<Rightarrow> ustr option" where
  "search_group U F pre grp s =
     (case concat (map (group_at U F pre grp s) [0..<Suc (length s)]) of [] \<Rightarrow> None | g # _ \<Rightarrow> Some g)"

definition llm_flags :: re_flags where
  "llm_flags = \<lparr>icase = True, dotall = False\<rparr>"

text \<open>\<^verbatim>\<open>float()\<close> on a string of digits and dots.\<close>

fun digits_val :: "ustr \<Rightarrow> nat" where
  "digits_val s = fold (\<lambda>c n. n * 10 + (c - 48)) s 0"

definition parse_decimal :: "ustr \<Rightarrow> float64 py" where
  "parse_decimal s =
     (let a = takeWhile (\<lambda>c. c \<noteq> 46) s; b = tl (dropWhile (\<lambda>c. c \<noteq> 46) s) in
      if 46 \<in> set b \<or> (a = [] \<and> b = []) then Inl ValueError
      else Inr (fl (of_nat (digits_val (a @ b)) / 10 ^ length b)))"

definition llm_verdict :: "ustr \<Rightarrow> float64 \<Rightarrow> ustr \<Rightarrow> det_result" where
  "llm_verdict category_str confidence reasoning =
     (let category = (case map_of THREAT_CATEGORY_MAP category_str of Some c \<Rightarrow> c | None \<Rightarrow> BENIGN) in
      if category = BENIGN \<or> confidence < fl (5 / 10) then clean ''llm_detector''
      else \<lparr>dr_score = round4 confidence, dr_threats = [category], dr_triggered = True,
            dr_detector = ''llm_detector'', dr_details = Some (D_LLM category_str confidence reasoning),
            dr_failed = False\<rparr>)"

definition llm_parse_response :: "ucd \<Rightarrow> ustr \<Rightarrow> det_result" where
  "llm_parse_response U raw =
     (let category_match = search_group U llm_flags (cat [lit ''CATEGORY:'', many sp]) (some1 (Cls [CWord])) raw;
          confidence_match = search_group U llm_flags (cat [lit ''CONFIDENCE:'', many sp])
             (some1 (Cls (rngs ''09'' @ chars ''.''))) raw;
          reasoning_match = search_group U llm_flags (cat [lit ''REASONING:'', many sp])
             (some1 (NCls [CRange 10 10])) raw;
          category_str = (case category_match of Some g \<Rightarrow> u_str_upper U g | None \<Rightarrow> us ''BENIGN'')
      in try_except
        (py_bind (case confidence_match of Some g \<Rightarrow> parse_decimal g | None \<Rightarrow> Inr 0) (\<lambda>confidence.
           Inr (llm_verdict category_str (max 0 (min 1 confidence))
                 (case reasoning_match of Some g \<Rightarrow> strip g | None \<Rightarrow> []))))
        (\<lambda>_. failure ''llm_detector''))"

text \<open>
  \<^verbatim>\<open>detect_async\<close>: \<open>client\<close> stands for the configured client (its settings, its construction and
  its network call); it gets the user prompt and returns the content or raises.
\<close>

definition llm_detect :: "ucd \<Rightarrow> (ustr \<Rightarrow> ustr option py) \<Rightarrow> ustr \<Rightarrow> det_result" where
  "llm_detect U client inp =
     try_except
       (py_bind (client (us ''Analyse this input:'' @ [10, 10] @ inp)) (\<lambda>reply.
          if \<not> truthy reply then Inr (clean ''llm_detector'')
          else Inr (llm_parse_response U (the reply))))
       (\<lambda>_. failure ''llm_detector'')"

section \<open>Scanning every view\<close>

fun scan_views :: "(ustr \<Rightarrow> det_result py) \<Rightarrow> ustr list \<Rightarrow> det_result \<Rightarrow> bool \<Rightarrow> (det_result \<times> bool) py" where
  "scan_views scan_one [] best failed = Inr (best, failed)"
| "scan_views scan_one (t # ts) best failed =
     py_bind (scan_one t) (\<lambda>result.
       scan_views scan_one ts (if dr_score best < dr_score result then result else best)
         (failed \<or> dr_failed result))"

definition evaluate_views :: "(ustr \<Rightarrow> det_result py) \<Rightarrow> normalized_input \<Rightarrow> det_result py" where
  "evaluate_views scan_one ni =
     py_bind (scan_one (hd (texts ni))) (\<lambda>best0.
     py_bind (scan_views scan_one (tl (texts ni)) best0 (dr_failed best0)) (\<lambda>(best, failed).
       Inr (if failed \<and> \<not> dr_failed best then best\<lparr>dr_failed := True\<rparr> else best)))"

section \<open>The two-tier pipeline\<close>

primrec run_preprocessors :: "(ustr \<Rightarrow> ustr py) list \<Rightarrow> ustr \<Rightarrow> ustr" where
  "run_preprocessors [] s = s"
| "run_preprocessors (pp # pps) s = run_preprocessors pps (case pp s of Inr s' \<Rightarrow> s' | Inl _ \<Rightarrow> s)"

definition combine :: "det_result \<Rightarrow> det_result \<Rightarrow> det_result" where
  "combine tfidf transformer =
     (let dominant = (if dr_score tfidf \<le> dr_score transformer then transformer else tfidf);
          score = dr_score dominant;
          det = (case dr_details tfidf of None \<Rightarrow> [] | Some d \<Rightarrow> [(''tfidf'', d)])
              @ (case dr_details transformer of None \<Rightarrow> [] | Some d \<Rightarrow> [(''transformer'', d)])
      in \<lparr>dr_score = score,
          dr_threats = sort (remdups (dr_threats tfidf @ dr_threats transformer)),
          dr_triggered = (0 < score), dr_detector = ''ml_detector'',
          dr_details = (if det = [] then None else Some (D_Tiers det)),
          dr_failed = (dr_failed tfidf \<or> dr_failed transformer)\<rparr>)"

text \<open>
  \<^verbatim>\<open>run\<close>. \<open>tfidf\<close> and \<open>transformer\<close> are the outcomes of the two worker-thread calls: a thread
  that cannot be run raises, and the transformer call is under \<^verbatim>\<open>wait_for\<close>, so it may time out.
\<close>

definition pipeline_run :: "(ustr \<Rightarrow> ustr py) list \<Rightarrow> (ustr \<Rightarrow> det_result py) \<Rightarrow> bool \<Rightarrow>
    (ustr \<Rightarrow> det_result py) \<Rightarrow> ustr \<Rightarrow> det_result py" where
  "pipeline_run preprocessors tfidf transformer_ready transformer inp =
     (let s = run_preprocessors preprocessors inp in
      if transformer_ready then
        Inr (combine (case tfidf s of Inr r \<Rightarrow> r | Inl _ \<Rightarrow> clean ''ml_detector'')
                     (case transformer s of Inr r \<Rightarrow> r | Inl _ \<Rightarrow> clean ''transformer_detector''))
      else py_bind (tfidf s) (\<lambda>r. Inr (combine r (clean ''transformer_detector''))))"

datatype detector_status = HEALTHY | DEGRADED | UNAVAILABLE

definition pipeline_status :: "bool \<Rightarrow> bool \<Rightarrow> (string, detector_status) dict" where
  "pipeline_status tfidf_ready transformer_ready =
     [(''tfidf_detector'', if tfidf_ready then HEALTHY else DEGRADED),
      (''transformer_detector'', if transformer_ready then HEALTHY else DEGRADED)]"

record detector_profile =
  dp_name :: string
  dp_tier2_model :: string
  dp_tier2_timeout :: float64
  dp_rule_patterns :: string
  dp_model_version :: string

definition PROFILE_REGISTRY :: "(string, detector_profile) dict" where
  "PROFILE_REGISTRY = [(''general'', \<lparr>dp_name = ''general'',
     dp_tier2_model = ''protectai/deberta-v3-base-prompt-injection-v2'',
     dp_tier2_timeout = fl (15 / 10), dp_rule_patterns = ''general'', dp_model_version = ''1.0.0''\<rparr>)]"

definition get_profile :: "string \<Rightarrow> detector_profile" where
  "get_profile n = (case map_of PROFILE_REGISTRY n of Some p \<Rightarrow> p
     | None \<Rightarrow> the (map_of PROFILE_REGISTRY ''general''))"

end
