(* ===== verification/Detection_Facts.thy ===== *)
theory Detection_Facts
  imports Detection
begin

text \<open>
  What the detectors promise: the contract every detector meets, proved once for the scan over
  all views, and the theorems about each detector and about the combination of the two tiers.
\<close>

section \<open>The detector contract\<close>

definition det_wf :: "det_result \<Rightarrow> bool" where
  "det_wf r \<longleftrightarrow> 0 \<le> dr_score r \<and> dr_score r \<le> 1 \<and> (dr_triggered r \<longleftrightarrow> 0 < dr_score r)
     \<and> (dr_threats r = [] \<longleftrightarrow> dr_score r = 0)"

lemma det_wf_clean [simp]: "det_wf (clean n)" and det_wf_failure [simp]: "det_wf (failure n)"
  by (simp_all add: det_wf_def clean_def failure_def)

lemma clean_failed [simp]: "\<not> dr_failed (clean n)" "dr_failed (failure n)"
  "dr_score (clean n) = 0" "dr_score (failure n) = 0"
  by (simp_all add: clean_def failure_def)

lemma scan_views_total:
  "scan_views (\<lambda>t. Inr (f t)) ts best failed =
     Inr (fold (\<lambda>t b. if dr_score b < dr_score (f t) then f t else b) ts best,
          failed \<or> list_ex (\<lambda>t. dr_failed (f t)) ts)"
  by (induction ts arbitrary: best failed) auto

lemma fold_best_score:
  "dr_score (fold (\<lambda>t b. if dr_score b < dr_score (f t) then f t else b) ts best) =
     fold max (map (\<lambda>t. dr_score (f t)) ts) (dr_score best)"
  by (induction ts arbitrary: best) (auto simp: max_def)

lemma fold_best_elem:
  "fold (\<lambda>t b. if dr_score b < dr_score (f t) then f t else b) ts best \<in> insert best (f ` set ts)"
proof (induction ts arbitrary: best)
  case (Cons t ts)
  show ?case using Cons [of best] Cons [of "f t"] by (simp split: if_split) blast
qed simp

lemma fold_best_same:
  "list_all (\<lambda>t. dr_score (f t) \<le> dr_score best) ts \<Longrightarrow>
   fold (\<lambda>t b. if dr_score b < dr_score (f t) then f t else b) ts best = best"
  by (induction ts) (simp_all add: not_less)

lemma dr_failed_same: "\<not> dr_failed r \<Longrightarrow> r\<lparr>dr_failed := False\<rparr> = r" "dr_failed r \<Longrightarrow> r\<lparr>dr_failed := True\<rparr> = r"
  by (cases r; simp)+

definition best_view :: "(ustr \<Rightarrow> det_result) \<Rightarrow> normalized_input \<Rightarrow> det_result" where
  "best_view f ni = fold (\<lambda>t b. if dr_score b < dr_score (f t) then f t else b)
     (map dv_text (ni_views ni)) (f (ni_canonical ni))"

lemma evaluate_views_total:
  "evaluate_views (\<lambda>t. Inr (f t)) ni =
     Inr ((best_view f ni)\<lparr>dr_failed := list_ex (\<lambda>t. dr_failed (f t)) (texts ni)\<rparr>)"
proof -
  have "dr_failed (best_view f ni) \<Longrightarrow> list_ex (\<lambda>t. dr_failed (f t)) (texts ni)"
    using fold_best_elem [of f "map dv_text (ni_views ni)" "f (ni_canonical ni)"]
    by (auto simp: best_view_def texts_def list_ex_iff)
  moreover have "evaluate_views (\<lambda>t. Inr (f t)) ni =
      Inr (if list_ex (\<lambda>t. dr_failed (f t)) (texts ni) \<and> \<not> dr_failed (best_view f ni)
           then (best_view f ni)\<lparr>dr_failed := True\<rparr> else best_view f ni)"
    by (simp add: evaluate_views_def scan_views_total best_view_def [symmetric] texts_def)
  ultimately show ?thesis
    by (cases "dr_failed (best_view f ni)"; cases "list_ex (\<lambda>t. dr_failed (f t)) (texts ni)")
      (simp_all add: dr_failed_same)
qed

locale detector =
  fixes detect :: "ustr \<Rightarrow> det_result"
  assumes wf: "det_wf (detect t)"
    and failed_zero: "dr_failed (detect t) \<Longrightarrow> dr_score (detect t) = 0"
begin

lemma scan_wf: "\<exists>r. evaluate_views (\<lambda>t. Inr (detect t)) ni = Inr r \<and> det_wf r"
proof -
  have "best_view detect ni \<in> range detect"
    using fold_best_elem [of detect "map dv_text (ni_views ni)" "detect (ni_canonical ni)"]
    by (auto simp: best_view_def)
  then have "det_wf (best_view detect ni)" using wf by auto
  then show ?thesis by (simp add: evaluate_views_total det_wf_def)
qed

lemma scan_triggered:
  "evaluate_views (\<lambda>t. Inr (detect t)) ni = Inr r \<Longrightarrow>
   dr_triggered r \<longleftrightarrow> list_ex (\<lambda>t. dr_triggered (detect t)) (texts ni)"
proof -
  assume r: "evaluate_views (\<lambda>t. Inr (detect t)) ni = Inr r"
  have pos: "0 < fold max xs (a :: rat) \<longleftrightarrow> 0 < a \<or> (\<exists>x\<in>set xs. 0 < x)" for xs a
    by (induction xs arbitrary: a) (auto simp: less_max_iff_disj)
  have "dr_score r = dr_score (best_view detect ni)" and "det_wf r"
    using r scan_wf [of ni] by (auto simp: evaluate_views_total)
  then show ?thesis
    using wf by (auto simp: best_view_def fold_best_score det_wf_def texts_def pos list_ex_iff comp_def)
qed

end

section \<open>Rule detector\<close>

abbreviation rule_hit :: "ucd \<Rightarrow> ustr \<Rightarrow> regex list \<times> threat_category \<times> float64 \<Rightarrow> bool" where
  "rule_hit U s \<equiv> \<lambda>(ps, _). list_ex (\<lambda>p. search U rule_flags p s) ps"

lemma rule_step_fields:
  "fst (rule_step U s e acc) = fst acc @ (if rule_hit U s e then [fst (snd e)] else [])"
  "fst (snd (rule_step U s e acc)) = (if rule_hit U s e then max (fst (snd acc)) (snd (snd e)) else fst (snd acc))"
proof -
  have "filter (\<lambda>p. search U rule_flags p s) ps = [] \<longleftrightarrow> \<not> list_ex (\<lambda>p. search U rule_flags p s) ps" for ps
    by (simp add: filter_empty_iff list_ex_iff)
  then show "fst (rule_step U s e acc) = fst acc @ (if rule_hit U s e then [fst (snd e)] else [])"
    "fst (snd (rule_step U s e acc)) = (if rule_hit U s e then max (fst (snd acc)) (snd (snd e)) else fst (snd acc))"
    by (simp_all add: rule_step_def Let_def split: prod.splits)
qed

lemma fold_rule_step:
  "fst (fold (rule_step U s) reg acc) = fst acc @ map (fst \<circ> snd) (filter (rule_hit U s) reg)"
  "fst (snd (fold (rule_step U s) reg acc)) = fold max (map (snd \<circ> snd) (filter (rule_hit U s) reg)) (fst (snd acc))"
  by (induction reg arbitrary: acc) (simp_all add: rule_step_fields max.commute)

definition rule_hits :: "ucd \<Rightarrow> ustr \<Rightarrow> (regex list \<times> threat_category \<times> float64) list" where
  "rule_hits U inp = filter (rule_hit U (clamp_for_regex inp)) COMPILED_REGISTRY"

lemma rule_detect_fields:
  "dr_threats (rule_detect U inp) = map (fst \<circ> snd) (rule_hits U inp)"
  "dr_score (rule_detect U inp) = fold max (map (snd \<circ> snd) (rule_hits U inp)) 0"
  "dr_triggered (rule_detect U inp) \<longleftrightarrow> 0 < dr_score (rule_detect U inp)"
  "\<not> dr_failed (rule_detect U inp)"
  using fold_rule_step [of U "clamp_for_regex inp" COMPILED_REGISTRY "([], 0, [])"]
  by (simp_all add: rule_detect_def rule_hits_def Let_def case_prod_beta)

lemma rule_hits_scores: "list_all (\<lambda>(_, _, b). 0 < b \<and> b < 1) (rule_hits U inp)"
  using registry_scores by (auto simp: rule_hits_def list_all_iff)

lemma rule_score_pos: "0 < dr_score (rule_detect U inp) \<longleftrightarrow> rule_hits U inp \<noteq> []"
proof (cases "rule_hits U inp")
  case (Cons e es)
  then have "0 < snd (snd e)" using rule_hits_scores [of U inp] by (auto simp: list_all_iff)
  then show ?thesis
    using Cons fold_max_ge_elem [of "snd (snd e)" "map (snd \<circ> snd) (rule_hits U inp)" 0]
    by (simp add: rule_detect_fields)
qed (simp add: rule_detect_fields)

lemma rule_score_range: "0 \<le> dr_score (rule_detect U inp) \<and> dr_score (rule_detect U inp) \<le> 1"
proof -
  have "dr_score (rule_detect U inp) \<in> insert 0 (set (map (snd \<circ> snd) (rule_hits U inp)))"
    unfolding rule_detect_fields by (rule fold_max_in)
  then show ?thesis using rule_hits_scores [of U inp] by (fastforce simp: list_all_iff)
qed

interpretation rules: detector "rule_detect U"
proof
  fix t
  show "det_wf (rule_detect U t)"
    using rule_score_range [of U t] rule_score_pos [of U t]
    by (auto simp: det_wf_def rule_detect_fields(1,3) less_le)
qed (simp add: rule_detect_fields)

text \<open>
  The rule detector against the meaning of its patterns: on every prompt it never fails, its
  threats are exactly the registry categories, in registry order, one of whose expressions
  denotes a match in the first 65536 characters, its score is the largest base score among them
  (0 when there is none), and it triggers exactly when a category is reported.
\<close>

theorem rule_detect_meaning:
  "let s = clamp_for_regex inp;
       hits = filter (\<lambda>(ps, _). \<exists>p\<in>set ps. \<exists>i j. i \<le> length s \<and> (i, j) \<in> sem U rule_flags s p) COMPILED_REGISTRY
   in dr_threats (rule_detect U inp) = map (fst \<circ> snd) hits
    \<and> dr_score (rule_detect U inp) = fold max (map (snd \<circ> snd) hits) 0
    \<and> (dr_triggered (rule_detect U inp) \<longleftrightarrow> dr_threats (rule_detect U inp) \<noteq> [])
    \<and> \<not> dr_failed (rule_detect U inp)"
proof -
  have "filter (\<lambda>(ps, _). \<exists>p\<in>set ps. \<exists>i j. i \<le> length s \<and> (i, j) \<in> sem U rule_flags s p) COMPILED_REGISTRY
      = filter (rule_hit U s) COMPILED_REGISTRY" for s
  proof (rule filter_cong)
    fix e assume "e \<in> set COMPILED_REGISTRY"
    then have "list_all re_wf (fst e)" using registry_wf by (auto simp: list_all_iff)
    then show "(case e of (ps, _) \<Rightarrow> \<exists>p\<in>set ps. \<exists>i j. i \<le> length s \<and> (i, j) \<in> sem U rule_flags s p) = rule_hit U s e"
      by (cases e) (auto simp: list_ex_iff list_all_iff search_sem)
  qed simp
  then show ?thesis
    using rule_score_pos [of U inp] by (simp add: Let_def rule_detect_fields rule_hits_def [symmetric])
qed

section \<open>Scanning every view\<close>

text \<open>
  The scan over all representations: with a scanner that does not raise, the result carries
  the maximal score over the canonical text and all decode views, it is flagged failed exactly
  when the scan of some representation failed, and it is the canonical text's own result when no
  view scores strictly higher. A scanner that raises on any representation makes the whole scan
  raise.
\<close>

theorem evaluate_views_strongest:
  "(\<exists>r. evaluate_views (\<lambda>t. Inr (f t)) ni = Inr r
      \<and> dr_score r = fold max (map (\<lambda>v. dr_score (f (dv_text v))) (ni_views ni)) (dr_score (f (ni_canonical ni)))
      \<and> (dr_failed r \<longleftrightarrow> list_ex (\<lambda>t. dr_failed (f t)) (texts ni))
      \<and> (list_all (\<lambda>v. dr_score (f (dv_text v)) \<le> dr_score (f (ni_canonical ni))) (ni_views ni) \<longrightarrow>
           r = (f (ni_canonical ni))\<lparr>dr_failed := dr_failed r\<rparr>))
   \<and> (list_ex (\<lambda>t. isl (scan t)) (texts ni) \<longrightarrow> isl (evaluate_views scan ni))"
proof
  let ?r = "(best_view f ni)\<lparr>dr_failed := list_ex (\<lambda>t. dr_failed (f t)) (texts ni)\<rparr>"
  have "best_view f ni = f (ni_canonical ni)"
    if "list_all (\<lambda>v. dr_score (f (dv_text v)) \<le> dr_score (f (ni_canonical ni))) (ni_views ni)"
    using that unfolding best_view_def by (intro fold_best_same) (simp add: list_all_iff)
  then show "\<exists>r. evaluate_views (\<lambda>t. Inr (f t)) ni = Inr r
      \<and> dr_score r = fold max (map (\<lambda>v. dr_score (f (dv_text v))) (ni_views ni)) (dr_score (f (ni_canonical ni)))
      \<and> (dr_failed r \<longleftrightarrow> list_ex (\<lambda>t. dr_failed (f t)) (texts ni))
      \<and> (list_all (\<lambda>v. dr_score (f (dv_text v)) \<le> dr_score (f (ni_canonical ni))) (ni_views ni) \<longrightarrow>
           r = (f (ni_canonical ni))\<lparr>dr_failed := dr_failed r\<rparr>)"
    by (intro exI [of _ ?r]) (simp add: evaluate_views_total best_view_def fold_best_score comp_def)
  have raise: "list_ex (\<lambda>t. isl (scan t)) ts \<Longrightarrow> isl (scan_views scan ts b x)" for ts b x
    by (induction ts arbitrary: b x) (auto simp: py_bind_def split: sum.splits)
  show "list_ex (\<lambda>t. isl (scan t)) (texts ni) \<longrightarrow> isl (evaluate_views scan ni)"
    by (auto simp: evaluate_views_def texts_def py_bind_def split: sum.splits)
      (metis raise sum.disc(2))
qed

definition demo_ni :: normalized_input where
  "demo_ni = \<lparr>ni_canonical = us ''hello'', ni_views = [\<lparr>dv_text = us ''x'', dv_kind = ''leet'', dv_depth = 0\<rparr>],
     ni_stages = [], ni_version = []\<rparr>"

theorem evaluate_views_strongest_witness:
  "evaluate_views (\<lambda>t. Inr (clean ''d'')) demo_ni = Inr (clean ''d'')
   \<and> isl (evaluate_views (\<lambda>t. if length t = 1 then Inl TimeoutError else Inr (clean ''d'')) demo_ni)"
proof
  show "evaluate_views (\<lambda>t. Inr (clean ''d'')) demo_ni = Inr (clean ''d'')"
    using evaluate_views_strongest [of "\<lambda>t. clean ''d''" demo_ni "\<lambda>t. Inl TimeoutError", THEN conjunct1]
    by (auto simp: list_all_iff list_ex_iff dr_failed_same)
  show "isl (evaluate_views (\<lambda>t. if length t = 1 then Inl TimeoutError else Inr (clean ''d'')) demo_ni)"
    using evaluate_views_strongest [of _ demo_ni "\<lambda>t. if length t = 1 then Inl TimeoutError else Inr (clean ''d'')"]
    by (simp add: demo_ni_def texts_def)
qed

section \<open>Model-backed detectors\<close>

text \<open>
  The model file is unpickled only past the digest check: a model is loaded exactly when the
  model file and its hash file are both readable, the SHA-256 of the file's bytes equals the
  recorded digest (up to case and surrounding space), and unpickling those bytes succeeds.
\<close>

theorem load_model_integrity:
  "load_model U sha256 unpickle model_file hash_file = Some m \<longleftrightarrow>
     (\<exists>raw h. model_file = Some (Inr raw) \<and> hash_file = Some (Inr h)
        \<and> u_str_lower U (sha256 raw) = u_str_lower U (strip h) \<and> unpickle raw = Inr m)"
  by (auto simp: load_model_def py_bind_def try_except_def Let_def split: option.splits sum.splits if_splits)

lemma quarter_pos: "0 < round4 (fl (25 / 100))" "0 < round4 (fl (5 / 10))" "0 < fl (25 / 100)" "0 < fl (5 / 10)"
  by code_simp+

lemma round4_pos_ge: "fl (25 / 100) \<le> x \<or> fl (5 / 10) \<le> x \<Longrightarrow> 0 < round4 x"
  using quarter_pos(1,2) round4_mono order.strict_trans2 by blast

lemma argmax_bound: "argmax xs = Inr k \<Longrightarrow> k < length xs"
proof (cases xs)
  case (Cons y ys)
  assume k: "argmax xs = Inr k"
  have "fold max ys y \<in> set xs" using fold_max_in [of ys y] Cons by auto
  then have "\<exists>x\<in>set (y # ys). \<not> x < fold max ys y" using Cons by auto
  then have "length (takeWhile (\<lambda>z. z < fold max ys y) (y # ys)) < length (y # ys)"
    by (metis length_takeWhile_le linorder_neqE_nat not_le takeWhile_eq_take take_all_iff order_refl set_takeWhileD)
  with k Cons show ?thesis by simp
qed simp

lemma label_benign: "(case map_of LABEL_MAP k of None \<Rightarrow> BENIGN | Some c \<Rightarrow> c) \<noteq> BENIGN \<longleftrightarrow> 1 \<le> k \<and> k \<le> 6"
  by (auto simp: LABEL_MAP_def)

text \<open>
  The TF-IDF detector on every branch, for a model whose predictions are probabilities: the
  result meets the detector contract (score in the unit interval, triggered and a threat exactly
  with a positive score), it is a failure exactly when no model is loaded or the prediction
  raises or is empty, and it triggers exactly when the first most probable class is one of the six
  threat classes with a confidence of at least 0.25.
\<close>

theorem ml_detect_contract:
  assumes "\<And>mdl proba p. model = Some mdl \<Longrightarrow> mdl inp = Inr proba \<Longrightarrow> p \<in> set proba \<Longrightarrow> 0 \<le> p \<and> p \<le> 1"
  shows "det_wf (ml_detect model inp)
    \<and> (dr_failed (ml_detect model inp) \<longleftrightarrow> model = None \<or> (\<exists>mdl. model = Some mdl \<and> (isl (mdl inp) \<or> mdl inp = Inr [])))
    \<and> (dr_triggered (ml_detect model inp) \<longleftrightarrow>
        (\<exists>mdl proba k. model = Some mdl \<and> mdl inp = Inr proba \<and> argmax proba = Inr k \<and> 1 \<le> k \<and> k \<le> 6
           \<and> fl (25 / 100) \<le> proba ! k))"
proof (cases model)
  case None
  then show ?thesis by (simp add: ml_detect_def failure_def det_wf_def)
next
  case (Some mdl)
  show ?thesis
  proof (cases "mdl inp")
    case (Inl e)
    with Some show ?thesis by (simp add: ml_detect_def failure_def det_wf_def)
  next
    case (Inr proba)
    show ?thesis
    proof (cases "argmax proba")
      case (Inl e)
      then have "proba = []" by (cases proba) auto
      with Some Inr Inl show ?thesis by (simp add: ml_detect_def failure_def det_wf_def)
    next
      case k: (Inr k)
      then have ne: "proba \<noteq> []" and "k < length proba" using argmax_bound by auto
      then have "0 \<le> proba ! k \<and> proba ! k \<le> 1" using assms Some Inr nth_mem by blast
      then have r: "0 \<le> round4 (proba ! k)" "round4 (proba ! k) \<le> 1" by (simp_all add: float_bounds)
      show ?thesis
        using Some Inr k ne r round4_pos_ge [of "proba ! k"] label_benign [of k]
        by (auto simp: ml_detect_def det_wf_def clean_def Let_def not_less)
    qed
  qed
qed

theorem ml_detect_contract_witness:
  "dr_triggered (ml_detect (Some (\<lambda>_. Inr [1 / 4, 3 / 4])) [])"
proof -
  have a: "argmax [1 / 4, 3 / 4] = Inr (Suc 0)" by code_simp
  have q: "fl (25 / 100) \<le> 3 / 4" by code_simp
  have "dr_triggered (ml_detect (Some (\<lambda>_. Inr [1 / 4, 3 / 4])) []) \<longleftrightarrow>
        (\<exists>mdl proba k. Some (\<lambda>_ :: ustr. Inr [1 / 4, 3 / 4] :: float64 list py) = Some mdl \<and> mdl [] = Inr proba \<and> argmax proba = Inr k \<and> 1 \<le> k \<and> k \<le> 6
           \<and> fl (25 / 100) \<le> proba ! k)"
    by (rule ml_detect_contract [THEN conjunct2, THEN conjunct2]) auto
  then show ?thesis using a q by auto
qed

lemma llm_verdict_wf:
  assumes "0 \<le> c" and "c \<le> 1"
  shows "det_wf (llm_verdict k c r)" and "\<not> dr_failed (llm_verdict k c r)"
    and "dr_triggered (llm_verdict k c r) \<Longrightarrow> round4 (fl (5 / 10)) \<le> dr_score (llm_verdict k c r)
         \<and> BENIGN \<notin> set (dr_threats (llm_verdict k c r))"
  using assms round4_pos_ge [of c] round4_nonneg [of c] round4_le_1 [of c] round4_mono [of "fl (5 / 10)" c]
  by (auto simp: llm_verdict_def Let_def det_wf_def clean_def)

lemma llm_parse_wf: "det_wf (llm_parse_response U raw) \<and>
    (dr_failed (llm_parse_response U raw) \<longrightarrow> dr_score (llm_parse_response U raw) = 0)
    \<and> (dr_triggered (llm_parse_response U raw) \<longrightarrow> round4 (fl (5 / 10)) \<le> dr_score (llm_parse_response U raw)
         \<and> BENIGN \<notin> set (dr_threats (llm_parse_response U raw)))"
proof -
  have gen: "try_except (py_bind m (\<lambda>c. Inr (llm_verdict k (max 0 (min 1 c)) r))) (\<lambda>_. d) = d \<or>
      (\<exists>k' c r'. try_except (py_bind m (\<lambda>c. Inr (llm_verdict k (max 0 (min 1 c)) r))) (\<lambda>_. d)
         = llm_verdict k' (max 0 (min 1 c)) r')"
    for m k r d
    by (cases m) auto
  have "llm_parse_response U raw = failure ''llm_detector''
      \<or> (\<exists>k c r. llm_parse_response U raw = llm_verdict k (max 0 (min 1 c)) r)"
    unfolding llm_parse_response_def Let_def by (rule gen)
  moreover have "0 \<le> max 0 (min 1 c) \<and> max 0 (min 1 c) \<le> (1 :: rat)" for c by simp
  ultimately show ?thesis using llm_verdict_wf by (auto simp: failure_def det_wf_def)
qed

interpretation llm: detector "llm_detect U client"
  by unfold_locales
    (auto simp: llm_detect_def py_bind_def try_except_def llm_parse_wf split: sum.splits)

text \<open>
  The LLM detector on every branch: it meets the detector contract whatever the model
  answers, it reports a failure when the client raises and when the reply's confidence is not a
  number, an empty reply is clean, and a triggered verdict names a threat category with a score
  of at least 0.5.
\<close>

theorem llm_detect_contract:
  "det_wf (llm_detect U client inp)
   \<and> (isl (client (us ''Analyse this input:'' @ [10, 10] @ inp)) \<longrightarrow> dr_failed (llm_detect U client inp))
   \<and> (client (us ''Analyse this input:'' @ [10, 10] @ inp) \<in> {Inr None, Inr (Some [])} \<longrightarrow>
        llm_detect U client inp = clean ''llm_detector'')
   \<and> (\<forall>reply g e. client (us ''Analyse this input:'' @ [10, 10] @ inp) = Inr (Some reply) \<and> reply \<noteq> []
        \<and> search_group U llm_flags (cat [lit ''CONFIDENCE:'', many sp]) (some1 (Cls (rngs ''09'' @ chars ''.''))) reply = Some g
        \<and> parse_decimal g = Inl e \<longrightarrow> dr_failed (llm_detect U client inp))
   \<and> (dr_triggered (llm_detect U client inp) \<longrightarrow>
        fl (5 / 10) \<le> dr_score (llm_detect U client inp) \<and> BENIGN \<notin> set (dr_threats (llm_detect U client inp)))"
proof (intro conjI)
  have half: "round4 (fl (5 / 10)) = fl (5 / 10)" by code_simp
  show "det_wf (llm_detect U client inp)" by (rule llm.wf)
  show "dr_triggered (llm_detect U client inp) \<longrightarrow>
        fl (5 / 10) \<le> dr_score (llm_detect U client inp) \<and> BENIGN \<notin> set (dr_threats (llm_detect U client inp))"
    using llm_parse_wf half
    by (auto simp: llm_detect_def py_bind_def try_except_def clean_def failure_def split: sum.splits)
qed (auto simp: llm_detect_def py_bind_def try_except_def llm_parse_response_def Let_def split: sum.splits option.splits)

theorem llm_detect_contract_witness:
  "dr_failed (llm_detect ascii_ucd (\<lambda>_. Inl TimeoutError) (us ''hi''))
   \<and> llm_detect ascii_ucd (\<lambda>_. Inr (Some [])) (us ''hi'') = clean ''llm_detector''"
  using llm_detect_contract [of ascii_ucd "\<lambda>_. Inl TimeoutError" "us ''hi''"]
    llm_detect_contract [of ascii_ucd "\<lambda>_. Inr (Some [])" "us ''hi''"]
  by simp

section \<open>Combining the tiers\<close>

lemma combine_fields:
  "dr_score (combine a b) = max (dr_score a) (dr_score b)"
  "dr_threats (combine a b) = sort (remdups (dr_threats a @ dr_threats b))"
  "dr_triggered (combine a b) \<longleftrightarrow> 0 < max (dr_score a) (dr_score b)"
  "dr_failed (combine a b) \<longleftrightarrow> dr_failed a \<or> dr_failed b"
  by (auto simp: combine_def Let_def max_def)

lemma combine_wf: "det_wf a \<Longrightarrow> det_wf b \<Longrightarrow> det_wf (combine a b)"
proof -
  have "dr_threats (combine a b) = [] \<longleftrightarrow> dr_threats a = [] \<and> dr_threats b = []"
    unfolding combine_fields by (metis append_is_Nil_conv remdups_eq_nil_iff set_empty set_sort)
  then show "det_wf a \<Longrightarrow> det_wf b \<Longrightarrow> det_wf (combine a b)"
    by (auto simp: det_wf_def combine_fields(1,3) max_def)
qed

text \<open>
  Highest risk wins: the combined result has the larger of the two scores, its threats are
  the union of both tiers' threats in value order without repetition, it fails when either tier
  failed, whichever scored higher, and it meets the detector contract when both tiers do.
\<close>

theorem combine_spec:
  "dr_score (combine a b) = max (dr_score a) (dr_score b)
   \<and> set (dr_threats (combine a b)) = set (dr_threats a) \<union> set (dr_threats b)
   \<and> sorted (dr_threats (combine a b)) \<and> distinct (dr_threats (combine a b))
   \<and> (dr_failed (combine a b) \<longleftrightarrow> dr_failed a \<or> dr_failed b)
   \<and> (det_wf a \<and> det_wf b \<longrightarrow> det_wf (combine a b))"
  by (simp add: combine_fields combine_wf)

theorem combine_spec_witness:
  "det_wf (combine (rule_detect ascii_ucd (us ''hi'')) (clean ''transformer_detector''))"
  using combine_spec [of "rule_detect ascii_ucd (us ''hi'')" "clean ''transformer_detector''"] rules.wf by simp

text \<open>
  The pipeline never raises while the transformer is loaded: a transformer that times out or
  raises leaves the Tier-1 verdict's score, threats and failure flag, and without a transformer
  the Tier-1 outcome alone decides, its exception propagating. (A Tier-1 thread that raises while
  the transformer is loaded counts as clean.)
\<close>

theorem pipeline_degrades:
  assumes "s = run_preprocessors pps inp"
  shows "(\<exists>r. pipeline_run pps tfidf True transformer inp = Inr r)
    \<and> (isl (transformer s) \<and> tfidf s = Inr a \<and> det_wf a \<longrightarrow>
        (\<exists>r. pipeline_run pps tfidf True transformer inp = Inr r \<and> dr_score r = dr_score a
           \<and> set (dr_threats r) = set (dr_threats a) \<and> dr_failed r = dr_failed a))
    \<and> (isl (tfidf s) \<and> transformer s = Inr b \<longrightarrow>
        pipeline_run pps tfidf True transformer inp = Inr (combine (clean ''ml_detector'') b))
    \<and> (tfidf s = Inl e \<longrightarrow> pipeline_run pps tfidf False transformer inp = Inl e)"
proof -
  have "max (dr_score a) 0 = dr_score a" if "det_wf a" using that by (simp add: det_wf_def)
  then show ?thesis
    using combine_fields [of a "clean ''transformer_detector''"]
    by (auto simp: pipeline_run_def Let_def assms clean_def split: sum.splits)
qed

theorem pipeline_degrades_witness:
  "pipeline_run [] (\<lambda>_. Inl KeyError) False (\<lambda>_. Inl TimeoutError) (us ''hi'') = Inl KeyError
   \<and> pipeline_run [] (\<lambda>_. Inl KeyError) True (\<lambda>_. Inr (clean ''transformer_detector'')) (us ''hi'')
       = Inr (combine (clean ''ml_detector'') (clean ''transformer_detector''))"
  using pipeline_degrades [of "us ''hi''" "[]" "us ''hi''" "\<lambda>_. Inl KeyError" "\<lambda>_. Inl TimeoutError" _ _ KeyError]
    pipeline_degrades [of "us ''hi''" "[]" "us ''hi''" "\<lambda>_. Inl KeyError"
      "\<lambda>_. Inr (clean ''transformer_detector'')" _ "clean ''transformer_detector''" KeyError]
  by simp

end
