(* ===== verification/Guardrails.thy ===== *)
theory Guardrails
  imports PII_Patterns Detection_Facts
begin

text \<open>
  The guardrails of \<^verbatim>\<open>engine/guardrails\<close>: PII detector and redactor, toxicity extraction, the
  input guard and the output guard. The guards are written over the outcomes of the detector and
  redactor calls, which may raise, so that their fail-closed branches are part of the model;
  \<open>input_guard\<close> and \<open>output_guard\<close> are the guards on the modelled detector and redactor.
\<close>

section \<open>PII detector and redactor\<close>

definition PII_BASE_SCORE :: float64 where "PII_BASE_SCORE = fl (65 / 100)"
definition PII_PER_MATCH :: float64 where "PII_PER_MATCH = fl (8 / 100)"
definition PII_MAX_SCORE :: float64 where "PII_MAX_SCORE = fl (95 / 100)"

definition pii_found :: "ucd \<Rightarrow> ustr \<Rightarrow> string list" where
  "pii_found U s = add_new [] (map snd (filter (\<lambda>(r, _). findall U pii_flags r s \<noteq> []) PII_PATTERNS))"

definition pii_score :: "nat \<Rightarrow> float64" where
  "pii_score n = min (fadd PII_BASE_SCORE (fmul (of_int (int n - 1)) PII_PER_MATCH)) PII_MAX_SCORE"

definition pii_detect :: "ucd \<Rightarrow> ustr \<Rightarrow> det_result" where
  "pii_detect U inp =
     (let found = pii_found U (clamp_for_regex inp) in
      if found = [] then clean ''pii_detector''
      else \<lparr>dr_score = round4 (pii_score (length found)), dr_threats = [PII], dr_triggered = True,
            dr_detector = ''pii_detector'', dr_details = Some (D_PII found), dr_failed = False\<rparr>)"

definition redact_step :: "ucd \<Rightarrow> regex \<times> string \<Rightarrow> ustr \<times> string list \<Rightarrow> ustr \<times> string list" where
  "redact_step U = (\<lambda>(pattern, label) (redacted, types).
     let repl = us (case map_of REDACTION_MASKS label of Some m \<Rightarrow> m | None \<Rightarrow> ''[REDACTED]'');
         (new_text, count) = subn U pii_flags pattern repl redacted
     in if 0 < count then (new_text, if label \<in> set types then types else types @ [label])
        else (redacted, types))"

definition redact :: "ucd \<Rightarrow> ustr \<Rightarrow> ustr \<times> string list" where
  "redact U inp = fold (redact_step U) PII_PATTERNS (inp, [])"

section \<open>Toxicity\<close>

definition score_from_ml :: "det_result \<Rightarrow> float64" where
  "score_from_ml ml =
     (if \<not> dr_triggered ml then 0 else if TOXICITY \<notin> set (dr_threats ml) then 0
      else round4 (min (dr_score ml) 1))"

definition detect_from_ml :: "det_result \<Rightarrow> det_result" where
  "detect_from_ml ml =
     (let score = score_from_ml ml in
      if score \<le> 0 then clean ''toxicity_detector''
      else \<lparr>dr_score = score, dr_threats = [TOXICITY], dr_triggered = True,
            dr_detector = ''toxicity_detector'', dr_details = Some (D_Toxicity ''ml_detector'' score),
            dr_failed = False\<rparr>)"

section \<open>Input guard\<close>

record input_guard_result =
  ig_text :: ustr
  ig_sanitized_text :: "ustr option"
  ig_pii_result :: det_result
  ig_toxicity_result :: det_result
  ig_redacted_types :: "string list"
  ig_was_sanitized :: bool
  ig_failed :: bool

definition ig_unsanitized :: "ustr \<Rightarrow> det_result \<Rightarrow> bool \<Rightarrow> input_guard_result" where
  "ig_unsanitized inp pii failed = \<lparr>ig_text = inp, ig_sanitized_text = None, ig_pii_result = pii,
     ig_toxicity_result = clean ''toxicity_detector'', ig_redacted_types = [],
     ig_was_sanitized = False, ig_failed = failed\<rparr>"

definition inspect_with :: "(ustr \<Rightarrow> det_result py) \<Rightarrow> (ustr \<Rightarrow> (ustr \<times> string list) py) \<Rightarrow> ustr \<Rightarrow> input_guard_result" where
  "inspect_with detect redactor inp =
     try_except
       (py_bind (detect inp) (\<lambda>pii_result.
          if dr_failed pii_result then Inr (ig_unsanitized inp pii_result True)
          else if \<not> dr_triggered pii_result then Inr (ig_unsanitized inp pii_result False)
          else py_bind (redactor inp) (\<lambda>(sanitized, redacted_types).
            Inr \<lparr>ig_text = inp, ig_sanitized_text = Some sanitized, ig_pii_result = pii_result,
                 ig_toxicity_result = clean ''toxicity_detector'', ig_redacted_types = redacted_types,
                 ig_was_sanitized = True, ig_failed = False\<rparr>)))
       (\<lambda>_. ig_unsanitized inp (clean ''input_guard'') True)"

definition input_guard :: "ucd \<Rightarrow> ustr \<Rightarrow> input_guard_result" where
  "input_guard U = inspect_with (\<lambda>t. Inr (pii_detect U t)) (\<lambda>t. Inr (redact U t))"

definition inspect_toxicity :: "(det_result \<Rightarrow> det_result py) \<Rightarrow> input_guard_result \<Rightarrow> det_result \<Rightarrow> input_guard_result" where
  "inspect_toxicity from_ml guard_result ml_result =
     (case from_ml ml_result of
        Inr toxicity_result \<Rightarrow>
          \<lparr>ig_text = ig_text guard_result, ig_sanitized_text = ig_sanitized_text guard_result,
           ig_pii_result = ig_pii_result guard_result, ig_toxicity_result = toxicity_result,
           ig_redacted_types = ig_redacted_types guard_result,
           ig_was_sanitized = ig_was_sanitized guard_result, ig_failed = ig_failed guard_result\<rparr>
      | Inl _ \<Rightarrow> guard_result\<lparr>ig_failed := True\<rparr>)"

section \<open>Output guard\<close>

record output_guard_result =
  og_text :: ustr
  og_sanitized_text :: "ustr option"
  og_was_sanitized :: bool
  og_redacted_types :: "string list"
  og_decision :: decision_type
  og_primary_reason :: string
  og_pii_score :: float64
  og_threats :: "string list"
  og_confidence :: float64
  og_failed :: bool

record output_settings =
  output_block_threshold :: float64
  output_sanitize_threshold :: float64

definition og_result :: "ustr \<Rightarrow> decision_type \<Rightarrow> string \<Rightarrow> float64 \<Rightarrow> string list \<Rightarrow> float64 \<Rightarrow> bool \<Rightarrow> output_guard_result" where
  "og_result inp decision reason score threats confidence failed =
     \<lparr>og_text = inp, og_sanitized_text = None, og_was_sanitized = False, og_redacted_types = [],
      og_decision = decision, og_primary_reason = reason, og_pii_score = score, og_threats = threats,
      og_confidence = confidence, og_failed = failed\<rparr>"

definition og_system_error :: "ustr \<Rightarrow> output_guard_result" where
  "og_system_error inp = og_result inp BLOCK ''SYSTEM_ERROR'' 0 [] 0 True"

definition output_inspect_with :: "output_settings \<Rightarrow> (ustr \<Rightarrow> det_result py) \<Rightarrow>
    (ustr \<Rightarrow> (ustr \<times> string list) py) \<Rightarrow> ustr \<Rightarrow> output_guard_result" where
  "output_inspect_with settings detect redactor inp =
     (if inp = [] then og_result inp ALLOW ''NO_THREAT_DETECTED'' 0 [] 1 False
      else try_except
        (py_bind (detect inp) (\<lambda>pii_result.
           let score = dr_score pii_result in
           if dr_failed pii_result then Inr (og_system_error inp)
           else if output_block_threshold settings \<le> score then
             Inr (og_result inp BLOCK ''PII_GUARDRAIL_BLOCK'' score (map threat_value (dr_threats pii_result)) score False)
           else if score < output_sanitize_threshold settings then
             Inr (og_result inp ALLOW ''NO_THREAT_DETECTED'' score [] (fsub 1 score) False)
           else py_bind (redactor inp) (\<lambda>(sanitized, redacted_types).
             Inr \<lparr>og_text = inp, og_sanitized_text = Some sanitized, og_was_sanitized = True,
                  og_redacted_types = redacted_types, og_decision = SANITIZE,
                  og_primary_reason = ''PII_GUARDRAIL_SANITIZE'', og_pii_score = score,
                  og_threats = redacted_types, og_confidence = score, og_failed = False\<rparr>)))
        (\<lambda>_. og_system_error inp))"

definition output_guard :: "ucd \<Rightarrow> output_settings \<Rightarrow> ustr \<Rightarrow> output_guard_result" where
  "output_guard U settings = output_inspect_with settings (\<lambda>t. Inr (pii_detect U t)) (\<lambda>t. Inr (redact U t))"

text \<open>\<^verbatim>\<open>inspect_bounded\<close>: \<open>run\<close> is the guard call under \<^verbatim>\<open>wait_for\<close>; only the timeout is caught here.\<close>

definition inspect_bounded :: "(ustr \<Rightarrow> output_guard_result py) \<Rightarrow> ustr \<Rightarrow> output_guard_result py" where
  "inspect_bounded run inp =
     (case run inp of Inl TimeoutError \<Rightarrow> Inr (og_system_error inp) | r \<Rightarrow> r)"

end
