(* ===== verification/Guardrail_Facts.thy ===== *)
theory Guardrail_Facts
  imports Guardrails
begin

text \<open>
  The guardrails' theorems. The locale \<open>pii_engine\<close> states what the guards rely on of the PII
  detector and redactor; it is interpreted on the modelled ones, and the guards' behaviour is
  derived from it.
\<close>

section \<open>Detection and redaction agree\<close>

lemma findall_from_empty:
  "findall_from U F r s i = [] \<longleftrightarrow> (\<forall>k. i \<le> k \<and> k \<le> length s \<longrightarrow> ends U F r s k = [])"
proof (induction U F r s i rule: findall_from.induct)
  case (1 U F r s i)
  show ?case
  proof (cases "length s < i")
    case True
    then show ?thesis by (auto simp: findall_from.simps)
  next
    case False
    show ?thesis
    proof (cases "ends U F r s i")
      case Nil
      with False 1(1) have "findall_from U F r s i = [] \<longleftrightarrow>
          (\<forall>k. Suc i \<le> k \<and> k \<le> length s \<longrightarrow> ends U F r s k = [])"
        by (simp add: findall_from.simps [of U F r s i])
      with Nil show ?thesis by (metis Suc_leI le_eq_less_or_eq Suc_leD)
    qed (use False in \<open>auto simp: findall_from.simps [of U F r s i]\<close>)
  qed
qed

lemma findall_search: "findall U F r s \<noteq> [] \<longleftrightarrow> search U F r s"
  unfolding findall_def findall_from_empty search_iff by auto

lemma add_new_empty: "add_new [] xs = [] \<longleftrightarrow> xs = []"
  by (metis empty_set set_add_new set_empty sup_bot.left_neutral)

lemma pii_found_set: "set (pii_found U s) = {l. \<exists>r. (r, l) \<in> set PII_PATTERNS \<and> search U pii_flags r s}"
  by (force simp: pii_found_def findall_search)

lemma pii_found_empty: "pii_found U s = [] \<longleftrightarrow> (\<forall>(r, l) \<in> set PII_PATTERNS. \<not> search U pii_flags r s)"
  by (auto simp: pii_found_def add_new_empty filter_empty_iff findall_search)

lemma redact_step_match:
  "search U pii_flags r s \<Longrightarrow> snd (redact_step U (r, l) (s, ts)) = (if l \<in> set ts then ts else ts @ [l])"
  "\<not> search U pii_flags r s \<Longrightarrow> redact_step U (r, l) (s, ts) = (s, ts)"
  using subn_match_iff [of U pii_flags r _ s]
  by (auto simp: redact_step_def Let_def case_prod_beta)

lemma redact_types_grow: "set (snd acc) \<subseteq> set (snd (fold (redact_step U) ps acc))"
proof (induction ps arbitrary: acc)
  case (Cons p ps)
  have "set (snd acc) \<subseteq> set (snd (redact_step U p acc))"
    by (auto simp: redact_step_def Let_def split: prod.splits)
  then show ?case using Cons [of "redact_step U p acc"] by auto
qed simp

lemma redact_none:
  "(\<forall>(r, l) \<in> set ps. \<not> search U pii_flags r s) \<Longrightarrow> fold (redact_step U) ps (s, ts) = (s, ts)"
  by (induction ps) (auto simp: redact_step_match)

lemma redact_some:
  "(r, l) \<in> set ps \<Longrightarrow> search U pii_flags r s \<Longrightarrow> snd (fold (redact_step U) ps (s, ts)) \<noteq> []"
proof (induction ps)
  case (Cons p ps)
  obtain r' l' where p: "p = (r', l')" by (cases p)
  show ?case
  proof (cases "search U pii_flags r' s")
    case True
    then have "snd (redact_step U p (s, ts)) \<noteq> []" using redact_step_match(1) p by auto
    moreover have "set (snd (redact_step U p (s, ts))) \<subseteq> set (snd (fold (redact_step U) (p # ps) (s, ts)))"
      using redact_types_grow [of "redact_step U p (s, ts)" U ps] by simp
    ultimately show ?thesis by auto
  next
    case False
    with Cons p show ?thesis by (auto simp: redact_step_match)
  qed
qed simp

lemma redact_types: "snd (redact U s) \<noteq> [] \<longleftrightarrow> pii_found U s \<noteq> []"
proof
  assume "pii_found U s \<noteq> []"
  then obtain r l where "(r, l) \<in> set PII_PATTERNS" "search U pii_flags r s"
    unfolding pii_found_empty by auto
  then show "snd (redact U s) \<noteq> []" unfolding redact_def by (rule redact_some)
next
  assume types: "snd (redact U s) \<noteq> []"
  show "pii_found U s \<noteq> []"
  proof
    assume "pii_found U s = []"
    then have "redact U s = (s, [])" unfolding redact_def pii_found_empty by (rule redact_none)
    with types show False by simp
  qed
qed

lemma redact_unchanged: "pii_found U s = [] \<Longrightarrow> redact U s = (s, [])"
  by (simp add: redact_def pii_found_empty redact_none)

lemma pii_scores: "round4 (pii_score (Suc n)) \<le> round4 (fl (95 / 100))" "fl (65 / 100) \<le> pii_score (Suc n)"
proof -
  show "round4 (pii_score (Suc n)) \<le> round4 (fl (95 / 100))"
    by (rule round4_mono) (simp add: pii_score_def PII_MAX_SCORE_def)
  have "0 \<le> fmul (of_int (int (Suc n) - 1)) PII_PER_MATCH"
    by (rule fmul_nonneg) (simp_all add: PII_PER_MATCH_def fl_nonneg)
  then have "fadd PII_BASE_SCORE 0 \<le> fadd PII_BASE_SCORE (fmul (of_int (int (Suc n) - 1)) PII_PER_MATCH)"
    by (intro fadd_mono) simp_all
  moreover have "fadd PII_BASE_SCORE 0 = fl (65 / 100)" by (simp add: fadd_def PII_BASE_SCORE_def)
  moreover have "fl (65 / 100) \<le> PII_MAX_SCORE" by (simp add: PII_MAX_SCORE_def fl_mono)
  ultimately show "fl (65 / 100) \<le> pii_score (Suc n)" by (simp add: pii_score_def)
qed

lemma pii_consts: "round4 (fl (65 / 100)) = fl (65 / 100)" "round4 (fl (95 / 100)) = fl (95 / 100)"
  "0 < fl (65 / 100)" "fl (95 / 100) < 1"
  by code_simp+

lemma pii_score_bounds:
  assumes "0 < n"
  shows "fl (65 / 100) \<le> round4 (pii_score n) \<and> round4 (pii_score n) \<le> fl (95 / 100)"
proof -
  obtain k where n: "n = Suc k" using assms gr0_conv_Suc by auto
  show ?thesis using pii_scores [of k] round4_mono [OF pii_scores(2) [of k]] by (simp only: n pii_consts)
qed

lemma pii_detect_wf: "det_wf (pii_detect U inp)" and pii_not_failed: "\<not> dr_failed (pii_detect U inp)"
  and pii_triggered: "dr_triggered (pii_detect U inp) \<longleftrightarrow> pii_found U (clamp_for_regex inp) \<noteq> []"
proof -
  have "0 < round4 (pii_score (length l)) \<and> round4 (pii_score (length l)) \<le> 1" if "l \<noteq> []" for l :: "string list"
    using pii_score_bounds [of "length l"] pii_consts(3,4) that by force
  then show "det_wf (pii_detect U inp)" by (auto simp: pii_detect_def det_wf_def clean_def Let_def less_le)
qed (auto simp: pii_detect_def clean_def Let_def)

interpretation pii: detector "pii_detect U"
  by unfold_locales (simp_all add: pii_detect_wf pii_not_failed)

section \<open>The engine behind the guards\<close>

text \<open>
  What the guards rely on: neither call raises, the detector does not fail, and on a text within
  the regex cap the redactor masks something exactly when the detector triggers.
\<close>

locale pii_engine =
  fixes detect :: "ustr \<Rightarrow> det_result" and redactor :: "ustr \<Rightarrow> ustr \<times> string list"
  assumes engine_ok: "det_wf (detect t)" "\<not> dr_failed (detect t)"
    and engine_agrees: "length t \<le> MAX_REGEX_INPUT_LENGTH \<Longrightarrow> dr_triggered (detect t) \<longleftrightarrow> snd (redactor t) \<noteq> []"
    and engine_keeps: "snd (redactor t) = [] \<Longrightarrow> fst (redactor t) = t"
begin

lemma guard_verdict:
  "\<not> ig_failed (inspect_with (\<lambda>t. Inr (detect t)) (\<lambda>t. Inr (redactor t)) t)
   \<and> ig_pii_result (inspect_with (\<lambda>t. Inr (detect t)) (\<lambda>t. Inr (redactor t)) t) = detect t
   \<and> ig_sanitized_text (inspect_with (\<lambda>t. Inr (detect t)) (\<lambda>t. Inr (redactor t)) t)
       = (if dr_triggered (detect t) then Some (fst (redactor t)) else None)"
  using engine_ok by (simp add: inspect_with_def ig_unsanitized_def case_prod_beta)

lemma guard_forwards_redacted:
  assumes "length t \<le> MAX_REGEX_INPUT_LENGTH"
  shows "if_none (ig_sanitized_text (inspect_with (\<lambda>t. Inr (detect t)) (\<lambda>t. Inr (redactor t)) t)) t = fst (redactor t)"
  using guard_verdict [of t] engine_agrees [OF assms] engine_keeps [of t] by (cases "dr_triggered (detect t)") auto

lemma output_not_failed:
  "\<not> og_failed (output_inspect_with settings (\<lambda>t. Inr (detect t)) (\<lambda>t. Inr (redactor t)) t)"
  using engine_ok by (simp add: output_inspect_with_def og_result_def Let_def case_prod_beta)

end

interpretation pii_eng: pii_engine "pii_detect U" "redact U"
proof
  fix t
  show "det_wf (pii_detect U t)" "\<not> dr_failed (pii_detect U t)"
    by (simp_all add: pii_detect_wf pii_not_failed)
  show "dr_triggered (pii_detect U t) \<longleftrightarrow> snd (redact U t) \<noteq> []" if "length t \<le> MAX_REGEX_INPUT_LENGTH"
    using that by (simp add: pii_triggered redact_types clamp_for_regex_def)
  show "fst (redact U t) = t" if "snd (redact U t) = []"
    using that redact_types [of U t] redact_unchanged [of U t] by simp
qed

definition has_pii :: "ucd \<Rightarrow> ustr \<Rightarrow> bool" where
  "has_pii U inp \<longleftrightarrow>
     (\<exists>r l i j. (r, l) \<in> set PII_PATTERNS \<and> i \<le> length inp \<and> (i, j) \<in> sem U pii_flags inp r)"

lemma has_pii_found: "has_pii U inp \<longleftrightarrow> pii_found U inp \<noteq> []"
proof -
  have "search U pii_flags r inp \<longleftrightarrow> (\<exists>i j. i \<le> length inp \<and> (i, j) \<in> sem U pii_flags inp r)"
    if "(r, l) \<in> set PII_PATTERNS" for r l
    using that pii_patterns_wf by (intro search_sem) (auto simp: list_all_iff)
  then show ?thesis unfolding has_pii_def pii_found_empty by blast
qed



text \<open>
  The input guard is fail-closed for every detector and redactor: it is flagged failed exactly
  when the detector raises or reports failure, or triggers and the redactor raises; a failed
  result carries no sanitized text, and attaching the toxicity signal never clears the flag and
  sets it when the derivation raises.
\<close>

theorem input_guard_fail_closed:
  "(ig_failed (inspect_with detect redactor inp) \<longleftrightarrow>
      (isl (detect inp) \<or> (\<exists>r. detect inp = Inr r \<and> (dr_failed r \<or> (dr_triggered r \<and> isl (redactor inp))))))
   \<and> (ig_failed (inspect_with detect redactor inp) \<longrightarrow> ig_sanitized_text (inspect_with detect redactor inp) = None)
   \<and> (ig_failed (inspect_toxicity from_ml g ml) \<longleftrightarrow> ig_failed g \<or> isl (from_ml ml))
   \<and> ig_sanitized_text (inspect_toxicity from_ml g ml) = ig_sanitized_text g
   \<and> ig_pii_result (inspect_toxicity from_ml g ml) = ig_pii_result g"
  by (auto simp: inspect_with_def inspect_toxicity_def py_bind_def try_except_def ig_unsanitized_def
      split: sum.splits)

theorem input_guard_fail_closed_witness:
  "ig_failed (inspect_with (\<lambda>_. Inl (OtherError ''re'')) (\<lambda>t. Inr (t, [])) (us ''hi''))
   \<and> ig_sanitized_text (inspect_with (\<lambda>_. Inl (OtherError ''re'')) (\<lambda>t. Inr (t, [])) (us ''hi'')) = None"
  using input_guard_fail_closed [of "\<lambda>_. Inl (OtherError ''re'')" "\<lambda>t. Inr (t, [])" "us ''hi''"] by auto

text \<open>
  What the output guard releases: for every threshold setting, detector and redactor, a
  non-empty response that is not blocked was scanned without failure and scored below the block
  threshold; an allowed one scored below the sanitize threshold, and a sanitized one is replaced by
  the redactor's output. A raising or failed detector, a raising redactor needed for sanitizing,
  and a timeout give BLOCK with SYSTEM_ERROR.
\<close>

theorem output_guard_releases:
  "inp \<noteq> [] \<Longrightarrow>
   (og_decision (output_inspect_with settings detect redactor inp) \<noteq> BLOCK \<longrightarrow>
      (\<exists>r. detect inp = Inr r \<and> \<not> dr_failed r \<and> dr_score r < output_block_threshold settings
         \<and> (og_decision (output_inspect_with settings detect redactor inp) = ALLOW \<longrightarrow> dr_score r < output_sanitize_threshold settings)
         \<and> (og_decision (output_inspect_with settings detect redactor inp) = SANITIZE \<longrightarrow>
              (\<exists>t types. redactor inp = Inr (t, types) \<and> og_sanitized_text (output_inspect_with settings detect redactor inp) = Some t))))
   \<and> (isl (detect inp) \<or> (\<exists>r. detect inp = Inr r \<and> dr_failed r) \<longrightarrow>
        output_inspect_with settings detect redactor inp = og_system_error inp)
   \<and> (og_failed (output_inspect_with settings detect redactor inp) \<longrightarrow> og_decision (output_inspect_with settings detect redactor inp) = BLOCK)
   \<and> inspect_bounded (\<lambda>_. Inl TimeoutError) inp = Inr (og_system_error inp)"
  by (auto simp: output_inspect_with_def inspect_bounded_def py_bind_def try_except_def og_result_def
      og_system_error_def Let_def split: sum.splits if_splits)

theorem output_guard_releases_witness:
  "output_inspect_with \<lparr>output_block_threshold = 1, output_sanitize_threshold = 1 / 2\<rparr>
      (\<lambda>_. Inr (failure ''pii_detector'')) (\<lambda>t. Inr (t, [])) (us ''hi'') = og_system_error (us ''hi'')"
  using output_guard_releases [of "us ''hi''" "\<lparr>output_block_threshold = 1, output_sanitize_threshold = 1 / 2\<rparr>"
      "\<lambda>_. Inr (failure ''pii_detector'')" "\<lambda>t. Inr (t, [])"] by simp

text \<open>
  The PII score: no label means a clean result; otherwise the score lies between 0.65 and
  0.95, does not decrease when more labels are found, every label has its own redaction mask, and
  text past the regex cap has no influence on the verdict.
\<close>

theorem pii_detect_score:
  "(pii_found U (clamp_for_regex inp) = [] \<longleftrightarrow> pii_detect U inp = clean ''pii_detector'')
   \<and> (pii_found U (clamp_for_regex inp) \<noteq> [] \<longrightarrow>
        fl (65 / 100) \<le> dr_score (pii_detect U inp) \<and> dr_score (pii_detect U inp) \<le> fl (95 / 100)
        \<and> dr_threats (pii_detect U inp) = [PII])
   \<and> (0 < m \<and> m \<le> n \<longrightarrow> pii_score m \<le> pii_score n)
   \<and> list_all (\<lambda>(_, l). map_of REDACTION_MASKS l \<noteq> None) PII_PATTERNS
   \<and> pii_detect U (take 65536 inp @ tail) = pii_detect U (take 65536 inp @ take (65536 - length inp) tail)"
proof (intro conjI impI)
  show "pii_score m \<le> pii_score n" if "0 < m \<and> m \<le> n"
  proof -
    have "(of_int (int m - 1) :: rat) \<le> of_int (int n - 1)" using that by simp
    moreover have "0 \<le> PII_PER_MATCH" by (simp add: PII_PER_MATCH_def fl_nonneg)
    ultimately show ?thesis
      unfolding pii_score_def by (intro min.mono fadd_mono fmul_mono order_refl)
  qed
  show "list_all (\<lambda>(_, l). map_of REDACTION_MASKS l \<noteq> None) PII_PATTERNS"
    using arg_cong [OF pii_labels(1), of set] by (force simp: list_all_iff map_of_eq_None_iff)
  show "pii_detect U (take 65536 inp @ tail) = pii_detect U (take 65536 inp @ take (65536 - length inp) tail)"
    by (simp add: pii_detect_def clamp_for_regex_def MAX_REGEX_INPUT_LENGTH_def min_def)
qed (use pii_score_bounds in \<open>auto simp: pii_detect_def clean_def Let_def\<close>)

theorem pii_detect_score_witness: "pii_score 1 \<le> pii_score 3"
  using pii_detect_score [of ascii_ucd "[]" 1 3 "[]"] by simp

end
