(* ===== verification/Scoring.thy ===== *)
theory Scoring
  imports Detection_Facts
begin

text \<open>
  Risk scoring (\<^verbatim>\<open>engine/scoring\<close>): the weighted score with its boost (\<^verbatim>\<open>risk_scorer.py\<close>), the
  confidence model (\<^verbatim>\<open>confidence.py\<close>) and the primary reason (\<^verbatim>\<open>primary_reason.py\<close>). All
  arithmetic is double arithmetic in the source's order. \<^verbatim>\<open>numpy.var\<close> is an argument.
\<close>

section \<open>Risk scorer\<close>

record scoring_result =
  sr_final_score :: risk_score
  sr_rule_score :: float64
  sr_ml_score :: float64
  sr_llm_score :: float64
  sr_pii_score :: float64
  sr_toxicity_score :: float64
  sr_threats :: "threat_category list"
  sr_boosted :: bool

definition WEIGHT_RULE :: float64 where "WEIGHT_RULE = fl (40 / 100)"
definition WEIGHT_ML :: float64 where "WEIGHT_ML = fl (30 / 100)"
definition WEIGHT_LLM :: float64 where "WEIGHT_LLM = fl (30 / 100)"
definition BOOST_THRESHOLD :: float64 where "BOOST_THRESHOLD = fl (5 / 10)"

definition weighted_score :: "float64 \<Rightarrow> float64 \<Rightarrow> float64 \<Rightarrow> float64" where
  "weighted_score rule ml llm =
     fadd (fadd (fmul rule WEIGHT_RULE) (fmul ml WEIGHT_ML)) (fmul llm WEIGHT_LLM)"

definition boosted_score :: "float64 \<Rightarrow> float64 \<Rightarrow> float64 \<Rightarrow> float64 \<times> bool" where
  "boosted_score rule ml llm =
     (let weighted = weighted_score rule ml llm; max_score = max (max rule ml) llm;
          (final, boosted) = (if BOOST_THRESHOLD \<le> max_score then (max weighted max_score, True) else (weighted, False))
      in (round4 (min final 1), boosted))"

definition collect_threats :: "det_result list \<Rightarrow> threat_category list" where
  "collect_threats rs = add_new [] (filter (\<lambda>t. t \<noteq> BENIGN) (concat (map dr_threats rs)))"

definition score :: "det_result \<Rightarrow> det_result \<Rightarrow> det_result \<Rightarrow> det_result \<Rightarrow> det_result option \<Rightarrow> scoring_result" where
  "score rule ml llm pii toxicity =
     (let (final, boosted) = boosted_score (dr_score rule) (dr_score ml) (dr_score llm);
          threats = collect_threats ([rule, ml, llm, pii]
            @ (case toxicity of Some t \<Rightarrow> if dr_triggered t then [t] else [] | None \<Rightarrow> []))
      in try_except
        (py_bind (mk_risk_score final) (\<lambda>fs. Inr
           \<lparr>sr_final_score = fs, sr_rule_score = dr_score rule, sr_ml_score = dr_score ml,
            sr_llm_score = dr_score llm, sr_pii_score = dr_score pii,
            sr_toxicity_score = (case toxicity of Some t \<Rightarrow> dr_score t | None \<Rightarrow> 0),
            sr_threats = threats, sr_boosted = boosted\<rparr>))
        (\<lambda>_. \<lparr>sr_final_score = RiskScore 1, sr_rule_score = 0, sr_ml_score = 0, sr_llm_score = 0,
              sr_pii_score = 0, sr_toxicity_score = 0, sr_threats = [], sr_boosted = False\<rparr>))"

section \<open>Confidence\<close>

definition detector_confidence :: "(float64 list \<Rightarrow> float64) \<Rightarrow> float64 \<Rightarrow> float64 \<Rightarrow> float64 \<Rightarrow> bool \<Rightarrow> bool \<Rightarrow> bool \<Rightarrow> float64" where
  "detector_confidence var rule ml llm rule_enabled ml_enabled llm_invoked =
     (let invoked = (if rule_enabled then [rule] else []) @ (if ml_enabled then [ml] else [])
                  @ (if llm_invoked then [llm] else []) in
      if length invoked \<le> 1 then 1
      else let confidence = fdiv 1 (fadd 1 (fmul (var invoked) 5));
               confidence = (if fl (8 / 10) \<le> fold max (tl invoked) (hd invoked)
                             then max confidence (fl (75 / 100)) else confidence)
           in round4 confidence)"

definition guardrail_confidence :: "float64 \<Rightarrow> float64 \<Rightarrow> float64 \<Rightarrow> float64" where
  "guardrail_confidence pii block_threshold sanitize_threshold =
     (if block_threshold \<le> pii
      then round4 (min (fadd (fl (90 / 100)) (fmul (fsub (min pii 1) block_threshold) (fl (5 / 100)))) (fl (95 / 100)))
      else if sanitize_threshold \<le> pii
      then round4 (min (fadd (fl (70 / 100)) (fmul (fsub pii sanitize_threshold) (fl (20 / 100)))) (fl (84 / 100)))
      else 0)"

definition get_confidence_band :: "float64 \<Rightarrow> string" where
  "get_confidence_band c = (if fl (7 / 10) \<le> c then ''HIGH'' else if fl (4 / 10) \<le> c then ''MEDIUM'' else ''LOW'')"

record confidence_args =
  ca_rule_score :: float64
  ca_ml_score :: float64
  ca_llm_score :: float64
  ca_pii_score :: float64
  ca_rule_enabled :: bool
  ca_ml_enabled :: bool
  ca_llm_invoked :: bool
  ca_pii_guardrail_triggered :: bool
  ca_block_threshold :: float64
  ca_sanitize_threshold :: float64
  ca_toxicity_score :: float64
  ca_toxicity_guardrail_triggered :: bool
  ca_toxicity_block_threshold :: "float64 option"

definition compute_confidence :: "(float64 list \<Rightarrow> float64) \<Rightarrow> confidence_args \<Rightarrow> float64 \<times> string" where
  "compute_confidence var a =
     (let confidence =
        (if ca_pii_guardrail_triggered a
         then guardrail_confidence (ca_pii_score a) (ca_block_threshold a) (ca_sanitize_threshold a)
         else if ca_toxicity_guardrail_triggered a
         then let tbt = if_none (ca_toxicity_block_threshold a) (ca_block_threshold a)
              in guardrail_confidence (ca_toxicity_score a) tbt tbt
         else detector_confidence var (ca_rule_score a) (ca_ml_score a) (ca_llm_score a)
                (ca_rule_enabled a) (ca_ml_enabled a) (ca_llm_invoked a));
          confidence = round4 (min confidence 1)
      in (confidence, get_confidence_band confidence))"

section \<open>Primary reason\<close>

definition compute_primary_reason :: "bool \<Rightarrow> float64 \<Rightarrow> float64 \<Rightarrow> float64 \<Rightarrow> float64 \<Rightarrow> float64 \<Rightarrow> bool \<Rightarrow> bool \<Rightarrow> string" where
  "compute_primary_reason guardrail_triggered rule ml llm pii block_threshold detection_failed toxicity_triggered =
     (if detection_failed then ''SYSTEM_ERROR''
      else if guardrail_triggered then
        (if block_threshold \<le> pii then ''PII_GUARDRAIL_BLOCK'' else ''PII_GUARDRAIL_SANITIZE'')
      else if toxicity_triggered then ''TOXICITY_GUARDRAIL_BLOCK''
      else if max (max rule ml) llm \<le> 0 then ''NO_THREAT_DETECTED''
      else if ml \<le> rule \<and> llm \<le> rule then ''RULE_DETECTOR''
      else if llm \<le> ml then ''ML_DETECTOR'' else ''LLM_DETECTOR'')"

section \<open>Facts\<close>

lemma weighted_nonneg: "0 \<le> r \<Longrightarrow> 0 \<le> m \<Longrightarrow> 0 \<le> l \<Longrightarrow> 0 \<le> weighted_score r m l"
  unfolding weighted_score_def WEIGHT_RULE_def WEIGHT_ML_def WEIGHT_LLM_def
  by (intro fadd_nonneg fmul_nonneg fl_nonneg) simp_all

lemma weighted_mono:
  "r \<le> r' \<Longrightarrow> m \<le> m' \<Longrightarrow> l \<le> l' \<Longrightarrow> weighted_score r m l \<le> weighted_score r' m' l'"
  unfolding weighted_score_def WEIGHT_RULE_def WEIGHT_ML_def WEIGHT_LLM_def
  by (intro fadd_mono fmul_mono fl_nonneg) simp_all

lemma boosted_score_fst:
  "fst (boosted_score r m l) = round4 (min (if BOOST_THRESHOLD \<le> max (max r m) l
     then max (weighted_score r m l) (max (max r m) l) else weighted_score r m l) 1)"
  by (simp add: boosted_score_def Let_def)

lemma boosted_mono:
  assumes "r \<le> r'" and "m \<le> m'" and "l \<le> l'"
  shows "fst (boosted_score r m l) \<le> fst (boosted_score r' m' l')"
proof -
  have w: "weighted_score r m l \<le> weighted_score r' m' l'" by (rule weighted_mono [OF assms])
  have x: "max (max r m) l \<le> max (max r' m') l'" using assms by (auto simp: le_max_iff_disj)
  let ?pre = "\<lambda>w x. if BOOST_THRESHOLD \<le> x then max w x else w"
  have "?pre (weighted_score r m l) (max (max r m) l) \<le> ?pre (weighted_score r' m' l') (max (max r' m') l')"
    using w x by (cases "BOOST_THRESHOLD \<le> max (max r m) l"; cases "BOOST_THRESHOLD \<le> max (max r' m') l'")
      (simp_all only: if_True if_False max.mono le_max_iff_disj simp_thms, linarith+)
  then have "round4 (min (?pre (weighted_score r m l) (max (max r m) l)) 1)
      \<le> round4 (min (?pre (weighted_score r' m' l') (max (max r' m') l')) 1)"
    by (intro round4_mono min.mono order_refl)
  then show ?thesis by (simp only: boosted_score_fst)
qed

lemma boosted_range:
  assumes "0 \<le> r" and "0 \<le> m" and "0 \<le> l"
  shows "0 \<le> fst (boosted_score r m l) \<and> fst (boosted_score r m l) \<le> 1"
  unfolding boosted_score_fst using weighted_nonneg [OF assms] assms
  by (intro conjI round4_nonneg round4_le_1) (simp_all add: le_max_iff_disj)

lemma boosted_round4:
  assumes "0 \<le> r" and "0 \<le> m" and "0 \<le> l"
  shows "round4 (fst (boosted_score r m l)) = fst (boosted_score r m l)"
proof -
  have "\<exists>x. 0 \<le> x \<and> x \<le> 1 \<and> fst (boosted_score r m l) = round4 x"
    unfolding boosted_score_fst using weighted_nonneg [OF assms] assms
    by (intro exI conjI refl) (simp_all add: le_max_iff_disj)
  then show ?thesis using round4_round4 by auto
qed

lemma score_final:
  assumes "det_wf rule" and "det_wf ml" and "det_wf llm"
  shows "sr_final_score (score rule ml llm pii tox) = RiskScore (fst (boosted_score (dr_score rule) (dr_score ml) (dr_score llm)))"
proof -
  have nn: "0 \<le> dr_score rule" "0 \<le> dr_score ml" "0 \<le> dr_score llm" using assms by (auto simp: det_wf_def)
  have "mk_risk_score (fst (boosted_score (dr_score rule) (dr_score ml) (dr_score llm)))
      = Inr (RiskScore (fst (boosted_score (dr_score rule) (dr_score ml) (dr_score llm))))"
    using boosted_range [OF nn] boosted_round4 [OF nn] by (simp add: mk_risk_score_def)
  then show ?thesis by (simp add: score_def Let_def case_prod_beta)
qed

text \<open>
  The risk score for detector results that meet the contract: it lies in the unit interval,
  PII and toxicity results do not influence it, raising any detector's score never lowers it, and
  a strong signal is never diluted: when some detector scores at least 0.5, the final score is at
  least the largest detector score (rounded to four places).
\<close>

theorem risk_score_not_diluted:
  assumes "det_wf rule" and "det_wf ml" and "det_wf llm"
    and "det_wf rule'" and "det_wf ml'" and "det_wf llm'"
    and "dr_score rule \<le> dr_score rule'" and "dr_score ml \<le> dr_score ml'" and "dr_score llm \<le> dr_score llm'"
  shows "0 \<le> rs_value (sr_final_score (score rule ml llm pii tox))
    \<and> rs_value (sr_final_score (score rule ml llm pii tox)) \<le> 1
    \<and> sr_final_score (score rule ml llm pii tox) = sr_final_score (score rule ml llm pii' tox')
    \<and> rs_value (sr_final_score (score rule ml llm pii tox)) \<le> rs_value (sr_final_score (score rule' ml' llm' pii tox))
    \<and> (fl (5 / 10) \<le> max (max (dr_score rule) (dr_score ml)) (dr_score llm) \<longrightarrow>
        round4 (max (max (dr_score rule) (dr_score ml)) (dr_score llm)) \<le> rs_value (sr_final_score (score rule ml llm pii tox)))"
proof -
  let ?r = "dr_score rule" and ?m = "dr_score ml" and ?l = "dr_score llm"
  have nn: "0 \<le> ?r" "0 \<le> ?m" "0 \<le> ?l" and "?r \<le> 1" "?m \<le> 1" "?l \<le> 1" using assms by (auto simp: det_wf_def)
  then have "round4 (max (max ?r ?m) ?l) \<le> fst (boosted_score ?r ?m ?l)" if "fl (5 / 10) \<le> max (max ?r ?m) ?l"
    unfolding boosted_score_fst using that
    by (intro round4_mono) (simp add: BOOST_THRESHOLD_def)
  then show ?thesis
    using score_final [OF assms(1-3)] score_final [OF assms(4-6)] boosted_range [OF nn] boosted_mono [OF assms(7-9)]
    by simp
qed

definition demo_hit :: "float64 \<Rightarrow> det_result" where
  "demo_hit s = \<lparr>dr_score = s, dr_threats = [JAILBREAK], dr_triggered = True, dr_detector = ''d'',
     dr_details = None, dr_failed = False\<rparr>"

theorem risk_score_not_diluted_witness:
  "round4 (fl (88 / 100)) \<le> rs_value (sr_final_score (score (demo_hit (fl (88 / 100))) (clean ''ml'') (clean ''llm'') (clean ''pii'') None))"
proof -
  have v: "0 < fl (88 / 100)" "fl (88 / 100) \<le> 1" "fl (5 / 10) \<le> fl (88 / 100)" "max (max (fl (88 / 100)) 0) 0 = fl (88 / 100)"
    by code_simp+
  then have wf: "det_wf (demo_hit (fl (88 / 100)))" by (simp add: det_wf_def demo_hit_def)
  show ?thesis
    using risk_score_not_diluted [of "demo_hit (fl (88 / 100))" "clean ''ml''" "clean ''llm''" "demo_hit (fl (88 / 100))"
        "clean ''ml''" "clean ''llm''" "clean ''pii''" None "clean ''pii''" None] v wf
    by (simp add: demo_hit_def)
qed

lemma set_collect: "set (collect_threats rs) = (\<Union>r\<in>set rs. set (dr_threats r)) - {BENIGN}"
  and distinct_collect: "distinct (collect_threats rs)"
  by (auto simp: collect_threats_def)

text \<open>
  Scoring fails closed for arbitrary inputs: the final score is always a number of the unit
  interval, and when the computed score is not one (a detector with a score out of range) the
  result is 1.0 with no layer scores, which every threshold up to 1.0 blocks; otherwise the threats
  are exactly those of all layers, BENIGN excluded and without repetition, the toxicity threats
  counting only when toxicity triggered.
\<close>

theorem scoring_fails_closed:
  "0 \<le> rs_value (sr_final_score (score rule ml llm pii tox)) \<and> rs_value (sr_final_score (score rule ml llm pii tox)) \<le> 1
   \<and> (let f = fst (boosted_score (dr_score rule) (dr_score ml) (dr_score llm)) in
        (if 0 \<le> f \<and> f \<le> 1
         then set (sr_threats (score rule ml llm pii tox)) = (set (dr_threats rule) \<union> set (dr_threats ml) \<union> set (dr_threats llm)
               \<union> set (dr_threats pii) \<union> (case tox of Some t \<Rightarrow> if dr_triggered t then set (dr_threats t) else {} | None \<Rightarrow> {})) - {BENIGN}
             \<and> distinct (sr_threats (score rule ml llm pii tox))
         else sr_final_score (score rule ml llm pii tox) = RiskScore 1 \<and> sr_threats (score rule ml llm pii tox) = []))"
proof -
  let ?f = "fst (boosted_score (dr_score rule) (dr_score ml) (dr_score llm))"
  show ?thesis
  proof (cases "0 \<le> ?f \<and> ?f \<le> 1")
    case True
    then have "mk_risk_score ?f = Inr (RiskScore (round4 ?f))" "0 \<le> round4 ?f" "round4 ?f \<le> 1"
      by (simp_all add: mk_risk_score_def round4_nonneg round4_le_1)
    with True show ?thesis
      by (auto simp: score_def Let_def case_prod_beta set_collect distinct_collect split: option.splits)
  next
    case False
    then have "mk_risk_score ?f = Inl ValueError" by (auto simp: mk_risk_score_def)
    then show ?thesis using False by (auto simp: score_def Let_def case_prod_beta)
  qed
qed

lemma confidence_consts: "round4 (fl (70 / 100)) = fl (7 / 10)" "fl (7 / 10) \<le> fl (84 / 100)" "fl (84 / 100) \<le> 1"
  "fl (7 / 10) \<le> fl (90 / 100)" "fl (90 / 100) \<le> fl (95 / 100)" "fl (95 / 100) \<le> 1"
  "round4 (fl (7 / 10)) = fl (7 / 10)" "0 \<le> fl (7 / 10)" "fl (75 / 100) \<le> 1" "round4 (fl (90 / 100)) = fl (90 / 100)"
  by code_simp+

lemma confidence_seventy: "fl (70 / 100) = fl (7 / 10)"
  by (rule arg_cong [where f = fl]) simp

lemma fadd_ge: "0 \<le> x \<Longrightarrow> fl a \<le> fadd (fl a) x"
  using fadd_mono [of "fl a" "fl a" 0 x] by (simp add: fadd_def)

lemma fsub_nonneg: "b \<le> a \<Longrightarrow> 0 \<le> fsub a b"
  by (simp add: fsub_def fl_nonneg)

lemma guardrail_confidence_high:
  assumes "st \<le> p" and "p \<le> 1"
  shows "fl (7 / 10) \<le> guardrail_confidence p bt st \<and> guardrail_confidence p bt st \<le> 1"
proof -
  have b: "fl (90 / 100) \<le> fadd (fl (90 / 100)) (fmul (fsub (min p 1) bt) (fl (5 / 100)))" if "bt \<le> p"
    using that assms by (intro fadd_ge fmul_nonneg fsub_nonneg fl_nonneg) auto
  have s: "fl (7 / 10) \<le> fadd (fl (7 / 10)) (fmul (fsub p st) (fl (20 / 100)))"
    using assms by (intro fadd_ge fmul_nonneg fsub_nonneg fl_nonneg) auto
  have "fl (7 / 10) \<le> round4 (min x y)" if "fl (7 / 10) \<le> x" "fl (7 / 10) \<le> y" for x y
    using round4_mono [of "fl (7 / 10)" "min x y"] that confidence_consts(7) by simp
  moreover have "round4 (min x y) \<le> 1" if "y \<le> 1" for x y
    using that by (intro round4_le_1) (simp add: min.coboundedI2)
  moreover note order_trans [OF confidence_consts(4) b] order_trans [OF confidence_consts(4,5)] confidence_consts(2,3,6)
  ultimately show ?thesis
    using s assms(1) unfolding guardrail_confidence_def confidence_seventy by (cases "bt \<le> p") simp_all
qed

lemma detector_confidence_range:
  assumes "\<And>xs. 0 \<le> var xs"
  shows "0 \<le> detector_confidence var r m l re me li \<and> detector_confidence var r m l re me li \<le> 1"
proof -
  have "0 \<le> fdiv 1 (fadd 1 (fmul (var xs) 5)) \<and> fdiv 1 (fadd 1 (fmul (var xs) 5)) \<le> 1" for xs
  proof -
    have "1 \<le> fadd 1 (fmul (var xs) 5)"
      using fadd_ge [of "fmul (var xs) 5" 1] fmul_nonneg [OF assms, of 5 xs] by simp
    then show ?thesis unfolding fdiv_def by (auto intro: fl_nonneg fl_le_1)
  qed
  then show ?thesis using confidence_consts(9)
    by (auto simp: detector_confidence_def Let_def intro!: round4_nonneg round4_le_1 simp: le_max_iff_disj)
qed

text \<open>
  The confidence, for a non-negative variance and guardrail scores of the unit interval with
  non-negative thresholds: it lies in the unit interval, the band is the one of the value, and a
  triggered guardrail whose score reaches its threshold always reports the HIGH band.
\<close>

theorem confidence_bounds:
  assumes "\<And>xs. 0 \<le> var xs" and "0 \<le> ca_pii_score a" "ca_pii_score a \<le> 1" and "0 \<le> ca_toxicity_score a" "ca_toxicity_score a \<le> 1"
  shows "0 \<le> fst (compute_confidence var a) \<and> fst (compute_confidence var a) \<le> 1
    \<and> snd (compute_confidence var a) = get_confidence_band (fst (compute_confidence var a))
    \<and> (ca_pii_guardrail_triggered a \<and> ca_sanitize_threshold a \<le> ca_pii_score a \<longrightarrow> snd (compute_confidence var a) = ''HIGH'')
    \<and> (\<not> ca_pii_guardrail_triggered a \<and> ca_toxicity_guardrail_triggered a
         \<and> if_none (ca_toxicity_block_threshold a) (ca_block_threshold a) \<le> ca_toxicity_score a \<longrightarrow>
         snd (compute_confidence var a) = ''HIGH'')"
proof -
  have g: "0 \<le> guardrail_confidence p bt st" if "p \<le> 1" for p bt st
  proof (cases "st \<le> p")
    case True
    then show ?thesis using guardrail_confidence_high [OF True that, of bt] confidence_consts(8) by linarith
  next
    case False
    have "0 \<le> fadd (fl (90 / 100)) (fmul (fsub (min p 1) bt) (fl (5 / 100)))" if "bt \<le> p"
      using that \<open>p \<le> 1\<close> by (intro fadd_nonneg fmul_nonneg fsub_nonneg fl_nonneg) auto
    then show ?thesis using False by (auto simp: guardrail_confidence_def intro!: round4_nonneg fl_nonneg)
  qed
  have high: "get_confidence_band (round4 (min (guardrail_confidence p bt st) 1)) = ''HIGH''" if "st \<le> p" "p \<le> 1" for p bt st
  proof -
    have "fl (7 / 10) \<le> min (guardrail_confidence p bt st) 1"
      using guardrail_confidence_high [OF that, of bt] by simp
    from round4_mono [OF this] show ?thesis by (simp add: get_confidence_band_def confidence_consts(7))
  qed
  show ?thesis
    using g [OF assms(3)] g [OF assms(5)] detector_confidence_range [OF assms(1)] high [OF _ assms(3)] high [OF _ assms(5)]
    by (auto simp: compute_confidence_def Let_def intro!: round4_nonneg round4_le_1)
qed

definition demo_args :: confidence_args where
  "demo_args = \<lparr>ca_rule_score = 0, ca_ml_score = 0, ca_llm_score = 0, ca_pii_score = fl (65 / 100),
     ca_rule_enabled = True, ca_ml_enabled = True, ca_llm_invoked = False, ca_pii_guardrail_triggered = True,
     ca_block_threshold = fl (7 / 10), ca_sanitize_threshold = fl (4 / 10), ca_toxicity_score = 0,
     ca_toxicity_guardrail_triggered = False, ca_toxicity_block_threshold = None\<rparr>"

theorem confidence_bounds_witness: "snd (compute_confidence (\<lambda>_. 0) demo_args) = ''HIGH''"
proof -
  have c: "fl (4 / 10) \<le> fl (65 / 100)" "0 \<le> fl (65 / 100)" "fl (65 / 100) \<le> 1" by code_simp+
  have "ca_pii_guardrail_triggered demo_args \<and> ca_sanitize_threshold demo_args \<le> ca_pii_score demo_args \<longrightarrow>
      snd (compute_confidence (\<lambda>_. 0) demo_args) = ''HIGH''"
    by (rule confidence_bounds [THEN conjunct2, THEN conjunct2, THEN conjunct2, THEN conjunct1])
      (use c in \<open>simp_all add: demo_args_def\<close>)
  then show ?thesis using c by (simp add: demo_args_def)
qed

end
