(* ===== verification/Policy.thy ===== *)
theory Policy
  imports Domain
begin

text \<open>
  The policy layer (\<^verbatim>\<open>engine/policy\<close>, \<^verbatim>\<open>engine/provenance\<close>): the policy rules, the guardrail-first
  decision, the registry of input sources and the posture that shifts the thresholds for
  untrusted sources. Settings are arguments.
\<close>

section \<open>Rules\<close>

record policy_rules =
  pr_block_threshold :: float64
  pr_sanitize_threshold :: float64
  pr_llm_trigger_threshold :: float64

definition should_block :: "policy_rules \<Rightarrow> float64 \<Rightarrow> bool" where
  "should_block r s \<longleftrightarrow> pr_block_threshold r \<le> s"

definition should_sanitize :: "policy_rules \<Rightarrow> float64 \<Rightarrow> bool" where
  "should_sanitize r s \<longleftrightarrow> pr_sanitize_threshold r \<le> s \<and> s < pr_block_threshold r"

definition should_allow :: "policy_rules \<Rightarrow> float64 \<Rightarrow> bool" where
  "should_allow r s \<longleftrightarrow> s < pr_sanitize_threshold r"

definition should_invoke_llm :: "policy_rules \<Rightarrow> float64 \<Rightarrow> bool" where
  "should_invoke_llm r s \<longleftrightarrow> pr_llm_trigger_threshold r \<le> s"

definition validate_rules :: "policy_rules \<Rightarrow> policy_rules py" where
  "validate_rules r = (if pr_block_threshold r \<le> pr_sanitize_threshold r then Inl ValueError else Inr r)"

section \<open>Decision\<close>

record thresholds =
  th_block :: "float64 option"
  th_sanitize :: "float64 option"
  th_pii_block :: "float64 option"
  th_pii_sanitize :: "float64 option"
  th_toxicity_block :: "float64 option"

definition decide :: "policy_rules \<Rightarrow> thresholds \<Rightarrow> float64 \<Rightarrow> float64 \<Rightarrow> float64 \<Rightarrow> decision_type" where
  "decide rules th score pii_score toxicity_score =
     (let bt = if_none (th_block th) (pr_block_threshold rules);
          st = if_none (th_sanitize th) (pr_sanitize_threshold rules);
          pii_bt = if_none (th_pii_block th) bt;
          pii_st = if_none (th_pii_sanitize th) st;
          tox_bt = if_none (th_toxicity_block th) bt
      in if pii_bt \<le> pii_score then BLOCK
         else if pii_st \<le> pii_score then SANITIZE
         else if tox_bt \<le> toxicity_score then BLOCK
         else if bt \<le> score then BLOCK
         else if st \<le> score then SANITIZE
         else ALLOW)"

definition update_rules :: "policy_rules \<Rightarrow> policy_rules \<Rightarrow> policy_rules py" where
  "update_rules old new = validate_rules new"

section \<open>Source registry and posture\<close>

datatype trust_tier = TRUSTED | UNTRUSTED | UNKNOWN

fun tier_value :: "trust_tier \<Rightarrow> string" where
  "tier_value TRUSTED = ''trusted''"
| "tier_value UNTRUSTED = ''untrusted''"
| "tier_value UNKNOWN = ''unknown''"

record source_descriptor =
  sd_input_source :: ustr
  sd_tier :: trust_tier

record source_registry =
  sg_trusted :: "ustr set"
  sg_untrusted :: "ustr set"
  sg_treat_unknown_as_untrusted :: bool

definition mk_registry :: "ucd \<Rightarrow> ustr list \<Rightarrow> ustr list \<Rightarrow> bool \<Rightarrow> source_registry" where
  "mk_registry U trusted untrusted treat_unknown =
     \<lparr>sg_trusted = set (map (\<lambda>s. u_str_lower U (strip s)) trusted),
      sg_untrusted = set (map (\<lambda>s. u_str_lower U (strip s)) untrusted),
      sg_treat_unknown_as_untrusted = treat_unknown\<rparr>"

definition resolve_source :: "ucd \<Rightarrow> source_registry \<Rightarrow> ustr option \<Rightarrow> source_descriptor" where
  "resolve_source U reg input_source =
     (let key = u_str_lower U (strip (str_or input_source (us ''user_prompt''))) in
      \<lparr>sd_input_source = key,
       sd_tier = (if key \<in> sg_untrusted reg then UNTRUSTED
                  else if key \<in> sg_trusted reg then TRUSTED
                  else if sg_treat_unknown_as_untrusted reg then UNTRUSTED else UNKNOWN)\<rparr>)"

record posture =
  po_dimension :: string
  po_tier :: string
  po_threshold_delta :: float64

definition resolve_source_posture :: "source_descriptor \<Rightarrow> float64 \<Rightarrow> posture" where
  "resolve_source_posture d untrusted_delta =
     \<lparr>po_dimension = ''source'', po_tier = tier_value (sd_tier d),
      po_threshold_delta = (if sd_tier d = UNTRUSTED then untrusted_delta else 0)\<rparr>"

record effective_thresholds =
  et_block :: float64
  et_sanitize :: float64

definition apply_posture :: "float64 \<Rightarrow> float64 \<Rightarrow> posture \<Rightarrow> effective_thresholds" where
  "apply_posture block_threshold sanitize_threshold p =
     (let delta = max 0 (po_threshold_delta p) in
      if delta = 0 then \<lparr>et_block = block_threshold, et_sanitize = sanitize_threshold\<rparr>
      else \<lparr>et_block = max 0 (fsub block_threshold delta), et_sanitize = max 0 (fsub sanitize_threshold delta)\<rparr>)"

section \<open>Facts\<close>

text \<open>
  The decision is guardrail first, on every branch: a PII score at its block threshold
  blocks, one at its sanitize threshold sanitizes whatever the other scores are, else toxicity at
  its threshold blocks, else the risk score decides; an absent guardrail threshold falls back to
  the detection threshold of the same tier, an absent detection threshold to the rules.
\<close>

theorem decide_table:
  "let bt = if_none (th_block th) (pr_block_threshold rules); st = if_none (th_sanitize th) (pr_sanitize_threshold rules);
       pbt = if_none (th_pii_block th) bt; pst = if_none (th_pii_sanitize th) st; tbt = if_none (th_toxicity_block th) bt
   in (decide rules th s p x = BLOCK \<longleftrightarrow> pbt \<le> p \<or> (p < pst \<and> (tbt \<le> x \<or> bt \<le> s)))
    \<and> (decide rules th s p x = SANITIZE \<longleftrightarrow> p < pbt \<and> (pst \<le> p \<or> (x < tbt \<and> s < bt \<and> st \<le> s)))
    \<and> (decide rules th s p x = ALLOW \<longleftrightarrow> p < pbt \<and> p < pst \<and> x < tbt \<and> s < bt \<and> s < st)"
  by (auto simp: decide_def Let_def)

text \<open>
  The decision is monotone in the risk: with the sanitize threshold at or below the block
  threshold, raising the risk score or the toxicity score never makes the decision more
  permissive (ALLOW < SANITIZE < BLOCK), whatever the PII score is.
\<close>

theorem decide_monotone:
  assumes "if_none (th_sanitize th) (pr_sanitize_threshold rules) \<le> if_none (th_block th) (pr_block_threshold rules)"
    and "s \<le> s'" and "x \<le> x'"
  shows "decide rules th s p x \<le> decide rules th s' p x'"
  using assms by (auto simp: decide_def Let_def)

definition demo_rules :: policy_rules where
  "demo_rules = \<lparr>pr_block_threshold = 3 / 4, pr_sanitize_threshold = 1 / 2, pr_llm_trigger_threshold = 1 / 4\<rparr>"

definition demo_thresholds :: thresholds where
  "demo_thresholds = \<lparr>th_block = None, th_sanitize = None, th_pii_block = Some (3 / 4), th_pii_sanitize = Some (1 / 2),
     th_toxicity_block = None\<rparr>"

theorem decide_monotone_witness:
  "decide demo_rules demo_thresholds (1 / 2) 0 0 \<le> decide demo_rules demo_thresholds 1 0 0"
  by (rule decide_monotone) (simp_all add: demo_rules_def demo_thresholds_def)

lemma apply_posture_sub:
  assumes "0 < po_threshold_delta p"
  shows "apply_posture bt st p = \<lparr>et_block = max 0 (fsub bt (po_threshold_delta p)), et_sanitize = max 0 (fsub st (po_threshold_delta p))\<rparr>"
  using assms by (simp add: apply_posture_def Let_def)

lemma apply_posture_bounds:
  assumes "fl bt = bt" and "fl st = st" and "0 \<le> st" and "st \<le> bt"
  shows "et_block (apply_posture bt st p) \<le> bt \<and> et_sanitize (apply_posture bt st p) \<le> st
    \<and> 0 \<le> et_sanitize (apply_posture bt st p) \<and> et_sanitize (apply_posture bt st p) \<le> et_block (apply_posture bt st p)"
proof (cases "0 < po_threshold_delta p")
  case True
  then have "fsub bt (po_threshold_delta p) \<le> bt" "fsub st (po_threshold_delta p) \<le> st"
    "fsub st (po_threshold_delta p) \<le> fsub bt (po_threshold_delta p)"
    using assms by (simp_all add: fsub_le fsub_mono)
  with True assms show ?thesis by (auto simp: apply_posture_sub)
qed (use assms in \<open>simp add: apply_posture_def Let_def\<close>)

lemma posture_tighter:
  assumes "fl bt = bt" and "fl st = st" and "0 \<le> st" and "st \<le> bt"
  shows "decide rules \<lparr>th_block = Some bt, th_sanitize = Some st, th_pii_block = Some pb, th_pii_sanitize = Some ps, th_toxicity_block = tb\<rparr> s p x
      \<le> decide rules \<lparr>th_block = Some (et_block (apply_posture bt st q)), th_sanitize = Some (et_sanitize (apply_posture bt st q)),
          th_pii_block = Some pb, th_pii_sanitize = Some ps, th_toxicity_block = tb\<rparr> s p x"
  using apply_posture_bounds [OF assms, of q] by (cases tb) (auto simp: decide_def Let_def)

text \<open>
  The posture only ever tightens: for double thresholds with sanitize at or below block it
  keeps both thresholds non-negative, at or below the base values and in order, it is the
  identity for a trusted or unknown source or a non-positive delta, and with explicit PII
  thresholds the decision taken under the shifted thresholds is never more permissive than the
  one under the base thresholds.
\<close>

theorem posture_only_tightens:
  assumes "fl bt = bt" and "fl st = st" and "0 \<le> st" and "st \<le> bt"
    and "e = apply_posture bt st (resolve_source_posture d delta)"
  shows "et_block e \<le> bt \<and> et_sanitize e \<le> st \<and> 0 \<le> et_sanitize e \<and> et_sanitize e \<le> et_block e
    \<and> (sd_tier d \<noteq> UNTRUSTED \<or> delta \<le> 0 \<longrightarrow> et_block e = bt \<and> et_sanitize e = st)
    \<and> decide rules \<lparr>th_block = Some bt, th_sanitize = Some st, th_pii_block = Some pb, th_pii_sanitize = Some ps, th_toxicity_block = tb\<rparr> s p x
      \<le> decide rules \<lparr>th_block = Some (et_block e), th_sanitize = Some (et_sanitize e), th_pii_block = Some pb, th_pii_sanitize = Some ps, th_toxicity_block = tb\<rparr> s p x"
proof -
  have b: "et_block e \<le> bt \<and> et_sanitize e \<le> st \<and> 0 \<le> et_sanitize e \<and> et_sanitize e \<le> et_block e"
    unfolding assms(5) by (rule apply_posture_bounds [OF assms(1-4)])
  moreover have "sd_tier d \<noteq> UNTRUSTED \<or> delta \<le> 0 \<longrightarrow> et_block e = bt \<and> et_sanitize e = st"
    by (auto simp: assms(5) apply_posture_def resolve_source_posture_def Let_def)
  moreover note posture_tighter [OF assms(1-4), of rules pb ps tb s p x "resolve_source_posture d delta", folded assms(5)]
  ultimately show ?thesis by simp
qed

lemma demo_floats: "fl (3 / 4) = 3 / 4" "fl (1 / 2) = 1 / 2"
  by code_simp+

theorem posture_only_tightens_witness:
  "et_block (apply_posture (3 / 4) (1 / 2) (resolve_source_posture \<lparr>sd_input_source = us ''tool_output'', sd_tier = UNTRUSTED\<rparr> (1 / 4))) \<le> 3 / 4"
  using posture_only_tightens [of "3 / 4" "1 / 2" "apply_posture (3 / 4) (1 / 2) (resolve_source_posture \<lparr>sd_input_source = us ''tool_output'', sd_tier = UNTRUSTED\<rparr> (1 / 4))"
      "\<lparr>sd_input_source = us ''tool_output'', sd_tier = UNTRUSTED\<rparr>" "1 / 4"] demo_floats by simp

text \<open>
  Without explicit PII thresholds tightening can relax: a request blocked under the base
  thresholds by its risk score is only sanitized once the posture clamps the sanitize threshold to
  0, because the PII guardrail then inherits the threshold 0 and a PII score of 0 reaches it.
\<close>

theorem posture_can_relax:
  "decide demo_rules \<lparr>th_block = Some (3 / 4), th_sanitize = Some (1 / 2), th_pii_block = None, th_pii_sanitize = None, th_toxicity_block = None\<rparr> 1 0 0 = BLOCK
   \<and> apply_posture (3 / 4) (1 / 2) (resolve_source_posture \<lparr>sd_input_source = us ''tool_output'', sd_tier = UNTRUSTED\<rparr> (1 / 2))
       = \<lparr>et_block = 1 / 4, et_sanitize = 0\<rparr>
   \<and> decide demo_rules \<lparr>th_block = Some (1 / 4), th_sanitize = Some 0, th_pii_block = None, th_pii_sanitize = None, th_toxicity_block = None\<rparr> 1 0 0 = SANITIZE"
proof -
  have "fl (1 / 4) = 1 / 4" by code_simp
  then show ?thesis
    by (simp add: decide_def apply_posture_def resolve_source_posture_def Let_def fsub_def)
qed

end
