(* ===== verification/Gateway.thy ===== *)
theory Gateway
  imports Guardrail_Facts Scoring Policy
begin

text \<open>
  The gateway service (\<^verbatim>\<open>services/gateway/service.py\<close>): one request through input guard,
  normalization, rule and ML scans, toxicity, LLM detection, scoring, posture, policy, provider
  call, output guard and result, with the outer handler that blocks on any escaped exception.

  Everything the service awaits is a field of the environment, as the outcome of the awaited
  call: it may raise, and where the source bounds it by a timeout it may raise \<open>TimeoutError\<close>.
  \<open>modelled_env\<close> fills the detector and guard fields with the definitions of this development.
  The prompts sent to the provider are recorded in order.
\<close>

section \<open>Environment\<close>

record gw_settings =
  gs_block_threshold :: float64
  gs_sanitize_threshold :: float64
  gs_llm_trigger_threshold :: float64
  gs_untrusted_threshold_delta :: float64
  gs_trusted_input_sources :: "ustr list"
  gs_untrusted_input_sources :: "ustr list"
  gs_treat_unknown_as_untrusted :: bool
  gs_llm_model :: string

record gw_env =
  ge_ucd :: ucd
  ge_settings :: gw_settings
  ge_rules :: policy_rules
  ge_var :: "float64 list \<Rightarrow> float64"
  ge_sha256_hex :: "ustr \<Rightarrow> string"
  ge_input_guard :: "ustr \<Rightarrow> input_guard_result py"
  ge_normalize :: "ustr \<Rightarrow> normalized_input py"
  ge_rule_timeout :: "normalized_input \<Rightarrow> bool"
  ge_rule :: "ustr \<Rightarrow> det_result py"
  ge_ml_timeout :: "normalized_input \<Rightarrow> bool"
  ge_pipeline :: "ustr \<Rightarrow> det_result py"
  ge_from_ml :: "det_result \<Rightarrow> det_result py"
  ge_llm_detect :: "ustr \<Rightarrow> det_result py"
  ge_get_client :: "unit py"
  ge_complete :: "string \<Rightarrow> ustr \<Rightarrow> ustr option py"
  ge_output_guard :: "ustr \<Rightarrow> output_guard_result py"

record gw_args =
  ga_block_threshold :: "float64 option"
  ga_sanitize_threshold :: "float64 option"
  ga_pii_block_threshold :: "float64 option"
  ga_pii_sanitize_threshold :: "float64 option"
  ga_toxicity_block_threshold :: "float64 option"
  ga_rule_enabled :: bool
  ga_ml_enabled :: bool
  ga_llm_enabled :: bool
  ga_llm_settings_model :: "string option"

record gateway_result =
  gr_decision :: gateway_decision
  gr_audit_log :: audit_log
  gr_provider_error :: "string option"

definition hash_input :: "gw_env \<Rightarrow> ustr \<Rightarrow> string" where
  "hash_input E inp = ''sha256:'' @ ge_sha256_hex E inp"

section \<open>Steps 1 to 4: detection\<close>

definition step1_input_guard :: "gw_env \<Rightarrow> incoming_request \<Rightarrow> (input_guard_result \<times> bool) py" where
  "step1_input_guard E rq =
     (case ge_input_guard E (rq_input rq) of
        Inr r \<Rightarrow> Inr (r, ig_failed r)
      | Inl TimeoutError \<Rightarrow> Inr (ig_unsanitized (rq_input rq) (clean ''input_guard'') True, True)
      | Inl e \<Rightarrow> Inl e)"

definition normalize_or_raw :: "gw_env \<Rightarrow> ustr \<Rightarrow> normalized_input" where
  "normalize_or_raw E inp =
     (case ge_normalize E inp of Inr n \<Rightarrow> n
      | Inl _ \<Rightarrow> \<lparr>ni_canonical = inp, ni_views = [], ni_stages = [], ni_version = []\<rparr>)"

text \<open>Steps 2 and 3: the bounded scan over all views, disabled, timed out or raising.\<close>

definition guarded_scan :: "string \<Rightarrow> bool \<Rightarrow> bool \<Rightarrow> (ustr \<Rightarrow> det_result py) \<Rightarrow> normalized_input \<Rightarrow> det_result \<times> bool" where
  "guarded_scan layer enabled timeout scan ni =
     (if \<not> enabled then (clean layer, False)
      else case (if timeout then Inl TimeoutError else evaluate_views scan ni) of
        Inr r \<Rightarrow> (r, dr_failed r)
      | Inl _ \<Rightarrow> (clean layer, True))"

record detection_phase =
  dp_guard :: input_guard_result
  dp_effective_input :: ustr
  dp_rule :: det_result
  dp_ml :: det_result
  dp_llm :: det_result
  dp_failed :: bool

definition step4_llm :: "gw_env \<Rightarrow> gw_args \<Rightarrow> incoming_request \<Rightarrow> det_result \<Rightarrow> det_result \<Rightarrow> input_guard_result \<Rightarrow> ustr \<Rightarrow> det_result \<times> bool" where
  "step4_llm E A rq rule ml g effective_input =
     (let pre_score = max (max (dr_score rule) (dr_score ml)) (dr_score (ig_pii_result g)) in
      if ga_llm_enabled A \<and> rq_detection_mode rq = FULL \<and> gs_llm_trigger_threshold (ge_settings E) \<le> pre_score
      then (case ge_llm_detect E effective_input of
              Inr r \<Rightarrow> (r, dr_failed r)
            | Inl _ \<Rightarrow> (clean ''llm_detector'', True))
      else (clean ''llm_detector'', False))"

definition detect_phase :: "gw_env \<Rightarrow> gw_args \<Rightarrow> incoming_request \<Rightarrow> detection_phase py" where
  "detect_phase E A rq =
     py_bind (step1_input_guard E rq) (\<lambda>(g0, failed1).
       let effective_input = str_or (ig_sanitized_text g0) (rq_input rq);
           ni = normalize_or_raw E effective_input;
           (rule, failed2) = guarded_scan ''rule_detector'' (ga_rule_enabled A) (ge_rule_timeout E ni) (ge_rule E) ni;
           (ml, failed3) = guarded_scan ''ml_detector'' (ga_ml_enabled A) (ge_ml_timeout E ni) (ge_pipeline E) ni;
           g = inspect_toxicity (ge_from_ml E) g0 ml;
           (llm, failed4) = step4_llm E A rq rule ml g effective_input
       in Inr \<lparr>dp_guard = g, dp_effective_input = effective_input, dp_rule = rule, dp_ml = ml, dp_llm = llm,
               dp_failed = (failed1 \<or> failed2 \<or> failed3 \<or> ig_failed g \<or> failed4)\<rparr>)"

section \<open>Steps 5 to 7: scoring, posture, decision\<close>

definition block_thr :: "gw_env \<Rightarrow> gw_args \<Rightarrow> float64" where
  "block_thr E A = if_none (ga_block_threshold A) (gs_block_threshold (ge_settings E))"

definition sanitize_thr :: "gw_env \<Rightarrow> gw_args \<Rightarrow> float64" where
  "sanitize_thr E A = if_none (ga_sanitize_threshold A) (gs_sanitize_threshold (ge_settings E))"

definition source_posture :: "gw_env \<Rightarrow> incoming_request \<Rightarrow> source_descriptor \<times> posture" where
  "source_posture E rq =
     (let S = ge_settings E;
          d = resolve_source (ge_ucd E) (mk_registry (ge_ucd E) (gs_trusted_input_sources S)
                (gs_untrusted_input_sources S) (gs_treat_unknown_as_untrusted S)) (rq_input_source rq)
      in (d, resolve_source_posture d (gs_untrusted_threshold_delta S)))"

definition effective :: "gw_env \<Rightarrow> gw_args \<Rightarrow> incoming_request \<Rightarrow> effective_thresholds" where
  "effective E A rq = apply_posture (block_thr E A) (sanitize_thr E A) (snd (source_posture E rq))"

definition posture_record :: "gw_env \<Rightarrow> gw_args \<Rightarrow> incoming_request \<Rightarrow> posture_info option" where
  "posture_record E A rq =
     (let (d, p) = source_posture E rq; e = effective E A rq in
      if et_block e \<noteq> block_thr E A \<or> et_sanitize e \<noteq> sanitize_thr E A
      then Some \<lparr>pi_dimension = po_dimension p, pi_input_source = sd_input_source d, pi_tier = po_tier p,
                 pi_applied_delta = round4 (po_threshold_delta p), pi_effective_block = round4 (et_block e),
                 pi_effective_sanitize = round4 (et_sanitize e)\<rparr>
      else None)"

definition step5_score :: "detection_phase \<Rightarrow> scoring_result" where
  "step5_score dp = score (dp_rule dp) (dp_ml dp) (dp_llm dp) (ig_pii_result (dp_guard dp))
     (Some (ig_toxicity_result (dp_guard dp)))"

definition step6_decide :: "gw_env \<Rightarrow> gw_args \<Rightarrow> incoming_request \<Rightarrow> scoring_result \<Rightarrow> decision_type" where
  "step6_decide E A rq sr =
     decide (ge_rules E)
       \<lparr>th_block = Some (et_block (effective E A rq)), th_sanitize = Some (et_sanitize (effective E A rq)),
        th_pii_block = ga_pii_block_threshold A, th_pii_sanitize = ga_pii_sanitize_threshold A,
        th_toxicity_block = ga_toxicity_block_threshold A\<rparr>
       (rs_value (sr_final_score sr)) (sr_pii_score sr) (sr_toxicity_score sr)"

text \<open>The mutable part of the rest of the run: decision, final score, failure flag.\<close>

record verdict =
  vd_decision :: decision_type
  vd_score :: risk_score
  vd_failed :: bool

definition forced_block :: "bool \<Rightarrow> verdict" where
  "forced_block failed = \<lparr>vd_decision = BLOCK, vd_score = RiskScore 1, vd_failed = failed\<rparr>"

definition policy_verdict :: "gw_env \<Rightarrow> gw_args \<Rightarrow> incoming_request \<Rightarrow> detection_phase \<Rightarrow> verdict" where
  "policy_verdict E A rq dp =
     (if dp_failed dp then forced_block True
      else \<lparr>vd_decision = step6_decide E A rq (step5_score dp), vd_score = sr_final_score (step5_score dp),
            vd_failed = False\<rparr>)"

definition sanitized_input :: "verdict \<Rightarrow> detection_phase \<Rightarrow> ustr option" where
  "sanitized_input v dp =
     (if vd_decision v = SANITIZE \<and> truthy (ig_sanitized_text (dp_guard dp))
      then ig_sanitized_text (dp_guard dp) else None)"

section \<open>Step 8: provider call and output guard\<close>

text \<open>\<^verbatim>\<open>_call_llm_async\<close>: (content, error); building the client is outside its handler.\<close>

definition call_llm :: "gw_env \<Rightarrow> string \<Rightarrow> ustr \<Rightarrow> (ustr option \<times> string option) py" where
  "call_llm E model prompt =
     py_bind (ge_get_client E) (\<lambda>_.
       case ge_complete E model prompt of
         Inl _ \<Rightarrow> Inr (None, Some ''provider_unavailable'')
       | Inr reply \<Rightarrow> if truthy reply then Inr (reply, None) else Inr (None, Some ''provider_empty_response''))"

definition chosen_model :: "gw_env \<Rightarrow> gw_args \<Rightarrow> incoming_request \<Rightarrow> string" where
  "chosen_model E A rq = str_or (rq_model rq) (str_or (ga_llm_settings_model A) (gs_llm_model (ge_settings E)))"

record execution =
  ex_output :: "ustr option"
  ex_llm_invoked :: bool
  ex_provider_error :: "string option"
  ex_verdict :: verdict

definition guard_output :: "gw_env \<Rightarrow> verdict \<Rightarrow> ustr \<Rightarrow> execution py" where
  "guard_output E v raw =
     py_bind (ge_output_guard E raw) (\<lambda>og.
       if og_decision og = BLOCK
       then Inr \<lparr>ex_output = None, ex_llm_invoked = True, ex_provider_error = None,
                 ex_verdict = forced_block (vd_failed v \<or> og_failed og)\<rparr>
       else Inr \<lparr>ex_output = Some (str_or (og_sanitized_text og) raw), ex_llm_invoked = True,
                 ex_provider_error = None, ex_verdict = v\<rparr>)"

text \<open>Step 8 with the calls it made: the provider sees a prompt only through this definition.\<close>

definition step8_execute :: "gw_env \<Rightarrow> gw_args \<Rightarrow> incoming_request \<Rightarrow> verdict \<Rightarrow> detection_phase \<Rightarrow>
    (string \<times> ustr) list \<times> execution py" where
  "step8_execute E A rq v dp =
     (if rq_execution_mode rq = PROXY \<and> vd_decision v \<noteq> BLOCK
      then let prompt = str_or (sanitized_input v dp) (dp_effective_input dp); model = chosen_model E A rq in
        case call_llm E model prompt of
          Inl e \<Rightarrow> ([], Inl e)
        | Inr (_, Some err) \<Rightarrow> ([(model, prompt)], Inr \<lparr>ex_output = None, ex_llm_invoked = True,
              ex_provider_error = Some err, ex_verdict = v\<rparr>)
        | Inr (None, None) \<Rightarrow> ([(model, prompt)], Inr \<lparr>ex_output = None, ex_llm_invoked = True,
              ex_provider_error = None, ex_verdict = forced_block True\<rparr>)
        | Inr (Some raw, None) \<Rightarrow> ([(model, prompt)], guard_output E v raw)
      else ([], Inr \<lparr>ex_output = None, ex_llm_invoked = False, ex_provider_error = None, ex_verdict = v\<rparr>))"

section \<open>Step 9: the result\<close>

definition pii_triggered_flag :: "gw_env \<Rightarrow> gw_args \<Rightarrow> scoring_result \<Rightarrow> bool" where
  "pii_triggered_flag E A sr \<longleftrightarrow> if_none (ga_pii_sanitize_threshold A) (sanitize_thr E A) \<le> sr_pii_score sr"

definition tox_triggered_flag :: "gw_env \<Rightarrow> gw_args \<Rightarrow> scoring_result \<Rightarrow> bool" where
  "tox_triggered_flag E A sr \<longleftrightarrow> \<not> pii_triggered_flag E A sr
     \<and> if_none (ga_toxicity_block_threshold A) (block_thr E A) \<le> sr_toxicity_score sr"

definition primary_reason_of :: "gw_env \<Rightarrow> gw_args \<Rightarrow> scoring_result \<Rightarrow> bool \<Rightarrow> string" where
  "primary_reason_of E A sr failed =
     compute_primary_reason (pii_triggered_flag E A sr) (sr_rule_score sr) (sr_ml_score sr) (sr_llm_score sr)
       (sr_pii_score sr) (if_none (ga_pii_block_threshold A) (block_thr E A)) failed (tox_triggered_flag E A sr)"

definition confidence_of :: "gw_env \<Rightarrow> gw_args \<Rightarrow> scoring_result \<Rightarrow> bool \<Rightarrow> float64 \<times> string" where
  "confidence_of E A sr llm_invoked =
     compute_confidence (ge_var E)
       \<lparr>ca_rule_score = sr_rule_score sr, ca_ml_score = sr_ml_score sr, ca_llm_score = sr_llm_score sr,
        ca_pii_score = sr_pii_score sr, ca_rule_enabled = ga_rule_enabled A, ca_ml_enabled = ga_ml_enabled A,
        ca_llm_invoked = llm_invoked, ca_pii_guardrail_triggered = pii_triggered_flag E A sr,
        ca_block_threshold = if_none (ga_pii_block_threshold A) (block_thr E A),
        ca_sanitize_threshold = if_none (ga_pii_sanitize_threshold A) (sanitize_thr E A),
        ca_toxicity_score = sr_toxicity_score sr, ca_toxicity_guardrail_triggered = tox_triggered_flag E A sr,
        ca_toxicity_block_threshold = Some (if_none (ga_toxicity_block_threshold A) (block_thr E A))\<rparr>"

definition layer_scores_of :: "scoring_result \<Rightarrow> layer_scores" where
  "layer_scores_of sr = [(''rule_score'', sr_rule_score sr), (''ml_score'', sr_ml_score sr),
     (''llm_score'', sr_llm_score sr), (''pii_score'', sr_pii_score sr), (''toxicity_score'', sr_toxicity_score sr)]"

definition build_result :: "gw_env \<Rightarrow> gw_args \<Rightarrow> incoming_request \<Rightarrow> detection_phase \<Rightarrow> ustr option \<Rightarrow> execution \<Rightarrow> gateway_result" where
  "build_result E A rq dp sanitized ex =
     (let sr = step5_score dp; v = ex_verdict ex; (conf, band) = confidence_of E A sr (ex_llm_invoked ex) in
      \<lparr>gr_decision = \<lparr>gd_trace_id = rq_trace_id rq, gd_decision = vd_decision v, gd_risk_score = vd_score v,
         gd_threats = sr_threats sr, gd_sanitized_input = sanitized, gd_output = ex_output ex,
         gd_layer_scores = Some (layer_scores_of sr), gd_llm_invoked = ex_llm_invoked ex,
         gd_detection_mode = rq_detection_mode rq, gd_execution_mode = rq_execution_mode rq,
         gd_primary_reason = Some (primary_reason_of E A sr (vd_failed v)), gd_confidence = Some conf,
         gd_confidence_band = Some band, gd_posture = posture_record E A rq\<rparr>,
       gr_audit_log = \<lparr>al_trace_id = rq_trace_id rq, al_decision = vd_decision v, al_risk_score = rs_value (vd_score v),
         al_threats = sr_threats sr, al_input_hash = hash_input E (rq_input rq),
         al_detection_mode = rq_detection_mode rq, al_execution_mode = rq_execution_mode rq,
         al_llm_invoked = ex_llm_invoked ex, al_tenant_id = md_tenant_id (rq_metadata rq),
         al_source = md_source (rq_metadata rq), al_user_id = md_user_id (rq_metadata rq)\<rparr>,
       gr_provider_error = ex_provider_error ex\<rparr>)"

definition system_error_result :: "gw_env \<Rightarrow> incoming_request \<Rightarrow> gateway_result" where
  "system_error_result E rq =
     \<lparr>gr_decision = \<lparr>gd_trace_id = rq_trace_id rq, gd_decision = BLOCK, gd_risk_score = RiskScore 1,
        gd_threats = [], gd_sanitized_input = None, gd_output = None, gd_layer_scores = None,
        gd_llm_invoked = False, gd_detection_mode = rq_detection_mode rq, gd_execution_mode = rq_execution_mode rq,
        gd_primary_reason = Some ''SYSTEM_ERROR'', gd_confidence = Some 0, gd_confidence_band = Some ''LOW'',
        gd_posture = None\<rparr>,
      gr_audit_log = \<lparr>al_trace_id = rq_trace_id rq, al_decision = BLOCK, al_risk_score = 1, al_threats = [],
        al_input_hash = hash_input E (rq_input rq), al_detection_mode = rq_detection_mode rq,
        al_execution_mode = rq_execution_mode rq, al_llm_invoked = False, al_tenant_id = None,
        al_source = None, al_user_id = None\<rparr>,
      gr_provider_error = None\<rparr>"

definition process :: "gw_env \<Rightarrow> gw_args \<Rightarrow> incoming_request \<Rightarrow> gateway_result \<times> (string \<times> ustr) list" where
  "process E A rq =
     (case detect_phase E A rq of
        Inl _ \<Rightarrow> (system_error_result E rq, [])
      | Inr dp \<Rightarrow>
          let v = policy_verdict E A rq dp; (calls, outcome) = step8_execute E A rq v dp in
          case outcome of
            Inl _ \<Rightarrow> (system_error_result E rq, calls)
          | Inr ex \<Rightarrow> (build_result E A rq dp (sanitized_input v dp) ex, calls))"

section \<open>The service on the modelled components\<close>

definition modelled_env :: "gw_env \<Rightarrow> ml_model option \<Rightarrow> string \<Rightarrow> tf_model option \<Rightarrow> (ustr \<Rightarrow> ustr option py) \<Rightarrow>
    output_settings \<Rightarrow> (string \<Rightarrow> string) \<Rightarrow> (string \<Rightarrow> float64) \<Rightarrow> gw_env" where
  "modelled_env E model tf_id tf client os sha lat =
     E\<lparr>ge_input_guard := \<lambda>t. Inr (input_guard (ge_ucd E) t),
       ge_normalize := \<lambda>t. Inr (normalize (ge_ucd E) sha lat t),
       ge_rule_timeout := \<lambda>_. False, ge_rule := \<lambda>t. Inr (rule_detect (ge_ucd E) t),
       ge_ml_timeout := \<lambda>_. False,
       ge_pipeline := pipeline_run [] (\<lambda>t. Inr (ml_detect model t)) (tf \<noteq> None) (\<lambda>t. Inr (transformer_detect tf_id tf t)),
       ge_from_ml := \<lambda>r. Inr (detect_from_ml r),
       ge_llm_detect := \<lambda>t. Inr (llm_detect (ge_ucd E) client t),
       ge_output_guard := inspect_bounded (\<lambda>t. Inr (output_guard (ge_ucd E) os t))\<rparr>"

end
