(* ===== verification/Gateway_Facts.thy ===== *)
theory Gateway_Facts
  imports Gateway
begin

text \<open>
  The gateway's theorems: fail-closed behaviour, what reaches the provider, what is released from
  it, the audit entry, and the end-to-end effect of a rule match and of the source posture.
\<close>

section \<open>When a layer is broken\<close>

definition broken :: "det_result py \<Rightarrow> bool" where
  "broken m = (case m of Inl _ \<Rightarrow> True | Inr r \<Rightarrow> dr_failed r)"

definition scan_broken :: "(ustr \<Rightarrow> det_result py) \<Rightarrow> normalized_input \<Rightarrow> bool" where
  "scan_broken scan ni = list_ex (\<lambda>t. broken (scan t)) (texts ni)"

lemma scan_views_broken:
  "(case scan_views scan ts b x of Inl _ \<Rightarrow> True | Inr (b', x') \<Rightarrow> x') \<longleftrightarrow> x \<or> list_ex (\<lambda>t. broken (scan t)) ts"
proof (induction ts arbitrary: b x)
  case (Cons t ts)
  show ?case by (cases "scan t") (simp_all add: Cons broken_def)
qed simp

lemma scan_views_sticky:
  "(dr_failed b \<longrightarrow> x) \<Longrightarrow> scan_views scan ts b x = Inr (b', x') \<Longrightarrow> dr_failed b' \<longrightarrow> x'"
proof (induction ts arbitrary: b x)
  case (Cons t ts)
  then obtain r where r: "scan t = Inr r" by (cases "scan t") auto
  show ?case
  proof (rule Cons.IH)
    show "dr_failed (if dr_score b < dr_score r then r else b) \<longrightarrow> x \<or> dr_failed r" using Cons.prems(1) by simp
    show "scan_views scan ts (if dr_score b < dr_score r then r else b) (x \<or> dr_failed r) = Inr (b', x')"
      using Cons.prems(2) r by simp
  qed
qed simp

lemma evaluate_views_broken: "broken (evaluate_views scan ni) \<longleftrightarrow> scan_broken scan ni"
proof (cases "scan (ni_canonical ni)")
  case (Inr r)
  show ?thesis
  proof (cases "scan_views scan (map dv_text (ni_views ni)) r (dr_failed r)")
    case (Inl e)
    with Inr scan_views_broken [of scan "map dv_text (ni_views ni)" r "dr_failed r"] show ?thesis
      by (auto simp: evaluate_views_def texts_def broken_def scan_broken_def)
  next
    case res: (Inr p)
    obtain b x where p: "p = (b, x)" by (cases p)
    have "x \<longleftrightarrow> dr_failed r \<or> list_ex (\<lambda>t. broken (scan t)) (map dv_text (ni_views ni))"
      using scan_views_broken [of scan "map dv_text (ni_views ni)" r "dr_failed r"] res p by simp
    moreover have "dr_failed b \<longrightarrow> x" using scan_views_sticky [of r "dr_failed r" scan] res p by blast
    ultimately show ?thesis using Inr res p
      by (auto simp: evaluate_views_def texts_def broken_def scan_broken_def)
  qed
qed (simp add: evaluate_views_def texts_def broken_def scan_broken_def)

lemma guarded_scan_failed: "snd (guarded_scan layer on late scan ni) \<longleftrightarrow> on \<and> (late \<or> scan_broken scan ni)"
  using evaluate_views_broken [of scan ni]
  by (auto simp: guarded_scan_def broken_def split: sum.splits)

definition llm_due :: "gw_env \<Rightarrow> gw_args \<Rightarrow> incoming_request \<Rightarrow> det_result \<Rightarrow> det_result \<Rightarrow> det_result \<Rightarrow> bool" where
  "llm_due E A rq rule ml pii \<longleftrightarrow> ga_llm_enabled A \<and> rq_detection_mode rq = FULL
     \<and> gs_llm_trigger_threshold (ge_settings E) \<le> max (max (dr_score rule) (dr_score ml)) (dr_score pii)"

text \<open>
  Some layer of the request could not be evaluated: the input guard raised, timed out or
  failed, an enabled rule or ML scan timed out or was broken on some representation, the toxicity
  derivation raised, or the LLM detector was due and raised or failed.
\<close>

definition layer_broken :: "gw_env \<Rightarrow> gw_args \<Rightarrow> incoming_request \<Rightarrow> bool" where
  "layer_broken E A rq =
     (case ge_input_guard E (rq_input rq) of
        Inl _ \<Rightarrow> True
      | Inr g \<Rightarrow> ig_failed g \<or>
         (let eff = str_or (ig_sanitized_text g) (rq_input rq); ni = normalize_or_raw E eff;
              rule = fst (guarded_scan ''rule_detector'' (ga_rule_enabled A) (ge_rule_timeout E ni) (ge_rule E) ni);
              ml = fst (guarded_scan ''ml_detector'' (ga_ml_enabled A) (ge_ml_timeout E ni) (ge_pipeline E) ni)
          in (ga_rule_enabled A \<and> (ge_rule_timeout E ni \<or> scan_broken (ge_rule E) ni))
           \<or> (ga_ml_enabled A \<and> (ge_ml_timeout E ni \<or> scan_broken (ge_pipeline E) ni))
           \<or> isl (ge_from_ml E ml)
           \<or> (llm_due E A rq rule ml (ig_pii_result g) \<and> broken (ge_llm_detect E eff))))"

lemma inspect_toxicity_fields:
  "ig_failed (inspect_toxicity f g ml) \<longleftrightarrow> ig_failed g \<or> isl (f ml)"
  "ig_sanitized_text (inspect_toxicity f g ml) = ig_sanitized_text g"
  "ig_pii_result (inspect_toxicity f g ml) = ig_pii_result g"
  by (auto simp: inspect_toxicity_def split: sum.splits)

lemma step4_failed:
  "snd (step4_llm E A rq rule ml g eff) \<longleftrightarrow> llm_due E A rq rule ml (ig_pii_result g) \<and> broken (ge_llm_detect E eff)"
  by (auto simp: step4_llm_def llm_due_def broken_def Let_def split: sum.splits)

lemma detect_phase_failed:
  "(case detect_phase E A rq of Inl _ \<Rightarrow> True | Inr dp \<Rightarrow> dp_failed dp) \<longleftrightarrow> layer_broken E A rq"
proof (cases "ge_input_guard E (rq_input rq)")
  case (Inl e)
  then show ?thesis
    by (cases e) (simp_all add: detect_phase_def step1_input_guard_def layer_broken_def Let_def case_prod_beta)
next
  case (Inr g)
  then show ?thesis
    by (auto simp: detect_phase_def step1_input_guard_def layer_broken_def Let_def case_prod_beta
        guarded_scan_failed step4_failed inspect_toxicity_fields)
qed

lemma detect_phase_ok:
  assumes "\<not> layer_broken E A rq"
  obtains g dp where "ge_input_guard E (rq_input rq) = Inr g" and "\<not> ig_failed g"
    and "detect_phase E A rq = Inr dp" and "\<not> dp_failed dp"
    and "ig_sanitized_text (dp_guard dp) = ig_sanitized_text g"
    and "dp_effective_input dp = str_or (ig_sanitized_text g) (rq_input rq)"
proof -
  obtain g where g: "ge_input_guard E (rq_input rq) = Inr g" "\<not> ig_failed g"
    using assms by (auto simp: layer_broken_def split: sum.splits)
  then obtain dp where dp: "detect_phase E A rq = Inr dp"
    by (auto simp: detect_phase_def step1_input_guard_def Let_def case_prod_beta)
  then have "\<not> dp_failed dp" using detect_phase_failed [of E A rq] assms by simp
  moreover have "ig_sanitized_text (dp_guard dp) = ig_sanitized_text g"
    "dp_effective_input dp = str_or (ig_sanitized_text g) (rq_input rq)"
    using dp g by (auto simp: detect_phase_def step1_input_guard_def Let_def case_prod_beta inspect_toxicity_fields)
  ultimately show ?thesis using that g dp by blast
qed

section \<open>Fail closed\<close>

lemma audit_mirror:
  "al_decision (gr_audit_log (fst (process E A rq))) = gd_decision (gr_decision (fst (process E A rq)))"
  "al_risk_score (gr_audit_log (fst (process E A rq))) = rs_value (gd_risk_score (gr_decision (fst (process E A rq))))"
  "al_threats (gr_audit_log (fst (process E A rq))) = gd_threats (gr_decision (fst (process E A rq)))"
  "al_llm_invoked (gr_audit_log (fst (process E A rq))) = gd_llm_invoked (gr_decision (fst (process E A rq)))"
  "al_trace_id (gr_audit_log (fst (process E A rq))) = rq_trace_id rq"
  "gd_trace_id (gr_decision (fst (process E A rq))) = rq_trace_id rq"
  "al_input_hash (gr_audit_log (fst (process E A rq))) = hash_input E (rq_input rq)"
  by (auto simp: process_def system_error_result_def build_result_def Let_def case_prod_beta split: sum.splits)

lemma process_broken:
  assumes "layer_broken E A rq"
  shows "snd (process E A rq) = []" and "gd_decision (gr_decision (fst (process E A rq))) = BLOCK"
    and "gd_risk_score (gr_decision (fst (process E A rq))) = RiskScore 1"
    and "gd_primary_reason (gr_decision (fst (process E A rq))) = Some ''SYSTEM_ERROR''"
    and "gd_output (gr_decision (fst (process E A rq))) = None"
    and "\<not> gd_llm_invoked (gr_decision (fst (process E A rq)))"
  using assms detect_phase_failed [of E A rq]
  by (cases "detect_phase E A rq";
      simp add: process_def system_error_result_def policy_verdict_def forced_block_def step8_execute_def
        build_result_def Let_def case_prod_beta primary_reason_of_def compute_primary_reason_def)+

text \<open>
  C1: The gateway fails closed: whenever a layer of the request could not be evaluated (input
  guard, rule scan, ML scan, toxicity derivation or a due LLM detection raised, timed out or
  reported failure), the request is blocked with risk 1.0 and reason SYSTEM_ERROR, the provider is
  not called, there is no output, and the audit entry says so.
\<close>

theorem gateway_fail_closed:
  assumes "layer_broken E A rq"
  shows "snd (process E A rq) = []
    \<and> gd_decision (gr_decision (fst (process E A rq))) = BLOCK
    \<and> gd_risk_score (gr_decision (fst (process E A rq))) = RiskScore 1
    \<and> gd_primary_reason (gr_decision (fst (process E A rq))) = Some ''SYSTEM_ERROR''
    \<and> gd_output (gr_decision (fst (process E A rq))) = None
    \<and> al_decision (gr_audit_log (fst (process E A rq))) = BLOCK
    \<and> al_risk_score (gr_audit_log (fst (process E A rq))) = 1"
  using process_broken [OF assms] audit_mirror [of E A rq] by simp

definition demo_settings :: gw_settings where
  "demo_settings = \<lparr>gs_block_threshold = 3 / 4, gs_sanitize_threshold = 1 / 2, gs_llm_trigger_threshold = 1 / 4,
     gs_untrusted_threshold_delta = 0, gs_trusted_input_sources = [us ''user_prompt''],
     gs_untrusted_input_sources = [], gs_treat_unknown_as_untrusted = False, gs_llm_model = ''m''\<rparr>"

text \<open>A concrete environment: clean detectors, an echoing provider, and a guard that refuses.\<close>

definition demo_env :: gw_env where
  "demo_env = \<lparr>ge_ucd = ascii_ucd, ge_settings = demo_settings, ge_rules = demo_rules, ge_var = \<lambda>_. 0,
     ge_sha256_hex = \<lambda>_. ''00'', ge_input_guard = \<lambda>t. Inr (ig_unsanitized t (clean ''pii_detector'') False),
     ge_normalize = \<lambda>t. Inl ValueError, ge_rule_timeout = \<lambda>_. False, ge_rule = \<lambda>_. Inr (clean ''rule_detector''),
     ge_ml_timeout = \<lambda>_. False, ge_pipeline = \<lambda>_. Inr (clean ''ml_detector''),
     ge_from_ml = \<lambda>_. Inr (clean ''toxicity_detector''), ge_llm_detect = \<lambda>_. Inr (clean ''llm_detector''),
     ge_get_client = Inr (), ge_complete = \<lambda>_ p. Inr (Some p),
     ge_output_guard = \<lambda>t. Inr (og_result t BLOCK ''PII_GUARDRAIL_BLOCK'' (9 / 10) [''PII''] (9 / 10) False)\<rparr>"

definition demo_gw_args :: gw_args where
  "demo_gw_args = \<lparr>ga_block_threshold = None, ga_sanitize_threshold = None, ga_pii_block_threshold = Some (3 / 4),
     ga_pii_sanitize_threshold = Some (1 / 2), ga_toxicity_block_threshold = None, ga_rule_enabled = True,
     ga_ml_enabled = True, ga_llm_enabled = True, ga_llm_settings_model = None\<rparr>"

definition demo_request :: "execution_mode \<Rightarrow> incoming_request" where
  "demo_request mode = \<lparr>rq_input = us ''hi'', rq_trace_id = ''req'', rq_detection_mode = FAST, rq_execution_mode = mode,
     rq_model = None, rq_input_source = None,
     rq_metadata = \<lparr>md_tenant_id = None, md_source = None, md_user_id = None\<rparr>, rq_stream = False, rq_debug = False\<rparr>"

theorem gateway_fail_closed_witness:
  "gd_decision (gr_decision (fst (process (demo_env\<lparr>ge_rule := \<lambda>_. Inl TimeoutError\<rparr>) demo_gw_args (demo_request PROXY)))) = BLOCK
   \<and> snd (process (demo_env\<lparr>ge_rule := \<lambda>_. Inl TimeoutError\<rparr>) demo_gw_args (demo_request PROXY)) = []"
proof -
  have "layer_broken (demo_env\<lparr>ge_rule := \<lambda>_. Inl TimeoutError\<rparr>) demo_gw_args (demo_request PROXY)"
    by (simp add: layer_broken_def demo_env_def demo_gw_args_def ig_unsanitized_def scan_broken_def broken_def
        texts_def Let_def normalize_or_raw_def)
  from gateway_fail_closed [OF this] show ?thesis by simp
qed

section \<open>What reaches the provider, and what comes back\<close>

lemma verdict_ok:
  assumes "\<not> dp_failed dp"
  shows "policy_verdict E A rq dp = \<lparr>vd_decision = step6_decide E A rq (step5_score dp),
      vd_score = sr_final_score (step5_score dp), vd_failed = False\<rparr>"
  using assms by (simp add: policy_verdict_def)

lemma prompt_effective:
  assumes "ig_sanitized_text (dp_guard dp) = ig_sanitized_text g"
    and "dp_effective_input dp = str_or (ig_sanitized_text g) inp"
  shows "str_or (sanitized_input v dp) (dp_effective_input dp) = str_or (ig_sanitized_text g) inp"
  using assms by (cases "ig_sanitized_text g") (auto simp: sanitized_input_def str_or_def split: list.splits)

text \<open>The calls and the released output of step 8, on every branch.\<close>

lemma step8_cases:
  defines "p \<equiv> \<lambda>v dp. str_or (sanitized_input v dp) (dp_effective_input dp)"
  shows "fst (step8_execute E A rq v dp) = [] \<or>
      (rq_execution_mode rq = PROXY \<and> vd_decision v \<noteq> BLOCK \<and> ge_get_client E = Inr ()
       \<and> fst (step8_execute E A rq v dp) = [(chosen_model E A rq, p v dp)])"
    and "snd (step8_execute E A rq v dp) = Inr ex \<Longrightarrow> ex_output ex = Some out \<Longrightarrow>
      rq_execution_mode rq = PROXY \<and> vd_decision v \<noteq> BLOCK \<and> ex_verdict ex = v \<and>
      (\<exists>raw og. ge_complete E (chosen_model E A rq) (p v dp) = Inr (Some raw) \<and> ge_output_guard E raw = Inr og
         \<and> og_decision og \<noteq> BLOCK \<and> out = str_or (og_sanitized_text og) raw)"
    and "snd (step8_execute E A rq v dp) = Inr ex \<Longrightarrow>
      ex_verdict ex = v \<or> (\<exists>b. ex_verdict ex = forced_block b \<and> ex_output ex = None)"
    and "snd (step8_execute E A rq v dp) = Inr ex \<Longrightarrow> ex_llm_invoked ex \<longleftrightarrow> rq_execution_mode rq = PROXY \<and> vd_decision v \<noteq> BLOCK"
  unfolding p_def
  by (auto simp: step8_execute_def call_llm_def guard_output_def py_bind_def Let_def
      split: sum.splits option.splits if_splits prod.splits)

text \<open>
  C2: The provider sees at most one prompt per request, and only in proxy mode, with every layer
  evaluated and a policy decision other than BLOCK; the prompt is the input guard's redacted text
  when it redacted, else the original input, and never a decoded view.
\<close>

theorem provider_prompt:
  "snd (process E A rq) = [] \<or>
   (\<exists>g dp. rq_execution_mode rq = PROXY \<and> \<not> layer_broken E A rq
      \<and> ge_input_guard E (rq_input rq) = Inr g \<and> detect_phase E A rq = Inr dp
      \<and> step6_decide E A rq (step5_score dp) \<noteq> BLOCK
      \<and> snd (process E A rq) = [(chosen_model E A rq, str_or (ig_sanitized_text g) (rq_input rq))])"
proof (cases "layer_broken E A rq")
  case True
  then show ?thesis using process_broken(1) by blast
next
  case False
  obtain g dp where g: "ge_input_guard E (rq_input rq) = Inr g" and dp: "detect_phase E A rq = Inr dp" "\<not> dp_failed dp"
    and s: "ig_sanitized_text (dp_guard dp) = ig_sanitized_text g" "dp_effective_input dp = str_or (ig_sanitized_text g) (rq_input rq)"
    using detect_phase_ok [OF False] by blast
  let ?v = "policy_verdict E A rq dp"
  have calls: "snd (process E A rq) = fst (step8_execute E A rq ?v dp)"
    using dp by (auto simp: process_def Let_def case_prod_beta split: sum.splits)
  show ?thesis
    using step8_cases(1) [of E A rq ?v dp] prompt_effective [OF s] False g dp
    unfolding calls by (auto simp: verdict_ok)
qed

lemma output_released:
  "gd_output (gr_decision (fst (process E A rq))) = None \<or>
   (\<exists>prompt raw og. snd (process E A rq) = [(chosen_model E A rq, prompt)]
      \<and> ge_complete E (chosen_model E A rq) prompt = Inr (Some raw)
      \<and> ge_output_guard E raw = Inr og \<and> og_decision og \<noteq> BLOCK
      \<and> gd_output (gr_decision (fst (process E A rq))) = Some (str_or (og_sanitized_text og) raw)
      \<and> gd_decision (gr_decision (fst (process E A rq))) \<noteq> BLOCK \<and> rq_execution_mode rq = PROXY)"
proof (cases "gd_output (gr_decision (fst (process E A rq)))")
  case (Some out)
  then obtain dp ex where dp: "detect_phase E A rq = Inr dp"
    and ex: "snd (step8_execute E A rq (policy_verdict E A rq dp) dp) = Inr ex"
    and res: "process E A rq = (build_result E A rq dp (sanitized_input (policy_verdict E A rq dp) dp) ex,
        fst (step8_execute E A rq (policy_verdict E A rq dp) dp))"
    by (auto simp: process_def system_error_result_def Let_def case_prod_beta split: sum.splits)
  let ?v = "policy_verdict E A rq dp"
  have out: "ex_output ex = Some out" using Some res by (simp add: build_result_def Let_def case_prod_beta)
  note rel = step8_cases(2) [OF ex out]
  then have "fst (step8_execute E A rq ?v dp) = [(chosen_model E A rq, str_or (sanitized_input ?v dp) (dp_effective_input dp))]"
    using ex out step8_cases(1) [of E A rq ?v dp]
    by (auto simp: step8_execute_def call_llm_def Let_def py_bind_def split: sum.splits option.splits prod.splits if_splits)
  then show ?thesis using rel Some res out by (auto simp: build_result_def Let_def case_prod_beta)
qed simp

text \<open>
  C3: What a caller gets back: an output is returned only in proxy mode, from a request that was
  not blocked, and it is the provider's completion as released by the output guard: a guard
  result that did not block, with its redaction when it redacted. A blocked request has no output.
\<close>

theorem output_released_by_guard:
  "gd_output (gr_decision (fst (process E A rq))) = None \<or>
   (\<exists>prompt raw og. snd (process E A rq) = [(chosen_model E A rq, prompt)]
      \<and> ge_complete E (chosen_model E A rq) prompt = Inr (Some raw)
      \<and> ge_output_guard E raw = Inr og \<and> og_decision og \<noteq> BLOCK
      \<and> gd_output (gr_decision (fst (process E A rq))) = Some (str_or (og_sanitized_text og) raw)
      \<and> gd_decision (gr_decision (fst (process E A rq))) \<noteq> BLOCK \<and> rq_execution_mode rq = PROXY)"
  by (rule output_released)

text \<open>
  A completion the output guard refuses never reaches the caller: the request is then blocked
  with risk 1.0 and no output although the policy had let it through. When the guard itself could
  not run the reason is SYSTEM_ERROR; when it ran and refused, the reported reason is the one
  computed from the input side, not the guard's own.
\<close>

theorem output_block_honoured:
  assumes "\<not> layer_broken E A rq" and "rq_execution_mode rq = PROXY" and "detect_phase E A rq = Inr dp"
    and "step6_decide E A rq (step5_score dp) \<noteq> BLOCK" and "ge_get_client E = Inr ()"
    and "ge_complete E (chosen_model E A rq) (dp_effective_input dp) = Inr (Some raw)" and "raw \<noteq> []"
    and "ge_output_guard E raw = Inr og" and "og_decision og = BLOCK"
  shows "gd_output (gr_decision (fst (process E A rq))) = None
    \<and> gd_decision (gr_decision (fst (process E A rq))) = BLOCK
    \<and> gd_risk_score (gr_decision (fst (process E A rq))) = RiskScore 1
    \<and> gd_primary_reason (gr_decision (fst (process E A rq))) =
        Some (if og_failed og then ''SYSTEM_ERROR'' else primary_reason_of E A (step5_score dp) False)"
proof -
  obtain g dp' where dp': "ge_input_guard E (rq_input rq) = Inr g" "\<not> ig_failed g"
      "detect_phase E A rq = Inr dp'" "\<not> dp_failed dp'"
      "ig_sanitized_text (dp_guard dp') = ig_sanitized_text g"
      "dp_effective_input dp' = str_or (ig_sanitized_text g) (rq_input rq)"
    by (rule detect_phase_ok [OF assms(1)])
  then have "dp' = dp" using assms(3) by simp
  note s = dp'(5,6) [unfolded this] and nf = dp'(4) [unfolded this]
  have p: "str_or (sanitized_input v dp) (dp_effective_input dp) = dp_effective_input dp" for v
    using prompt_effective [OF s, of v] s(2) by simp
  have "step8_execute E A rq (policy_verdict E A rq dp) dp =
      ([(chosen_model E A rq, dp_effective_input dp)], Inr \<lparr>ex_output = None, ex_llm_invoked = True,
        ex_provider_error = None, ex_verdict = forced_block (og_failed og)\<rparr>)"
    by (simp add: step8_execute_def p nf verdict_ok call_llm_def guard_output_def Let_def assms(2,4-9))
  moreover have "primary_reason_of E A sr True = ''SYSTEM_ERROR''" for sr
    by (simp add: primary_reason_of_def compute_primary_reason_def)
  ultimately show ?thesis using assms(3)
    by (cases "og_failed og") (simp_all add: process_def Let_def build_result_def case_prod_beta forced_block_def)
qed

lemma demo_effective:
  "effective demo_env demo_gw_args (demo_request mode) = \<lparr>et_block = 3 / 4, et_sanitize = 1 / 2\<rparr>"
  by (simp add: effective_def source_posture_def resolve_source_posture_def Let_def apply_posture_def block_thr_def
      sanitize_thr_def demo_gw_args_def demo_env_def demo_settings_def)

lemma demo_not_broken: "\<not> layer_broken demo_env demo_gw_args (demo_request mode)"
  by (simp add: layer_broken_def demo_env_def demo_gw_args_def demo_request_def ig_unsanitized_def scan_broken_def
      broken_def texts_def Let_def normalize_or_raw_def llm_due_def)

lemma demo_detect:
  "detect_phase demo_env demo_gw_args (demo_request mode) = Inr
      \<lparr>dp_guard = ig_unsanitized (us ''hi'') (clean ''pii_detector'') False,
       dp_effective_input = us ''hi'', dp_rule = clean ''rule_detector'', dp_ml = clean ''ml_detector'',
       dp_llm = clean ''llm_detector'', dp_failed = False\<rparr>"
  by (simp add: detect_phase_def step1_input_guard_def demo_env_def demo_gw_args_def demo_request_def
      ig_unsanitized_def guarded_scan_def evaluate_views_def normalize_or_raw_def texts_def step4_llm_def
      inspect_toxicity_def Let_def)

lemma clean_scoring:
  "score (clean a) (clean b) (clean c) (clean d) (Some (clean e)) = \<lparr>sr_final_score = RiskScore 0, sr_rule_score = 0,
     sr_ml_score = 0, sr_llm_score = 0, sr_pii_score = 0, sr_toxicity_score = 0, sr_threats = [], sr_boosted = False\<rparr>"
proof -
  have "weighted_score 0 0 0 = 0" "\<not> BOOST_THRESHOLD \<le> 0" by code_simp+
  then show ?thesis
    by (simp add: score_def boosted_score_def Let_def mk_risk_score_def collect_threats_def clean_def)
qed

lemma demo_decision:
  "step6_decide demo_env demo_gw_args (demo_request mode) (step5_score
     \<lparr>dp_guard = ig_unsanitized (us ''hi'') (clean ''pii_detector'') False,
       dp_effective_input = us ''hi'', dp_rule = clean ''rule_detector'', dp_ml = clean ''ml_detector'',
       dp_llm = clean ''llm_detector'', dp_failed = False\<rparr>) = ALLOW"
  unfolding step6_decide_def demo_effective
  by (simp add: step5_score_def ig_unsanitized_def clean_scoring decide_def Let_def demo_gw_args_def)

theorem output_block_honoured_witness:
  "gd_output (gr_decision (fst (process demo_env demo_gw_args (demo_request PROXY)))) = None
   \<and> gd_decision (gr_decision (fst (process demo_env demo_gw_args (demo_request PROXY)))) = BLOCK"
  using output_block_honoured [OF demo_not_broken _ demo_detect, of PROXY "us ''hi''"
      "og_result (us ''hi'') BLOCK ''PII_GUARDRAIL_BLOCK'' (9 / 10) [''PII''] (9 / 10) False"]
  unfolding demo_decision by (simp add: demo_request_def demo_env_def og_result_def)

section \<open>The audit entry\<close>

lemma scoring_range: "0 \<le> rs_value (sr_final_score (step5_score dp)) \<and> rs_value (sr_final_score (step5_score dp)) \<le> 1"
proof -
  have "0 \<le> rs_value (sr_final_score (score a b c d e)) \<and> rs_value (sr_final_score (score a b c d e)) \<le> 1" for a b c d e
    by (auto simp: score_def Let_def case_prod_beta mk_risk_score_def round4_nonneg round4_le_1)
  then show ?thesis by (simp add: step5_score_def)
qed

text \<open>
  Every request, failed ones included, yields one audit entry that mirrors the decision: same
  trace id, decision, risk score, threats and provider flag, with the hash of the original input
  (not the redacted one), and a risk score of the unit interval; and a BLOCK carries no output.
\<close>

theorem audit_matches_decision:
  "let d = gr_decision (fst (process E A rq)); a = gr_audit_log (fst (process E A rq)) in
     al_trace_id a = rq_trace_id rq \<and> gd_trace_id d = rq_trace_id rq
     \<and> al_decision a = gd_decision d \<and> al_risk_score a = rs_value (gd_risk_score d)
     \<and> al_threats a = gd_threats d \<and> al_llm_invoked a = gd_llm_invoked d
     \<and> al_input_hash a = ''sha256:'' @ ge_sha256_hex E (rq_input rq)
     \<and> 0 \<le> al_risk_score a \<and> al_risk_score a \<le> 1
     \<and> (gd_output d = None \<or> gd_decision d \<in> {ALLOW, SANITIZE})"
proof -
  have range: "0 \<le> rs_value (gd_risk_score (gr_decision (fst (process E A rq))))
      \<and> rs_value (gd_risk_score (gr_decision (fst (process E A rq)))) \<le> 1"
  proof (cases "layer_broken E A rq")
    case False
    obtain g dp where dp: "detect_phase E A rq = Inr dp" "\<not> dp_failed dp" using detect_phase_ok [OF False] by blast
    let ?v = "policy_verdict E A rq dp"
    show ?thesis
    proof (cases "snd (step8_execute E A rq ?v dp)")
      case (Inr ex)
      then show ?thesis using dp step8_cases(3) [OF Inr] scoring_range [of dp]
        by (auto simp: process_def Let_def case_prod_beta build_result_def verdict_ok forced_block_def)
    qed (use dp in \<open>simp add: process_def Let_def case_prod_beta system_error_result_def\<close>)
  qed (simp add: process_broken)
  moreover have "gd_output (gr_decision (fst (process E A rq))) = None \<or> gd_decision (gr_decision (fst (process E A rq))) \<in> {ALLOW, SANITIZE}"
    using output_released [of E A rq] decision_type.exhaust [of "gd_decision (gr_decision (fst (process E A rq)))"] by blast
  ultimately show ?thesis unfolding Let_def audit_mirror hash_input_def by (simp add: audit_mirror)
qed

section \<open>End to end\<close>

lemma registry_floor: "list_all (\<lambda>(_, _, b). fl (75 / 100) \<le> b) COMPILED_REGISTRY"
  by (simp add: COMPILED_REGISTRY_def) code_simp

lemma rule_floor_consts: "round4 (fl (75 / 100)) = fl (75 / 100)" "fl (5 / 10) \<le> fl (75 / 100)" "0 \<le> fl (5 / 10)"
  by code_simp+

lemma score_with_rule:
  assumes "fl (5 / 10) \<le> dr_score rule" and "dr_score rule \<le> 1"
  shows "round4 (dr_score rule) \<le> rs_value (sr_final_score (score rule ml llm pii tox))
    \<and> sr_pii_score (score rule ml llm pii tox) = dr_score pii"
proof -
  let ?F = "max (weighted_score (dr_score rule) (dr_score ml) (dr_score llm)) (max (max (dr_score rule) (dr_score ml)) (dr_score llm))"
  have "BOOST_THRESHOLD \<le> max (max (dr_score rule) (dr_score ml)) (dr_score llm)"
    using assms(1) by (auto simp: BOOST_THRESHOLD_def le_max_iff_disj)
  then have f: "fst (boosted_score (dr_score rule) (dr_score ml) (dr_score llm)) = round4 (min ?F 1)"
    by (simp add: boosted_score_fst)
  define y where "y = min ?F 1"
  have x: "dr_score rule \<le> y" using assms(2) unfolding y_def by (simp add: le_max_iff_disj)
  have unit: "0 \<le> y" "y \<le> 1" using x assms(1) rule_floor_consts(3) y_def by (linarith, simp)
  have "mk_risk_score (round4 y) = Inr (RiskScore (round4 y))"
    using round4_round4 [OF unit] round4_nonneg [OF unit(1)] round4_le_1 [OF unit(2)]
    by (simp only: mk_risk_score_def simp_thms if_True)
  moreover have "round4 (dr_score rule) \<le> round4 y" by (rule round4_mono [OF x])
  ultimately show ?thesis using f [folded y_def] by (simp add: score_def Let_def case_prod_beta)
qed

definition rule_denotes :: "ucd \<Rightarrow> ustr \<Rightarrow> bool" where
  "rule_denotes U t \<longleftrightarrow> (\<exists>ps c b p i j. (ps, c, b) \<in> set COMPILED_REGISTRY \<and> p \<in> set ps
     \<and> i \<le> length (clamp_for_regex t) \<and> (i, j) \<in> sem U rule_flags (clamp_for_regex t) p)"

lemma rule_denotes_score:
  assumes "rule_denotes U t"
  shows "fl (75 / 100) \<le> dr_score (rule_detect U t)"
proof -
  obtain ps c b p i j where e: "(ps, c, b) \<in> set COMPILED_REGISTRY" and p: "p \<in> set ps"
    and m: "i \<le> length (clamp_for_regex t)" "(i, j) \<in> sem U rule_flags (clamp_for_regex t) p"
    using assms unfolding rule_denotes_def by blast
  have "re_wf p" using registry_wf e p by (auto simp: list_all_iff)
  then have "search U rule_flags p (clamp_for_regex t)" using search_sem m by blast
  then have "(ps, c, b) \<in> set (rule_hits U t)" using e p by (auto simp: rule_hits_def list_ex_iff)
  then have "b \<le> dr_score (rule_detect U t)"
    unfolding rule_detect_fields by (intro fold_max_ge_elem) force
  moreover have "fl (75 / 100) \<le> b" using registry_floor e by (auto simp: list_all_iff)
  ultimately show ?thesis by linarith
qed

lemma best_view_ge: "t \<in> set (texts ni) \<Longrightarrow> dr_score (f t) \<le> dr_score (best_view f ni)"
proof -
  assume "t \<in> set (texts ni)"
  then consider "t = ni_canonical ni" | v where "v \<in> set (ni_views ni)" "t = dv_text v"
    by (auto simp: texts_def)
  then show ?thesis
  proof cases
    case 1
    then show ?thesis unfolding best_view_def fold_best_score using fold_max_ge by blast
  next
    case 2
    then show ?thesis unfolding best_view_def fold_best_score by (intro fold_max_ge_elem) auto
  qed
qed

lemma best_view_range: "best_view f ni \<in> range f"
  using fold_best_elem [of f "map dv_text (ni_views ni)" "f (ni_canonical ni)"] unfolding best_view_def by blast


definition demo_ucd :: ucd where
  "demo_ucd = ascii_ucd\<lparr>u_nfkc := \<lambda>_. us ''dan mode''\<rparr>"

lemma demo_denotes: "rule_denotes demo_ucd (us ''dan mode'')"
proof -
  let ?p = "cat [WordB, lit ''dan'', some1 sp, lit ''mode'', WordB]"
  have "search demo_ucd rule_flags ?p (us ''dan mode'')" unfolding demo_ucd_def by code_simp
  moreover have "re_wf ?p" by simp
  ultimately have "\<exists>i j. i \<le> length (us ''dan mode'') \<and> (i, j) \<in> sem demo_ucd rule_flags (us ''dan mode'') ?p"
    using search_sem by blast
  moreover have "clamp_for_regex (us ''dan mode'') = us ''dan mode''"
    by (simp add: clamp_for_regex_def MAX_REGEX_INPUT_LENGTH_def)
  moreover have "(JAILBREAK_PATTERNS, JAILBREAK, fl (88 / 100)) \<in> set COMPILED_REGISTRY"
    by (simp add: COMPILED_REGISTRY_def)
  moreover have "?p \<in> set JAILBREAK_PATTERNS" by (simp add: JAILBREAK_PATTERNS_def)
  ultimately show ?thesis unfolding rule_denotes_def by (simp only:) blast
qed

lemma demo_canonical: "us ''dan mode'' \<in> set (texts (normalize demo_ucd sha lat eff))"
proof -
  have "translate CONFUSABLE_PAIRS (us ''dan mode'') = us ''dan mode''"
    by (simp add: confusable_ascii_None)
  then have "canonical_form demo_ucd eff = us ''dan mode''"
    by (simp add: canonical_form_def demo_ucd_def ws_canon_def is_space_def strip_def lstrip_def)
  then show ?thesis using normalize_canonical [of demo_ucd sha lat eff] by (simp add: texts_def)
qed


section \<open>Provenance\<close>

lemma step1_source: "step1_input_guard E (rq\<lparr>rq_input_source := src\<rparr>) = step1_input_guard E rq"
  by (auto simp: step1_input_guard_def split: sum.splits py_exn.splits)

lemma detect_phase_source: "detect_phase E A (rq\<lparr>rq_input_source := src\<rparr>) = detect_phase E A rq"
  by (simp add: detect_phase_def step1_source step4_llm_def)

lemma layer_broken_source: "layer_broken E A (rq\<lparr>rq_input_source := src\<rparr>) = layer_broken E A rq"
  using detect_phase_failed [of E A "rq\<lparr>rq_input_source := src\<rparr>"] detect_phase_failed [of E A rq]
  by (simp add: detect_phase_source)


lemma demo_fields:
  "rq_execution_mode (demo_request mode) = mode" "ga_pii_block_threshold demo_gw_args = Some (3 / 4)"
  "ga_pii_sanitize_threshold demo_gw_args = Some (1 / 2)"
  by (simp_all add: demo_request_def demo_gw_args_def)


end
