(* ===== verification/Py_Int.thy ===== *)
theory Py_Int
  imports Py_Text Main
begin

text \<open>
  Decimal integers as Python prints and parses them: \<^verbatim>\<open>str(n)\<close> and \<^verbatim>\<open>int(s)\<close> on ASCII text
  (surrounding white space, one sign, digits with single underscores between them).
\<close>

definition digit_char :: "nat \<Rightarrow> uchar" where
  "digit_char d = d + 48"

fun str_nat :: "nat \<Rightarrow> ustr" where
  "str_nat n = (if n < 10 then [digit_char n] else str_nat (n div 10) @ [digit_char (n mod 10)])"

declare str_nat.simps [simp del]

definition str_int :: "int \<Rightarrow> ustr" where
  "str_int n = (if n < 0 then 45 # str_nat (nat (- n)) else str_nat (nat n))"

text \<open>Digits to the left of the position are in the accumulator; \<open>None\<close> is a malformed literal.\<close>

fun digits_val :: "bool \<Rightarrow> nat \<Rightarrow> ustr \<Rightarrow> nat option" where
  "digits_val after_digit acc [] = (if after_digit then Some acc else None)"
| "digits_val after_digit acc (c # s) =
     (if ascii_digit c then digits_val True (acc * 10 + (c - 48)) s
      else if c = 95 \<and> after_digit then digits_val False acc s else None)"

definition parse_int :: "ustr \<Rightarrow> int option" where
  "parse_int s = (case strip s of
     [] \<Rightarrow> None
   | c # t \<Rightarrow> if c = 45 then map_option (\<lambda>n. - int n) (digits_val False 0 t)
             else if c = 43 then map_option int (digits_val False 0 t)
             else map_option int (digits_val False 0 (c # t)))"

lemma str_nat_digits: "c \<in> set (str_nat n) \<Longrightarrow> 48 \<le> c \<and> c \<le> 57"
  by (induction n rule: str_nat.induct) (subst (asm) (2) str_nat.simps, auto simp: digit_char_def split: if_splits)

lemma str_nat_nonempty [simp]: "str_nat n \<noteq> []"
  by (subst str_nat.simps) simp

lemma digits_val_append:
  "\<forall>c\<in>set s. ascii_digit c \<Longrightarrow> s \<noteq> [] \<Longrightarrow>
     digits_val b a (s @ t) = digits_val True (foldl (\<lambda>v c. v * 10 + (c - 48)) a s) t"
proof (induction s arbitrary: b a)
  case (Cons c s)
  have "digits_val b a ((c # s) @ t) = digits_val True (a * 10 + (c - 48)) (s @ t)"
    using Cons.prems by simp
  then show ?case
    using Cons.IH[of True "a * 10 + (c - 48)"] Cons.prems by (cases "s = []") simp_all
qed simp

lemma foldl_str_nat: "foldl (\<lambda>v c. v * 10 + (c - 48)) 0 (str_nat n) = n"
proof (induction n rule: str_nat.induct)
  case (1 n)
  then show ?case by (subst str_nat.simps) (simp add: digit_char_def)
qed

lemma str_nat_ascii: "\<forall>c\<in>set (str_nat n). ascii_digit c"
  using str_nat_digits by (auto simp: ascii_digit_def)

lemma digits_val_str_nat: "digits_val False 0 (str_nat n) = Some n"
  using digits_val_append[of "str_nat n" False 0 "[]"] by (simp add: str_nat_ascii foldl_str_nat)

lemma strip_digits: "s \<noteq> [] \<Longrightarrow> \<forall>c\<in>set s. 43 \<le> c \<and> c \<le> 57 \<Longrightarrow> strip s = s"
proof (rule strip_no_space)
  assume s: "s \<noteq> []" "\<forall>c\<in>set s. 43 \<le> c \<and> c \<le> 57"
  have "\<not> is_space c" if "c \<in> set s" for c
    using s(2) that by (auto simp: is_space_def)
  with s(1) show "\<not> is_space (hd s)" "\<not> is_space (last s)" by simp_all
qed

lemma str_int_range: "\<forall>c\<in>set (str_int n). 43 \<le> c \<and> c \<le> 57"
proof
  fix c assume "c \<in> set (str_int n)"
  then have "c = 45 \<or> (\<exists>m. c \<in> set (str_nat m))" by (auto simp: str_int_def split: if_splits)
  then show "43 \<le> c \<and> c \<le> 57" using str_nat_digits by force
qed

text \<open>Printing and parsing are inverse.\<close>

lemma parse_str_int [simp]: "parse_int (str_int n) = Some n"
proof -
  have ne: "str_int n \<noteq> []" by (simp add: str_int_def)
  have strip: "strip (str_int n) = str_int n"
    by (rule strip_digits[OF ne str_int_range])
  show ?thesis
  proof (cases "n < 0")
    case True
    with strip show ?thesis by (simp add: parse_int_def str_int_def digits_val_str_nat)
  next
    case False
    obtain c t where ct: "str_nat (nat n) = c # t" by (cases "str_nat (nat n)") simp_all
    have "c \<noteq> 45 \<and> c \<noteq> 43" using str_nat_digits[of c "nat n"] ct by auto
    with False strip ct digits_val_str_nat[of "nat n"] show ?thesis
      by (simp add: parse_int_def str_int_def)
  qed
qed

lemma str_int_inj: "str_int m = str_int n \<longleftrightarrow> m = n"
  using parse_str_int by (metis option.inject)

end
