(* ===== verification/Json.thy ===== *)
theory Json
  imports Prelude Py_Float Py_Int
begin

text \<open>
  JSON values as Python's \<^verbatim>\<open>json\<close> module yields them, dictionary access, and the conversions the source
  applies to them: numbers, \<^verbatim>\<open>int(...)\<close> and truth values.
\<close>

section \<open>JSON values\<close>

datatype json = JNull | JBool bool | JNum float64 | JStr string | JList "json list" | JObj "(string \<times> json) list"

type_synonym jdict = "(string \<times> json) list"

fun is_obj :: "json \<Rightarrow> bool" where
  "is_obj (JObj _) = True"
| "is_obj _ = False"

definition get1 :: "jdict \<Rightarrow> string \<Rightarrow> json py" where
  "get1 d k = (case map_of d k of Some v \<Rightarrow> Inr v | None \<Rightarrow> Inl KeyError)"

lemma get1_Inr: "get1 d k = Inr v \<longleftrightarrow> map_of d k = Some v"
  by (auto simp: get1_def split: option.splits)

text \<open>A value used as a number: Python booleans count as 0 and 1, anything else raises.\<close>

fun as_num :: "json \<Rightarrow> float64 py" where
  "as_num (JNum x) = Inr x"
| "as_num (JBool b) = Inr (if b then 1 else 0)"
| "as_num _ = Inl TypeError"

text \<open>\<^verbatim>\<open>int(x)\<close> on a float.\<close>

definition py_trunc :: "rat \<Rightarrow> int" where
  "py_trunc x = (if 0 \<le> x then \<lfloor>x\<rfloor> else \<lceil>x\<rceil>)"

text \<open>\<^verbatim>\<open>int(v)\<close> on a JSON value.\<close>

fun json_int :: "json \<Rightarrow> int py" where
  "json_int (JNum x) = Inr (py_trunc x)"
| "json_int (JBool b) = Inr (if b then 1 else 0)"
| "json_int (JStr s) = (case parse_int (us s) of Some n \<Rightarrow> Inr n | None \<Rightarrow> Inl ValueError)"
| "json_int _ = Inl TypeError"

definition json_truthy :: "json \<Rightarrow> bool" where
  "json_truthy v = (case v of JNull \<Rightarrow> False | JBool b \<Rightarrow> b | JNum x \<Rightarrow> x \<noteq> 0 | JStr s \<Rightarrow> s \<noteq> [] | JList l \<Rightarrow> l \<noteq> [] | JObj d \<Rightarrow> d \<noteq> [])"

end
