(* ===== verification/Policy_Resolver.thy ===== *)
theory Policy_Resolver
  imports Domain Json
begin

text \<open>
  Policy resolution (\<^verbatim>\<open>services/policy_resolver.py\<close>), the plug-in layers
  (\<^verbatim>\<open>services/policy_layers.py\<close>) and the credential handling of overrides
  (\<^verbatim>\<open>security/policy_override.py\<close>). Policies are JSON dictionaries. The database reads, including
  the conversion of an id to a UUID, and decryption are arguments that may raise.
\<close>

section \<open>Nested dictionaries\<close>

text \<open>\<^verbatim>\<open>d[k1][k2]\<close> and \<^verbatim>\<open>d[k1][k2] = v\<close> on dictionaries of dictionaries.\<close>

definition get2 :: "jdict \<Rightarrow> string \<Rightarrow> string \<Rightarrow> json py" where
  "get2 d k1 k2 = py_bind (get1 d k1) (\<lambda>s. case s of JObj e \<Rightarrow> get1 e k2 | _ \<Rightarrow> Inl TypeError)"

definition set2 :: "string \<Rightarrow> string \<Rightarrow> json \<Rightarrow> jdict \<Rightarrow> jdict py" where
  "set2 k1 k2 v d = py_bind (get1 d k1) (\<lambda>s. case s of
     JObj e \<Rightarrow> Inr (dict_set k1 (JObj (dict_set k2 v e)) d) | _ \<Rightarrow> Inl TypeError)"

section \<open>System defaults and deep merge\<close>

record policy_settings =
  ps_block_threshold :: float64
  ps_sanitize_threshold :: float64
  ps_llm_trigger_threshold :: float64
  ps_llm_provider :: string
  ps_llm_model :: string
  ps_llm_base_url :: string
  ps_llm_timeout :: float64
  ps_secret_key :: string

definition system_defaults :: "policy_settings \<Rightarrow> jdict" where
  "system_defaults S = [
     (''detection'', JObj [(''rule_weight'', JNum (fl (4 / 10))), (''ml_weight'', JNum (fl (3 / 10))),
        (''llm_weight'', JNum (fl (3 / 10))), (''rule_enabled'', JBool True), (''ml_enabled'', JBool True),
        (''llm_enabled'', JBool True), (''llm_trigger'', JNum (ps_llm_trigger_threshold S))]),
     (''thresholds'', JObj [(''block'', JNum (ps_block_threshold S)), (''sanitize'', JNum (ps_sanitize_threshold S))]),
     (''guardrails'', JObj [(''pii'', JObj [(''enabled'', JBool True), (''block_threshold'', JNum (ps_block_threshold S)),
        (''sanitize_threshold'', JNum (ps_sanitize_threshold S))])]),
     (''llm'', JObj [(''provider'', JStr (ps_llm_provider S)), (''model'', JStr (ps_llm_model S)),
        (''base_url'', JStr (ps_llm_base_url S)), (''timeout'', JNum (ps_llm_timeout S))]),
     (''rate_limit'', JObj [(''per_minute'', JNum 60)])]"

fun deep_merge :: "jdict \<Rightarrow> jdict \<Rightarrow> jdict" where
  "deep_merge result [] = result"
| "deep_merge result ((key, value) # child) = deep_merge
     (case value of
        JNull \<Rightarrow> result
      | JObj d \<Rightarrow> (case map_of result key of
            Some (JObj p) \<Rightarrow> dict_set key (JObj (deep_merge p d)) result
          | _ \<Rightarrow> dict_set key (JObj d) result)
      | v \<Rightarrow> dict_set key v result) child"

definition determine_policy_source :: "jdict option \<Rightarrow> jdict option \<Rightarrow> string" where
  "determine_policy_source dept_override app_override =
     (if truthy app_override then ''application_override''
      else if truthy dept_override then ''department_override'' else ''system_default'')"

section \<open>Stored settings\<close>

record dept_row =
  de_tenant_id :: string
  de_policy_override :: "jdict option"

record app_row =
  ap_tenant_id :: string
  ap_policy_override :: "jdict option"
  ap_rate_limit_override :: "int option"

record policy_db =
  pd_platform :: "string \<Rightarrow> jdict option py"
  pd_tenant :: "string \<Rightarrow> string \<Rightarrow> jdict option py"
  pd_dept :: "string \<Rightarrow> dept_row option py"
  pd_app :: "string \<Rightarrow> app_row option py"

definition layered :: "policy_db \<Rightarrow> string option \<Rightarrow> string \<Rightarrow> jdict py" where
  "layered D tenant_id key =
     py_bind (pd_platform D key) (\<lambda>base.
       if truthy tenant_id
       then py_bind (pd_tenant D (the tenant_id) key) (\<lambda>override. Inr (dict_update (str_or base []) (str_or override [])))
       else Inr (str_or base []))"

text \<open>\<^verbatim>\<open>d[k1][k2] = stored.get(key, default)\<close>; without a default the current value is kept.\<close>

definition assign_from :: "jdict \<Rightarrow> string \<times> string \<times> string \<times> json option \<Rightarrow> jdict py \<Rightarrow> jdict py" where
  "assign_from stored = (\<lambda>(k1, k2, key, dflt) m. py_bind m (\<lambda>d.
     case map_of stored key of
       Some v \<Rightarrow> set2 k1 k2 v d
     | None \<Rightarrow> (case dflt of Some v \<Rightarrow> set2 k1 k2 v d | None \<Rightarrow> Inr d)))"

definition set_pii :: "string \<Rightarrow> json \<Rightarrow> jdict \<Rightarrow> jdict py" where
  "set_pii k v d = py_bind (get2 d ''guardrails'' ''pii'') (\<lambda>s. case s of
     JObj e \<Rightarrow> set2 ''guardrails'' ''pii'' (JObj (dict_set k v e)) d | _ \<Rightarrow> Inl TypeError)"

definition apply_thresholds :: "jdict \<Rightarrow> jdict \<Rightarrow> jdict py" where
  "apply_thresholds stored d =
     (if stored = [] then Inr d
      else py_bind (fold (assign_from stored) [(''thresholds'', ''block'', ''block_threshold'', None),
                (''thresholds'', ''sanitize'', ''sanitize_threshold'', None)] (Inr d)) (\<lambda>d1.
           py_bind (get2 d1 ''thresholds'' ''block'') (\<lambda>b.
           py_bind (get2 d1 ''thresholds'' ''sanitize'') (\<lambda>s.
           py_bind (set_pii ''block_threshold'' b d1) (set_pii ''sanitize_threshold'' s)))))"

definition apply_layers :: "jdict \<Rightarrow> jdict \<Rightarrow> jdict py" where
  "apply_layers stored d =
     (if stored = [] then Inr d
      else fold (assign_from stored) [(''detection'', ''rule_enabled'', ''rule_enabled'', Some (JBool True)),
             (''detection'', ''ml_enabled'', ''ml_enabled'', Some (JBool True)),
             (''detection'', ''llm_enabled'', ''llm_enabled'', Some (JBool True))] (Inr d))"

definition apply_llm :: "jdict \<Rightarrow> jdict \<Rightarrow> jdict py" where
  "apply_llm stored d =
     (if stored = [] then Inr d
      else fold (assign_from stored) [(''llm'', ''provider'', ''provider'', None), (''llm'', ''model'', ''model'', None),
             (''llm'', ''base_url'', ''base_url'', None), (''llm'', ''timeout'', ''timeout'', None),
             (''detection'', ''llm_trigger'', ''llm_trigger'', None)] (Inr d))"

definition apply_rate_limit :: "jdict \<Rightarrow> jdict \<Rightarrow> jdict py" where
  "apply_rate_limit stored d =
     (if stored = [] then Inr d else fold (assign_from stored) [(''rate_limit'', ''per_minute'', ''per_minute'', None)] (Inr d))"

definition load_settings :: "policy_settings \<Rightarrow> policy_db \<Rightarrow> string option \<Rightarrow> jdict py" where
  "load_settings S D tenant_id =
     py_bind (layered D tenant_id ''policy_thresholds'') (\<lambda>stored_thresholds.
     py_bind (layered D tenant_id ''detection_layers'') (\<lambda>stored_layers.
     py_bind (layered D tenant_id ''llm_settings'') (\<lambda>stored_llm.
     py_bind (layered D tenant_id ''rate_limit'') (\<lambda>stored_rate_limit.
     py_bind (apply_thresholds stored_thresholds (system_defaults S)) (\<lambda>r1.
     py_bind (apply_layers stored_layers r1) (\<lambda>r2.
     py_bind (apply_llm stored_llm r2) (\<lambda>r3. apply_rate_limit stored_rate_limit r3)))))))"

section \<open>Overrides\<close>

definition foreign_owner :: "string option \<Rightarrow> string \<Rightarrow> bool" where
  "foreign_owner tenant_id owner \<longleftrightarrow> truthy tenant_id \<and> owner \<noteq> the tenant_id"

text \<open>
  One override branch with its own \<^verbatim>\<open>try\<close>: the policy as far as it was rewritten, the override
  that was applied, and whether the branch raised.
\<close>

type_synonym layer_result = "jdict \<times> jdict option \<times> bool"

definition merge_override :: "jdict option \<Rightarrow> jdict \<Rightarrow> jdict \<times> jdict option" where
  "merge_override override resolved =
     (if truthy override then (deep_merge resolved (the override), override) else (resolved, None))"

definition dept_layer :: "policy_db \<Rightarrow> string option \<Rightarrow> string \<Rightarrow> jdict \<Rightarrow> layer_result" where
  "dept_layer D tenant_id dept_id resolved =
     (case pd_dept D dept_id of
        Inl _ \<Rightarrow> (resolved, None, True)
      | Inr None \<Rightarrow> (resolved, None, False)
      | Inr (Some dept) \<Rightarrow>
          if foreign_owner tenant_id (de_tenant_id dept) then (resolved, None, False)
          else (case merge_override (de_policy_override dept) resolved of (r, ov) \<Rightarrow> (r, ov, False)))"

definition app_layer :: "policy_db \<Rightarrow> string option \<Rightarrow> string \<Rightarrow> jdict \<Rightarrow> layer_result" where
  "app_layer D tenant_id app_id resolved =
     (case pd_app D app_id of
        Inl _ \<Rightarrow> (resolved, None, True)
      | Inr None \<Rightarrow> (resolved, None, False)
      | Inr (Some app) \<Rightarrow>
          if foreign_owner tenant_id (ap_tenant_id app) then (resolved, None, False)
          else (case merge_override (ap_policy_override app) resolved of (r, ov) \<Rightarrow>
             (case ap_rate_limit_override app of
                None \<Rightarrow> (r, ov, False)
              | Some n \<Rightarrow> (case set2 ''rate_limit'' ''per_minute'' (JNum (of_int n)) r of
                    Inr r' \<Rightarrow> (r', ov, False)
                  | Inl _ \<Rightarrow> (r, ov, True)))))"

text \<open>\<^verbatim>\<open>if dept_id:\<close> and \<^verbatim>\<open>if app_id:\<close>: without an id the branch is skipped.\<close>

definition override_step :: "string \<Rightarrow> (string \<Rightarrow> jdict \<Rightarrow> layer_result) \<Rightarrow> string option \<Rightarrow>
    jdict \<times> string list \<Rightarrow> (jdict \<times> string list) \<times> jdict option" where
  "override_step layer f id_opt acc =
     (if \<not> truthy id_opt then (acc, None)
      else case f (the id_opt) (fst acc) of
        (d, ov, failed) \<Rightarrow> ((d, if failed then snd acc @ [layer] else snd acc), ov))"

type_synonym policy_layer = "jdict \<Rightarrow> json py"

definition apply_policy_layers :: "policy_layer list \<Rightarrow> jdict \<Rightarrow> jdict" where
  "apply_policy_layers layers policy =
     fold (\<lambda>layer p. case layer p of Inr (JObj p') \<Rightarrow> p' | _ \<Rightarrow> p) layers policy"

section \<open>Credentials and validation\<close>

definition decrypt_section :: "(json \<Rightarrow> string py) \<Rightarrow> string \<Rightarrow> jdict py \<Rightarrow> jdict py" where
  "decrypt_section decrypt section m = py_bind m (\<lambda>policy.
     case map_of policy section of
       Some (JObj sec) \<Rightarrow> (case map_of sec ''api_key_enc'' of
           Some enc \<Rightarrow> py_bind (decrypt enc) (\<lambda>plain.
             Inr (dict_set section (JObj (dict_set ''api_key'' (JStr plain) (filter (\<lambda>(k, _). k \<noteq> ''api_key_enc'') sec))) policy))
         | None \<Rightarrow> Inr policy)
     | _ \<Rightarrow> Inr policy)"

definition thresholds_valid :: "json \<Rightarrow> json \<Rightarrow> bool py" where
  "thresholds_valid block sanitize =
     py_bind (as_num sanitize) (\<lambda>s. if \<not> 0 < s then Inr False
       else py_bind (as_num block) (\<lambda>b. Inr (s < b \<and> b \<le> 1)))"

definition check_thresholds :: "policy_settings \<Rightarrow> jdict \<Rightarrow> jdict py" where
  "check_thresholds S policy =
     py_bind (get2 policy ''thresholds'' ''block'') (\<lambda>block.
     py_bind (get2 policy ''thresholds'' ''sanitize'') (\<lambda>sanitize.
     py_bind (thresholds_valid block sanitize) (\<lambda>ok.
       if ok then Inr policy
       else py_bind (set2 ''thresholds'' ''block'' (JNum (ps_block_threshold S)) policy)
              (set2 ''thresholds'' ''sanitize'' (JNum (ps_sanitize_threshold S))))))"

datatype policy_error = Degraded "string list" | Raised py_exn

definition lift_py :: "'a py \<Rightarrow> policy_error + 'a" where
  "lift_py m = (case m of Inr x \<Rightarrow> Inr x | Inl e \<Rightarrow> Inl (Raised e))"

definition resolve_core :: "policy_settings \<Rightarrow> policy_db \<Rightarrow> string option \<Rightarrow> string option \<Rightarrow> string option \<Rightarrow>
    (jdict \<times> string list) \<times> jdict option \<times> jdict option" where
  "resolve_core S D tenant_id dept_id app_id =
     (case load_settings S D tenant_id of
        Inl _ \<Rightarrow> ((system_defaults S, [''tenant'']), None, None)
      | Inr resolved \<Rightarrow>
          let (acc1, dept_override) = override_step ''department'' (dept_layer D tenant_id) dept_id (resolved, []);
              (acc2, app_override) = override_step ''application'' (app_layer D tenant_id) app_id acc1
          in (acc2, dept_override, app_override))"

definition resolve_policy :: "policy_settings \<Rightarrow> policy_layer list \<Rightarrow> (json \<Rightarrow> string py) \<Rightarrow> policy_db \<Rightarrow>
    string option \<Rightarrow> string option \<Rightarrow> string option \<Rightarrow> policy_error + (jdict \<times> string)" where
  "resolve_policy S layers decrypt D tenant_id dept_id app_id =
     (case resolve_core S D tenant_id dept_id app_id of ((policy, failed), dept_override, app_override) \<Rightarrow>
        (case lift_py (py_bind (fold (decrypt_section decrypt) [''llm'', ''proxy_provider''] (Inr (apply_policy_layers layers policy)))
                        (check_thresholds S)) of
           Inl e \<Rightarrow> Inl e
         | Inr p \<Rightarrow> if failed \<noteq> [] then Inl (Degraded failed)
                    else Inr (p, determine_policy_source dept_override app_override)))"

definition resolve_policy_for_preview :: "policy_settings \<Rightarrow> policy_layer list \<Rightarrow> (json \<Rightarrow> string py) \<Rightarrow> policy_db \<Rightarrow>
    string option \<Rightarrow> string option \<Rightarrow> string option \<Rightarrow> policy_error + (jdict \<times> string \<times> bool)" where
  "resolve_policy_for_preview S layers decrypt D tenant_id dept_id app_id =
     (case resolve_policy S layers decrypt D tenant_id dept_id app_id of
        Inr (p, src) \<Rightarrow> Inr (p, src, False)
      | Inl (Degraded _) \<Rightarrow> Inr (system_defaults S, ''degraded'', True)
      | Inl e \<Rightarrow> Inl e)"

section \<open>Credentials in overrides\<close>

definition ENCRYPTED_SECTIONS :: "string list" where
  "ENCRYPTED_SECTIONS = [''llm'', ''proxy_provider'']"

definition ALLOWED_SECTION_KEYS :: "string list" where
  "ALLOWED_SECTION_KEYS = [''provider'', ''model'', ''base_url'', ''default_model'', ''timeout'', ''timeout_seconds'',
     ''api_key_enc'', ''api_key_masked'']"

definition CREDENTIAL_KEYS :: "string list" where
  "CREDENTIAL_KEYS = [''api_key'', ''apikey'', ''api_key_plain'', ''key'', ''secret'', ''token'', ''password'',
     ''access_token'', ''bearer_token'']"

definition section_offence :: "(string \<Rightarrow> string) \<Rightarrow> jdict \<Rightarrow> bool" where
  "section_offence lower section \<longleftrightarrow>
     list_ex (\<lambda>(k, _). lower k \<in> set CREDENTIAL_KEYS) section \<or> list_ex (\<lambda>(k, _). k \<notin> set ALLOWED_SECTION_KEYS) section"

definition reject_plaintext_credentials :: "(string \<Rightarrow> string) \<Rightarrow> jdict option \<Rightarrow> unit py" where
  "reject_plaintext_credentials lower override =
     (case override of None \<Rightarrow> Inr ()
      | Some ov \<Rightarrow> if list_ex (\<lambda>n. case map_of ov n of Some (JObj s) \<Rightarrow> section_offence lower s | _ \<Rightarrow> False) ENCRYPTED_SECTIONS
                   then Inl ValueError else Inr ())"

definition mask_secret :: "string \<Rightarrow> string" where
  "mask_secret p = (if length p \<le> 8 then ''****'' else take 4 p @ ''...'' @ drop (length p - 4) p)"

definition mask_section :: "(string \<Rightarrow> string) \<Rightarrow> (json \<Rightarrow> string py) \<Rightarrow> jdict \<Rightarrow> jdict py" where
  "mask_section lower decrypt value =
     (let kept = filter (\<lambda>(k, _). lower k \<notin> set CREDENTIAL_KEYS) value;
          section = filter (\<lambda>(k, _). k \<noteq> ''api_key_enc'') kept
      in case map_of kept ''api_key_enc'' of
           Some enc \<Rightarrow> if json_truthy enc
             then (case decrypt enc of
                     Inr p \<Rightarrow> Inr (dict_set ''api_key_masked'' (JStr (mask_secret p)) section)
                   | Inl ValueError \<Rightarrow> Inr (dict_set ''api_key_masked'' (JStr ''****'') section)
                   | Inl e \<Rightarrow> Inl e)
             else Inr section
         | None \<Rightarrow> Inr section)"

primrec mask_items :: "(string \<Rightarrow> string) \<Rightarrow> (json \<Rightarrow> string py) \<Rightarrow> jdict \<Rightarrow> jdict py" where
  "mask_items lower decrypt [] = Inr []"
| "mask_items lower decrypt (kv # rest) =
     py_bind (case kv of (key, value) \<Rightarrow>
                if key \<in> set ENCRYPTED_SECTIONS
                then (case value of JObj s \<Rightarrow> py_bind (mask_section lower decrypt s) (\<lambda>s'. Inr (key, JObj s')) | _ \<Rightarrow> Inr (key, value))
                else Inr (key, value))
       (\<lambda>kv'. py_bind (mask_items lower decrypt rest) (\<lambda>r. Inr (kv' # r)))"

definition mask_policy_override :: "(string \<Rightarrow> string) \<Rightarrow> (json \<Rightarrow> string py) \<Rightarrow> jdict option \<Rightarrow> jdict option py" where
  "mask_policy_override lower decrypt override =
     (if \<not> truthy override then Inr override
      else py_bind (mask_items lower decrypt (the override)) (\<lambda>d. Inr (Some d)))"

end
