(* ===== verification/Policy_Resolver_Facts.thy ===== *)
theory Policy_Resolver_Facts
  imports Policy_Resolver
begin

text \<open>
  Facts about policy resolution: what a deep merge does to every path of the document, that a
  policy is returned only when every layer was read and carries usable thresholds, that a foreign
  tenant's rows have no effect, and that stored credentials are neither accepted nor shown.
\<close>

section \<open>Deep merge, path by path\<close>

text \<open>A JSON document never repeats a key.\<close>

fun wf_json :: "json \<Rightarrow> bool" where
  "wf_json (JObj d) \<longleftrightarrow> distinct (map fst d) \<and> list_all (\<lambda>kv. wf_json (snd kv)) d"
| "wf_json (JList l) \<longleftrightarrow> list_all wf_json l"
| "wf_json _ \<longleftrightarrow> True"

text \<open>The setting at a path: a value that is neither null nor a dictionary.\<close>

fun leaf_at :: "jdict \<Rightarrow> string list \<Rightarrow> json option" where
  "leaf_at d [] = None"
| "leaf_at d (k # ks) = (case map_of d k of
     None \<Rightarrow> None
   | Some JNull \<Rightarrow> None
   | Some (JObj e) \<Rightarrow> leaf_at e ks
   | Some v \<Rightarrow> if ks = [] then Some v else None)"

text \<open>An override says nothing about a path when it is absent or null somewhere on it.\<close>

fun silent :: "jdict \<Rightarrow> string list \<Rightarrow> bool" where
  "silent d [] = False"
| "silent d (k # ks) = (case map_of d k of
     None \<Rightarrow> True
   | Some JNull \<Rightarrow> True
   | Some (JObj e) \<Rightarrow> silent e ks
   | Some v \<Rightarrow> False)"

definition merged_value :: "json option \<Rightarrow> json \<Rightarrow> json option" where
  "merged_value old v = (case v of
     JNull \<Rightarrow> old
   | JObj d \<Rightarrow> (case old of Some (JObj p) \<Rightarrow> Some (JObj (deep_merge p d)) | _ \<Rightarrow> Some (JObj d))
   | w \<Rightarrow> Some w)"

lemma deep_merge_Cons:
  "deep_merge r ((k, v) # c) =
     deep_merge (case merged_value (map_of r k) v of None \<Rightarrow> r | Some w \<Rightarrow> if v = JNull then r else dict_set k w r) c"
  by (cases v) (auto simp: merged_value_def split: option.splits json.splits)

lemma deep_merge_lookup:
  assumes "distinct (map fst c)"
  shows "map_of (deep_merge r c) k = (case map_of c k of None \<Rightarrow> map_of r k | Some v \<Rightarrow> merged_value (map_of r k) v)"
  using assms
proof (induction c arbitrary: r)
  case (Cons kv c)
  obtain k' v where kv: "kv = (k', v)" by (cases kv)
  define s where "s = (case merged_value (map_of r k') v of None \<Rightarrow> r | Some w \<Rightarrow> if v = JNull then r else dict_set k' w r)"
  have s: "map_of s k = (if k = k' then merged_value (map_of r k) v else map_of r k)"
    unfolding s_def by (cases v) (auto simp: merged_value_def split: option.splits json.splits)
  have new: "k = k' \<Longrightarrow> map_of c k = None"
    using Cons.prems kv by (auto simp: map_of_eq_None_iff)
  have "map_of (deep_merge s c) k = (case map_of c k of None \<Rightarrow> map_of s k | Some v \<Rightarrow> merged_value (map_of s k) v)"
    using Cons by simp
  then show ?case
    unfolding kv deep_merge_Cons s_def[symmetric] using new s by (cases "k = k'") (auto split: option.splits)
qed simp

lemma wf_json_lookup: "wf_json (JObj d) \<Longrightarrow> map_of d k = Some v \<Longrightarrow> wf_json v"
  by (auto simp: list_all_iff dest!: map_of_SomeD)

lemma silent_no_leaf: "silent d ks \<Longrightarrow> leaf_at d ks = None"
  by (induction d ks rule: silent.induct) (auto split: option.splits json.splits)

lemma leaf_at_deep_merge:
  "wf_json (JObj c) \<Longrightarrow> leaf_at (deep_merge p c) ks =
     (case leaf_at c ks of Some v \<Rightarrow> Some v | None \<Rightarrow> if silent c ks then leaf_at p ks else None)"
proof (induction ks arbitrary: p c)
  case (Cons k ks)
  note lk = deep_merge_lookup[of c p k]
  show ?case
  proof (cases "map_of c k")
    case (Some v)
    then have "wf_json v" using Cons.prems by (rule wf_json_lookup[rotated])
    with Some lk Cons.prems Cons.IH silent_no_leaf show ?thesis
      by (cases v; cases "map_of p k")
         (auto simp: merged_value_def split: option.splits json.splits)
  qed (use lk Cons.prems in auto)
qed simp

text \<open>
  Merging an override into a policy refines the path-wise specification: every setting the
  override makes wins, every path on which the override is absent or null keeps the parent's
  setting, and the only settings that disappear are those on a path the override replaced.
\<close>
theorem deep_merge_refines:
  assumes "wf_json (JObj child)"
  shows "leaf_at (deep_merge parent child) path =
           (case leaf_at child path of Some v \<Rightarrow> Some v | None \<Rightarrow> if silent child path then leaf_at parent path else None)"
  by (rule leaf_at_deep_merge[OF assms])

theorem deep_merge_refines_witness:
  "leaf_at (deep_merge [(''thresholds'', JObj [(''block'', JNum 1), (''sanitize'', JBool True)])]
      [(''thresholds'', JObj [(''block'', JStr ''x''), (''sanitize'', JNull)])]) [''thresholds'', ''sanitize''] = Some (JBool True)"
  using deep_merge_refines[of "[(''thresholds'', JObj [(''block'', JStr ''x''), (''sanitize'', JNull)])]"
      "[(''thresholds'', JObj [(''block'', JNum 1), (''sanitize'', JBool True)])]" "[''thresholds'', ''sanitize'']"] by simp

section \<open>Resolution\<close>

text \<open>The numbers an enforced policy carries as its two thresholds.\<close>

definition usable_thresholds :: "policy_settings \<Rightarrow> jdict \<Rightarrow> bool" where
  "usable_thresholds S p \<longleftrightarrow>
     (case (get2 p ''thresholds'' ''block'', get2 p ''thresholds'' ''sanitize'') of
        (Inr b, Inr s) \<Rightarrow> thresholds_valid b s = Inr True \<or> b = JNum (ps_block_threshold S) \<and> s = JNum (ps_sanitize_threshold S)
      | _ \<Rightarrow> False)"

lemma get2_Inr: "get2 d k1 k2 = Inr v \<longleftrightarrow> (\<exists>e. map_of d k1 = Some (JObj e) \<and> map_of e k2 = Some v)"
  by (cases "map_of d k1") (auto simp: get2_def get1_def split: option.splits json.splits)

lemma set2_Inr: "set2 k1 k2 v d = Inr d' \<longleftrightarrow>
    (\<exists>e. map_of d k1 = Some (JObj e) \<and> d' = dict_set k1 (JObj (dict_set k2 v e)) d)"
  by (cases "map_of d k1") (auto simp: set2_def get1_def split: json.splits)

lemma get2_set2: "set2 k1 k2 v d = Inr d' \<Longrightarrow> get2 d' k1 k = (if k = k2 then Inr v else get2 d k1 k)"
  by (auto simp: set2_Inr get2_def get1_def)

lemma check_thresholds_usable: "check_thresholds S p = Inr p' \<Longrightarrow> usable_thresholds S p'"
  by (auto simp: check_thresholds_def py_bind_Inr_conv usable_thresholds_def get2_set2 split: if_splits)

lemma lift_py_Inr [simp]: "lift_py m = Inr x \<longleftrightarrow> m = Inr x"
  by (auto simp: lift_py_def split: sum.splits)

lemma resolve_policy_Inr:
  assumes "resolve_policy S layers decrypt D tenant_id dept_id app_id = Inr (p, src)"
  obtains r dov aov where "resolve_core S D tenant_id dept_id app_id = ((r, []), dov, aov)"
    "usable_thresholds S p" "src = determine_policy_source dov aov"
  using assms
  by (auto simp: resolve_policy_def py_bind_Inr_conv dest: check_thresholds_usable
      split: prod.splits sum.splits if_splits)

lemma resolve_core_loaded:
  assumes "resolve_core S D tenant_id dept_id app_id = ((r, []), dov, aov)"
  shows "(\<exists>s. load_settings S D tenant_id = Inr s)
       \<and> (truthy dept_id \<longrightarrow> (\<exists>row. pd_dept D (the dept_id) = Inr row))
       \<and> (truthy app_id \<longrightarrow> (\<exists>row. pd_app D (the app_id) = Inr row))"
  using assms
  by (auto simp: resolve_core_def override_step_def dept_layer_def app_layer_def
      split: sum.splits if_splits prod.splits)

text \<open>
  C36: Resolution fails closed. A policy is returned for enforcement only when the stored settings,
  the department and the application that were asked for could all be read, and its thresholds are
  valid (\<open>0 < sanitize < block \<le> 1\<close>) or the system's own.
\<close>
theorem resolve_policy_fails_closed:
  assumes "resolve_policy S layers decrypt D tenant_id dept_id app_id = Inr (p, src)"
  shows "(\<exists>s. load_settings S D tenant_id = Inr s)
       \<and> (truthy dept_id \<longrightarrow> (\<exists>row. pd_dept D (the dept_id) = Inr row))
       \<and> (truthy app_id \<longrightarrow> (\<exists>row. pd_app D (the app_id) = Inr row))
       \<and> usable_thresholds S p"
  using assms by (rule resolve_policy_Inr) (use resolve_core_loaded in blast)

text \<open>A configuration and an empty store, for concrete runs.\<close>

definition sample_settings :: policy_settings where
  "sample_settings = \<lparr>ps_block_threshold = 3 / 4, ps_sanitize_threshold = 1 / 2, ps_llm_trigger_threshold = 1 / 4,
     ps_llm_provider = ''none'', ps_llm_model = [], ps_llm_base_url = [], ps_llm_timeout = 5, ps_secret_key = ''k''\<rparr>"

definition sample_db :: policy_db where
  "sample_db = \<lparr>pd_platform = (\<lambda>_. Inr None), pd_tenant = (\<lambda>_ _. Inr None),
     pd_dept = (\<lambda>_. Inr (Some \<lparr>de_tenant_id = ''t2'', de_policy_override = Some [(''thresholds'', JObj [(''block'', JNum 1)])]\<rparr>)),
     pd_app = (\<lambda>_. Inr (Some \<lparr>ap_tenant_id = ''t2'', ap_policy_override = None, ap_rate_limit_override = Some 5\<rparr>))\<rparr>"

lemma sample_load: "load_settings sample_settings sample_db t = Inr (system_defaults sample_settings)"
  by (simp add: load_settings_def layered_def sample_db_def apply_thresholds_def apply_layers_def apply_llm_def
      apply_rate_limit_def dict_update_def)

lemma sample_resolve: "resolve_policy sample_settings [] decrypt sample_db (Some ''t1'') (Some ''d'') (Some ''a'') =
    Inr (system_defaults sample_settings, ''system_default'')"
proof -
  have "resolve_core sample_settings sample_db (Some ''t1'') (Some ''d'') (Some ''a'') =
      ((system_defaults sample_settings, []), None, None)"
    by (simp add: resolve_core_def sample_load override_step_def dept_layer_def app_layer_def)
       (simp add: sample_db_def foreign_owner_def)
  moreover have "fold (decrypt_section decrypt) [''llm'', ''proxy_provider''] (Inr (apply_policy_layers [] (system_defaults sample_settings))) =
      Inr (system_defaults sample_settings)"
    by (simp add: apply_policy_layers_def decrypt_section_def system_defaults_def)
  moreover have "check_thresholds sample_settings (system_defaults sample_settings) = Inr (system_defaults sample_settings)"
    by (simp add: check_thresholds_def get2_def get1_def thresholds_valid_def system_defaults_def sample_settings_def)
  ultimately show ?thesis
    by (simp add: resolve_policy_def determine_policy_source_def lift_py_def)
qed

theorem resolve_policy_fails_closed_witness:
  "usable_thresholds sample_settings (system_defaults sample_settings)"
  using resolve_policy_fails_closed[OF sample_resolve] by simp

text \<open>
  A department or an application of another tenant has no influence: the result is the one of a
  request that names neither.
\<close>
theorem foreign_rows_ignored:
  assumes "truthy tenant_id"
    and "pd_dept D (the dept_id) = Inr (Some dept)" "de_tenant_id dept \<noteq> the tenant_id"
    and "pd_app D (the app_id) = Inr (Some app)" "ap_tenant_id app \<noteq> the tenant_id"
  shows "resolve_policy S layers decrypt D tenant_id dept_id app_id = resolve_policy S layers decrypt D tenant_id None None"
  using assms
  by (auto simp: resolve_policy_def resolve_core_def override_step_def dept_layer_def app_layer_def foreign_owner_def
      split: sum.splits)

theorem foreign_rows_ignored_witness:
  "resolve_policy sample_settings [] (\<lambda>_. Inl ValueError) sample_db (Some ''t1'') (Some ''d'') (Some ''a'') =
   resolve_policy sample_settings [] (\<lambda>_. Inl ValueError) sample_db (Some ''t1'') None None"
  by (rule foreign_rows_ignored[where dept = "\<lparr>de_tenant_id = ''t2'', de_policy_override = Some [(''thresholds'', JObj [(''block'', JNum 1)])]\<rparr>"
        and app = "\<lparr>ap_tenant_id = ''t2'', ap_policy_override = None, ap_rate_limit_override = Some 5\<rparr>"])
     (simp_all add: sample_db_def)

section \<open>Credentials\<close>

lemma section_offence_allowed:
  "\<not> section_offence lower s \<Longrightarrow> kv \<in> set s \<Longrightarrow> fst kv \<in> set ALLOWED_SECTION_KEYS \<and> lower (fst kv) \<notin> set CREDENTIAL_KEYS"
  by (auto simp: section_offence_def list_ex_iff)

lemma keys_dict_set_mem: "kv \<in> set (dict_set k v d) \<Longrightarrow> fst kv \<in> insert k (fst ` set d)"
  by (metis imageI keys_dict_set)

definition kept_keys :: "(string \<Rightarrow> string) \<Rightarrow> jdict \<Rightarrow> jdict" where
  "kept_keys lower s = filter (\<lambda>(k, _). k \<noteq> ''api_key_enc'') (filter (\<lambda>(k, _). lower k \<notin> set CREDENTIAL_KEYS) s)"

lemma mask_section_shape:
  "mask_section lower decrypt s = Inr s' \<Longrightarrow>
     s' = kept_keys lower s \<or> (\<exists>v. s' = dict_set ''api_key_masked'' v (kept_keys lower s))"
  unfolding mask_section_def kept_keys_def Let_def by (auto split: option.splits if_splits sum.splits py_exn.splits)

lemma mask_section_keys:
  assumes "mask_section lower decrypt s = Inr s'" "kv \<in> set s'"
  shows "fst kv = ''api_key_masked'' \<or> (fst kv \<in> fst ` set s \<and> lower (fst kv) \<notin> set CREDENTIAL_KEYS \<and> fst kv \<noteq> ''api_key_enc'')"
proof -
  have "fst kv \<in> insert ''api_key_masked'' (fst ` set (kept_keys lower s))"
    using mask_section_shape[OF assms(1)] assms(2) keys_dict_set_mem by fastforce
  then show ?thesis by (auto simp: kept_keys_def)
qed

text \<open>A section as it may be shown: no credential name and no ciphertext.\<close>

definition shown_safely :: "(string \<Rightarrow> string) \<Rightarrow> string \<times> json \<Rightarrow> bool" where
  "shown_safely lower = (\<lambda>(n, v). case v of
     JObj s \<Rightarrow> n \<in> set ENCRYPTED_SECTIONS \<longrightarrow> list_all (\<lambda>(k, _). k \<noteq> ''api_key_enc'' \<and> lower k \<notin> set CREDENTIAL_KEYS) s
   | _ \<Rightarrow> True)"

definition section_ok :: "(string \<Rightarrow> string) \<Rightarrow> string \<times> json \<Rightarrow> bool" where
  "section_ok lower = (\<lambda>(n, v). case v of JObj s \<Rightarrow> n \<in> set ENCRYPTED_SECTIONS \<longrightarrow> \<not> section_offence lower s | _ \<Rightarrow> True)"

lemma mask_items_all:
  assumes step: "\<And>n s s'. n \<in> set ENCRYPTED_SECTIONS \<Longrightarrow> P (n, JObj s) \<Longrightarrow> mask_section lower decrypt s = Inr s' \<Longrightarrow> Q (n, JObj s')"
    and other: "\<And>n v. P (n, v) \<Longrightarrow> \<not> (n \<in> set ENCRYPTED_SECTIONS \<and> is_obj v) \<Longrightarrow> Q (n, v)"
  shows "mask_items lower decrypt d = Inr d' \<Longrightarrow> list_all P d \<Longrightarrow> list_all Q d'"
proof (induction d arbitrary: d')
  case (Cons kv d)
  obtain n v where kv: "kv = (n, v)" by (cases kv)
  from Cons.prems(1) obtain kv' r where split: "mask_items lower decrypt d = Inr r" "d' = kv' # r"
    and kv': "(if n \<in> set ENCRYPTED_SECTIONS
               then case v of JObj s \<Rightarrow> py_bind (mask_section lower decrypt s) (\<lambda>s'. Inr (n, JObj s')) | _ \<Rightarrow> Inr (n, v)
               else Inr (n, v)) = Inr kv'"
    by (auto simp: kv py_bind_Inr_conv)
  have "Q kv'"
    using kv' Cons.prems(2) step other
    by (cases v) (auto simp: kv py_bind_Inr_conv split: if_splits)
  with split Cons show ?case by simp
qed simp

text \<open>
  Whatever is stored, a read of an override never shows a credential: the two encrypted sections
  come back without ciphertext and without any credential-named key.
\<close>
theorem masked_override_safe:
  assumes "mask_policy_override lower decrypt (Some ov) = Inr (Some shown)"
    and "lower ''api_key_masked'' = ''api_key_masked''"
  shows "list_all (shown_safely lower) shown"
proof (cases "ov = []")
  case False
  with assms(1) have m: "mask_items lower decrypt ov = Inr shown"
    by (auto simp: mask_policy_override_def py_bind_Inr_conv)
  have hide: "list_all (\<lambda>(k, _). k \<noteq> ''api_key_enc'' \<and> lower k \<notin> set CREDENTIAL_KEYS) s'"
    if "mask_section lower decrypt s = Inr s'" for s s'
    using mask_section_keys[OF that] assms(2) by (fastforce simp: list_all_iff CREDENTIAL_KEYS_def)
  show ?thesis
    by (rule mask_items_all[OF _ _ m, of "\<lambda>_. True"])
       (auto simp: shown_safely_def hide list.pred_True split: json.splits)
qed (use assms(1) in \<open>simp add: mask_policy_override_def\<close>)

theorem masked_override_safe_witness:
  "list_all (shown_safely (\<lambda>k. k)) [(''llm'', JObj [(''model'', JStr ''m''), (''api_key_masked'', JStr ''****'')])]"
  by (rule masked_override_safe[where ov = "[(''llm'', JObj [(''model'', JStr ''m''), (''api_key'', JStr ''sk''), (''api_key_enc'', JStr ''c'')])]"
        and decrypt = "\<lambda>_. Inl ValueError"])
     (simp_all add: mask_policy_override_def mask_section_def ENCRYPTED_SECTIONS_def CREDENTIAL_KEYS_def json_truthy_def)

lemma reject_accepts:
  "reject_plaintext_credentials lower (Some ov) = Inr () \<longleftrightarrow>
     (\<forall>n\<in>set ENCRYPTED_SECTIONS. \<forall>s. map_of ov n = Some (JObj s) \<longrightarrow> \<not> section_offence lower s)"
proof -
  have "(case map_of ov n of Some (JObj s) \<Rightarrow> section_offence lower s | _ \<Rightarrow> False) \<longleftrightarrow>
      (\<exists>s. map_of ov n = Some (JObj s) \<and> section_offence lower s)" for n
    by (auto split: option.splits json.splits)
  then show ?thesis by (auto simp: reject_plaintext_credentials_def list_ex_iff)
qed

lemma mask_items_keys: "mask_items lower decrypt d = Inr d' \<Longrightarrow> map fst d' = map fst d"
  by (induction d arbitrary: d') (auto simp: py_bind_Inr_conv split: if_splits json.splits prod.splits)

text \<open>
  An override read back and written again is accepted: masking an override the guard accepts
  yields one it accepts.
\<close>
theorem masked_override_roundtrip:
  assumes "reject_plaintext_credentials lower (Some ov) = Inr ()"
    and "distinct (map fst ov)"
    and "mask_policy_override lower decrypt (Some ov) = Inr (Some shown)"
    and "lower ''api_key_masked'' = ''api_key_masked''"
  shows "reject_plaintext_credentials lower (Some shown) = Inr ()"
proof (cases "ov = []")
  case False
  with assms(3) have m: "mask_items lower decrypt ov = Inr shown"
    by (auto simp: mask_policy_override_def py_bind_Inr_conv)
  have ok: "list_all (section_ok lower) ov"
    using assms(1,2) by (auto simp: reject_accepts section_ok_def list_all_iff split: json.splits)
  have step: "\<not> section_offence lower s'" if s: "\<not> section_offence lower s" "mask_section lower decrypt s = Inr s'" for s s'
    using mask_section_keys[OF s(2)] section_offence_allowed[OF s(1)] assms(4)
    by (fastforce simp: section_offence_def list_ex_iff CREDENTIAL_KEYS_def ALLOWED_SECTION_KEYS_def)
  have "list_all (section_ok lower) shown"
    by (rule mask_items_all[OF _ _ m ok]) (auto simp: section_ok_def step split: json.splits)
  then show ?thesis
    by (auto simp: reject_accepts section_ok_def list_all_iff dest!: map_of_SomeD)
qed (use assms(1,3) in \<open>simp add: mask_policy_override_def\<close>)

theorem masked_override_roundtrip_witness:
  "reject_plaintext_credentials (\<lambda>k. k) (Some [(''llm'', JObj [(''model'', JStr ''m''), (''api_key_masked'', JStr ''****'')])]) = Inr ()"
  by (rule masked_override_roundtrip[where ov = "[(''llm'', JObj [(''model'', JStr ''m''), (''api_key_enc'', JStr ''c'')])]"
        and decrypt = "\<lambda>_. Inl ValueError"])
     (simp_all add: mask_policy_override_def mask_section_def ENCRYPTED_SECTIONS_def CREDENTIAL_KEYS_def json_truthy_def
       reject_plaintext_credentials_def section_offence_def ALLOWED_SECTION_KEYS_def)

end
