(* ===== verification/Redis.thy ===== *)
theory Redis
  imports Prelude Py_Int
begin

text \<open>
  The Redis commands the program calls, as parameters with their documented effect. A command takes
  the server's state to a new state and either an answer or an exception; nothing is promised about
  a command that raised. The two locales state what the answers mean in terms of what the store shows
  at a time; each is interpreted on an in-memory store with expiry times.
\<close>

section \<open>Commands\<close>

text \<open>Stored values; \<open>RDoc\<close> is a JSON document, kept as the value it decodes to.\<close>

datatype 'd rval = RStr string | RInt int | RDoc 'd

type_synonym ('r, 'a) rcmd = "'r \<Rightarrow> 'r \<times> 'a py"

definition rbind :: "('r, 'a) rcmd \<Rightarrow> ('a \<Rightarrow> ('r, 'b) rcmd) \<Rightarrow> ('r, 'b) rcmd" where
  "rbind m f = (\<lambda>r. case m r of (r', Inl e) \<Rightarrow> (r', Inl e) | (r', Inr x) \<Rightarrow> f x r')"

definition rret :: "'a \<Rightarrow> ('r, 'a) rcmd" where
  "rret x = (\<lambda>r. (r, Inr x))"

text \<open>\<^verbatim>\<open>try: ... except Exception:\<close> around store commands.\<close>

definition rtry :: "('r, 'a) rcmd \<Rightarrow> (py_exn \<Rightarrow> 'a) \<Rightarrow> 'r \<Rightarrow> 'r \<times> 'a" where
  "rtry m h = (\<lambda>r. case m r of (r', res) \<Rightarrow> (r', try_except res h))"

named_theorems redis_run \<open>running store commands\<close>

lemma rret_apply [simp, redis_run]: "rret x r = (r, Inr x)"
  by (simp add: rret_def)

lemma rbind_Inr [redis_run]: "rbind m f r = (r', Inr y) \<longleftrightarrow> (\<exists>r1 x. m r = (r1, Inr x) \<and> f x r1 = (r', Inr y))"
  by (auto simp: rbind_def split: prod.splits sum.splits)

record ('r, 'd) redis =
  r_get :: "rat \<Rightarrow> string \<Rightarrow> ('r, 'd rval option) rcmd"
  r_exists :: "rat \<Rightarrow> string \<Rightarrow> ('r, bool) rcmd"
  r_ttl :: "rat \<Rightarrow> string \<Rightarrow> ('r, int) rcmd"
  r_setex :: "rat \<Rightarrow> string \<Rightarrow> int \<Rightarrow> 'd rval \<Rightarrow> ('r, unit) rcmd"
  r_set_nx :: "rat \<Rightarrow> string \<Rightarrow> 'd rval \<Rightarrow> int \<Rightarrow> ('r, bool) rcmd"
  r_incr_expire :: "rat \<Rightarrow> string \<Rightarrow> int \<Rightarrow> ('r, int) rcmd"
  r_delete :: "rat \<Rightarrow> string \<Rightarrow> ('r, unit) rcmd"

text \<open>What a store shows for a key that was written at \<open>t\<close> with a time to live of \<open>n\<close> seconds.\<close>

definition until :: "rat \<Rightarrow> int \<Rightarrow> 'v \<Rightarrow> rat \<Rightarrow> 'v option" where
  "until t n v t' = (if t' < t + of_int n then Some v else None)"

fun counter_value :: "'d rval option \<Rightarrow> int" where
  "counter_value (Some (RInt n)) = n"
| "counter_value _ = 0"

locale redis_kv =
  fixes R :: "('r, 'd) redis" and val :: "'r \<Rightarrow> rat \<Rightarrow> string \<Rightarrow> 'd rval option"
  assumes get_val: "r_get R t k r = (r', Inr ans) \<Longrightarrow> ans = val r t k \<and> (\<forall>t' k'. t \<le> t' \<longrightarrow> val r' t' k' = val r t' k')"
    and exists_val: "r_exists R t k r = (r', Inr b) \<Longrightarrow> b = (val r t k \<noteq> None) \<and> (\<forall>t' k'. t \<le> t' \<longrightarrow> val r' t' k' = val r t' k')"
    and setex_val: "r_setex R t k n v r = (r', Inr u) \<Longrightarrow> 0 < n \<Longrightarrow> t \<le> t' \<Longrightarrow>
          val r' t' k' = (if k' = k then until t n v t' else val r t' k')"
    and set_nx_new: "r_set_nx R t k v n r = (r', Inr True) \<Longrightarrow> 0 < n \<Longrightarrow> t \<le> t' \<Longrightarrow>
          val r t k = None \<and> val r' t' k' = (if k' = k then until t n v t' else val r t' k')"
    and set_nx_old: "r_set_nx R t k v n r = (r', Inr False) \<Longrightarrow> t \<le> t' \<Longrightarrow>
          val r t k \<noteq> None \<and> val r' t' k' = val r t' k'"
    and incr_val: "r_incr_expire R t k n r = (r', Inr c) \<Longrightarrow> 0 < n \<Longrightarrow> t \<le> t' \<Longrightarrow>
          c = counter_value (val r t k) + 1 \<and> val r' t' k' = (if k' = k then until t n (RInt c) t' else val r t' k')"
    and delete_val: "r_delete R t k r = (r', Inr u) \<Longrightarrow> t \<le> t' \<Longrightarrow>
          val r' t' k' = (if k' = k then None else val r t' k')"

section \<open>Sorted sets\<close>

record 'r zredis =
  z_error :: "'r \<Rightarrow> rat \<Rightarrow> py_exn option"
  z_remrangebyscore :: "rat \<Rightarrow> string \<Rightarrow> rat \<Rightarrow> rat \<Rightarrow> 'r \<Rightarrow> 'r"
  z_card :: "rat \<Rightarrow> string \<Rightarrow> 'r \<Rightarrow> nat"
  z_add :: "rat \<Rightarrow> string \<Rightarrow> rat \<Rightarrow> ustr \<Rightarrow> 'r \<Rightarrow> 'r"
  z_expire :: "rat \<Rightarrow> string \<Rightarrow> int \<Rightarrow> 'r \<Rightarrow> 'r"

definition outside :: "rat \<Rightarrow> rat \<Rightarrow> (ustr \<rightharpoonup> rat) \<Rightarrow> (ustr \<rightharpoonup> rat)" where
  "outside lo hi z = (\<lambda>m. case z m of Some s \<Rightarrow> if lo \<le> s \<and> s \<le> hi then None else Some s | None \<Rightarrow> None)"

locale redis_zset =
  fixes Z :: "'r zredis" and scores :: "'r \<Rightarrow> rat \<Rightarrow> string \<Rightarrow> (ustr \<rightharpoonup> rat)"
  assumes finite_scores: "finite (dom (scores r t k))"
    and rem_scores: "t \<le> t' \<Longrightarrow> scores (z_remrangebyscore Z t k lo hi r) t' k' = (if k' = k then outside lo hi (scores r t' k) else scores r t' k')"
    and card_scores: "z_card Z t k r = card (dom (scores r t k))"
    and add_scores: "scores (z_add Z t k s m r) t k = (scores r t k)(m \<mapsto> s)"
    and add_other: "k' \<noteq> k \<Longrightarrow> t \<le> t' \<Longrightarrow> scores (z_add Z t k s m r) t' k' = scores r t' k'"
    and expire_scores: "0 < n \<Longrightarrow> t \<le> t' \<Longrightarrow> scores (z_expire Z t k n r) t' k' =
          (if k' = k then if t' < t + of_int n then scores r t k else Map.empty else scores r t' k')"

section \<open>An in-memory store\<close>

type_synonym 'd mem = "string \<Rightarrow> ('d rval \<times> rat) option"

definition mem_val :: "'d mem \<Rightarrow> rat \<Rightarrow> string \<Rightarrow> 'd rval option" where
  "mem_val r t k = (case r k of Some (v, e) \<Rightarrow> if t < e then Some v else None | None \<Rightarrow> None)"

definition mem_redis :: "('d mem, 'd) redis" where
  "mem_redis = \<lparr>
     r_get = (\<lambda>t k r. (r, Inr (mem_val r t k))),
     r_exists = (\<lambda>t k r. (r, Inr (mem_val r t k \<noteq> None))),
     r_ttl = (\<lambda>t k r. (r, Inr (case r k of Some (v, e) \<Rightarrow> if t < e then \<lceil>e - t\<rceil> else -2 | None \<Rightarrow> -2))),
     r_setex = (\<lambda>t k n v r. (r(k \<mapsto> (v, t + of_int n)), Inr ())),
     r_set_nx = (\<lambda>t k v n r. if mem_val r t k = None then (r(k \<mapsto> (v, t + of_int n)), Inr True) else (r, Inr False)),
     r_incr_expire = (\<lambda>t k n r. let c = counter_value (mem_val r t k) + 1 in (r(k \<mapsto> (RInt c, t + of_int n)), Inr c)),
     r_delete = (\<lambda>t k r. (r(k := None), Inr ())) \<rparr>"

interpretation mem: redis_kv mem_redis mem_val
proof
  fix t :: rat and k n v r r' u t' k'
  show "r_setex mem_redis t k n v r = (r', Inr u) \<Longrightarrow> 0 < n \<Longrightarrow> t \<le> t' \<Longrightarrow>
      mem_val r' t' k' = (if k' = k then until t n v t' else mem_val r t' k')"
    by (auto simp: mem_redis_def mem_val_def until_def)
next
  fix t :: rat and k v n r r' t' k'
  show "r_set_nx mem_redis t k v n r = (r', Inr True) \<Longrightarrow> 0 < n \<Longrightarrow> t \<le> t' \<Longrightarrow>
      mem_val r t k = None \<and> mem_val r' t' k' = (if k' = k then until t n v t' else mem_val r t' k')"
    by (cases "mem_val r t k") (auto simp: mem_redis_def mem_val_def[of "r(k \<mapsto> x)" for x] until_def mem_val_def[of r t'])
next
  fix t :: rat and k n r r' c t' k'
  show "r_incr_expire mem_redis t k n r = (r', Inr c) \<Longrightarrow> 0 < n \<Longrightarrow> t \<le> t' \<Longrightarrow>
      c = counter_value (mem_val r t k) + 1 \<and> mem_val r' t' k' = (if k' = k then until t n (RInt c) t' else mem_val r t' k')"
    by (auto simp: mem_redis_def mem_val_def[of "r(k \<mapsto> x)" for x] mem_val_def[of r t'] until_def Let_def)
qed (auto simp: mem_redis_def mem_val_def split: if_splits)

type_synonym zmem = "string \<Rightarrow> (ustr \<times> rat) list \<times> rat option"

definition zmem_live :: "zmem \<Rightarrow> rat \<Rightarrow> string \<Rightarrow> (ustr \<times> rat) list" where
  "zmem_live r t k = (case r k of (z, e) \<Rightarrow> if (case e of None \<Rightarrow> True | Some u \<Rightarrow> t < u) then z else [])"

definition zmem_scores :: "zmem \<Rightarrow> rat \<Rightarrow> string \<Rightarrow> (ustr \<rightharpoonup> rat)" where
  "zmem_scores r t k = map_of (zmem_live r t k)"

definition zmem_redis :: "zmem zredis" where
  "zmem_redis = \<lparr>
     z_error = (\<lambda>r t. None),
     z_remrangebyscore = (\<lambda>t k lo hi r. r(k := (filter (\<lambda>(m, s). \<not> (case map_of (fst (r k)) m of Some v \<Rightarrow> lo \<le> v \<and> v \<le> hi | None \<Rightarrow> False)) (fst (r k)), snd (r k)))),
     z_card = (\<lambda>t k r. card (fst ` set (zmem_live r t k))),
     z_add = (\<lambda>t k s m r. r(k := (dict_set m s (zmem_live r t k), if zmem_live r t k = [] then None else snd (r k)))),
     z_expire = (\<lambda>t k n r. r(k := (zmem_live r t k, Some (t + of_int n)))) \<rparr>"

lemma map_of_filter_keys: "map_of (filter (\<lambda>(m, s). P m) z) = (\<lambda>m. if P m then map_of z m else None)"
  by (induction z) (auto simp: fun_eq_iff)

interpretation zmem: redis_zset zmem_redis zmem_scores
proof
  fix r t k
  show "finite (dom (zmem_scores r t k))" by (simp add: zmem_scores_def finite_dom_map_of)
  show "z_card zmem_redis t k r = card (dom (zmem_scores r t k))"
    by (simp add: zmem_redis_def zmem_scores_def dom_map_of_conv_image_fst)
next
  fix t t' :: rat and k lo hi r k'
  assume "t \<le> t'"
  show "zmem_scores (z_remrangebyscore zmem_redis t k lo hi r) t' k' = (if k' = k then outside lo hi (zmem_scores r t' k) else zmem_scores r t' k')"
    by (auto simp: zmem_redis_def zmem_scores_def zmem_live_def outside_def map_of_filter_keys fun_eq_iff
        split: option.splits prod.splits)
next
  fix t k s m r
  show "zmem_scores (z_add zmem_redis t k s m r) t k = (zmem_scores r t k)(m \<mapsto> s)"
    by (auto simp: zmem_redis_def zmem_scores_def zmem_live_def split: option.splits prod.splits)
qed (auto simp: zmem_redis_def zmem_scores_def zmem_live_def)

section \<open>A store that answers\<close>

locale redis_up = redis_kv +
  assumes get_up: "\<exists>r' x. r_get R t k r = (r', Inr x)"
    and set_nx_up: "\<exists>r' b. r_set_nx R t k v n r = (r', Inr b)"
    and setex_up: "\<exists>r' u. r_setex R t k n v r = (r', Inr u)"
begin

lemma get_answers: "\<exists>r'. r_get R t k r = (r', Inr (val r t k)) \<and> (\<forall>t' k'. t \<le> t' \<longrightarrow> val r' t' k' = val r t' k')"
  by (metis get_up get_val)

end

interpretation mem_up: redis_up mem_redis mem_val
  by unfold_locales (auto simp: mem_redis_def)

end
