(* ===== verification/Rate_Limit.thy ===== *)
theory Rate_Limit
  imports Redis Json
begin

text \<open>
  Rate limiting: the sliding-window Lua script and its callers (\<^verbatim>\<open>cache/rate_limit_store.py\<close>), the
  middleware in front of the gateway paths (\<^verbatim>\<open>api/v1/middleware/rate_limit.py\<close>) and the charge for
  the extra units of a multi-input request (\<^verbatim>\<open>services/gateway/fanout.py\<close>).
\<close>

section \<open>The script\<close>

definition WINDOW_SECS :: int where
  "WINDOW_SECS = 60"

text \<open>The member added for the i-th unit: \<^verbatim>\<open>member .. ':' .. i\<close>.\<close>

definition slot :: "ustr \<Rightarrow> int \<Rightarrow> ustr" where
  "slot member i = member @ 58 # str_int i"

definition rate_limit_lua :: "'r zredis \<Rightarrow> string \<Rightarrow> rat \<Rightarrow> int \<Rightarrow> int \<Rightarrow> ustr \<Rightarrow> int \<Rightarrow> 'r \<Rightarrow> 'r \<times> (int \<times> int)" where
  "rate_limit_lua Z key now window limit member cost r =
     (let r1 = z_remrangebyscore Z now key 0 (fsub now (of_int window)) r;
          count = int (z_card Z now key r1)
      in if count + cost > limit
         then (let left = limit - count in (r1, (1, if left < 0 then 0 else left)))
         else (let r2 = fold (\<lambda>i. z_add Z now key now (slot member i)) [1..cost] r1
               in (z_expire Z now key window r2, (0, limit - count - cost))))"

record limiter_settings =
  rate_limit_per_minute :: int
  rate_limit_per_ip_per_minute :: int
  rate_limit_enabled :: bool

definition rate_limit_key :: "string \<Rightarrow> string" where
  "rate_limit_key client_ip = ''rate_limit:'' @ client_ip"

definition is_rate_limited :: "'r zredis \<Rightarrow> limiter_settings \<Rightarrow> rat \<Rightarrow> ustr \<Rightarrow> string \<Rightarrow> int option \<Rightarrow> int \<Rightarrow>
    'r \<Rightarrow> 'r \<times> (bool \<times> int \<times> int)" where
  "is_rate_limited Z S now member client_ip limit cost r =
     (case z_error Z r now of
        Some _ \<Rightarrow> (r, (False, rate_limit_per_minute S, 0))
      | None \<Rightarrow>
          let eff_lim = if_none limit (rate_limit_per_minute S);
              reset_at = py_trunc (fadd now (of_int WINDOW_SECS));
              (r', (res0, res1)) = rate_limit_lua Z (rate_limit_key client_ip) now WINDOW_SECS eff_lim member (max 1 cost) r
          in (r', (res0 \<noteq> 0, res1, reset_at)))"

definition get_rate_limit_headers :: "'r zredis \<Rightarrow> limiter_settings \<Rightarrow> rat \<Rightarrow> string \<Rightarrow> 'r \<Rightarrow> 'r \<times> (int \<times> int \<times> int)" where
  "get_rate_limit_headers Z S now client_ip r =
     (case z_error Z r now of
        Some _ \<Rightarrow> (r, (rate_limit_per_minute S, rate_limit_per_minute S, 0))
      | None \<Rightarrow>
          let key = rate_limit_key client_ip;
              limit = rate_limit_per_minute S;
              r1 = z_remrangebyscore Z now key 0 (fsub now (of_int WINDOW_SECS)) r
          in (r1, (limit, max 0 (limit - int (z_card Z now key r1)), py_trunc (fadd now (of_int WINDOW_SECS)))))"

section \<open>The middleware\<close>

definition PUBLIC_PATHS :: "string list" where
  "PUBLIC_PATHS = [''/health'', ''/health/ready'', ''/health/live'', ''/metrics'']"

definition RATE_LIMITED_PREFIXES :: "string list" where
  "RATE_LIMITED_PREFIXES = [''/v1/ai'', ''/v1/chat/completions'']"

text \<open>
  \<^verbatim>\<open>_get_live_rate_limit\<close>: the cached document, else the stored platform setting (which is written
  back to the cache), else the configured value; every exception falls back to the latter.
\<close>

definition get_live_rate_limit :: "limiter_settings \<Rightarrow> bool \<Rightarrow> jdict option py \<Rightarrow> jdict option py \<Rightarrow> unit py \<Rightarrow> int" where
  "get_live_rate_limit S testing cached stored setex =
     (if testing then rate_limit_per_minute S
      else try_except
        (py_bind cached (\<lambda>c. case c of
           Some d \<Rightarrow> (case map_of d ''per_minute'' of Some v \<Rightarrow> json_int v | None \<Rightarrow> Inr (rate_limit_per_minute S))
         | None \<Rightarrow> py_bind stored (\<lambda>s. case s of
             Some d \<Rightarrow> (case map_of d ''per_minute'' of
                 Some v \<Rightarrow> py_bind (json_int v) (\<lambda>limit. py_bind setex (\<lambda>_. Inr limit))
               | None \<Rightarrow> Inr (rate_limit_per_minute S))
           | None \<Rightarrow> Inr (rate_limit_per_minute S))))
        (\<lambda>_. rate_limit_per_minute S))"

record limited_request =
  rq_path :: string
  rq_api_key :: string
  rq_client_ip :: string

datatype limiter_outcome =
    PassThrough
  | RateLimitExceeded int int int
  | Forwarded int int int

definition rate_limit_id_of :: "(string \<Rightarrow> string) \<Rightarrow> limited_request \<Rightarrow> string" where
  "rate_limit_id_of sha256 q =
     (if rq_api_key q \<noteq> [] then ''key:'' @ take 16 (sha256 (rq_api_key q)) else ''ip:'' @ rq_client_ip q)"

text \<open>
  \<^verbatim>\<open>RateLimitMiddleware.dispatch\<close> up to the call of the next handler: the store, the identifier that
  is published on the request (\<open>None\<close> where limiting does not apply), and the outcome with the three
  header values.
\<close>

definition limiter_dispatch :: "'r zredis \<Rightarrow> limiter_settings \<Rightarrow> (string \<Rightarrow> string) \<Rightarrow> int \<Rightarrow> rat \<Rightarrow> ustr \<Rightarrow> ustr \<Rightarrow>
    limited_request \<Rightarrow> 'r \<Rightarrow> 'r \<times> string option \<times> limiter_outcome" where
  "limiter_dispatch Z S sha256 effective_limit now m1 m2 q r =
     (if rq_path q \<in> set PUBLIC_PATHS then (r, None, PassThrough)
      else if \<not> list_ex (startswith (rq_path q)) RATE_LIMITED_PREFIXES then (r, None, PassThrough)
      else if \<not> rate_limit_enabled S then (r, None, PassThrough)
      else
        let rate_limit_id = rate_limit_id_of sha256 q;
            (r1, (source_limited, _, source_reset)) =
              is_rate_limited Z S now m1 (''src:'' @ rq_client_ip q) (Some (rate_limit_per_ip_per_minute S)) 1 r;
            (r2, (is_limited, remaining, reset_at)) =
              (if source_limited then (r1, (True, 0, source_reset))
               else is_rate_limited Z S now m2 rate_limit_id (Some effective_limit) 1 r1)
        in (r2, Some rate_limit_id,
            (if is_limited then RateLimitExceeded else Forwarded) effective_limit (max 0 remaining) reset_at))"

section \<open>Extra units\<close>

text \<open>
  \<open>None\<close> is a request on which no identifier was published, \<open>Some None\<close> one on which limiting is off;
  the answer says whether \<^verbatim>\<open>RateLimitError\<close> is raised.
\<close>

definition charge_additional_units :: "'r zredis \<Rightarrow> limiter_settings \<Rightarrow> rat \<Rightarrow> ustr \<Rightarrow> string option option \<Rightarrow> int \<Rightarrow>
    'r \<Rightarrow> 'r \<times> bool" where
  "charge_additional_units Z S now member published n r =
     (if n \<le> 1 then (r, False)
      else case published of
        Some (Some rate_limit_id) \<Rightarrow>
          (case is_rate_limited Z S now member rate_limit_id None (n - 1) r of (r', (is_limited, _, _)) \<Rightarrow> (r', is_limited))
      | _ \<Rightarrow> (r, False))"

section \<open>The window is never overdrawn\<close>

record limiter_call =
  lc_now :: rat
  lc_member :: ustr
  lc_cost :: int

text \<open>A sequence of script calls on one key, with the log of the admitted ones.\<close>

fun limiter_run :: "'r zredis \<Rightarrow> string \<Rightarrow> int \<Rightarrow> limiter_call list \<Rightarrow> 'r \<Rightarrow> 'r \<times> (rat \<times> int) list" where
  "limiter_run Z key limit [] r = (r, [])"
| "limiter_run Z key limit (c # cs) r =
     (case rate_limit_lua Z key (lc_now c) WINDOW_SECS limit (lc_member c) (lc_cost c) r of (r', (res, _)) \<Rightarrow>
        (case limiter_run Z key limit cs r' of (r'', adm) \<Rightarrow>
           (r'', if res = 0 then (lc_now c, lc_cost c) # adm else adm)))"

text \<open>Units admitted after \<open>w\<close>, and in the window that ends at \<open>T\<close>.\<close>

definition cost_after :: "rat \<Rightarrow> (rat \<times> int) list \<Rightarrow> int" where
  "cost_after w adm = (\<Sum>(s, c)\<leftarrow>adm. if w < s then c else 0)"

definition window_cost :: "rat \<Rightarrow> (rat \<times> int) list \<Rightarrow> int" where
  "window_cost T adm = (\<Sum>(s, c)\<leftarrow>adm. if fsub T (of_int WINDOW_SECS) < s \<and> s \<le> T then c else 0)"

end
