(* ===== verification/Rate_Limit_Facts.thy ===== *)
theory Rate_Limit_Facts
  imports Rate_Limit
begin

text \<open>
  Facts about rate limiting: no window of \<^const>\<open>WINDOW_SECS\<close> seconds ever admits more than the limit,
  the order in which the middleware charges its two buckets, and the limit the extra units of a
  multi-input request are checked against.
\<close>

section \<open>Unit names\<close>

lemma slot_inj: "slot m i = slot m' i' \<longleftrightarrow> m = m' \<and> i = i'"
proof
  assume eq: "slot m i = slot m' i'"
  have no: "58 \<notin> set (str_int j)" for j
    using str_int_range[of j] by fastforce
  have tail: "takeWhile (\<lambda>c. c \<noteq> 58) (rev (slot x j)) = rev (str_int j)" for x j
    unfolding slot_def rev_append rev.simps append_assoc using no[of j] by (subst takeWhile_append2) auto
  have "str_int i = str_int i'" using tail[of m i] tail[of m' i'] eq by (metis rev_rev_ident)
  with eq show "m = m' \<and> i = i'" by (simp add: slot_def str_int_inj)
qed simp

section \<open>The window invariant\<close>

definition recent :: "rat \<Rightarrow> (ustr \<rightharpoonup> rat) \<Rightarrow> ustr set" where
  "recent w z = {m. \<exists>s. z m = Some s \<and> w < s}"

lemma cost_after_simps [simp]:
  "cost_after w [] = 0" "cost_after w (adm @ [(s, c)]) = cost_after w adm + (if w < s then c else 0)"
  by (simp_all add: cost_after_def)

lemma window_cost_simps [simp]:
  "window_cost T [] = 0"
  "window_cost T (adm @ [(s, c)]) = window_cost T adm + (if fsub T (of_int WINDOW_SECS) < s \<and> s \<le> T then c else 0)"
  by (simp_all add: window_cost_def)

lemma cost_after_none: "\<forall>(s, c)\<in>set adm. s \<le> w \<Longrightarrow> cost_after w adm = 0"
  by (induction adm) (auto simp: cost_after_def)

lemma window_le_after:
  assumes "\<forall>(s, c)\<in>set adm. 0 \<le> c" "w \<le> fsub T (of_int WINDOW_SECS)"
  shows "window_cost T adm \<le> cost_after w adm"
  unfolding window_cost_def cost_after_def
  by (rule sum_list_mono) (use assms in \<open>force split: if_splits\<close>)

lemma recent_outside: "hi \<le> w \<Longrightarrow> recent w (outside lo hi z) = recent w z"
  by (auto simp: recent_def outside_def split: option.splits if_splits)

lemma dom_outside: "\<forall>m s. z m = Some s \<longrightarrow> lo \<le> s \<Longrightarrow> dom (outside lo hi z) = recent hi z"
  by (force simp: recent_def outside_def split: option.splits if_splits)

text \<open>
  What the store knows of the admitted units after a call at time \<open>t\<close>: from then on, at every time and
  for every bound inside the window of that time, it holds exactly the units admitted after the bound.
\<close>

definition limiter_inv :: "('r \<Rightarrow> rat \<Rightarrow> string \<Rightarrow> (ustr \<rightharpoonup> rat)) \<Rightarrow> string \<Rightarrow> int \<Rightarrow> ustr set \<Rightarrow> rat \<Rightarrow> (rat \<times> int) list \<Rightarrow> 'r \<Rightarrow> bool" where
  "limiter_inv scores key limit used t adm r \<longleftrightarrow>
     (\<forall>t' w. t \<le> t' \<longrightarrow> fsub t' (of_int WINDOW_SECS) \<le> w \<longrightarrow> int (card (recent w (scores r t' key))) = cost_after w adm)
   \<and> (\<forall>t' m s. t \<le> t' \<longrightarrow> scores r t' key m = Some s \<longrightarrow> 0 \<le> s \<and> (\<exists>x\<in>used. \<exists>i. m = slot x i))
   \<and> (\<forall>(s, c)\<in>set adm. 0 \<le> c \<and> s \<le> t \<and> fl s = s)
   \<and> (\<forall>T. window_cost T adm \<le> max 0 limit)"

lemma fold_update_const: "fold (\<lambda>i z. z(f i \<mapsto> s)) is z = (\<lambda>m. if m \<in> f ` set is then Some s else z m)"
  by (induction "is" arbitrary: z) (auto simp: fun_eq_iff)

context redis_zset
begin

lemma fold_add_scores:
  "scores (fold (\<lambda>i. z_add Z t k s (f i)) is r) t k = fold (\<lambda>i z. z(f i \<mapsto> s)) is (scores r t k)"
  by (induction "is" arbitrary: r) (simp_all add: add_scores)

lemma finite_recent: "finite (recent w (scores r t k))"
  by (rule finite_subset[OF _ finite_scores[of r t k]]) (auto simp: recent_def)

text \<open>The count the script sees is the number of units admitted inside the window.\<close>

lemma script_count:
  assumes inv: "limiter_inv scores key limit used t adm r" and "t \<le> now"
  defines "r1 \<equiv> z_remrangebyscore Z now key 0 (fsub now (of_int WINDOW_SECS)) r"
  shows "int (z_card Z now key r1) = cost_after (fsub now (of_int WINDOW_SECS)) adm"
proof -
  have "dom (scores r1 now key) = recent (fsub now (of_int WINDOW_SECS)) (scores r now key)"
    unfolding r1_def using inv \<open>t \<le> now\<close> by (subst rem_scores) (auto simp: limiter_inv_def intro!: dom_outside)
  then show ?thesis
    using inv \<open>t \<le> now\<close> by (simp add: card_scores limiter_inv_def)
qed

lemma inv_after_rem:
  assumes inv: "limiter_inv scores key limit used t adm r" and "t \<le> now"
  shows "limiter_inv scores key limit used now adm (z_remrangebyscore Z now key 0 (fsub now (of_int WINDOW_SECS)) r)"
proof -
  let ?r = "z_remrangebyscore Z now key 0 (fsub now (of_int WINDOW_SECS)) r"
  have sc: "scores ?r t' key = outside 0 (fsub now (of_int WINDOW_SECS)) (scores r t' key)" if "now \<le> t'" for t'
    using rem_scores[OF that] by simp
  have "int (card (recent w (scores ?r t' key))) = cost_after w adm"
    if "now \<le> t'" "fsub t' (of_int WINDOW_SECS) \<le> w" for t' w
  proof -
    have "fsub now (of_int WINDOW_SECS) \<le> w"
      using fsub_mono[OF that(1)] that(2) by (rule order_trans)
    then show ?thesis
      using inv that \<open>t \<le> now\<close> by (simp add: sc recent_outside limiter_inv_def)
  qed
  moreover have "0 \<le> s \<and> (\<exists>x\<in>used. \<exists>i. m = slot x i)" if "now \<le> t'" "scores ?r t' key m = Some s" for t' m s
  proof -
    have "scores r t' key m = Some s"
      using that by (auto simp: sc outside_def split: option.splits if_splits)
    with that(1) \<open>t \<le> now\<close> inv show ?thesis unfolding limiter_inv_def by (meson order_trans)
  qed
  ultimately show ?thesis
    using inv \<open>t \<le> now\<close> unfolding limiter_inv_def by (auto split: prod.splits)
qed

lemma scores_after_admit:
  assumes "now \<le> t'"
  shows "scores (z_expire Z now key WINDOW_SECS (fold (\<lambda>i. z_add Z now key now (slot member i)) [1..cost] r)) t' key =
    (if t' < now + of_int WINDOW_SECS
     then (\<lambda>m. if m \<in> slot member ` {1..cost} then Some now else scores r now key m) else Map.empty)"
  using assms by (simp add: expire_scores WINDOW_SECS_def fold_add_scores fold_update_const)

lemma card_recent_admit:
  assumes fresh: "\<And>i. scores r now key (slot member i) = None" and "1 \<le> cost"
  shows "int (card (recent w (\<lambda>m. if m \<in> slot member ` {1..cost} then Some now else scores r now key m))) =
         int (card (recent w (scores r now key))) + (if w < now then cost else 0)"
proof -
  have "recent w (\<lambda>m. if m \<in> slot member ` {1..cost} then Some now else scores r now key m) =
        recent w (scores r now key) \<union> (if w < now then slot member ` {1..cost} else {})"
    using fresh by (auto simp: recent_def)
  moreover have "recent w (scores r now key) \<inter> slot member ` {1..cost} = {}"
    using fresh by (auto simp: recent_def)
  moreover have "card (slot member ` {1..cost}) = nat cost"
    by (subst card_image) (auto simp: inj_on_def slot_inj)
  ultimately show ?thesis
    using assms(2) by (auto simp: card_Un_disjoint finite_recent)
qed

lemma inv_after_admit:
  assumes inv: "limiter_inv scores key limit used now adm r" and fresh: "member \<notin> used"
    and cost: "1 \<le> cost" and now: "0 \<le> now" "fl now = now"
    and fits: "cost_after (fsub now (of_int WINDOW_SECS)) adm + cost \<le> limit"
  shows "limiter_inv scores key limit (insert member used) now (adm @ [(now, cost)])
           (z_expire Z now key WINDOW_SECS (fold (\<lambda>i. z_add Z now key now (slot member i)) [1..cost] r))"
    (is "limiter_inv _ _ _ _ _ ?adm ?r")
proof -
  have new: "scores r now key (slot member i) = None" for i
    using inv fresh unfolding limiter_inv_def by (metis not_None_eq order_refl slot_inj)
  have past: "\<forall>(s, c)\<in>set ?adm. 0 \<le> c \<and> s \<le> now \<and> fl s = s"
    using inv cost now unfolding limiter_inv_def by auto
  have count: "int (card (recent w (scores ?r t' key))) = cost_after w ?adm"
    if t': "now \<le> t'" and w: "fsub t' (of_int WINDOW_SECS) \<le> w" for t' w
  proof (cases "t' < now + of_int WINDOW_SECS")
    case True
    have "fsub now (of_int WINDOW_SECS) \<le> w" using fsub_mono[OF t'] w by (rule order_trans)
    with inv have "int (card (recent w (scores r now key))) = cost_after w adm"
      by (simp add: limiter_inv_def)
    with True show ?thesis
      by (simp add: scores_after_admit[OF t'] card_recent_admit[OF new cost])
  next
    case False
    then have "fl now \<le> fsub t' (of_int WINDOW_SECS)" unfolding fsub_def by (intro fl_mono) simp
    with now w past have "\<forall>(s, c)\<in>set ?adm. s \<le> w" by fastforce
    from cost_after_none[OF this] False show ?thesis by (simp add: scores_after_admit[OF t'] recent_def)
  qed
  have shape: "0 \<le> s \<and> (\<exists>x\<in>insert member used. \<exists>i. m = slot x i)"
    if "now \<le> t'" "scores ?r t' key m = Some s" for t' m s
    using that inv now(1) by (auto simp: scores_after_admit limiter_inv_def split: if_splits)
  have "window_cost T ?adm \<le> max 0 limit" for T
  proof (cases "now \<le> T")
    case True
    have "window_cost T ?adm \<le> cost_after (fsub now (of_int WINDOW_SECS)) ?adm"
      using past fsub_mono[OF True] by (intro window_le_after) auto
    with fits cost show ?thesis by (auto split: if_splits)
  next
    case False
    with inv show ?thesis by (simp add: limiter_inv_def)
  qed
  with count shape past show ?thesis unfolding limiter_inv_def by blast
qed

text \<open>One call of the script keeps the invariant.\<close>

lemma script_step:
  assumes inv: "limiter_inv scores key limit used t adm r" and "t \<le> lc_now c"
    and "lc_member c \<notin> used" "1 \<le> lc_cost c" "0 \<le> lc_now c" "fl (lc_now c) = lc_now c"
    and run: "rate_limit_lua Z key (lc_now c) WINDOW_SECS limit (lc_member c) (lc_cost c) r = (r', (res, left))"
  shows "limiter_inv scores key limit (insert (lc_member c) used) (lc_now c)
           (adm @ (if res = 0 then [(lc_now c, lc_cost c)] else [])) r'"
proof -
  note rem = inv_after_rem[OF assms(1,2)] and count = script_count[OF assms(1,2)]
  show ?thesis
  proof (cases "cost_after (fsub (lc_now c) (of_int WINDOW_SECS)) adm + lc_cost c > limit")
    case True
    then have "res \<noteq> 0" "r' = z_remrangebyscore Z (lc_now c) key 0 (fsub (lc_now c) (of_int WINDOW_SECS)) r"
      using run count by (auto simp: rate_limit_lua_def Let_def)
    with rem show ?thesis unfolding limiter_inv_def by auto
  next
    case False
    with run count inv_after_admit[OF rem assms(3-6)] show ?thesis
      by (auto simp: rate_limit_lua_def Let_def)
  qed
qed

lemma limiter_run_inv:
  assumes "limiter_inv scores key limit used t adm r" "limiter_run Z key limit cs r = (r', adm')"
    "sorted (t # map lc_now cs)" "distinct (map lc_member cs)" "set (map lc_member cs) \<inter> used = {}"
    "\<forall>c\<in>set cs. 1 \<le> lc_cost c \<and> 0 \<le> lc_now c \<and> fl (lc_now c) = lc_now c"
  shows "\<exists>used t'. limiter_inv scores key limit used t' (adm @ adm') r'"
  using assms
proof (induction cs arbitrary: used t adm r adm')
  case (Cons c cs)
  obtain r1 res left where step: "rate_limit_lua Z key (lc_now c) WINDOW_SECS limit (lc_member c) (lc_cost c) r = (r1, (res, left))"
    by (metis prod.exhaust)
  obtain adm1 where rest: "limiter_run Z key limit cs r1 = (r', adm1)"
    "adm' = (if res = 0 then [(lc_now c, lc_cost c)] else []) @ adm1"
    using Cons.prems(2) step by (auto split: prod.splits)
  show ?case
    using Cons.IH[OF script_step[OF Cons.prems(1) _ _ _ _ _ step] rest(1)] Cons.prems(3-6) rest(2) by auto
qed auto

lemma limiter_inv_start: "(\<And>t. scores r t key = Map.empty) \<Longrightarrow> limiter_inv scores key limit {} t [] r"
  by (auto simp: limiter_inv_def recent_def)

lemma window_bound:
  assumes "\<And>t. scores r t key = Map.empty"
    and "sorted (map lc_now cs)" "distinct (map lc_member cs)"
    and "\<forall>c\<in>set cs. 1 \<le> lc_cost c \<and> 0 \<le> lc_now c \<and> fl (lc_now c) = lc_now c"
  shows "window_cost T (snd (limiter_run Z key limit cs r)) \<le> max 0 limit"
proof -
  obtain r' adm where run: "limiter_run Z key limit cs r = (r', adm)" by fastforce
  have "sorted (0 # map lc_now cs)" using assms(2,4) by auto
  from limiter_run_inv[OF limiter_inv_start[OF assms(1)] run this assms(3) _ assms(4)]
  show ?thesis unfolding limiter_inv_def run by auto
qed

text \<open>Another bucket's script call does not touch this one.\<close>

lemma other_bucket:
  assumes "rate_limit_lua Z k now window limit member cost r = (r', res)" "key \<noteq> k" "now \<le> t'" "0 < window"
  shows "scores r' t' key = scores r t' key"
proof -
  have "scores (fold (\<lambda>i. z_add Z now k now (f i)) is s) t' key = scores s t' key" for f :: "int \<Rightarrow> ustr" and "is" s
    using assms(2,3) by (induction "is" arbitrary: s) (simp_all add: add_other)
  with assms show ?thesis
    by (auto simp: rate_limit_lua_def Let_def rem_scores expire_scores split: if_splits)
qed

lemma inv_other_bucket:
  assumes "limiter_inv scores key limit used now adm r" "rate_limit_lua Z k now window lm member cost r = (r', res)"
    "key \<noteq> k" "0 < window"
  shows "limiter_inv scores key limit used now adm r'"
  using assms(1) other_bucket[OF assms(2,3) _ assms(4)] unfolding limiter_inv_def by auto

end


definition sample_calls :: "limiter_call list" where
  "sample_calls = [\<lparr>lc_now = 100, lc_member = [97], lc_cost = 2\<rparr>, \<lparr>lc_now = 120, lc_member = [98], lc_cost = 2\<rparr>]"


section \<open>The address budget\<close>

text \<open>
  A sequence of requests through the middleware, each with its time and the two unit names drawn
  for it, and the times of those that were forwarded.
\<close>

fun dispatch_run :: "'r zredis \<Rightarrow> limiter_settings \<Rightarrow> (string \<Rightarrow> string) \<Rightarrow> int \<Rightarrow> (limited_request \<times> rat \<times> ustr \<times> ustr) list \<Rightarrow>
    'r \<Rightarrow> 'r \<times> (rat \<times> int) list" where
  "dispatch_run Z S sha256 eff [] r = (r, [])"
| "dispatch_run Z S sha256 eff ((q, now, m1, m2) # qs) r =
     (case limiter_dispatch Z S sha256 eff now m1 m2 q r of (r', _, out) \<Rightarrow>
        (case dispatch_run Z S sha256 eff qs r' of (r'', adm) \<Rightarrow>
           (r'', (case out of Forwarded _ _ _ \<Rightarrow> [(now, 1)] | _ \<Rightarrow> []) @ adm)))"

lemma bucket_keys: "rate_limit_key (''src:'' @ ip) \<noteq> rate_limit_key (rate_limit_id_of sha256 q)"
  by (simp add: rate_limit_key_def rate_limit_id_of_def)

lemma window_cost_append: "window_cost T (a @ b) = window_cost T a + window_cost T b"
  by (simp add: window_cost_def)

lemma window_cost_inv_nonneg: "limiter_inv scores key limit used t adm r \<Longrightarrow> window_cost T adm \<le> max 0 limit"
  by (simp add: limiter_inv_def)

context redis_zset
begin

lemma dispatch_step:
  assumes inv: "limiter_inv scores (rate_limit_key (''src:'' @ rq_client_ip q)) (rate_limit_per_ip_per_minute S) used t adm r"
    and t: "t \<le> now" "m1 \<notin> used" "0 \<le> now" "fl now = now" and up: "\<And>r t. z_error Z r t = None"
    and run: "limiter_dispatch Z S sha256 eff now m1 m2 q r = (r', pid, out)" and pid: "pid \<noteq> None"
  shows "\<exists>b. limiter_inv scores (rate_limit_key (''src:'' @ rq_client_ip q)) (rate_limit_per_ip_per_minute S) (insert m1 used) now
           (adm @ (if b then [(now, 1)] else [])) r' \<and> ((\<exists>x y z. out = Forwarded x y z) \<longrightarrow> b)"
proof -
  let ?key = "rate_limit_key (''src:'' @ rq_client_ip q)"
  obtain r1 res left where lua: "rate_limit_lua Z ?key now WINDOW_SECS (rate_limit_per_ip_per_minute S) m1 1 r = (r1, (res, left))"
    by (metis prod.exhaust)
  from script_step[OF inv, of "\<lparr>lc_now = now, lc_member = m1, lc_cost = 1\<rparr>" r1 res left, unfolded limiter_call.simps, OF t(1,2) order_refl t(3,4) lua]
  have inv1: "limiter_inv scores ?key (rate_limit_per_ip_per_minute S) (insert m1 used) now (adm @ (if res = 0 then [(now, 1)] else [])) r1"
    .
  obtain r2 res2 where key: "rate_limit_lua Z (rate_limit_key (rate_limit_id_of sha256 q)) now WINDOW_SECS eff m2 1 r1 = (r2, res2)"
    by (metis prod.exhaust)
  have inv2: "limiter_inv scores ?key (rate_limit_per_ip_per_minute S) (insert m1 used) now (adm @ (if res = 0 then [(now, 1)] else [])) r2"
    by (rule inv_other_bucket[OF inv1 key bucket_keys]) (simp add: WINDOW_SECS_def)
  have "(r' = r1 \<or> r' = r2) \<and> ((\<exists>x y z. out = Forwarded x y z) \<longrightarrow> res = 0)"
    using run pid lua key by (auto simp: limiter_dispatch_def is_rate_limited_def up Let_def split: prod.splits if_splits)
  with inv1 inv2 show ?thesis by (intro exI[of _ "res = 0"]) auto
qed

lemma dispatch_skip:
  assumes "limiter_dispatch Z S sha256 eff now m1 m2 q r = (r', None, out)"
  shows "r' = r \<and> out = PassThrough"
  using assms by (auto simp: limiter_dispatch_def Let_def split: if_splits prod.splits)

lemma inv_later: "limiter_inv scores key limit used t adm r \<Longrightarrow> t \<le> t' \<Longrightarrow> limiter_inv scores key limit (insert m used) t' adm r"
  unfolding limiter_inv_def by (elim conjE, intro conjI) (meson order_trans insertI2 | fastforce)+

lemma dispatch_run_bound:
  assumes "limiter_inv scores (rate_limit_key (''src:'' @ ip)) (rate_limit_per_ip_per_minute S) used t adm r"
    and "dispatch_run Z S sha256 eff qs r = (r', fwd)" and "\<And>r t. z_error Z r t = None"
    and "sorted (t # map (\<lambda>(q, now, m1, m2). now) qs)" "distinct (map (\<lambda>(q, now, m1, m2). m1) qs)"
    and "(\<lambda>(q, now, m1, m2). m1) ` set qs \<inter> used = {}"
    and "\<forall>(q, now, m1, m2)\<in>set qs. rq_client_ip q = ip \<and> 0 \<le> now \<and> fl now = now"
    and "\<And>T. window_cost T fw0 \<le> window_cost T adm"
  shows "window_cost T (fw0 @ fwd) \<le> max 0 (rate_limit_per_ip_per_minute S)"
  using assms
proof (induction qs arbitrary: used t adm r fwd fw0)
  case Nil
  from order_trans[OF Nil.prems(8) window_cost_inv_nonneg[OF Nil.prems(1)]] Nil.prems(2) show ?case by simp
next
  case (Cons x qs)
  obtain q now m1 m2 where x: "x = (q, now, m1, m2)" by (metis prod.exhaust)
  obtain r1 pid out where step: "limiter_dispatch Z S sha256 eff now m1 m2 q r = (r1, pid, out)"
    by (metis prod.exhaust)
  obtain rest where rest: "dispatch_run Z S sha256 eff qs r1 = (r', rest)"
    "fwd = (case out of Forwarded _ _ _ \<Rightarrow> [(now, 1)] | _ \<Rightarrow> []) @ rest"
    using Cons.prems(2) step x by (auto split: prod.splits)
  have pre: "t \<le> now" "m1 \<notin> used" "0 \<le> now" "fl now = now" "rq_client_ip q = ip"
    using Cons.prems(4,6,7) x by auto
  obtain b where b: "limiter_inv scores (rate_limit_key (''src:'' @ ip)) (rate_limit_per_ip_per_minute S) (insert m1 used) now
      (adm @ (if b then [(now, 1)] else [])) r1" "(\<exists>x y z. out = Forwarded x y z) \<longrightarrow> b"
  proof (cases "pid = None")
    case True
    with step dispatch_skip have "r1 = r" "out = PassThrough" by auto
    with that[of False] inv_later[OF Cons.prems(1) pre(1)] show ?thesis by simp
  qed (use dispatch_step[of q S used t adm r now m1] step pre Cons.prems(1,3) that in blast)
  have "window_cost T' (fw0 @ (case out of Forwarded _ _ _ \<Rightarrow> [(now, 1)] | _ \<Rightarrow> [])) \<le> window_cost T' (adm @ (if b then [(now, 1)] else []))" for T'
    using b(2) Cons.prems(8)[of T'] by (cases out) (auto simp: window_cost_append window_cost_def)
  from Cons.IH[OF b(1) rest(1) Cons.prems(3) _ _ _ _ this] Cons.prems(4-7) x rest(2)
  show ?case by auto
qed

end

text \<open>
  The address budget. As long as the store answers, the requests of one client address that reach
  the gateway in any window are at most the per-address limit, whatever API keys they present.
\<close>
theorem address_budget:
  assumes "redis_zset Z scores" "\<And>r t. z_error Z r t = None"
    and "\<And>t. scores r t (rate_limit_key (''src:'' @ ip)) = Map.empty"
    and "sorted (map (\<lambda>(q, now, m1, m2). now) qs)" "distinct (map (\<lambda>(q, now, m1, m2). m1) qs)"
    and "list_all (\<lambda>(q, now, m1, m2). rq_client_ip q = ip \<and> 0 \<le> now \<and> fl now = now) qs"
  shows "window_cost T (snd (dispatch_run Z S sha256 eff qs r)) \<le> max 0 (rate_limit_per_ip_per_minute S)"
proof -
  obtain r' fwd where run: "dispatch_run Z S sha256 eff qs r = (r', fwd)" by (metis prod.exhaust)
  note start = redis_zset.limiter_inv_start[OF assms(1), OF assms(3)]
  have sorted: "sorted (0 # map (\<lambda>(q, now, m1, m2). now) qs)" using assms(4,6) by (auto simp: list_all_iff)
  have calls: "\<forall>(q, now, m1, m2)\<in>set qs. rq_client_ip q = ip \<and> 0 \<le> now \<and> fl now = now"
    using assms(6) by (simp add: list_all_iff)
  have "window_cost T ([] @ fwd) \<le> max 0 (rate_limit_per_ip_per_minute S)"
    by (rule redis_zset.dispatch_run_bound[where used = "{}" and t = 0 and adm = "[]" and ip = ip and fwd = fwd,
          OF assms(1) start run assms(2) sorted assms(5) _ calls]) simp_all
  then show ?thesis by (simp add: run)
qed

definition sample_limits :: limiter_settings where
  "sample_limits = \<lparr>rate_limit_per_minute = 60, rate_limit_per_ip_per_minute = 1, rate_limit_enabled = True\<rparr>"

definition sample_requests :: "(limited_request \<times> rat \<times> ustr \<times> ustr) list" where
  "sample_requests = [(\<lparr>rq_path = ''/v1/ai/request'', rq_api_key = ''a'', rq_client_ip = ''h''\<rparr>, 100, [1], [2]),
     (\<lparr>rq_path = ''/v1/ai/request'', rq_api_key = ''b'', rq_client_ip = ''h''\<rparr>, 120, [3], [4])]"

theorem address_budget_witness:
  "window_cost 130 (snd (dispatch_run zmem_redis sample_limits (\<lambda>k. k) 10 sample_requests (\<lambda>_. ([], None)))) \<le> 1"
proof -
  have fl: "fl 100 = 100" "fl 120 = 120" using fl_of_int[of 100] fl_of_int[of 120] by simp_all
  have "window_cost 130 (snd (dispatch_run zmem_redis sample_limits (\<lambda>k. k) 10 sample_requests (\<lambda>_. ([], None)))) \<le>
      max 0 (rate_limit_per_ip_per_minute sample_limits)"
    by (rule address_budget[OF zmem.redis_zset_axioms, where ip = "''h''"])
       (simp_all add: sample_requests_def zmem_scores_def zmem_live_def zmem_redis_def fl)
  then show ?thesis by (simp add: sample_limits_def)
qed

section \<open>Extra units\<close>

text \<open>
  The extra units of a multi-input request are checked against the configured limit, not against the
  live one the middleware used for the same bucket.
\<close>

lemma extra_units_configured_limit:
  assumes "1 < n" "z_error Z r now = None"
  shows "snd (charge_additional_units Z S now m (Some (Some pid)) n r) \<longleftrightarrow>
     int (z_card Z now (rate_limit_key pid) (z_remrangebyscore Z now (rate_limit_key pid) 0 (fsub now (of_int WINDOW_SECS)) r)) + (n - 1)
       > rate_limit_per_minute S"
  using assms by (auto simp: charge_additional_units_def is_rate_limited_def rate_limit_lua_def Let_def max_def)

end
