(* ===== verification/Lockout.thy ===== *)
theory Lockout
  imports Redis
begin

text \<open>
  Login lockout (\<^verbatim>\<open>services/auth/lockout.py\<close>) and the revocation list of access tokens
  (\<^verbatim>\<open>services/auth/jti_blacklist.py\<close>) over the store. The lockout refines a machine with one counter
  and the time of the last failure.
\<close>

section \<open>Operations\<close>

record lockout_settings =
  auth_max_failed_attempts :: int
  auth_lockout_duration_seconds :: int

definition failed_key :: "string \<Rightarrow> string" where
  "failed_key email = ''auth:failed:'' @ email"

definition locked_key :: "string \<Rightarrow> string" where
  "locked_key email = ''auth:locked:'' @ email"

definition is_locked :: "('r, 'd) redis \<Rightarrow> rat \<Rightarrow> string \<Rightarrow> ('r, bool) rcmd" where
  "is_locked R t email = r_exists R t (locked_key email)"

definition record_failure :: "('r, 'd) redis \<Rightarrow> lockout_settings \<Rightarrow> rat \<Rightarrow> string \<Rightarrow> ('r, int \<times> bool) rcmd" where
  "record_failure R S t email =
     rbind (r_incr_expire R t (failed_key email) (auth_lockout_duration_seconds S)) (\<lambda>count.
       if count \<ge> auth_max_failed_attempts S
       then rbind (r_setex R t (locked_key email) (auth_lockout_duration_seconds S) (RStr ''1'')) (\<lambda>_. rret (count, True))
       else rret (count, False))"

definition clear_failures :: "('r, 'd) redis \<Rightarrow> rat \<Rightarrow> string \<Rightarrow> ('r, unit) rcmd" where
  "clear_failures R t email = rbind (r_delete R t (failed_key email)) (\<lambda>_. r_delete R t (locked_key email))"

definition unlock :: "('r, 'd) redis \<Rightarrow> rat \<Rightarrow> string \<Rightarrow> ('r, bool) rcmd" where
  "unlock R t email =
     rbind (r_exists R t (locked_key email)) (\<lambda>existed.
     rbind (r_delete R t (failed_key email)) (\<lambda>_.
     rbind (r_delete R t (locked_key email)) (\<lambda>_. rret existed)))"

definition get_lockout_remaining :: "('r, 'd) redis \<Rightarrow> rat \<Rightarrow> string \<Rightarrow> ('r, int) rcmd" where
  "get_lockout_remaining R t email = rbind (r_ttl R t (locked_key email)) (\<lambda>n. rret (max 0 n))"

text \<open>Token revocation: both directions swallow store failures.\<close>

definition jti_key :: "string \<Rightarrow> string" where
  "jti_key jti = ''revoked:jti:'' @ jti"

definition blacklist_jti :: "('r, 'd) redis \<Rightarrow> rat \<Rightarrow> string \<Rightarrow> int \<Rightarrow> 'r \<Rightarrow> 'r" where
  "blacklist_jti R t jti ttl_seconds r =
     (if ttl_seconds \<le> 0 then r else fst (rtry (r_setex R t (jti_key jti) ttl_seconds (RStr ''1'')) (\<lambda>_. ()) r))"

definition is_blacklisted :: "('r, 'd) redis \<Rightarrow> rat \<Rightarrow> string \<Rightarrow> 'r \<Rightarrow> 'r \<times> bool" where
  "is_blacklisted R t jti r = rtry (r_exists R t (jti_key jti)) (\<lambda>_. False) r"

section \<open>The abstract machine\<close>

text \<open>
  One account: \<open>None\<close> without a failure on record, else the length of the current run of failures and
  the time of its last one. A run ends after a full lockout duration without a failure.
\<close>

datatype lockout_op = Fail | Clear | Unlock

type_synonym lockout_state = "(int \<times> rat) option"

definition in_run :: "lockout_settings \<Rightarrow> rat \<Rightarrow> rat \<Rightarrow> bool" where
  "in_run S t last_t \<longleftrightarrow> t < last_t + of_int (auth_lockout_duration_seconds S)"

fun spec_step :: "lockout_settings \<Rightarrow> rat \<times> lockout_op \<Rightarrow> lockout_state \<Rightarrow> lockout_state" where
  "spec_step S (t, Fail) s = (case s of
     Some (n, last_t) \<Rightarrow> Some (if in_run S t last_t then n + 1 else 1, t)
   | None \<Rightarrow> Some (1, t))"
| "spec_step S (t, Clear) s = None"
| "spec_step S (t, Unlock) s = None"

definition spec_locked :: "lockout_settings \<Rightarrow> rat \<Rightarrow> lockout_state \<Rightarrow> bool" where
  "spec_locked S t s = (case s of
     Some (n, last_t) \<Rightarrow> auth_max_failed_attempts S \<le> n \<and> in_run S t last_t
   | None \<Rightarrow> False)"

text \<open>The operations of the code for the same events.\<close>

fun lockout_step :: "('r, 'd) redis \<Rightarrow> lockout_settings \<Rightarrow> string \<Rightarrow> rat \<times> lockout_op \<Rightarrow> ('r, unit) rcmd" where
  "lockout_step R S email (t, Fail) = rbind (record_failure R S t email) (\<lambda>_. rret ())"
| "lockout_step R S email (t, Clear) = clear_failures R t email"
| "lockout_step R S email (t, Unlock) = rbind (unlock R t email) (\<lambda>_. rret ())"

fun lockout_run :: "('r, 'd) redis \<Rightarrow> lockout_settings \<Rightarrow> string \<Rightarrow> (rat \<times> lockout_op) list \<Rightarrow> ('r, unit) rcmd" where
  "lockout_run R S email [] = rret ()"
| "lockout_run R S email (e # es) = rbind (lockout_step R S email e) (\<lambda>_. lockout_run R S email es)"

section \<open>Refinement\<close>

text \<open>From \<open>t\<close> on, the store shows the two keys of the account as the abstract state says.\<close>

definition shows_state :: "('r \<Rightarrow> rat \<Rightarrow> string \<Rightarrow> 'd rval option) \<Rightarrow> lockout_settings \<Rightarrow> string \<Rightarrow> rat \<Rightarrow> lockout_state \<Rightarrow> 'r \<Rightarrow> bool" where
  "shows_state val S email t s r \<longleftrightarrow> (\<forall>t'. t \<le> t' \<longrightarrow>
     val r t' (failed_key email) = (case s of Some (n, last_t) \<Rightarrow> if in_run S t' last_t then Some (RInt n) else None | None \<Rightarrow> None)
   \<and> (val r t' (locked_key email) \<noteq> None \<longleftrightarrow> spec_locked S t' s))"

lemma keys_differ [simp]: "failed_key email \<noteq> locked_key email" "locked_key email \<noteq> failed_key email"
  by (simp_all add: failed_key_def locked_key_def)

context redis_kv
begin

lemma fail_refines:
  assumes st: "shows_state val S email t s r" and le: "t \<le> now" and pos: "0 < auth_lockout_duration_seconds S"
    and run: "record_failure R S now email r = (r', Inr (c, b))"
  shows "shows_state val S email now (spec_step S (now, Fail) s) r' \<and> b = spec_locked S now (spec_step S (now, Fail) s)"
proof -
  let ?n = "auth_lockout_duration_seconds S"
  obtain r1 where incr: "r_incr_expire R now (failed_key email) ?n r = (r1, Inr c)"
    and rest: "if c \<ge> auth_max_failed_attempts S
               then b \<and> (\<exists>u. r_setex R now (locked_key email) ?n (RStr ''1'') r1 = (r', Inr u)) else \<not> b \<and> r' = r1"
    using run by (auto simp: record_failure_def rbind_Inr split: if_splits)
  note iv = incr_val[OF incr pos] and iv2 = incr_val[OF incr pos, THEN conjunct2]
  have c: "c = (case s of Some (n, l) \<Rightarrow> if in_run S now l then n + 1 else 1 | None \<Rightarrow> 1)"
    using iv[OF order_refl] st le by (auto simp: shows_state_def split: option.splits)
  have spec: "spec_step S (now, Fail) s = Some (c, now)"
    using c by (auto split: option.splits)
  have here: "in_run S t' now \<longleftrightarrow> t' < now + of_int ?n" for t' by (simp add: in_run_def)
  show ?thesis
  proof (cases "c \<ge> auth_max_failed_attempts S")
    case True
    with rest obtain u where "r_setex R now (locked_key email) ?n (RStr ''1'') r1 = (r', Inr u)" and b by auto
    from setex_val[OF this(1) pos] iv2 True \<open>b\<close> pos show ?thesis
      unfolding spec by (simp add: shows_state_def until_def here spec_locked_def)
  next
    case False
    \<comment> \<open>below the threshold no lock can be live: it would carry a longer run\<close>
    have "\<not> spec_locked S t' s" if "now \<le> t'" for t'
    proof
      assume "spec_locked S t' s"
      then obtain n l where s: "s = Some (n, l)" "auth_max_failed_attempts S \<le> n" "in_run S t' l"
        by (auto simp: spec_locked_def split: option.splits)
      with that have "in_run S now l" by (simp add: in_run_def)
      with s c False show False by simp
    qed
    then have "val r t' (locked_key email) = None" if "now \<le> t'" for t'
      using that st le unfolding shows_state_def by (meson order_trans)
    with rest False iv2 show ?thesis
      unfolding spec by (simp add: shows_state_def until_def here spec_locked_def)
  qed
qed

lemma clear_refines:
  assumes "shows_state val S email t s r" "t \<le> now" "clear_failures R now email r = (r', Inr u)"
  shows "shows_state val S email now None r'"
  using assms by (auto simp: clear_failures_def rbind_Inr shows_state_def spec_locked_def delete_val)

lemma unlock_refines:
  assumes "shows_state val S email t s r" "t \<le> now" "unlock R now email r = (r', Inr b)"
  shows "shows_state val S email now None r' \<and> b = spec_locked S now s"
proof -
  from assms(3) obtain r1 r2 u v where ex: "r_exists R now (locked_key email) r = (r1, Inr b)"
    and d: "r_delete R now (failed_key email) r1 = (r2, Inr u)" "r_delete R now (locked_key email) r2 = (r', Inr v)"
    by (auto simp: unlock_def rbind_Inr)
  from exists_val[OF ex] delete_val[OF d(1)] delete_val[OF d(2)] assms(1,2) show ?thesis
    by (auto simp: shows_state_def spec_locked_def)
qed

lemma step_refines:
  assumes "shows_state val S email t s r" "t \<le> fst e" "0 < auth_lockout_duration_seconds S"
    and "lockout_step R S email e r = (r', Inr u)"
  shows "shows_state val S email (fst e) (spec_step S e s) r'"
  using assms fail_refines[OF assms(1)] clear_refines[OF assms(1)] unlock_refines[OF assms(1)]
  by (cases e; cases "snd e") (fastforce simp: rbind_Inr)+

lemma run_refines:
  assumes "shows_state val S email t s r" "sorted (t # map fst es)" "0 < auth_lockout_duration_seconds S"
    and "lockout_run R S email es r = (r', Inr u)"
  shows "shows_state val S email (last (t # map fst es)) (fold (spec_step S) es s) r'"
  using assms
proof (induction es arbitrary: t s r)
  case (Cons e es)
  then obtain r1 u where "lockout_step R S email e r = (r1, Inr u)" "lockout_run R S email es r1 = (r', Inr ())"
    by (auto simp: rbind_Inr)
  with Cons.IH[OF step_refines[OF Cons.prems(1) _ Cons.prems(3) this(1)]] Cons.prems show ?case by simp
qed simp

end

text \<open>
  C23: Lockout refinement. After any history of failed logins, successful logins and operator unlocks
  on an account, the login check answers locked exactly when the current run of failures has reached
  the configured number and its last failure is less than a lockout duration ago.
\<close>
theorem lockout_refines:
  assumes "redis_kv R val" and "0 < auth_lockout_duration_seconds S"
    and "\<And>t. val r (t :: rat) (failed_key email) = None \<and> val r t (locked_key email) = None"
    and "sorted (map fst es)" and "lockout_run R S email es r = (r1, Inr ())"
    and "list_all (\<lambda>e. fst e \<le> now) es" and "is_locked R now email r1 = (r2, Inr b)"
  shows "b = spec_locked S now (fold (spec_step S) es None)"
proof -
  define t0 where "t0 = (case es of [] \<Rightarrow> now | e # _ \<Rightarrow> fst e)"
  have sorted: "sorted (t0 # map fst es)" using assms(4) by (cases es) (auto simp: t0_def)
  have le: "last (t0 # map fst es) \<le> now"
    using assms(6) by (cases es) (auto simp: t0_def list_all_iff last_map)
  have "shows_state val S email t0 None r"
    using assms(3) by (simp add: shows_state_def spec_locked_def)
  from redis_kv.run_refines[OF assms(1) this sorted assms(2,5)]
  have "val r1 now (locked_key email) \<noteq> None \<longleftrightarrow> spec_locked S now (fold (spec_step S) es None)"
    using le by (simp add: shows_state_def)
  with redis_kv.exists_val[OF assms(1) assms(7)[unfolded is_locked_def]] show ?thesis by simp
qed

theorem lockout_refines_witness:
  "spec_locked \<lparr>auth_max_failed_attempts = 2, auth_lockout_duration_seconds = 900\<rparr> 30
     (fold (spec_step \<lparr>auth_max_failed_attempts = 2, auth_lockout_duration_seconds = 900\<rparr>) [(10, Fail), (20, Fail)] None)"
proof -
  let ?S = "\<lparr>auth_max_failed_attempts = 2, auth_lockout_duration_seconds = 900\<rparr>" and ?e = "''u''"
  let ?es = "[(10, Fail), (20, Fail)] :: (rat \<times> lockout_op) list"
  let ?m = "(Map.empty(failed_key ?e \<mapsto> (RInt 2, 920)))(locked_key ?e \<mapsto> (RStr ''1'', 920)) :: unit mem"
  have run: "lockout_run mem_redis ?S ?e ?es Map.empty = (?m, Inr ())"
    by (simp add: rbind_def record_failure_def mem_redis_def mem_val_def Let_def)
  have chk: "is_locked mem_redis 30 ?e ?m = (?m, Inr True)"
    by (simp add: is_locked_def mem_redis_def mem_val_def)
  show ?thesis
    using lockout_refines[OF mem.redis_kv_axioms _ _ _ run _ chk] by (simp add: mem_val_def)
qed

end
