(* ===== verification/Sessions.thy ===== *)
theory Sessions
  imports Lockout
begin

text \<open>
  Sessions: the auth service (\<^verbatim>\<open>services/auth/service.py\<close>), the refresh-token table
  (\<^verbatim>\<open>db/repositories/refresh_token.py\<close>) and token versions. The tables are lists of rows in insertion order;
  one operation reads the clock once. Password verification, hashing, token signing and the random
  tokens are arguments.
\<close>

section \<open>Rows\<close>

record user_row =
  us_id :: string
  us_email :: string
  us_is_active :: bool
  us_token_version :: int
  us_force_change :: bool
  us_password_hash :: string
  us_last_login :: "rat option"

record membership_row =
  mb_tenant_id :: string
  mb_role :: string
  mb_dept_id :: "string option"

record rt_row =
  rt_user_id :: string
  rt_hash :: string
  rt_expires_at :: rat
  rt_revoked_at :: "rat option"
  rt_version :: int

record auth_event =
  ev_action :: string
  ev_success :: bool
  ev_tenant :: "string option"
  ev_user :: "string option"
  ev_reason :: "string option"

record db =
  db_users :: "user_row list"
  db_tokens :: "rt_row list"
  db_members :: "string \<Rightarrow> membership_row list"
  db_events :: "auth_event list"
  db_notices :: "(string \<times> string) list"

record auth_settings =
  lockout :: lockout_settings
  jwt_refresh_token_expire_days :: int
  jwt_access_token_expire_minutes :: int

definition user_by_id :: "string \<Rightarrow> db \<Rightarrow> user_row option" where
  "user_by_id uid d = find (\<lambda>u. us_id u = uid) (db_users d)"

definition resolve_active_membership :: "string \<Rightarrow> db \<Rightarrow> membership_row option" where
  "resolve_active_membership uid d = (case db_members d uid of m # _ \<Rightarrow> Some m | [] \<Rightarrow> None)"

definition log_auth_event :: "string \<Rightarrow> bool \<Rightarrow> string option \<Rightarrow> string option \<Rightarrow> string option \<Rightarrow> db \<Rightarrow> db" where
  "log_auth_event action success tenant user reason d =
     d\<lparr>db_events := db_events d @ [\<lparr>ev_action = action, ev_success = success, ev_tenant = tenant, ev_user = user, ev_reason = reason\<rparr>]\<rparr>"

text \<open>A mail notification is requested for a user; rendering and delivery are best effort and elsewhere.\<close>

definition notify :: "string \<Rightarrow> string \<Rightarrow> db \<Rightarrow> db" where
  "notify kind uid d = d\<lparr>db_notices := db_notices d @ [(kind, uid)]\<rparr>"

definition update_last_login :: "rat \<Rightarrow> string \<Rightarrow> db \<Rightarrow> db" where
  "update_last_login now uid d =
     d\<lparr>db_users := map (\<lambda>u. if us_id u = uid then u\<lparr>us_last_login := Some now\<rparr> else u) (db_users d)\<rparr>"

section \<open>Refresh tokens\<close>

definition rt_create :: "string \<Rightarrow> string \<Rightarrow> rat \<Rightarrow> int \<Rightarrow> db \<Rightarrow> db" where
  "rt_create uid token_hash expires_at version d =
     d\<lparr>db_tokens := db_tokens d @ [\<lparr>rt_user_id = uid, rt_hash = token_hash, rt_expires_at = expires_at,
        rt_revoked_at = None, rt_version = version\<rparr>]\<rparr>"

definition get_by_hash :: "rat \<Rightarrow> string \<Rightarrow> db \<Rightarrow> rt_row option" where
  "get_by_hash now h d = find (\<lambda>r. rt_hash r = h \<and> rt_revoked_at r = None \<and> rt_expires_at r > now) (db_tokens d)"

definition find_revoked :: "string \<Rightarrow> db \<Rightarrow> rt_row option" where
  "find_revoked h d = find (\<lambda>r. rt_hash r = h \<and> rt_revoked_at r \<noteq> None) (db_tokens d)"

definition revoke :: "rat \<Rightarrow> string \<Rightarrow> db \<Rightarrow> db" where
  "revoke now h d = d\<lparr>db_tokens := map (\<lambda>r. if rt_hash r = h then r\<lparr>rt_revoked_at := Some now\<rparr> else r) (db_tokens d)\<rparr>"

definition revoke_all_for_user :: "rat \<Rightarrow> string \<Rightarrow> db \<Rightarrow> db" where
  "revoke_all_for_user now uid d =
     d\<lparr>db_tokens := map (\<lambda>r. if rt_user_id r = uid \<and> rt_revoked_at r = None then r\<lparr>rt_revoked_at := Some now\<rparr> else r) (db_tokens d)\<rparr>"

definition cleanup_expired :: "rat \<Rightarrow> db \<Rightarrow> db" where
  "cleanup_expired now d =
     d\<lparr>db_tokens := filter (\<lambda>r. \<not> rt_expires_at r < now - 90 * 86400)
        (filter (\<lambda>r. \<not> (rt_expires_at r < now \<and> rt_revoked_at r \<noteq> None)) (db_tokens d))\<rparr>"

definition increment_token_version :: "string \<Rightarrow> db \<Rightarrow> db" where
  "increment_token_version uid d =
     d\<lparr>db_users := map (\<lambda>u. if us_id u = uid then u\<lparr>us_token_version := us_token_version u + 1\<rparr> else u) (db_users d)\<rparr>"

section \<open>The service\<close>

datatype auth_error = AccountLocked int | AuthenticationError | AccountDisabled | InvalidToken | SessionInvalidated | WeakPassword

definition auth_user_key :: "string \<Rightarrow> string" where
  "auth_user_key uid = ''auth:user:'' @ uid"

definition logout_all_sessions :: "('r, 'd) redis \<Rightarrow> rat \<Rightarrow> string \<Rightarrow> db \<times> 'r \<Rightarrow> db \<times> 'r" where
  "logout_all_sessions R now uid = (\<lambda>(d, r).
     (revoke_all_for_user now uid (increment_token_version uid d), fst (rtry (r_delete R now (auth_user_key uid)) (\<lambda>_. ()) r)))"

text \<open>What a session is minted from: the user's identity and version, and one membership.\<close>

record minted =
  mt_user :: string
  mt_version :: int
  mt_tenant :: string
  mt_role :: string
  mt_dept :: "string option"
  mt_refresh :: string

definition mint :: "user_row \<Rightarrow> membership_row \<Rightarrow> string \<Rightarrow> minted" where
  "mint u m raw = \<lparr>mt_user = us_id u, mt_version = us_token_version u, mt_tenant = mb_tenant_id m, mt_role = mb_role m,
     mt_dept = mb_dept_id m, mt_refresh = raw\<rparr>"

definition refresh_expiry :: "auth_settings \<Rightarrow> rat \<Rightarrow> rat" where
  "refresh_expiry S now = now + of_int (jwt_refresh_token_expire_days S) * 86400"

definition refresh_failed :: "rat \<Rightarrow> string \<Rightarrow> string \<Rightarrow> string option \<Rightarrow> string \<Rightarrow> db \<Rightarrow> db" where
  "refresh_failed now h uid tenant reason d =
     log_auth_event ''token_refresh_failed'' False tenant (Some uid) (Some reason) (revoke now h d)"

definition refresh :: "('r, 'd) redis \<Rightarrow> auth_settings \<Rightarrow> (string \<Rightarrow> string) \<Rightarrow> rat \<Rightarrow> string \<Rightarrow> string \<Rightarrow>
    db \<times> 'r \<Rightarrow> (db \<times> 'r) \<times> (auth_error + minted)" where
  "refresh R S sha256 now raw new_raw = (\<lambda>(d, r).
     let h = sha256 raw in
     case get_by_hash now h d of
       None \<Rightarrow> (case find_revoked h d of
           Some replayed \<Rightarrow>
             (case logout_all_sessions R now (rt_user_id replayed) (d, r) of (d', r') \<Rightarrow>
                ((log_auth_event ''token_refresh_failed'' False None (Some (rt_user_id replayed)) (Some ''token_reuse_detected'') d', r'),
                 Inl InvalidToken))
         | None \<Rightarrow> ((log_auth_event ''token_refresh_failed'' False None None (Some ''refresh_failed'') d, r), Inl InvalidToken))
     | Some rec \<Rightarrow>
         if rt_expires_at rec < now
         then ((refresh_failed now h (rt_user_id rec) None ''token_expired'' d, r), Inl InvalidToken)
         else (case user_by_id (rt_user_id rec) d of
             None \<Rightarrow> ((refresh_failed now h (rt_user_id rec) None ''refresh_failed'' d, r), Inl InvalidToken)
           | Some u \<Rightarrow>
               if \<not> us_is_active u
               then ((refresh_failed now h (rt_user_id rec) None ''refresh_failed'' d, r), Inl InvalidToken)
               else if rt_version rec \<noteq> us_token_version u
               then ((refresh_failed now h (us_id u) (map_option mb_tenant_id (resolve_active_membership (us_id u) d))
                        ''session_invalidated'' d, r), Inl SessionInvalidated)
               else (case resolve_active_membership (us_id u) d of
                   None \<Rightarrow> ((refresh_failed now h (us_id u) None ''no_membership'' d, r), Inl InvalidToken)
                 | Some m \<Rightarrow>
                     let d1 = rt_create (us_id u) (sha256 new_raw) (refresh_expiry S now) (us_token_version u) (revoke now h d)
                     in ((log_auth_event ''token_refresh_success'' True (Some (mb_tenant_id m)) (Some (us_id u)) None d1, r),
                         Inr (mint u m new_raw)))))"

text \<open>
  What the identity provider answers: the user whose credentials were right, or a reason and the user
  the name resolved to.
\<close>

datatype provider_outcome = Verified user_row | Rejected "string option" "user_row option"

definition safe_is_locked :: "('r, 'd) redis \<Rightarrow> rat \<Rightarrow> string \<Rightarrow> 'r \<Rightarrow> 'r \<times> int option" where
  "safe_is_locked R now email =
     rtry (rbind (is_locked R now email) (\<lambda>b. if b then rbind (get_lockout_remaining R now email) (\<lambda>n. rret (Some n)) else rret None))
       (\<lambda>_. None)"

definition safe_record_failure :: "('r, 'd) redis \<Rightarrow> auth_settings \<Rightarrow> rat \<Rightarrow> string \<Rightarrow> 'r \<Rightarrow> 'r \<times> (int \<times> bool)" where
  "safe_record_failure R S now email = rtry (record_failure R (lockout S) now email) (\<lambda>_. (0, False))"

definition login :: "('r, 'd) redis \<Rightarrow> auth_settings \<Rightarrow> (string \<Rightarrow> string) \<Rightarrow> rat \<Rightarrow> string \<Rightarrow> provider_outcome option \<Rightarrow> string \<Rightarrow>
    db \<times> 'r \<Rightarrow> (db \<times> 'r) \<times> (auth_error + minted)" where
  "login R S sha256 now email provider new_raw = (\<lambda>(d, r).
     case safe_is_locked R now email r of
       (r0, Some remaining) \<Rightarrow> ((d, r0), Inl (AccountLocked remaining))
     | (r0, None) \<Rightarrow>
       (case provider of
          None \<Rightarrow> ((d, r0), Inl AuthenticationError)
        | Some (Rejected reason matched) \<Rightarrow>
            (case safe_record_failure R S now email r0 of (r1, (count, locked)) \<Rightarrow>
               ((case matched of
                   None \<Rightarrow> log_auth_event ''login_failed'' False None None (Some (str_or reason ''invalid_credentials'')) d
                 | Some u \<Rightarrow>
                     (if locked \<and> count = auth_max_failed_attempts (lockout S) then notify ''account_locked'' (us_id u) else (\<lambda>d. d))
                     (log_auth_event ''login_failed'' False (map_option mb_tenant_id (resolve_active_membership (us_id u) d))
                       (Some (us_id u)) (Some (str_or reason ''invalid_credentials'')) d), r1), Inl AuthenticationError))
        | Some (Verified u) \<Rightarrow>
            if \<not> us_is_active u
            then ((log_auth_event ''login_failed'' False (map_option mb_tenant_id (resolve_active_membership (us_id u) d))
                     (Some (us_id u)) (Some ''account_inactive'') d, r0), Inl AccountDisabled)
            else (case resolve_active_membership (us_id u) d of
                None \<Rightarrow> ((log_auth_event ''login_failed'' False None (Some (us_id u)) (Some ''no_membership'') d, r0), Inl AuthenticationError)
              | Some m \<Rightarrow>
                  let r1 = fst (rtry (clear_failures R now email) (\<lambda>_. ()) r0);
                      d1 = update_last_login now (us_id u) (rt_create (us_id u) (sha256 new_raw) (refresh_expiry S now) (us_token_version u) d)
                  in ((log_auth_event ''login_success'' True (Some (mb_tenant_id m)) (Some (us_id u)) None d1, r1),
                      Inr (mint u m new_raw)))))"

definition logout :: "(string \<Rightarrow> string) \<Rightarrow> rat \<Rightarrow> string \<Rightarrow> string \<Rightarrow> db \<Rightarrow> db" where
  "logout sha256 now raw reason d =
     (case get_by_hash now (sha256 raw) d of
        None \<Rightarrow> d
      | Some rec \<Rightarrow> log_auth_event ''logout'' True None (Some (rt_user_id rec)) (Some reason) (revoke now (sha256 raw) d))"

definition set_password :: "string \<Rightarrow> string \<Rightarrow> db \<Rightarrow> db" where
  "set_password uid h d =
     d\<lparr>db_users := map (\<lambda>u. if us_id u = uid then u\<lparr>us_password_hash := h, us_force_change := False\<rparr> else u) (db_users d)\<rparr>"

definition change_password :: "('r, 'd) redis \<Rightarrow> (string \<Rightarrow> string \<Rightarrow> bool) \<Rightarrow> (string \<Rightarrow> string) \<Rightarrow> (string \<Rightarrow> bool) \<Rightarrow> rat \<Rightarrow>
    string \<Rightarrow> string \<Rightarrow> string \<Rightarrow> db \<times> 'r \<Rightarrow> (db \<times> 'r) \<times> (auth_error + unit)" where
  "change_password R verify_password hash_password strong now uid current_password new_password = (\<lambda>(d, r).
     case user_by_id uid d of
       None \<Rightarrow> ((d, r), Inl AuthenticationError)
     | Some u \<Rightarrow>
         if \<not> verify_password current_password (us_password_hash u) then ((d, r), Inl AuthenticationError)
         else if \<not> strong new_password then ((d, r), Inl WeakPassword)
         else (logout_all_sessions R now uid (notify ''password_changed'' uid (set_password uid (hash_password new_password) d), r), Inr ()))"

end
