(* ===== verification/IP_Address.thy ===== *)
theory IP_Address
  imports Domain Py_Int Py_Text
begin

text \<open>
  Source networks of a credential (\<^verbatim>\<open>security/ip_allowlist.py\<close>) over the addresses, networks and texts of Python's
  \<^verbatim>\<open>ipaddress\<close>. An address is its number with its family, a network a base address with a prefix length; texts are
  ASCII. What an operator typed, what is stored and what is enforced are related at the end.
\<close>

section \<open>Texts\<close>

text \<open>\<^verbatim>\<open>s.strip()\<close> on Latin-1 text.\<close>

definition strip_str :: "string \<Rightarrow> string" where
  "strip_str s = map char_of (strip (us s))"

lemma strip_str_id: "strip (us s) = us s \<Longrightarrow> strip_str s = s"
  by (simp add: strip_str_def us_def o_def)

text \<open>\<^verbatim>\<open>s.lower()\<close>, of which only ASCII letters matter here.\<close>

definition lower_str :: "string \<Rightarrow> string" where
  "lower_str s = map (\<lambda>c. char_of (ascii_lower (of_char c))) s"

definition all_digits :: "string \<Rightarrow> bool" where
  "all_digits s \<longleftrightarrow> s \<noteq> [] \<and> list_all (\<lambda>c. ascii_digit (of_char c)) s"

definition dec_value :: "string \<Rightarrow> nat" where
  "dec_value s = foldl (\<lambda>n c. n * 10 + (of_char c - 48)) 0 s"

definition hex_digit :: "char \<Rightarrow> nat option" where
  "hex_digit c = (let n = of_char c in
     if 48 \<le> n \<and> n \<le> 57 then Some (n - 48) else if 65 \<le> n \<and> n \<le> 70 then Some (n - 55)
     else if 97 \<le> n \<and> n \<le> 102 then Some (n - 87) else None)"

fun hex_value :: "nat \<Rightarrow> string \<Rightarrow> nat option" where
  "hex_value acc [] = Some acc"
| "hex_value acc (c # s) = (case hex_digit c of Some d \<Rightarrow> hex_value (16 * acc + d) s | None \<Rightarrow> None)"

text \<open>\<^verbatim>\<open>s.partition(sep)\<close> with a one-character separator; the flag says whether it occurred.\<close>

definition partition_at :: "char \<Rightarrow> string \<Rightarrow> string \<times> bool \<times> string" where
  "partition_at c s = (case dropWhile (\<lambda>d. d \<noteq> c) s of [] \<Rightarrow> (s, False, []) | _ # t \<Rightarrow> (takeWhile (\<lambda>d. d \<noteq> c) s, True, t))"

section \<open>Addresses\<close>

datatype ip = IP (is_v6: bool) (ip_num: nat)

definition ip_bits :: "bool \<Rightarrow> nat" where
  "ip_bits v6 = (if v6 then 128 else 32)"

definition parse_octet :: "string \<Rightarrow> nat option" where
  "parse_octet s = (if all_digits s \<and> length s \<le> 3 \<and> (length s > 1 \<longrightarrow> hd s \<noteq> CHR ''0'') \<and> dec_value s \<le> 255
     then Some (dec_value s) else None)"

definition parse_v4 :: "string \<Rightarrow> nat option" where
  "parse_v4 s = (case map parse_octet (split_on CHR ''.'' s) of
     [Some a, Some b, Some c, Some d] \<Rightarrow> Some (((a * 256 + b) * 256 + c) * 256 + d) | _ \<Rightarrow> None)"

definition parse_hextet :: "string \<Rightarrow> nat option" where
  "parse_hextet s = (if s = [] \<or> length s > 4 then None else hex_value 0 s)"

fun hextets_value :: "nat \<Rightarrow> string list \<Rightarrow> nat option" where
  "hextets_value acc [] = Some acc"
| "hextets_value acc (h # hs) = (case parse_hextet h of Some n \<Rightarrow> hextets_value (65536 * acc + n) hs | None \<Rightarrow> None)"

text \<open>The positions of empty parts strictly between the first and the last.\<close>

definition inner_gaps :: "string list \<Rightarrow> nat list" where
  "inner_gaps parts = filter (\<lambda>i. parts ! i = []) [1..<length parts - 1]"

text \<open>A trailing dotted quad stands for two parts.\<close>

definition v6_parts :: "string \<Rightarrow> (nat option \<times> string list) option" where
  "v6_parts s = (let parts = split_on CHR '':'' s in
     if length parts < 3 then None
     else if CHR ''.'' \<in> set (last parts)
     then (case parse_v4 (last parts) of None \<Rightarrow> None | Some n \<Rightarrow> Some (Some n, butlast parts))
     else Some (None, parts))"

definition tail_value :: "nat \<Rightarrow> nat option \<Rightarrow> string list \<Rightarrow> nat option" where
  "tail_value acc quad hs = (case hextets_value acc hs of None \<Rightarrow> None
     | Some n \<Rightarrow> (case quad of None \<Rightarrow> Some n | Some q \<Rightarrow> Some (n * 2 ^ 32 + q)))"

definition parse_v6 :: "string \<Rightarrow> nat option" where
  "parse_v6 s = (case v6_parts s of None \<Rightarrow> None
     | Some (quad, hs) \<Rightarrow>
       let parts = hs @ (case quad of None \<Rightarrow> [] | Some _ \<Rightarrow> [''0'', ''0'']); n = length parts in
       if n > 9 then None
       else (case inner_gaps parts of
           [] \<Rightarrow> if n = 8 \<and> hd parts \<noteq> [] \<and> last parts \<noteq> [] then tail_value 0 quad hs else None
         | [i] \<Rightarrow>
             let lead = (hd parts = []); trail = (last parts = []); hi = (if lead then i - 1 else i);
                 lo = (if trail then n - i - 2 else n - i - 1)
             in if (lead \<and> hi > 0) \<or> (trail \<and> lo > 0) \<or> 8 \<le> hi + lo then None
                else (case hextets_value 0 (take hi parts) of None \<Rightarrow> None
                  | Some v \<Rightarrow> tail_value (v * 65536 ^ (8 - (hi + lo))) quad (take (length hs - i - 1 - (if trail then 1 else 0)) (drop (i + 1) hs)))
         | _ \<Rightarrow> None))"

text \<open>\<^verbatim>\<open>IPv6Address\<close>: a scope identifier after a percent sign is kept apart.\<close>

definition parse_scoped :: "string \<Rightarrow> (nat \<times> string option) option" where
  "parse_scoped s = (case partition_at CHR ''%'' s of (addr, has, scope) \<Rightarrow>
     if has \<and> (scope = [] \<or> CHR ''%'' \<in> set scope) then None
     else (case parse_v6 addr of None \<Rightarrow> None | Some n \<Rightarrow> Some (n, if has then Some scope else None)))"

definition parse_ip :: "string \<Rightarrow> ip option" where
  "parse_ip s = (case parse_v4 s of Some n \<Rightarrow> Some (IP False n)
     | None \<Rightarrow> if CHR ''/'' \<in> set s then None else (case parse_scoped s of Some (n, _) \<Rightarrow> Some (IP True n) | None \<Rightarrow> None))"

text \<open>\<^verbatim>\<open>ipv4_mapped\<close>.\<close>

definition ipv4_mapped :: "nat \<Rightarrow> nat option" where
  "ipv4_mapped n = (if n div 2 ^ 32 = 65535 then Some (n mod 2 ^ 32) else None)"

definition unmap_address :: "ip \<Rightarrow> ip" where
  "unmap_address a = (if is_v6 a then (case ipv4_mapped (ip_num a) of Some n \<Rightarrow> IP False n | None \<Rightarrow> a) else a)"

section \<open>Networks\<close>

record ip_net =
  nt_v6 :: bool
  nt_base :: nat
  nt_prefix :: nat
  nt_scope :: "string option"

definition mask_base :: "bool \<Rightarrow> nat \<Rightarrow> nat \<Rightarrow> nat" where
  "mask_base v6 p n = n - n mod 2 ^ (ip_bits v6 - p)"

text \<open>With \<^verbatim>\<open>strict=False\<close> host bits are cleared; a scope survives only when there were none.\<close>

definition mk_net :: "bool \<Rightarrow> nat \<Rightarrow> nat \<Rightarrow> string option \<Rightarrow> ip_net" where
  "mk_net v6 n p scope = \<lparr>nt_v6 = v6, nt_base = mask_base v6 p n, nt_prefix = p, nt_scope = (if mask_base v6 p n = n then scope else None)\<rparr>"

definition prefix_string :: "nat \<Rightarrow> string \<Rightarrow> nat option" where
  "prefix_string limit s = (if all_digits s \<and> dec_value s \<le> limit then Some (dec_value s) else None)"

text \<open>A dotted netmask, or a hostmask.\<close>

definition mask_length :: "nat \<Rightarrow> nat option" where
  "mask_length m = find (\<lambda>p. m = 2 ^ 32 - 2 ^ (32 - p)) (rev [0..<33])"

definition prefix_of_mask :: "string \<Rightarrow> nat option" where
  "prefix_of_mask s = (case parse_v4 s of None \<Rightarrow> None
     | Some m \<Rightarrow> (case mask_length m of Some p \<Rightarrow> Some p | None \<Rightarrow> mask_length (2 ^ 32 - 1 - m)))"

definition parse_net4 :: "string \<Rightarrow> ip_net option" where
  "parse_net4 s = (case split_on CHR ''/'' s of
     [a] \<Rightarrow> map_option (\<lambda>n. mk_net False n 32 None) (parse_v4 a)
   | [a, m] \<Rightarrow> (case parse_v4 a of None \<Rightarrow> None
       | Some n \<Rightarrow> (case prefix_string 32 m of Some p \<Rightarrow> Some (mk_net False n p None)
           | None \<Rightarrow> map_option (\<lambda>p. mk_net False n p None) (prefix_of_mask m)))
   | _ \<Rightarrow> None)"

definition parse_net6 :: "string \<Rightarrow> ip_net option" where
  "parse_net6 s = (case split_on CHR ''/'' s of
     [a] \<Rightarrow> map_option (\<lambda>(n, sc). mk_net True n 128 sc) (parse_scoped a)
   | [a, m] \<Rightarrow> (case parse_scoped a of None \<Rightarrow> None
       | Some (n, sc) \<Rightarrow> map_option (\<lambda>p. mk_net True n p sc) (prefix_string 128 m))
   | _ \<Rightarrow> None)"

definition parse_network :: "string \<Rightarrow> ip_net option" where
  "parse_network s = (case parse_net4 s of Some n \<Rightarrow> Some n | None \<Rightarrow> parse_net6 s)"

definition in_network :: "ip \<Rightarrow> ip_net \<Rightarrow> bool" where
  "in_network a n \<longleftrightarrow> is_v6 a = nt_v6 n \<and> mask_base (nt_v6 n) (nt_prefix n) (ip_num a) = nt_base n"

definition unmap_network :: "ip_net \<Rightarrow> ip_net" where
  "unmap_network n = (if nt_v6 n \<and> 96 \<le> nt_prefix n
     then (case ipv4_mapped (nt_base n) of Some m \<Rightarrow> mk_net False m (nt_prefix n - 96) None | None \<Rightarrow> n) else n)"

section \<open>Printing\<close>

definition dec_text :: "nat \<Rightarrow> string" where
  "dec_text n = map char_of (str_nat n)"

definition v4_text :: "nat \<Rightarrow> string" where
  "v4_text n = dec_text (n div 2 ^ 24 mod 256) @ ''.'' @ dec_text (n div 2 ^ 16 mod 256) @ ''.'' @ dec_text (n div 2 ^ 8 mod 256) @ ''.'' @ dec_text (n mod 256)"

fun hex_text :: "nat \<Rightarrow> string" where
  "hex_text n = (let d = (\<lambda>k. char_of (if k < 10 then k + 48 else k + 87) :: char) in
     if n < 16 then [d n] else hex_text (n div 16) @ [d (n mod 16)])"

declare hex_text.simps [simp del]

definition hextets_of :: "nat \<Rightarrow> nat list" where
  "hextets_of n = map (\<lambda>i. n div 65536 ^ (7 - i) mod 65536) [0..<8]"

text \<open>The length of the run of zero parts at the front, and the first longest run.\<close>

definition zero_run :: "nat list \<Rightarrow> nat" where
  "zero_run hs = length (takeWhile (\<lambda>h. h = 0) hs)"

definition best_run :: "nat list \<Rightarrow> nat \<times> nat" where
  "best_run hs = fold (\<lambda>i (s, l). if zero_run (drop i hs) > l then (i, zero_run (drop i hs)) else (s, l)) [0..<length hs] (0, 0)"

definition compressed :: "nat list \<Rightarrow> string list" where
  "compressed hs = (case best_run hs of (s, l) \<Rightarrow>
     if l \<le> 1 then map hex_text hs
     else (if s = 0 then [[]] else []) @ map hex_text (take s hs) @ [[]] @ map hex_text (drop (s + l) hs) @ (if s + l = length hs then [[]] else []))"

definition v6_text :: "nat \<Rightarrow> string" where
  "v6_text n = join_on CHR '':'' (compressed (hextets_of n))"

definition net_text :: "ip_net \<Rightarrow> string" where
  "net_text n = (if nt_v6 n then v6_text (nt_base n) @ (case nt_scope n of None \<Rightarrow> [] | Some sc \<Rightarrow> ''%'' @ sc) else v4_text (nt_base n))
     @ ''/'' @ dec_text (nt_prefix n)"

section \<open>The allowlist\<close>

text \<open>Blank entries are dropped; the first unusable one is refused.\<close>

fun normalize_items :: "string list \<Rightarrow> string list py" where
  "normalize_items [] = Inr []"
| "normalize_items (e # es) =
     (let text = strip_str e in
      if text = [] then normalize_items es
      else (case parse_network text of None \<Rightarrow> Inl ValueError
        | Some n \<Rightarrow> if nt_prefix (unmap_network n) = 0 then Inl ValueError
            else py_bind (normalize_items es) (\<lambda>ns. Inr (net_text (unmap_network n) # ns))))"

definition normalize_entries :: "string list option \<Rightarrow> string list py" where
  "normalize_entries entries = (case entries of None \<Rightarrow> Inr [] | Some es \<Rightarrow> normalize_items es)"

definition is_allowed :: "string option \<Rightarrow> string list option \<Rightarrow> bool" where
  "is_allowed client_ip entries =
     (if \<not> truthy entries then True
      else if \<not> truthy client_ip then False
      else (case parse_ip (strip_str (the client_ip)) of None \<Rightarrow> False
        | Some a \<Rightarrow> list_ex (\<lambda>e. case parse_network e of None \<Rightarrow> False | Some n \<Rightarrow> in_network (unmap_address a) (unmap_network n)) (the entries)))"

lemma is_allowed_off: "\<not> truthy entries \<Longrightarrow> is_allowed client_ip entries"
  by (simp add: is_allowed_def)

end
