(* ===== verification/Auth_Middleware.thy ===== *)
theory Auth_Middleware
  imports Sessions IP_Address
begin

text \<open>
  The authentication middleware (\<^verbatim>\<open>api/v1/middleware/auth.py\<close>) and the validation of access tokens
  (\<^verbatim>\<open>services/auth/token.py\<close>): header precedence, API keys, the admin key, and JWTs with the user cache.
  JWT signature checks, SHA-256, UUID syntax and the database reads are arguments.
\<close>

section \<open>Access tokens\<close>

record claims =
  cl_type :: "string option"
  cl_sub :: "string option"
  cl_tenant :: "string option"
  cl_role :: "string option"
  cl_ver :: "int option"
  cl_jti :: "string option"
  cl_dept :: "string option"

record jwt_lib =
  jwt_header_alg :: "string \<Rightarrow> string option py"
  jwt_decode :: "string \<Rightarrow> claims py"

definition decode_access_token :: "jwt_lib \<Rightarrow> string \<Rightarrow> string \<Rightarrow> claims py" where
  "decode_access_token J jwt_algorithm token =
     py_bind (jwt_header_alg J token) (\<lambda>alg.
       if alg \<noteq> Some jwt_algorithm then Inl (OtherError ''InvalidTokenError'')
       else py_bind (jwt_decode J token) (\<lambda>payload.
         if cl_type payload \<noteq> Some ''access'' then Inl (OtherError ''InvalidTokenError'')
         else if cl_sub payload = None \<or> cl_tenant payload = None \<or> cl_role payload = None
              \<or> cl_ver payload = None \<or> cl_jti payload = None
         then Inl (OtherError ''InvalidTokenError'')
         else Inr payload))"

section \<open>User and tenant reads\<close>

record cached_user =
  cu_id :: string
  cu_is_active :: bool
  cu_force_change :: bool
  cu_version :: int
  cu_email :: string
  cu_members :: "(string \<times> string \<times> string option) list"

definition USER_CACHE_TTL :: int where
  "USER_CACHE_TTL = 1800"

definition user_payload :: "db \<Rightarrow> user_row \<Rightarrow> cached_user" where
  "user_payload d u = \<lparr>cu_id = us_id u, cu_is_active = us_is_active u, cu_force_change = us_force_change u,
     cu_version = us_token_version u, cu_email = us_email u,
     cu_members = dict_update [] (map (\<lambda>m. (mb_tenant_id m, mb_role m, mb_dept_id m)) (db_members d (us_id u)))\<rparr>"

text \<open>\<open>Inl\<close> is the sentinel for a failed database read.\<close>

definition get_user_cached :: "('r, cached_user) redis \<Rightarrow> rat \<Rightarrow> db py \<Rightarrow> string \<Rightarrow> 'r \<Rightarrow> 'r \<times> cached_user option py" where
  "get_user_cached R now dbread uid r =
     (case r_get R now (auth_user_key uid) r of
        (r0, Inr (Some (RDoc c))) \<Rightarrow> (r0, Inr (Some c))
      | (r0, _) \<Rightarrow>
          (case dbread of
             Inl e \<Rightarrow> (r0, Inl e)
           | Inr d \<Rightarrow> (case user_by_id uid d of
                 None \<Rightarrow> (r0, Inr None)
               | Some u \<Rightarrow> (fst (rtry (r_setex R now (auth_user_key uid) USER_CACHE_TTL (RDoc (user_payload d u))) (\<lambda>_. ()) r0),
                           Inr (Some (user_payload d u))))))"

definition auth_tenant_key :: "string \<Rightarrow> string" where
  "auth_tenant_key tid = ''auth:tenant:'' @ tid"

definition tenant_suspended :: "('r, cached_user) redis \<Rightarrow> rat \<Rightarrow> (string \<Rightarrow> string option py) \<Rightarrow> string option \<Rightarrow> 'r \<Rightarrow> 'r \<times> bool" where
  "tenant_suspended R now tenant_status tenant_id r =
     (if \<not> truthy tenant_id then (r, False)
      else let tid = the tenant_id in
        (case r_get R now (auth_tenant_key tid) r of
           (r0, Inr (Some (RStr status))) \<Rightarrow> (r0, status \<noteq> ''active'')
         | (r0, _) \<Rightarrow>
             (case tenant_status tid of
                Inl _ \<Rightarrow> (r0, True)
              | Inr st \<Rightarrow> let status = if_none st ''active''
                         in (fst (rtry (r_setex R now (auth_tenant_key tid) 60 (RStr status)) (\<lambda>_. ()) r0), status \<noteq> ''active''))))"

section \<open>The dispatch\<close>

record auth_request =
  aq_path :: string
  aq_api_key :: string
  aq_authorization :: string
  aq_ip :: string

record request_state =
  st_principal_type :: string
  st_key_id :: "string option"
  st_is_admin :: bool
  st_app_id :: "string option"
  st_dept_id :: "string option"
  st_tenant_id :: "string option"
  st_user_id :: "string option"
  st_user_role :: "string option"

datatype auth_outcome =
    Public
  | Unauthorized string
  | IpNotAllowed
  | TenantSuspended
  | SessionInvalidatedResp
  | PasswordChangeRequired
  | Accepted request_state

record key_row =
  ky_key_id :: string
  ky_revoked :: bool
  ky_expires_at :: "rat option"
  ky_app_id :: "string option"
  ky_dept_id :: "string option"
  ky_tenant_id :: "string option"
  ky_ip_allowlist :: "string list option"

record 'r auth_env =
  ae_redis :: "('r, cached_user) redis"
  ae_jwt :: jwt_lib
  ae_algorithm :: string
  ae_production :: bool
  ae_admin_key :: string
  ae_sha256 :: "string \<Rightarrow> string"
  ae_is_uuid :: "string \<Rightarrow> bool"
  ae_db :: "db py"
  ae_keys :: "string \<Rightarrow> key_row option py"
  ae_tenant_status :: "string \<Rightarrow> string option py"
  ae_bootstrap_tenant :: "string option py"

definition AUTH_PUBLIC_PATHS :: "string list" where
  "AUTH_PUBLIC_PATHS = [''/health'', ''/health/ready'', ''/health/live'', ''/metrics'', ''/docs'', ''/redoc'', ''/v1/auth/login'',
     ''/v1/auth/refresh'', ''/v1/setup'', ''/v1/setup/status'']"

definition is_public_path :: "bool \<Rightarrow> string \<Rightarrow> bool" where
  "is_public_path production path \<longleftrightarrow> path \<in> set AUTH_PUBLIC_PATHS \<or> (path = ''/openapi.json'' \<and> \<not> production)"

definition FORCE_CHANGE_ALLOWED :: "string list" where
  "FORCE_CHANGE_ALLOWED = [''/v1/auth/change-password'', ''/v1/auth/logout'', ''/v1/auth/me'']"

definition get_standard_key :: "'r auth_env \<Rightarrow> rat \<Rightarrow> string \<Rightarrow> key_row option" where
  "get_standard_key E now api_key =
     (case ae_keys E (ae_sha256 E api_key) of
        Inr (Some k) \<Rightarrow> if ky_revoked k then None
          else (case ky_expires_at k of Some e \<Rightarrow> if now > e then None else Some k | None \<Rightarrow> Some k)
      | _ \<Rightarrow> None)"

definition authenticate_admin_key :: "'r auth_env \<Rightarrow> auth_outcome" where
  "authenticate_admin_key E =
     (case ae_bootstrap_tenant E of
        Inr (Some tid) \<Rightarrow> Accepted \<lparr>st_principal_type = ''api_key'', st_key_id = Some ''key:admin'', st_is_admin = True,
           st_app_id = None, st_dept_id = None, st_tenant_id = Some tid, st_user_id = None, st_user_role = None\<rparr>
      | _ \<Rightarrow> Unauthorized ''system_configuration_error'')"

definition authenticate_api_key :: "'r auth_env \<Rightarrow> rat \<Rightarrow> auth_request \<Rightarrow> string \<Rightarrow> 'r \<Rightarrow> 'r \<times> auth_outcome" where
  "authenticate_api_key E now q api_key r =
     (if api_key = ae_admin_key E then (r, authenticate_admin_key E)
      else if startswith api_key ''wsk_live_'' \<or> startswith api_key ''wsk_trial_''
      then (case get_standard_key E now api_key of
          None \<Rightarrow> (r, Unauthorized ''invalid_api_key'')
        | Some k \<Rightarrow>
            if truthy (ky_ip_allowlist k) \<and> \<not> is_allowed (Some (aq_ip q)) (ky_ip_allowlist k) then (r, IpNotAllowed)
            else (case tenant_suspended (ae_redis E) now (ae_tenant_status E) (ky_tenant_id k) r of (r', suspended) \<Rightarrow>
                (r', if suspended then TenantSuspended else Accepted \<lparr>st_principal_type = ''api_key'', st_key_id = Some (''key:'' @ ky_key_id k), st_is_admin = False,
                   st_app_id = ky_app_id k, st_dept_id = ky_dept_id k, st_tenant_id = ky_tenant_id k,
                   st_user_id = None, st_user_role = None\<rparr>)))
      else (r, Unauthorized ''unrecognized_key_format''))"

text \<open>Steps 2c to 6 of the JWT path, on the user record that was loaded.\<close>

definition admit_user :: "'r auth_env \<Rightarrow> rat \<Rightarrow> auth_request \<Rightarrow> claims \<Rightarrow> cached_user \<Rightarrow> 'r \<Rightarrow> 'r \<times> auth_outcome" where
  "admit_user E now q payload u r =
     (if \<not> cu_is_active u then (r, Unauthorized ''account_disabled'')
      else (case map_of (cu_members u) (the (cl_tenant payload)) of
          None \<Rightarrow> (r, Unauthorized ''invalid_token'')
        | Some (role, dept) \<Rightarrow>
            if cl_ver payload \<noteq> Some (cu_version u) then (r, SessionInvalidatedResp)
            else (case tenant_suspended (ae_redis E) now (ae_tenant_status E) (cl_tenant payload) r of (r', suspended) \<Rightarrow>
                if suspended then (r', TenantSuspended)
                else if cu_force_change u \<and> aq_path q \<notin> set FORCE_CHANGE_ALLOWED then (r', PasswordChangeRequired)
                else (r', Accepted \<lparr>st_principal_type = ''user'', st_key_id = Some (''user:'' @ cu_id u),
                       st_is_admin = (role = ''ADMIN''), st_app_id = None, st_dept_id = dept,
                       st_tenant_id = cl_tenant payload, st_user_id = Some (cu_id u), st_user_role = Some role\<rparr>))))"

definition authenticate_jwt :: "'r auth_env \<Rightarrow> rat \<Rightarrow> auth_request \<Rightarrow> string \<Rightarrow> 'r \<Rightarrow> 'r \<times> auth_outcome" where
  "authenticate_jwt E now q token r =
     (case decode_access_token (ae_jwt E) (ae_algorithm E) token of
        Inl _ \<Rightarrow> (r, Unauthorized ''invalid_or_expired_token'')
      | Inr payload \<Rightarrow>
        (case is_blacklisted (ae_redis E) now (the (cl_jti payload)) r of (r1, revoked) \<Rightarrow>
           if revoked then (r1, Unauthorized ''invalid_or_expired_token'')
           else if \<not> ae_is_uuid E (str_or (cl_sub payload) []) then (r1, Unauthorized ''invalid_token'')
           else (case get_user_cached (ae_redis E) now (ae_db E) (str_or (cl_sub payload) []) r1 of (r2, found) \<Rightarrow>
             (case found of
                Inl _ \<Rightarrow> (r2, Unauthorized ''internal_error'')
              | Inr None \<Rightarrow> (r2, Unauthorized ''invalid_token'')
              | Inr (Some u) \<Rightarrow> admit_user E now q payload u r2))))"

definition auth_dispatch :: "'r auth_env \<Rightarrow> rat \<Rightarrow> auth_request \<Rightarrow> 'r \<Rightarrow> 'r \<times> auth_outcome" where
  "auth_dispatch E now q r =
     (if is_public_path (ae_production E) (aq_path q) then (r, Public)
      else let api_key = strip_str (aq_api_key q); auth = strip_str (aq_authorization q)
        in if api_key \<noteq> [] then authenticate_api_key E now q api_key r
           else if startswith (lower_str auth) ''bearer '' then authenticate_jwt E now q (drop 7 auth) r
           else (r, Unauthorized ''missing_credentials''))"

end
