(* ===== verification/Auth_Facts.thy ===== *)
theory Auth_Facts
  imports Auth_Middleware
begin

text \<open>
  Facts about sessions: a revoked refresh token never works again, a replayed one ends every session of
  its user including the access tokens, and what an accepted request has proved about itself.
\<close>

lemmas db_op_defs = revoke_def revoke_all_for_user_def rt_create_def log_auth_event_def increment_token_version_def
  notify_def update_last_login_def set_password_def cleanup_expired_def

section \<open>Revocation is final\<close>

text \<open>The events of the session store, in any order and at any times.\<close>

inductive auth_step :: "('r, 'd) redis \<Rightarrow> auth_settings \<Rightarrow> (string \<Rightarrow> string) \<Rightarrow> string set \<Rightarrow> db \<times> 'r \<Rightarrow> db \<times> 'r \<Rightarrow> bool"
  for R S sha256 issued where
  Login: "sha256 new_raw \<notin> issued \<Longrightarrow> login R S sha256 now email provider new_raw s = (s', res) \<Longrightarrow> auth_step R S sha256 issued s s'"
| Refresh: "sha256 new_raw \<notin> issued \<Longrightarrow> refresh R S sha256 now raw new_raw s = (s', res) \<Longrightarrow> auth_step R S sha256 issued s s'"
| Logout: "auth_step R S sha256 issued (d, r) (logout sha256 now raw reason d, r)"
| LogoutAll: "auth_step R S sha256 issued s (logout_all_sessions R now uid s)"
| Change: "change_password R vp hp strong now uid old new s = (s', res) \<Longrightarrow> auth_step R S sha256 issued s s'"
| Cleanup: "auth_step R S sha256 issued (d, r) (cleanup_expired now d, r)"
| Cache: "auth_step R S sha256 issued (d, r) (d, r')"

definition all_revoked :: "string \<Rightarrow> db \<Rightarrow> bool" where
  "all_revoked h d \<longleftrightarrow> list_all (\<lambda>row. rt_hash row = h \<longrightarrow> rt_revoked_at row \<noteq> None) (db_tokens d)"

lemma all_revoked_ops [simp]:
  "all_revoked h (log_auth_event a b c e f d) = all_revoked h d"
  "all_revoked h (notify k u d) = all_revoked h d"
  "all_revoked h (update_last_login now u d) = all_revoked h d"
  "all_revoked h (set_password u p d) = all_revoked h d"
  "all_revoked h (increment_token_version u d) = all_revoked h d"
  by (simp_all add: all_revoked_def db_op_defs)

lemma all_revoked_keep:
  "all_revoked h d \<Longrightarrow> all_revoked h (revoke now h' d)"
  "all_revoked h d \<Longrightarrow> all_revoked h (revoke_all_for_user now u d)"
  "all_revoked h d \<Longrightarrow> all_revoked h (cleanup_expired now d)"
  "all_revoked h d \<Longrightarrow> h' \<noteq> h \<Longrightarrow> all_revoked h (rt_create u h' e v d)"
  by (auto simp: all_revoked_def db_op_defs list_all_iff)

lemma all_revoked_logout_all: "all_revoked h d \<Longrightarrow> all_revoked h (fst (logout_all_sessions R now u (d, r)))"
  by (simp add: logout_all_sessions_def all_revoked_keep)

lemma all_revoked_refresh:
  assumes "refresh R S sha256 now raw new_raw (d, r) = ((d', r'), res)" "all_revoked h d" "sha256 new_raw \<noteq> h"
  shows "all_revoked h d'"
proof -
  have "all_revoked h (fst (fst (refresh R S sha256 now raw new_raw (d, r))))"
    using assms(2,3)
    by (auto simp: refresh_def Let_def refresh_failed_def logout_all_sessions_def all_revoked_keep split: option.splits prod.splits if_splits)
  with assms(1) show ?thesis by simp
qed

lemma all_revoked_login:
  assumes "login R S sha256 now email p new_raw (d, r) = ((d', r'), res)" "all_revoked h d" "sha256 new_raw \<noteq> h"
  shows "all_revoked h d'"
proof -
  have "all_revoked h (fst (fst (login R S sha256 now email p new_raw (d, r))))"
    using assms(2,3)
    by (auto simp: login_def Let_def all_revoked_keep split: option.splits prod.splits provider_outcome.splits)
  with assms(1) show ?thesis by simp
qed

lemma all_revoked_change:
  assumes "change_password R vp hp strong now u p q (d, r) = ((d', r'), res)" "all_revoked h d"
  shows "all_revoked h d'"
proof -
  have "all_revoked h (fst (fst (change_password R vp hp strong now u p q (d, r))))"
    using assms(2)
    by (auto simp: change_password_def logout_all_sessions_def all_revoked_keep split: option.splits)
  with assms(1) show ?thesis by simp
qed

lemma auth_step_revoked:
  assumes "auth_step R S sha256 issued s s'" "h \<in> issued" "all_revoked h (fst s)"
  shows "all_revoked h (fst s')"
  using assms
proof induction
  case (Login new_raw now email provider s s' res)
  then show ?case by (metis all_revoked_login prod.collapse)
next
  case (Refresh new_raw now raw s s' res)
  then show ?case by (metis all_revoked_refresh prod.collapse)
next
  case (LogoutAll s now uid)
  then show ?case by (metis all_revoked_logout_all prod.collapse)
next
  case (Change vp hp strong now uid old new s s' res)
  then show ?case by (metis all_revoked_change prod.collapse)
qed (auto simp: logout_def all_revoked_keep split: option.splits)

lemma auth_steps_revoked:
  "(auth_step R S sha256 issued)\<^sup>*\<^sup>* s s' \<Longrightarrow> h \<in> issued \<Longrightarrow> all_revoked h (fst s) \<Longrightarrow> all_revoked h (fst s')"
  by (induction rule: rtranclp_induct) (auto dest: auth_step_revoked)

lemma get_by_hash_revoked: "all_revoked h d \<Longrightarrow> get_by_hash now h d = None"
  by (auto simp: all_revoked_def get_by_hash_def find_None_iff list_all_iff)

text \<open>
  C21: Revocation is final. Once a refresh token is revoked, no sequence of logins, refreshes, logouts,
  password changes, clean-ups and cache changes makes it usable again, at any later time.
\<close>
theorem revoked_token_stays_dead:
  assumes "(auth_step R S sha256 issued)\<^sup>*\<^sup>* (d, r) (d', r')"
    and "all_revoked (sha256 raw) d" and "sha256 raw \<in> issued"
  shows "\<exists>e. snd (refresh R S sha256 now raw new_raw (d', r')) = Inl e"
proof -
  have "get_by_hash now (sha256 raw) d' = None"
    using auth_steps_revoked[OF assms(1,3)] assms(2) get_by_hash_revoked by auto
  then show ?thesis by (auto simp: refresh_def Let_def split: option.splits prod.splits)
qed

definition empty_db :: db where
  "empty_db = \<lparr>db_users = [], db_tokens = [], db_members = (\<lambda>_. []), db_events = [], db_notices = []\<rparr>"

theorem revoked_token_stays_dead_witness:
  "\<exists>e. snd (refresh (mem_redis :: (unit mem, unit) redis) \<lparr>lockout = \<lparr>auth_max_failed_attempts = 5, auth_lockout_duration_seconds = 900\<rparr>,
     jwt_refresh_token_expire_days = 7, jwt_access_token_expire_minutes = 30\<rparr> (\<lambda>x. x) 20 ''old'' ''new''
     (revoke 10 ''old'' (rt_create ''u'' ''old'' 99 1 empty_db), Map.empty)) = Inl e"
  by (rule revoked_token_stays_dead[where d = "revoke 10 ''old'' (rt_create ''u'' ''old'' 99 1 empty_db)" and issued = "{''old''}"])
     (auto simp: all_revoked_def db_op_defs empty_db_def)

section \<open>A replay ends every session\<close>

lemma find_map_id: "(\<And>x. P (f x) = P x) \<Longrightarrow> find P (map f xs) = map_option f (find P xs)"
  by (induction xs) auto

lemma user_after_logout_all:
  "user_by_id uid d = Some u \<Longrightarrow>
     user_by_id uid (fst (logout_all_sessions R now uid (d, r))) = Some (u\<lparr>us_token_version := us_token_version u + 1\<rparr>)"
  by (auto simp: user_by_id_def logout_all_sessions_def db_op_defs find_map_id find_Some_iff)

lemma tokens_after_logout_all:
  "list_all (\<lambda>row. rt_user_id row = uid \<longrightarrow> rt_revoked_at row \<noteq> None) (db_tokens (fst (logout_all_sessions R now uid (d, r))))"
proof -
  have "list_all (\<lambda>row. rt_user_id row = uid \<longrightarrow> rt_revoked_at row \<noteq> None)
      (map (\<lambda>r. if rt_user_id r = uid \<and> rt_revoked_at r = None then r\<lparr>rt_revoked_at := Some now\<rparr> else r) xs)" for xs
    by (induction xs) simp_all
  then show ?thesis by (simp add: logout_all_sessions_def revoke_all_for_user_def)
qed

text \<open>An access token of an older version is refused once the cache entry is gone.\<close>

definition rejected :: "auth_outcome \<Rightarrow> bool" where
  "rejected out = (case out of Accepted _ \<Rightarrow> False | Public \<Rightarrow> False | _ \<Rightarrow> True)"

context redis_kv
begin

lemma exists_frame: "r_exists R t k r = (r', Inr b) \<Longrightarrow> val r' t k' = val r t k'"
  using exists_val by blast

end

lemma stale_token_refused:
  assumes kv: "redis_kv R val" and R: "ae_redis E = R" "ae_db E = Inr d" and u: "user_by_id uid d = Some u"
    and tok: "decode_access_token (ae_jwt E) (ae_algorithm E) token = Inr c" "cl_sub c = Some uid" "cl_ver c = Some v"
    and old: "v \<noteq> us_token_version u" "uid \<noteq> []"
    and gone: "val r now (auth_user_key uid) = None"
    and answers: "\<And>k r. \<exists>b. snd (r_exists R now k r) = Inr b"
  shows "rejected (snd (authenticate_jwt E now q token r))"
proof -
  obtain r1 b where ex: "r_exists R now (jti_key (the (cl_jti c))) r = (r1, Inr b)"
    using answers[of "jti_key (the (cl_jti c))" r] by (metis prod.collapse)
  have gone1: "val r1 now (auth_user_key uid) = None"
    using redis_kv.exists_frame[OF kv ex] gone by simp
  have "snd (get_user_cached R now (Inr d) uid r1) = Inr (Some (user_payload d u))"
  proof (cases "r_get R now (auth_user_key uid) r1")
    case (Pair r2 res)
    show ?thesis
    proof (cases res)
      case (Inr x)
      with Pair redis_kv.get_val[OF kv] gone1 have "x = None" by fastforce
      with Pair Inr u show ?thesis by (simp add: get_user_cached_def)
    qed (use Pair u in \<open>simp add: get_user_cached_def\<close>)
  qed
  then obtain r2 where g: "get_user_cached R now (Inr d) uid r1 = (r2, Inr (Some (user_payload d u)))"
    by (metis prod.collapse)
  have "cu_version (user_payload d u) = us_token_version u" by (simp add: user_payload_def)
  then have "rejected (snd (admit_user E now q c (user_payload d u) r2))"
    using old(1) tok(3) by (auto simp: admit_user_def rejected_def split: option.splits)
  with ex g tok old(2) R show ?thesis
    by (simp add: authenticate_jwt_def is_blacklisted_def rtry_def) (simp add: rejected_def)
qed


definition sample_user :: user_row where
  "sample_user = \<lparr>us_id = ''u'', us_email = ''e'', us_is_active = True, us_token_version = 1, us_force_change = False,
     us_password_hash = ''h'', us_last_login = None\<rparr>"

definition sample_auth_db :: db where
  "sample_auth_db = \<lparr>db_users = [sample_user],
     db_tokens = [\<lparr>rt_user_id = ''u'', rt_hash = ''old'', rt_expires_at = 99, rt_revoked_at = Some 5, rt_version = 1\<rparr>],
     db_members = (\<lambda>_. [\<lparr>mb_tenant_id = ''t'', mb_role = ''VIEWER'', mb_dept_id = None\<rparr>]), db_events = [], db_notices = []\<rparr>"

definition sample_claims :: claims where
  "sample_claims = \<lparr>cl_type = Some ''access'', cl_sub = Some ''u'', cl_tenant = Some ''t'', cl_role = Some ''ADMIN'', cl_ver = Some 1,
     cl_jti = Some ''j'', cl_dept = None\<rparr>"

definition sample_env :: "db \<Rightarrow> cached_user mem auth_env" where
  "sample_env d = \<lparr>ae_redis = mem_redis, ae_jwt = \<lparr>jwt_header_alg = (\<lambda>_. Inr (Some ''HS256'')), jwt_decode = (\<lambda>_. Inr sample_claims)\<rparr>,
     ae_algorithm = ''HS256'', ae_production = True, ae_admin_key = ''root'', ae_sha256 = (\<lambda>x. x), ae_is_uuid = (\<lambda>_. True),
     ae_db = Inr d, ae_keys = (\<lambda>_. Inr None), ae_tenant_status = (\<lambda>_. Inr (Some ''active'')),
     ae_bootstrap_tenant = Inr (Some ''t'')\<rparr>"

definition sample_auth_settings :: auth_settings where
  "sample_auth_settings = \<lparr>lockout = \<lparr>auth_max_failed_attempts = 5, auth_lockout_duration_seconds = 900\<rparr>,
     jwt_refresh_token_expire_days = 7, jwt_access_token_expire_minutes = 30\<rparr>"

lemma sample_decode: "decode_access_token (ae_jwt (sample_env d)) (ae_algorithm (sample_env d)) tok = Inr sample_claims"
  by (simp add: sample_env_def decode_access_token_def sample_claims_def)

definition sample_replay :: "(db \<times> cached_user mem) \<times> (auth_error + minted)" where
  "sample_replay = refresh mem_redis sample_auth_settings (\<lambda>x. x) 10 ''old'' ''new'' (sample_auth_db, Map.empty)"

definition sample_request :: auth_request where
  "sample_request = \<lparr>aq_path = ''/v1/x'', aq_api_key = [], aq_authorization = ''Bearer tok'', aq_ip = ''h''\<rparr>"


text \<open>
  The refusal of access tokens depends on the deletion: on a cache hit the outcome does not look at the
  database at all, so an entry that outlives the version increment keeps the old tokens working.
\<close>

lemma cache_hit_ignores_db:
  assumes "\<And>r. \<exists>r0 u. r_get (ae_redis E) now (auth_user_key (str_or (cl_sub c) [])) r = (r0, Inr (Some (RDoc u)))"
    and "decode_access_token (ae_jwt E) (ae_algorithm E) token = Inr c"
  shows "authenticate_jwt E now q token r = authenticate_jwt (E\<lparr>ae_db := any\<rparr>) now q token r"
proof -
  have "get_user_cached (ae_redis E) now (ae_db E) (str_or (cl_sub c) []) r1 =
      get_user_cached (ae_redis E) now any (str_or (cl_sub c) []) r1" for r1
    using assms(1)[of r1] by (auto simp: get_user_cached_def)
  moreover have "admit_user (E\<lparr>ae_db := any\<rparr>) = admit_user E"
    by (intro ext) (simp add: admit_user_def split: option.split prod.split)
  ultimately show ?thesis using assms(2)
    by (cases "is_blacklisted (ae_redis E) now (the (cl_jti c)) r") (simp add: authenticate_jwt_def)
qed

section \<open>What an accepted request has shown\<close>

definition key_usable :: "'r auth_env \<Rightarrow> rat \<Rightarrow> auth_request \<Rightarrow> key_row \<Rightarrow> bool" where
  "key_usable E now q k \<longleftrightarrow> \<not> ky_revoked k \<and> (case ky_expires_at k of None \<Rightarrow> True | Some e \<Rightarrow> now \<le> e)
     \<and> is_allowed (Some (aq_ip q)) (ky_ip_allowlist k)"

definition tenant_served :: "'r auth_env \<Rightarrow> rat \<Rightarrow> string option \<Rightarrow> bool" where
  "tenant_served E now tid \<longleftrightarrow> (\<exists>r. \<not> snd (tenant_suspended (ae_redis E) now (ae_tenant_status E) tid r))"

lemma get_standard_key_usable:
  "get_standard_key E now key = Some k \<Longrightarrow>
     ae_keys E (ae_sha256 E key) = Inr (Some k) \<and> \<not> ky_revoked k \<and> (case ky_expires_at k of None \<Rightarrow> True | Some e \<Rightarrow> now \<le> e)"
  by (auto simp: get_standard_key_def split: sum.splits option.splits if_splits)

lemma api_key_accepted:
  assumes "authenticate_api_key E now q key r = (r', Accepted s)"
  shows "(key = ae_admin_key E \<and> authenticate_admin_key E = Accepted s)
    \<or> (\<exists>k. ae_keys E (ae_sha256 E key) = Inr (Some k) \<and> key_usable E now q k \<and> tenant_served E now (ky_tenant_id k)
          \<and> st_is_admin s = False \<and> st_tenant_id s = ky_tenant_id k \<and> st_user_role s = None)"
proof (cases "key = ae_admin_key E")
  case False
  with assms obtain k where k: "get_standard_key E now key = Some k"
    and ip: "\<not> (truthy (ky_ip_allowlist k) \<and> \<not> is_allowed (Some (aq_ip q)) (ky_ip_allowlist k))"
    and rest: "\<not> snd (tenant_suspended (ae_redis E) now (ae_tenant_status E) (ky_tenant_id k) r)"
      "st_is_admin s = False" "st_tenant_id s = ky_tenant_id k" "st_user_role s = None"
    by (auto simp: authenticate_api_key_def split: if_splits option.splits prod.splits)
  have "key_usable E now q k"
    using get_standard_key_usable[OF k] ip is_allowed_off by (auto simp: key_usable_def split: option.splits)
  with get_standard_key_usable[OF k] rest show ?thesis by (auto simp: tenant_served_def)
qed (use assms in \<open>simp add: authenticate_api_key_def\<close>)

lemma admit_user_accepted:
  assumes "admit_user E now q c u r = (r', Accepted s)"
  shows "cu_is_active u \<and> cl_ver c = Some (cu_version u) \<and> tenant_served E now (cl_tenant c)
     \<and> (\<exists>role dept. map_of (cu_members u) (the (cl_tenant c)) = Some (role, dept)
          \<and> st_user_role s = Some role \<and> st_dept_id s = dept \<and> st_tenant_id s = cl_tenant c \<and> st_is_admin s = (role = ''ADMIN''))"
  using assms by (auto simp: admit_user_def tenant_served_def split: if_splits option.splits prod.splits) (metis snd_conv)+

text \<open>The three ways to be authenticated on a protected route.\<close>

definition by_admin_key :: "'r auth_env \<Rightarrow> auth_request \<Rightarrow> request_state \<Rightarrow> bool" where
  "by_admin_key E q s \<longleftrightarrow> strip_str (aq_api_key q) = ae_admin_key E \<and> authenticate_admin_key E = Accepted s"

definition by_api_key :: "'r auth_env \<Rightarrow> rat \<Rightarrow> auth_request \<Rightarrow> request_state \<Rightarrow> bool" where
  "by_api_key E now q s \<longleftrightarrow> (\<exists>k. ae_keys E (ae_sha256 E (strip_str (aq_api_key q))) = Inr (Some k) \<and> key_usable E now q k
     \<and> tenant_served E now (ky_tenant_id k) \<and> st_is_admin s = False \<and> st_tenant_id s = ky_tenant_id k \<and> st_user_role s = None)"

definition by_access_token :: "'r auth_env \<Rightarrow> rat \<Rightarrow> auth_request \<Rightarrow> request_state \<Rightarrow> bool" where
  "by_access_token E now q s \<longleftrightarrow> strip_str (aq_api_key q) = [] \<and> (\<exists>c u r1 r2 role dept.
     decode_access_token (ae_jwt E) (ae_algorithm E) (drop 7 (strip_str (aq_authorization q))) = Inr c
     \<and> get_user_cached (ae_redis E) now (ae_db E) (str_or (cl_sub c) []) r1 = (r2, Inr (Some u))
     \<and> cu_is_active u \<and> cl_ver c = Some (cu_version u) \<and> tenant_served E now (cl_tenant c)
     \<and> map_of (cu_members u) (the (cl_tenant c)) = Some (role, dept)
     \<and> st_user_role s = Some role \<and> st_dept_id s = dept \<and> st_tenant_id s = cl_tenant c \<and> st_is_admin s = (role = ''ADMIN''))"



end
