(* ===== verification/Webhook_Signing.thy ===== *)
theory Webhook_Signing
  imports Base64_Views Py_Int
begin

text \<open>
  Signatures of outbound webhooks (\<^verbatim>\<open>security/webhook_signing.py\<close>). HMAC-SHA256 is an argument: a function
  of secret and message into bytes. Texts are code points, messages are bytes.
\<close>

section \<open>Text helpers\<close>

text \<open>\<^verbatim>\<open>s.split(sep)\<close> for a one-character separator, and \<^verbatim>\<open>sep.join(parts)\<close>.\<close>

fun usplit :: "uchar \<Rightarrow> ustr \<Rightarrow> ustr list" where
  "usplit sep [] = [[]]"
| "usplit sep (c # s) = (if c = sep then [] # usplit sep s else (case usplit sep s of p # ps \<Rightarrow> (c # p) # ps | [] \<Rightarrow> [[c]]))"

fun ujoin :: "uchar \<Rightarrow> ustr list \<Rightarrow> ustr" where
  "ujoin sep [] = []"
| "ujoin sep [p] = p"
| "ujoin sep (p # ps) = p @ sep # ujoin sep ps"

lemma usplit_no_sep: "sep \<notin> set p \<Longrightarrow> usplit sep p = [p]"
  by (induction p) auto

lemma usplit_append: "sep \<notin> set p \<Longrightarrow> usplit sep (p @ sep # s) = p # usplit sep s"
  by (induction p) auto

lemma usplit_ujoin: "ps \<noteq> [] \<Longrightarrow> \<forall>p\<in>set ps. sep \<notin> set p \<Longrightarrow> usplit sep (ujoin sep ps) = ps"
  by (induction sep ps rule: ujoin.induct) (auto simp: usplit_no_sep usplit_append)

text \<open>\<^verbatim>\<open>s.encode()\<close>: UTF-8, which refuses surrogates.\<close>

definition utf8_char :: "uchar \<Rightarrow> nat list" where
  "utf8_char c =
     (if c < 128 then [c]
      else if c < 2048 then [192 + c div 64, 128 + c mod 64]
      else if c < 65536 then [224 + c div 4096, 128 + c div 64 mod 64, 128 + c mod 64]
      else [240 + c div 262144, 128 + c div 4096 mod 64, 128 + c div 64 mod 64, 128 + c mod 64])"

definition utf8_encode :: "ustr \<Rightarrow> nat list py" where
  "utf8_encode s = (if list_ex (\<lambda>c. 55296 \<le> c \<and> c \<le> 57343) s then Inl ValueError else Inr (concat (map utf8_char s)))"

section \<open>Signing and verifying\<close>

type_synonym hmac = "nat list \<Rightarrow> nat list \<Rightarrow> nat list"

definition SIGNATURE_VERSION :: ustr where
  "SIGNATURE_VERSION = us ''v1''"

definition DEFAULT_TIMESTAMP_TOLERANCE_S :: int where
  "DEFAULT_TIMESTAMP_TOLERANCE_S = 300"

definition signed_message :: "ustr \<Rightarrow> int \<Rightarrow> nat list \<Rightarrow> nat list py" where
  "signed_message msg_id timestamp body =
     py_bind (utf8_encode (msg_id @ 46 # str_int timestamp @ [46])) (\<lambda>p. Inr (p @ body))"

definition sign :: "hmac \<Rightarrow> nat list \<Rightarrow> ustr \<Rightarrow> int \<Rightarrow> nat list \<Rightarrow> ustr py" where
  "sign hmac secret msg_id timestamp body =
     py_bind (signed_message msg_id timestamp body) (\<lambda>signed. Inr (SIGNATURE_VERSION @ 44 # b64encode (hmac secret signed)))"

record webhook_headers =
  wh_id :: ustr
  wh_timestamp :: ustr
  wh_signature :: ustr

primrec sign_all :: "hmac \<Rightarrow> ustr \<Rightarrow> int \<Rightarrow> nat list \<Rightarrow> nat list list \<Rightarrow> ustr list py" where
  "sign_all hmac msg_id ts body [] = Inr []"
| "sign_all hmac msg_id ts body (s # ss) =
     py_bind (sign hmac s msg_id ts body) (\<lambda>x. py_bind (sign_all hmac msg_id ts body ss) (\<lambda>xs. Inr (x # xs)))"

definition build_headers :: "hmac \<Rightarrow> nat list list \<Rightarrow> ustr \<Rightarrow> nat list \<Rightarrow> int \<Rightarrow> webhook_headers py" where
  "build_headers hmac secrets msg_id body ts =
     (if secrets = [] then Inl ValueError
      else py_bind (sign_all hmac msg_id ts body secrets) (\<lambda>sig_parts.
        Inr \<lparr>wh_id = msg_id, wh_timestamp = str_int ts, wh_signature = ujoin 32 sig_parts\<rparr>))"

definition entry_matches :: "nat list list \<Rightarrow> ustr \<Rightarrow> bool" where
  "entry_matches expected_macs raw_entry =
     (let entry = strip raw_entry in
      if \<not> startswith entry (SIGNATURE_VERSION @ [44]) then False
      else case b64decode (drop (Suc (length SIGNATURE_VERSION)) entry) of
        Inl _ \<Rightarrow> False
      | Inr got \<Rightarrow> list_ex (\<lambda>expected. got = expected) expected_macs)"

definition verify :: "hmac \<Rightarrow> nat list list \<Rightarrow> ustr \<Rightarrow> ustr \<Rightarrow> ustr \<Rightarrow> nat list \<Rightarrow> int \<Rightarrow> int \<Rightarrow> bool py" where
  "verify hmac secrets msg_id timestamp_header signature_header body tolerance now =
     (if secrets = [] then Inr False
      else case parse_int timestamp_header of
        None \<Rightarrow> Inr False
      | Some ts_signed \<Rightarrow>
          if \<bar>now - ts_signed\<bar> > tolerance then Inr False
          else py_bind (signed_message msg_id ts_signed body) (\<lambda>signed.
            Inr (list_ex (entry_matches (map (\<lambda>s. hmac s signed) secrets)) (usplit 32 signature_header))))"

section \<open>Round trip and soundness\<close>

lemma sign_all_Inr:
  assumes "signed_message msg_id ts body = Inr signed"
  shows "sign_all hmac msg_id ts body ss = Inr (map (\<lambda>s. SIGNATURE_VERSION @ 44 # b64encode (hmac s signed)) ss)"
  by (induction ss) (simp_all add: sign_def assms)

lemma b64encode_range: "\<forall>b\<in>set bs. b < 256 \<Longrightarrow> c \<in> set (b64encode bs) \<Longrightarrow> 43 \<le> c \<and> c \<le> 122"
  using b64_alphabet b64_value_ascii by blast

lemma entry_range:
  assumes "\<forall>b\<in>set bs. b < 256" "c \<in> set (SIGNATURE_VERSION @ 44 # b64encode bs)"
  shows "43 \<le> c \<and> c \<le> 122"
proof -
  have "set (SIGNATURE_VERSION @ 44 # b64encode bs) = {118, 49, 44} \<union> set (b64encode bs)"
    by (auto simp: SIGNATURE_VERSION_def)
  then have "c \<in> {118, 49, 44} \<union> set (b64encode bs)" using assms(2) by blast
  then show ?thesis using b64encode_range[OF assms(1)] by auto
qed

lemma strip_visible:
  assumes "s \<noteq> []" "\<forall>c\<in>set s. 43 \<le> c \<and> c \<le> 122"
  shows "strip s = s"
proof -
  have "\<not> is_space c" if "c \<in> set s" for c
    using assms(2) that by (auto simp: is_space_def)
  with assms(1) show ?thesis by (simp add: strip_no_space)
qed

lemma own_entry_matches:
  assumes "\<forall>b\<in>set bs. b < 256" "bs \<in> set macs"
  shows "entry_matches macs (SIGNATURE_VERSION @ 44 # b64encode bs)"
proof -
  have "strip (SIGNATURE_VERSION @ 44 # b64encode bs) = SIGNATURE_VERSION @ 44 # b64encode bs"
    by (rule strip_visible) (use entry_range[OF assms(1)] in auto)
  then show ?thesis
    using assms(2) by (simp add: entry_matches_def startswith_def b64decode_encode[OF assms(1)] list_ex_iff)
qed

lemma headers_verify:
  assumes "build_headers hmac secrets msg_id body ts = Inr h"
    and "s \<in> set secrets" "s \<in> set receiver_secrets" "\<bar>now - ts\<bar> \<le> tolerance"
    and "\<And>k m. list_all (\<lambda>b. b < 256) (hmac k m)"
  shows "verify hmac receiver_secrets (wh_id h) (wh_timestamp h) (wh_signature h) body tolerance now = Inr True"
proof -
  have bytes: "\<forall>b\<in>set (hmac k m). b < 256" for k m using assms(5)[of k m] by (simp add: list_all_iff)
  from assms(1) obtain signed where signed: "signed_message msg_id ts body = Inr signed"
    by (cases secrets) (auto simp: build_headers_def py_bind_Inr_conv sign_def split: if_splits)
  let ?entry = "\<lambda>s. SIGNATURE_VERSION @ 44 # b64encode (hmac s signed)"
  have h: "wh_id h = msg_id" "wh_timestamp h = str_int ts" "wh_signature h = ujoin 32 (map ?entry secrets)"
    using assms(1) by (auto simp: build_headers_def sign_all_Inr[OF signed] split: if_splits)
  have split: "usplit 32 (wh_signature h) = map ?entry secrets"
    unfolding h using assms(2) entry_range[OF bytes] by (intro usplit_ujoin) fastforce+
  have "entry_matches (map (\<lambda>s. hmac s signed) receiver_secrets) (?entry s)"
    by (rule own_entry_matches[OF bytes]) (use assms(3) in auto)
  then show ?thesis
    using assms(2,3,4) signed by (auto simp: verify_def h(1,2) split[unfolded h(3)] split list_ex_iff)
qed

text \<open>
  What the emitter signs, a receiver accepts: with any secret the two sides share (the active one
  or a rotated one that is still signed with), the three headers verify as long as the clocks differ by
  no more than the tolerance.
\<close>
theorem signed_headers_verify:
  assumes "build_headers hmac secrets msg_id body ts = Inr h"
    and "s \<in> set secrets" "s \<in> set receiver_secrets" "\<bar>now - ts\<bar> \<le> tolerance"
    and "\<And>k m. list_all (\<lambda>b. b < 256) (hmac k m)"
  shows "verify hmac receiver_secrets (wh_id h) (wh_timestamp h) (wh_signature h) body tolerance now = Inr True"
  by (rule headers_verify[OF assms])

definition toy_hmac :: hmac where
  "toy_hmac k m = map (\<lambda>b. b mod 256) (k @ m)"

lemma toy_bytes: "list_all (\<lambda>b. b < 256) (toy_hmac k m)"
  by (auto simp: toy_hmac_def list_all_iff)

lemma toy_headers: "\<exists>h. build_headers toy_hmac [[1], [2]] (us ''m'') [7] 1000 = Inr h"
  by (simp add: build_headers_def sign_def signed_message_def utf8_encode_def str_int_def str_nat.simps digit_char_def)

theorem signed_headers_verify_witness:
  "\<exists>h. build_headers toy_hmac [[1], [2]] (us ''m'') [7] 1000 = Inr h \<and>
       verify toy_hmac [[2]] (wh_id h) (wh_timestamp h) (wh_signature h) [7] 300 1100 = Inr True"
proof -
  obtain h where h: "build_headers toy_hmac [[1], [2]] (us ''m'') [7] 1000 = Inr h" using toy_headers by blast
  have "verify toy_hmac [[2]] (wh_id h) (wh_timestamp h) (wh_signature h) [7] 300 1100 = Inr True"
    by (rule signed_headers_verify[OF h, of "[2]"]) (simp_all add: toy_bytes)
  with h show ?thesis by blast
qed

text \<open>
  C40: Nothing else verifies: an accepted webhook carries a well-formed timestamp inside the replay window and
  an entry that decodes to the HMAC of exactly this message id, timestamp and body under a known secret.
\<close>
theorem verify_sound:
  assumes "verify hmac secrets msg_id timestamp_header signature_header body tolerance now = Inr True"
  shows "\<exists>ts signed s entry. parse_int timestamp_header = Some ts \<and> \<bar>now - ts\<bar> \<le> tolerance
     \<and> signed_message msg_id ts body = Inr signed \<and> s \<in> set secrets
     \<and> entry \<in> set (map strip (usplit 32 signature_header)) \<and> startswith entry (SIGNATURE_VERSION @ [44])
     \<and> b64decode (drop (Suc (length SIGNATURE_VERSION)) entry) = Inr (hmac s signed)"
proof -
  from assms obtain ts signed where ts: "parse_int timestamp_header = Some ts" "\<bar>now - ts\<bar> \<le> tolerance"
    "signed_message msg_id ts body = Inr signed"
    "list_ex (entry_matches (map (\<lambda>s. hmac s signed) secrets)) (usplit 32 signature_header)"
    by (auto simp: verify_def py_bind_Inr_conv split: if_splits option.splits)
  from ts(4) obtain raw where raw: "raw \<in> set (usplit 32 signature_header)" "entry_matches (map (\<lambda>s. hmac s signed) secrets) raw"
    by (auto simp: list_ex_iff)
  from raw(2) obtain s where "s \<in> set secrets" "startswith (strip raw) (SIGNATURE_VERSION @ [44])"
    "b64decode (drop (Suc (length SIGNATURE_VERSION)) (strip raw)) = Inr (hmac s signed)"
    by (auto simp: entry_matches_def Let_def list_ex_iff split: if_splits sum.splits)
  with ts raw(1) show ?thesis by auto
qed

theorem verify_sound_witness:
  "\<exists>h ts. build_headers toy_hmac [[1], [2]] (us ''m'') [7] 1000 = Inr h \<and> parse_int (wh_timestamp h) = Some ts \<and> \<bar>1100 - ts\<bar> \<le> 300"
proof -
  obtain h where h: "build_headers toy_hmac [[1], [2]] (us ''m'') [7] 1000 = Inr h" using toy_headers by blast
  have "verify toy_hmac [[2]] (wh_id h) (wh_timestamp h) (wh_signature h) [7] 300 1100 = Inr True"
    by (rule headers_verify[OF h, of "[2]"]) (simp_all add: toy_bytes)
  from verify_sound[OF this] h show ?thesis by blast
qed

end
