(* ===== verification/Webhooks.thy ===== *)
theory Webhooks
  imports Json Redis
begin

text \<open>
  Outbound webhooks: retry schedule (\<^verbatim>\<open>services/webhooks/retry_schedule.py\<close>), circuit breaker
  (\<^verbatim>\<open>services/webhooks/circuit_breaker.py\<close>, \<^verbatim>\<open>workers/webhook_circuit_breaker.py\<close>), the endpoint table
  (\<^verbatim>\<open>db/repositories/webhook_endpoint.py\<close>), the emitter, the delivery handler
  (\<^verbatim>\<open>services/webhooks/delivery_handler.py\<close>) and the queue worker (\<^verbatim>\<open>workers/webhook_delivery.py\<close>,
  \<^verbatim>\<open>cache/webhook_queue.py\<close>). Times are seconds. The network, the connectors' request builders and the
  egress check are arguments; the worker is modelled by the queue commands it issues, in order.
\<close>

section \<open>Retry schedule and circuit breaker policy\<close>

definition RETRY_SCHEDULE_SECONDS :: "int list" where
  "RETRY_SCHEDULE_SECONDS = [5, 300, 1800, 7200, 18000, 36000, 36000]"

definition MAX_ATTEMPTS :: int where
  "MAX_ATTEMPTS = 1 + int (length RETRY_SCHEDULE_SECONDS)"

definition next_retry_delay :: "int \<Rightarrow> int option py" where
  "next_retry_delay attempt_number =
     (if attempt_number < 1 then Inl ValueError
      else let idx = nat (attempt_number - 1)
           in Inr (if idx \<ge> length RETRY_SCHEDULE_SECONDS then None else Some (RETRY_SCHEDULE_SECONDS ! idx)))"

definition DEFAULT_THRESHOLD_HOURS :: int where
  "DEFAULT_THRESHOLD_HOURS = 120"

definition should_disable :: "rat option \<Rightarrow> rat \<Rightarrow> int \<Rightarrow> bool py" where
  "should_disable first_failure_at now threshold_hours =
     (if threshold_hours \<le> 0 then Inl ValueError
      else Inr (case first_failure_at of None \<Rightarrow> False | Some t0 \<Rightarrow> now - t0 \<ge> of_int (threshold_hours * 3600)))"

section \<open>Endpoints\<close>

record endpoint =
  ep_id :: string
  ep_tenant_id :: string
  ep_url :: string
  ep_connector_type :: "string option"
  ep_secret_enc :: string
  ep_old_secrets :: "(string \<times> rat option) list"
  ep_event_types :: "string list option"
  ep_disabled :: bool
  ep_first_failure_at :: "rat option"
  ep_updated_at :: "rat option"

text \<open>\<^verbatim>\<open>UPDATE ... WHERE id = endpoint_id AND cond\<close>.\<close>

definition update_where :: "(endpoint \<Rightarrow> bool) \<Rightarrow> (endpoint \<Rightarrow> endpoint) \<Rightarrow> endpoint list \<Rightarrow> endpoint list" where
  "update_where cond f = map (\<lambda>e. if cond e then f e else e)"

definition find_active_for_event :: "string \<Rightarrow> string \<Rightarrow> endpoint list \<Rightarrow> endpoint list" where
  "find_active_for_event tenant_id event_type eps =
     filter (\<lambda>e. case ep_event_types e of None \<Rightarrow> True | Some ts \<Rightarrow> event_type \<in> set ts)
       (filter (\<lambda>e. ep_tenant_id e = tenant_id \<and> \<not> ep_disabled e) eps)"

definition endpoint_by_id :: "string \<Rightarrow> endpoint list \<Rightarrow> endpoint option" where
  "endpoint_by_id eid eps = find (\<lambda>e. ep_id e = eid) eps"

definition record_failure :: "rat \<Rightarrow> string \<Rightarrow> endpoint list \<Rightarrow> endpoint list" where
  "record_failure now eid = update_where (\<lambda>e. ep_id e = eid \<and> ep_first_failure_at e = None)
     (\<lambda>e. e\<lparr>ep_first_failure_at := Some now, ep_updated_at := Some now\<rparr>)"

definition record_success :: "rat \<Rightarrow> string \<Rightarrow> endpoint list \<Rightarrow> endpoint list" where
  "record_success now eid = update_where (\<lambda>e. ep_id e = eid) (\<lambda>e. e\<lparr>ep_first_failure_at := None, ep_updated_at := Some now\<rparr>)"

definition stale :: "rat \<Rightarrow> int \<Rightarrow> endpoint \<Rightarrow> bool" where
  "stale now threshold_hours e \<longleftrightarrow> \<not> ep_disabled e \<and>
     (case ep_first_failure_at e of None \<Rightarrow> False | Some t0 \<Rightarrow> t0 \<le> now - of_int (threshold_hours * 3600))"

definition disable_stale :: "rat \<Rightarrow> int \<Rightarrow> endpoint list \<Rightarrow> (endpoint list \<times> string list) py" where
  "disable_stale now threshold_hours eps =
     (if threshold_hours \<le> 0 then Inl ValueError
      else let stale_ids = map ep_id (filter (stale now threshold_hours) eps)
           in if stale_ids = [] then Inr (eps, [])
              else Inr (update_where (\<lambda>e. ep_id e \<in> set stale_ids) (\<lambda>e. e\<lparr>ep_disabled := True, ep_updated_at := Some now\<rparr>) eps, stale_ids))"

definition pause :: "rat \<Rightarrow> string \<Rightarrow> endpoint list \<Rightarrow> endpoint list" where
  "pause now eid = update_where (\<lambda>e. ep_id e = eid) (\<lambda>e. e\<lparr>ep_disabled := True, ep_updated_at := Some now\<rparr>)"

definition reactivate :: "rat \<Rightarrow> string \<Rightarrow> endpoint list \<Rightarrow> endpoint list" where
  "reactivate now eid = update_where (\<lambda>e. ep_id e = eid)
     (\<lambda>e. e\<lparr>ep_disabled := False, ep_first_failure_at := None, ep_updated_at := Some now\<rparr>)"

text \<open>A missing or malformed expiry (\<open>None\<close>) counts as expired.\<close>

definition rotate_secret :: "rat \<Rightarrow> int \<Rightarrow> string \<Rightarrow> string \<Rightarrow> endpoint list \<Rightarrow> endpoint list py" where
  "rotate_secret now grace_hours eid new_secret_enc eps =
     (if grace_hours \<le> 0 then Inl ValueError
      else case endpoint_by_id eid eps of
        None \<Rightarrow> Inr eps
      | Some ep \<Rightarrow>
          let surviving = filter (\<lambda>(_, ex). case ex of None \<Rightarrow> False | Some x \<Rightarrow> x > now) (ep_old_secrets ep)
                            @ [(ep_secret_enc ep, Some (now + of_int (grace_hours * 3600)))]
          in Inr (update_where (\<lambda>e. ep_id e = eid)
                (\<lambda>e. e\<lparr>ep_secret_enc := new_secret_enc, ep_old_secrets := surviving, ep_updated_at := Some now\<rparr>) eps))"

definition delete_endpoint :: "string \<Rightarrow> endpoint list \<Rightarrow> endpoint list \<times> bool" where
  "delete_endpoint eid eps = (case endpoint_by_id eid eps of
     None \<Rightarrow> (eps, False) | Some _ \<Rightarrow> (filter (\<lambda>e. ep_id e \<noteq> eid) eps, True))"

text \<open>The secrets a generic delivery is signed with: the active one and the unexpired rotated ones.\<close>

definition signing_secrets :: "rat \<Rightarrow> endpoint \<Rightarrow> string list" where
  "signing_secrets now ep = ep_secret_enc ep #
     map fst (filter (\<lambda>(_, ex). case ex of None \<Rightarrow> False | Some x \<Rightarrow> x > now) (ep_old_secrets ep))"

text \<open>One sweep of the circuit breaker; without the lease nothing happens, errors are swallowed.\<close>

definition LEASE_KEY :: string where
  "LEASE_KEY = ''wrapsec:webhook:circuit_breaker:lease''"

definition acquire_lease :: "('r, 'd) redis \<Rightarrow> rat \<Rightarrow> 'r \<Rightarrow> 'r \<times> bool" where
  "acquire_lease R now r = rtry (r_set_nx R now LEASE_KEY (RStr ''held'') 600) (\<lambda>_. True) r"

definition run_circuit_breaker_sweep :: "('r, 'd) redis \<Rightarrow> rat \<Rightarrow> int \<Rightarrow> endpoint list \<Rightarrow> 'r \<Rightarrow> 'r \<times> endpoint list" where
  "run_circuit_breaker_sweep R now threshold_hours eps r =
     (case acquire_lease R now r of (r', leased) \<Rightarrow>
        (r', if \<not> leased then eps else try_except (py_bind (disable_stale now threshold_hours eps) (\<lambda>(e, _). Inr e)) (\<lambda>_. eps)))"

section \<open>Emitter\<close>

definition event_type_for_decision :: "string \<Rightarrow> string option" where
  "event_type_for_decision decision =
     (if decision = ''BLOCK'' then Some ''wrapsec.request.blocked''
      else if decision = ''SANITIZE'' then Some ''wrapsec.request.sanitized'' else None)"

definition webhook_payload :: "endpoint \<Rightarrow> string \<Rightarrow> string \<Rightarrow> string \<Rightarrow> jdict \<Rightarrow> jdict" where
  "webhook_payload ep tenant_id trace_id event_type body =
     [(''endpoint_id'', JStr (ep_id ep)), (''tenant_id'', JStr tenant_id), (''msg_id'', JStr trace_id),
      (''event_type'', JStr event_type), (''attempt_number'', JNum 1), (''body'', JObj body)]"

text \<open>\<^verbatim>\<open>emit_from_audit\<close>: the payloads that are enqueued (an enqueue that raises is skipped).\<close>

definition emit_from_audit :: "endpoint list py \<Rightarrow> (jdict \<Rightarrow> unit py) \<Rightarrow> string \<Rightarrow> string option \<Rightarrow> string \<Rightarrow> jdict \<Rightarrow> jdict list" where
  "emit_from_audit eps enqueue decision tenant_id trace_id body =
     (case (event_type_for_decision decision, tenant_id, eps) of
        (Some event_type, Some tid, Inr es) \<Rightarrow>
          filter (\<lambda>p. \<exists>u. enqueue p = Inr u)
            (map (\<lambda>ep. webhook_payload ep tid trace_id event_type body) (find_active_for_event tid event_type es))
      | _ \<Rightarrow> [])"

section \<open>Delivery handler\<close>

record send_result =
  sr_ok :: bool
  sr_status :: "int option"
  sr_snippet :: "string option"
  sr_error :: "string option"
  sr_permanent :: bool

text \<open>How building a request can end, and how sending it can.\<close>

datatype build_result = Built | UnknownConnector string | AzureTokenError string | BuildKeyOrValueError string | BuildRaises py_exn

datatype http_result = HttpError string | Response int string

record delivery_env =
  de_egress :: "string \<Rightarrow> string option"
  de_build :: "endpoint \<Rightarrow> jdict \<Rightarrow> build_result"
  de_http :: "endpoint \<Rightarrow> jdict \<Rightarrow> http_result"
  de_is_uuid :: "string \<Rightarrow> bool"
  de_render :: "json \<Rightarrow> string"
  de_max_response :: nat

definition send_once :: "delivery_env \<Rightarrow> endpoint \<Rightarrow> jdict \<Rightarrow> send_result py" where
  "send_once E ep payload =
     (case de_egress E (ep_url ep) of
        Some reason \<Rightarrow> Inr \<lparr>sr_ok = False, sr_status = None, sr_snippet = None, sr_error = Some (''egress blocked: '' @ reason), sr_permanent = True\<rparr>
      | None \<Rightarrow> (case de_build E ep payload of
          UnknownConnector c \<Rightarrow> Inr \<lparr>sr_ok = False, sr_status = None, sr_snippet = None, sr_error = Some (''unknown connector: '' @ c), sr_permanent = True\<rparr>
        | AzureTokenError m \<Rightarrow> Inr \<lparr>sr_ok = False, sr_status = None, sr_snippet = None, sr_error = Some (''auth: '' @ m), sr_permanent = False\<rparr>
        | BuildKeyOrValueError m \<Rightarrow> Inr \<lparr>sr_ok = False, sr_status = None, sr_snippet = None, sr_error = Some (''build: '' @ m), sr_permanent = True\<rparr>
        | BuildRaises e \<Rightarrow> Inl e
        | Built \<Rightarrow> (case de_http E ep payload of
            HttpError m \<Rightarrow> Inr \<lparr>sr_ok = False, sr_status = None, sr_snippet = None, sr_error = Some (''transport: '' @ m), sr_permanent = False\<rparr>
          | Response code txt \<Rightarrow>
              let ok = (200 \<le> code \<and> code < 300); snip = take (de_max_response E) txt
              in Inr \<lparr>sr_ok = ok, sr_status = Some code, sr_snippet = (if snip = [] then None else Some snip),
                       sr_error = (if ok then None else Some (''HTTP '' @ map char_of (str_int code))), sr_permanent = False\<rparr>)))"

datatype delivery_outcome = SUCCESS | RETRY "int option" | DLQ "string option"

record attempt_row =
  at_endpoint :: string
  at_msg :: string
  at_number :: int
  at_status :: string
  at_error :: "string option"
  at_next :: "rat option"

record wh_db =
  wd_endpoints :: "endpoint list"
  wd_attempts :: "attempt_row list"

definition add_attempt :: "attempt_row \<Rightarrow> wh_db \<Rightarrow> wh_db" where
  "add_attempt a d = d\<lparr>wd_attempts := wd_attempts d @ [a]\<rparr>"

text \<open>\<^verbatim>\<open>str(payload[k])\<close>: a missing key raises; \<^verbatim>\<open>str\<close> of a value that is no string is an argument.\<close>

definition payload_str :: "delivery_env \<Rightarrow> jdict \<Rightarrow> string \<Rightarrow> string py" where
  "payload_str E p k = py_bind (get1 p k) (\<lambda>v. case v of JStr s \<Rightarrow> Inr s | _ \<Rightarrow> Inr (de_render E v))"

definition attempt_of :: "jdict \<Rightarrow> int py" where
  "attempt_of p = (case map_of p ''attempt_number'' of None \<Rightarrow> Inr 1 | Some v \<Rightarrow> json_int v)"

text \<open>
  \<^verbatim>\<open>_handle\<close>. A raised exception leaves the session uncommitted, so the tables change only on a result.
\<close>

definition reconcile :: "rat \<Rightarrow> string \<Rightarrow> string \<Rightarrow> int \<Rightarrow> send_result \<Rightarrow> wh_db \<Rightarrow> (wh_db \<times> delivery_outcome) py" where
  "reconcile now eid msg_id n result d =
     (if sr_ok result
      then Inr (add_attempt \<lparr>at_endpoint = eid, at_msg = msg_id, at_number = n, at_status = ''success'', at_error = None, at_next = None\<rparr>
                  (d\<lparr>wd_endpoints := record_success now eid (wd_endpoints d)\<rparr>), SUCCESS)
      else let d1 = d\<lparr>wd_endpoints := record_failure now eid (wd_endpoints d)\<rparr> in
        py_bind (if sr_permanent result then Inr None else next_retry_delay n) (\<lambda>delay.
          case delay of
            None \<Rightarrow> Inr (add_attempt \<lparr>at_endpoint = eid, at_msg = msg_id, at_number = n, at_status = ''dead'', at_error = sr_error result, at_next = None\<rparr> d1,
                         DLQ (Some (if sr_permanent result then ''permanent_error'' else ''retries_exhausted'')))
          | Some s \<Rightarrow> Inr (add_attempt \<lparr>at_endpoint = eid, at_msg = msg_id, at_number = n, at_status = ''failed'', at_error = sr_error result,
                            at_next = Some (now + of_int s)\<rparr> d1, RETRY (Some s))))"

definition handle :: "delivery_env \<Rightarrow> rat \<Rightarrow> jdict \<Rightarrow> wh_db \<Rightarrow> (wh_db \<times> delivery_outcome) py" where
  "handle E now payload d =
     py_bind (payload_str E payload ''endpoint_id'') (\<lambda>eid. if \<not> de_is_uuid E eid then Inl ValueError else
     py_bind (payload_str E payload ''tenant_id'') (\<lambda>tid. if \<not> de_is_uuid E tid then Inl ValueError else
     py_bind (payload_str E payload ''msg_id'') (\<lambda>msg_id.
     py_bind (payload_str E payload ''event_type'') (\<lambda>event_type.
     py_bind (attempt_of payload) (\<lambda>n.
       case endpoint_by_id eid (wd_endpoints d) of
         None \<Rightarrow> Inr (d, DLQ (Some ''endpoint_deleted''))
       | Some ep \<Rightarrow>
           if ep_tenant_id ep \<noteq> tid then Inr (d, DLQ (Some ''endpoint_tenant_mismatch''))
           else if ep_disabled ep
           then Inr (add_attempt \<lparr>at_endpoint = eid, at_msg = msg_id, at_number = n, at_status = ''dead'',
                        at_error = Some ''endpoint_disabled'', at_next = None\<rparr> d, DLQ (Some ''endpoint_disabled''))
           else py_bind (send_once E ep payload) (\<lambda>result. reconcile now eid msg_id n result d))))))"

section \<open>Queue worker\<close>

datatype qcmd = ZAddDelayed jdict int | XAddDlq jdict | XAck string

definition move_to_dlq :: "string \<Rightarrow> jdict \<Rightarrow> string \<Rightarrow> qcmd list" where
  "move_to_dlq stream_id payload reason = [XAddDlq (dict_set ''_dlq_reason'' (JStr reason) payload), XAck stream_id]"

definition requeued :: "jdict \<Rightarrow> jdict py" where
  "requeued payload = py_bind (attempt_of payload) (\<lambda>n. Inr (dict_set ''attempt_number'' (JNum (of_int (n + 1))) payload))"

text \<open>
  \<^verbatim>\<open>_dispatch_one\<close> after the handler's answer: the queue commands in the order they are sent. An exception of
  the handler counts as a retry in 60 seconds.
\<close>

definition dispatch_one :: "delivery_outcome py \<Rightarrow> int \<Rightarrow> string \<Rightarrow> jdict \<Rightarrow> qcmd list py" where
  "dispatch_one answer now_ts stream_id payload =
     (case try_except answer (\<lambda>_. RETRY (Some 60)) of
        SUCCESS \<Rightarrow> Inr [XAck stream_id]
      | RETRY retry_in_s \<Rightarrow>
          py_bind (requeued payload) (\<lambda>p. Inr [ZAddDelayed p (now_ts + max 1 (if_none retry_in_s 60)), XAck stream_id])
      | DLQ dlq_reason \<Rightarrow> Inr (move_to_dlq stream_id payload (str_or dlq_reason ''unspecified'')))"

end
