(* ===== verification/Webhook_Facts.thy ===== *)
theory Webhook_Facts
  imports Webhooks
begin

text \<open>
  Facts about webhook delivery: every well-formed message ends within the retry schedule, the worker never
  loses one, the sweep disables exactly the endpoints the policy names, and secret rotation has a grace
  window. A message the handler raises on is requeued without end.
\<close>

section \<open>Retries\<close>

lemma py_trunc_of_int [simp]: "py_trunc (of_int n) = n"
  by (simp add: py_trunc_def)

lemma requeued_attempt:
  assumes "requeued p = Inr p'" "attempt_of p = Inr n"
  shows "attempt_of p' = Inr (n + 1)"
  using assms py_trunc_of_int[of "n + 1"] by (auto simp: requeued_def attempt_of_def)

lemma requeued_other: "requeued p = Inr p' \<Longrightarrow> k \<noteq> ''attempt_number'' \<Longrightarrow> map_of p' k = map_of p k"
  by (auto simp: requeued_def py_bind_Inr_conv)

lemma next_retry_delay_Some: "next_retry_delay n = Inr (Some s) \<Longrightarrow> 1 \<le> n \<and> n < MAX_ATTEMPTS"
  by (auto simp: next_retry_delay_def Let_def MAX_ATTEMPTS_def split: if_splits)

lemma reconcile_retry: "reconcile now eid m n res d = Inr (d', RETRY s) \<Longrightarrow> \<exists>x. next_retry_delay n = Inr (Some x)"
  by (auto simp: reconcile_def Let_def py_bind_Inr_conv split: if_splits option.splits)

lemma handle_retry:
  assumes "handle E now p d = Inr (d', RETRY s)"
  shows "\<exists>n. attempt_of p = Inr n \<and> 1 \<le> n \<and> n < MAX_ATTEMPTS"
proof -
  from assms obtain n x where "attempt_of p = Inr n" "next_retry_delay n = Inr (Some x)"
    by (auto simp: handle_def py_bind_Inr_conv split: if_splits option.splits dest!: reconcile_retry)
  then show ?thesis using next_retry_delay_Some by blast
qed

text \<open>A retry of one message: handled without an exception at any time and in any state of the tables.\<close>

inductive retry_step :: "delivery_env \<Rightarrow> jdict \<Rightarrow> jdict \<Rightarrow> bool" for E where
  "handle E now p d = Inr (d', RETRY s) \<Longrightarrow> requeued p = Inr p' \<Longrightarrow> retry_step E p p'"

inductive_cases retry_stepE: "retry_step E p p'"

definition attempts_left :: "jdict \<Rightarrow> nat" where
  "attempts_left p = (case attempt_of p of Inr n \<Rightarrow> nat (MAX_ATTEMPTS - n) | Inl _ \<Rightarrow> 0)"

lemma retry_step_decreases: "retry_step E p p' \<Longrightarrow> attempts_left p' < attempts_left p"
  by (elim retry_stepE) (auto dest!: handle_retry simp: attempts_left_def requeued_attempt)

lemma retry_steps_count: "(retry_step E ^^ k) p p' \<Longrightarrow> attempts_left p' + k \<le> attempts_left p"
  by (induction k arbitrary: p') (fastforce dest: retry_step_decreases)+

lemma retry_step_bound: "retry_step E p q \<Longrightarrow> attempts_left p \<le> 7"
  by (elim retry_stepE) (auto dest!: handle_retry simp: attempts_left_def MAX_ATTEMPTS_def RETRY_SCHEDULE_SECONDS_def)


section \<open>Every message ends\<close>

text \<open>
  The life of one message: attempt after attempt, each with its own time, environment and state of the
  tables, until it is delivered or dead-lettered. \<open>None\<close> is a message that is not finished within the fuel,
  or whose handling raised.
\<close>

fun lifecycle :: "nat \<Rightarrow> (nat \<Rightarrow> delivery_env) \<Rightarrow> (nat \<Rightarrow> rat) \<Rightarrow> (nat \<Rightarrow> wh_db) \<Rightarrow> jdict \<Rightarrow> delivery_outcome option" where
  "lifecycle 0 E T D p = None"
| "lifecycle (Suc fuel) E T D p =
     (case handle (E fuel) (T fuel) p (D fuel) of
        Inl _ \<Rightarrow> None
      | Inr (_, RETRY s) \<Rightarrow> (case requeued p of Inr p' \<Rightarrow> lifecycle fuel E T D p' | Inl _ \<Rightarrow> None)
      | Inr (_, out) \<Rightarrow> Some out)"

text \<open>What the emitter enqueues: ids are UUIDs, the attempt number is a positive integer.\<close>

definition well_formed :: "delivery_env \<Rightarrow> jdict \<Rightarrow> int \<Rightarrow> bool" where
  "well_formed E p n \<longleftrightarrow> attempt_of p = Inr n \<and> 1 \<le> n
     \<and> (\<exists>e t. payload_str E p ''endpoint_id'' = Inr e \<and> de_is_uuid E e \<and> payload_str E p ''tenant_id'' = Inr t \<and> de_is_uuid E t)
     \<and> (\<exists>m v. payload_str E p ''msg_id'' = Inr m \<and> payload_str E p ''event_type'' = Inr v)"

definition builds :: "delivery_env \<Rightarrow> bool" where
  "builds E \<longleftrightarrow> (\<forall>ep p e. de_build E ep p \<noteq> BuildRaises e)"

lemma send_once_total: "builds E \<Longrightarrow> \<exists>r. send_once E ep p = Inr r"
  by (auto simp: send_once_def builds_def Let_def split: option.splits build_result.splits http_result.splits)

lemma reconcile_total: "1 \<le> n \<Longrightarrow> \<exists>x. reconcile now eid m n res d = Inr x"
  by (auto simp: reconcile_def Let_def next_retry_delay_def split: option.splits)

lemma handle_total:
  assumes "well_formed E p n" "builds E"
  shows "\<exists>x. handle E now p d = Inr x"
proof -
  have "\<exists>x. py_bind (send_once E ep p) (\<lambda>r. reconcile now eid m n r d) = Inr x" for ep eid m
    using send_once_total[OF assms(2), of ep p] reconcile_total[of n] assms(1) by (auto simp: well_formed_def py_bind_Inr_conv)
  with assms(1) show ?thesis
    by (auto simp: handle_def well_formed_def split: option.split)
qed

lemma well_formed_requeued:
  assumes "well_formed E p n" "requeued p = Inr p'"
  shows "well_formed E p' (n + 1)"
  using assms requeued_other[OF assms(2)] requeued_attempt[OF assms(2), of n]
  by (simp add: well_formed_def payload_str_def get1_def)

lemma requeued_total: "attempt_of p = Inr n \<Longrightarrow> \<exists>p'. requeued p = Inr p'"
  by (simp add: requeued_def)

lemma lifecycle_ends:
  assumes "\<And>i. well_formed (E i) p n" "\<And>i. builds (E i)" "MAX_ATTEMPTS - n < int fuel" "n \<le> MAX_ATTEMPTS"
  shows "\<exists>out. lifecycle fuel E T D p = Some out \<and> (out = SUCCESS \<or> (\<exists>r. out = DLQ r))"
  using assms
proof (induction fuel arbitrary: p n)
  case 0
  then show ?case by simp
next
  case (Suc fuel)
  obtain d' out where h: "handle (E fuel) (T fuel) p (D fuel) = Inr (d', out)"
    using handle_total[OF Suc.prems(1,2)] by (metis prod.exhaust)
  have n: "attempt_of p = Inr n" using Suc.prems(1) by (simp add: well_formed_def)
  show ?case
  proof (cases out)
    case (RETRY s)
    obtain p' where p': "requeued p = Inr p'" using requeued_total[OF n] by blast
    have "n < MAX_ATTEMPTS" using handle_retry h RETRY n by fastforce
    then have "MAX_ATTEMPTS - (n + 1) < int fuel" "n + 1 \<le> MAX_ATTEMPTS" using Suc.prems(3) by simp_all
    from Suc.IH[OF well_formed_requeued[OF Suc.prems(1) p'] Suc.prems(2) this] h RETRY p' show ?thesis by simp
  qed (use h in simp_all)
qed


definition sample_delivery :: delivery_env where
  "sample_delivery = \<lparr>de_egress = (\<lambda>_. None), de_build = (\<lambda>_ _. Built), de_http = (\<lambda>_ _. Response 503 []), de_is_uuid = (\<lambda>_. True),
     de_render = (\<lambda>_. []), de_max_response = 100\<rparr>"

definition sample_endpoint :: endpoint where
  "sample_endpoint = \<lparr>ep_id = ''e'', ep_tenant_id = ''t'', ep_url = ''https://r'', ep_connector_type = None, ep_secret_enc = ''s1'',
     ep_old_secrets = [], ep_event_types = None, ep_disabled = False, ep_first_failure_at = None, ep_updated_at = None\<rparr>"


section \<open>Poison messages\<close>

text \<open>
  A message the handler raises on is answered with a requeue that keeps the cause: without an endpoint id the
  next attempt raises again, at every attempt number, and the dead-letter stream is never reached.
\<close>

lemma poison_message_requeued:
  assumes "map_of p ''endpoint_id'' = None" "attempt_of p = Inr n"
  shows "\<exists>p'. dispatch_one (py_bind (handle E now p d) (\<lambda>x. Inr (snd x))) ts sid p = Inr [ZAddDelayed p' (ts + 60), XAck sid]
     \<and> map_of p' ''endpoint_id'' = None \<and> attempt_of p' = Inr (n + 1)"
proof -
  obtain p' where p': "requeued p = Inr p'" using requeued_total[OF assms(2)] by blast
  have "handle E now p d = Inl KeyError" using assms(1) by (simp add: handle_def payload_str_def get1_def)
  then show ?thesis
    using p' requeued_other[OF p'] requeued_attempt[OF p' assms(2)] assms(1) by (simp add: dispatch_one_def)
qed

section \<open>The worker never loses a message\<close>

definition stored :: "jdict \<Rightarrow> qcmd \<Rightarrow> bool" where
  "stored p c = (case c of
     ZAddDelayed q _ \<Rightarrow> list_all (\<lambda>k. map_of q k = map_of p k) [''endpoint_id'', ''tenant_id'', ''msg_id'', ''event_type'', ''body'']
   | XAddDlq q \<Rightarrow> list_all (\<lambda>k. map_of q k = map_of p k) [''endpoint_id'', ''tenant_id'', ''msg_id'', ''event_type'', ''body'']
   | XAck _ \<Rightarrow> False)"

text \<open>
  C37: The worker acknowledges an entry exactly once and last. Before the acknowledgement of anything but a
  delivered message, a copy with the same ids, type and body is in the delayed set or on the dead-letter stream,
  so a crash between two commands repeats a delivery but never drops one.
\<close>
theorem dispatch_never_loses:
  assumes "dispatch_one answer ts sid p = Inr cmds"
  shows "\<exists>pre. cmds = pre @ [XAck sid] \<and> list_all (\<lambda>c. c \<noteq> XAck sid) pre \<and> (answer = Inr SUCCESS \<or> list_ex (stored p) pre)"
proof (cases "try_except answer (\<lambda>_. RETRY (Some 60))")
  case SUCCESS
  then have "answer = Inr SUCCESS" by (cases answer) auto
  with assms SUCCESS show ?thesis by (simp add: dispatch_one_def)
next
  case (RETRY s)
  with assms obtain p' where p': "requeued p = Inr p'"
    "cmds = [ZAddDelayed p' (ts + max 1 (if_none s 60)), XAck sid]"
    by (auto simp: dispatch_one_def py_bind_Inr_conv)
  then show ?thesis using requeued_other[OF p'(1)] by (simp add: stored_def)
next
  case (DLQ r)
  with assms have "cmds = [XAddDlq (dict_set ''_dlq_reason'' (JStr (str_or r ''unspecified'')) p)] @ [XAck sid]"
    by (simp add: dispatch_one_def move_to_dlq_def)
  then show ?thesis by (auto simp: stored_def)
qed

theorem dispatch_never_loses_witness:
  "\<exists>pre. [XAddDlq [(''msg_id'', JStr ''m''), (''_dlq_reason'', JStr ''x'')], XAck ''1-0''] = pre @ [XAck ''1-0''] \<and> list_all (\<lambda>c. c \<noteq> XAck ''1-0'') pre
     \<and> (Inr (DLQ (Some ''x'')) = (Inr SUCCESS :: delivery_outcome py) \<or> list_ex (stored [(''msg_id'', JStr ''m'')]) pre)"
  by (rule dispatch_never_loses[where ts = 5]) (simp add: dispatch_one_def move_to_dlq_def)

section \<open>Circuit breaker\<close>

text \<open>
  The sweep's table update is the circuit-breaker policy, applied row by row: it disables exactly the enabled
  endpoints for which \<^const>\<open>should_disable\<close> answers true, leaves every other row alone and returns their ids.
\<close>
theorem disable_stale_is_policy:
  assumes "disable_stale now h eps = Inr (eps', ids)" "distinct (map ep_id eps)"
  shows "eps' = map (\<lambda>e. if \<not> ep_disabled e \<and> should_disable (ep_first_failure_at e) now h = Inr True
                        then e\<lparr>ep_disabled := True, ep_updated_at := Some now\<rparr> else e) eps
       \<and> ids = map ep_id (filter (\<lambda>e. \<not> ep_disabled e \<and> should_disable (ep_first_failure_at e) now h = Inr True) eps)"
proof -
  have h: "0 < h" using assms(1) by (auto simp: disable_stale_def split: if_splits)
  then have pol: "\<not> ep_disabled e \<and> should_disable (ep_first_failure_at e) now h = Inr True \<longleftrightarrow> stale now h e" for e
    by (auto simp: should_disable_def stale_def split: option.splits)
  have mem: "ep_id e \<in> ep_id ` set (filter (stale now h) eps) \<longleftrightarrow> stale now h e" if "e \<in> set eps" for e
    using that assms(2) by (auto simp: distinct_map inj_on_def)
  have "update_where (\<lambda>e. ep_id e \<in> set (map ep_id (filter (stale now h) eps))) f eps = map (\<lambda>e. if stale now h e then f e else e) eps" for f
    unfolding update_where_def by (rule map_cong) (use mem in auto)
  moreover have "map (\<lambda>e. if stale now h e then f e else e) eps = eps" if "filter (stale now h) eps = []" for f
    using that by (simp add: filter_empty_iff map_idI)
  ultimately show ?thesis
    using assms(1) h unfolding pol by (auto simp: disable_stale_def Let_def split: if_splits)
qed

theorem disable_stale_is_policy_witness:
  "map (\<lambda>e. if \<not> ep_disabled e \<and> should_disable (ep_first_failure_at e) 432000 120 = Inr True
        then e\<lparr>ep_disabled := True, ep_updated_at := Some 432000\<rparr> else e) [sample_endpoint\<lparr>ep_first_failure_at := Some 0\<rparr>]
   = [sample_endpoint\<lparr>ep_first_failure_at := Some 0, ep_disabled := True, ep_updated_at := Some 432000\<rparr>]"
proof -
  have "disable_stale 432000 120 [sample_endpoint\<lparr>ep_first_failure_at := Some 0\<rparr>] =
    Inr ([sample_endpoint\<lparr>ep_first_failure_at := Some 0, ep_disabled := True, ep_updated_at := Some 432000\<rparr>], [''e''])"
    by (simp add: disable_stale_def stale_def update_where_def sample_endpoint_def)
  from disable_stale_is_policy[OF this] show ?thesis by simp
qed

section \<open>Secret rotation\<close>

lemma find_update_where:
  assumes "\<And>e. ep_id (f e) = ep_id e"
  shows "endpoint_by_id eid (update_where (\<lambda>e. ep_id e = eid) f eps) = map_option f (endpoint_by_id eid eps)"
  unfolding endpoint_by_id_def update_where_def by (induction eps) (auto simp: assms)

text \<open>
  Rotation has a grace window: until the grace period ends deliveries are signed with the new secret first and
  the rotated one as well, so that a receiver on either verifies; afterwards the rotated secret is not used
  unless an earlier rotation still keeps it.
\<close>
theorem rotation_grace:
  assumes "rotate_secret now g eid new eps = Inr eps'" "endpoint_by_id eid eps = Some ep"
  shows "\<exists>ep'. endpoint_by_id eid eps' = Some ep' \<and> hd (signing_secrets t ep') = new
     \<and> (t < now + of_int (g * 3600) \<longrightarrow> ep_secret_enc ep \<in> set (signing_secrets t ep'))
     \<and> (now + of_int (g * 3600) \<le> t \<longrightarrow> ep_secret_enc ep \<noteq> new \<longrightarrow> ep_secret_enc ep \<notin> fst ` set (ep_old_secrets ep)
          \<longrightarrow> ep_secret_enc ep \<notin> set (signing_secrets t ep'))"
proof -
  define old where "old = filter (\<lambda>(_, ex). case ex of None \<Rightarrow> False | Some x \<Rightarrow> x > now) (ep_old_secrets ep)
     @ [(ep_secret_enc ep, Some (now + of_int (g * 3600)))]"
  have "eps' = update_where (\<lambda>e. ep_id e = eid) (\<lambda>e. e\<lparr>ep_secret_enc := new, ep_old_secrets := old, ep_updated_at := Some now\<rparr>) eps"
    using assms by (auto simp: rotate_secret_def Let_def old_def split: if_splits)
  then have "endpoint_by_id eid eps' = Some (ep\<lparr>ep_secret_enc := new, ep_old_secrets := old, ep_updated_at := Some now\<rparr>)"
    using assms(2) by (simp add: find_update_where)
  then show ?thesis
    by (rule_tac x = "ep\<lparr>ep_secret_enc := new, ep_old_secrets := old, ep_updated_at := Some now\<rparr>" in exI)
       (force simp: signing_secrets_def old_def)
qed

theorem rotation_grace_witness:
  "\<exists>ep'. endpoint_by_id ''e'' [sample_endpoint\<lparr>ep_secret_enc := ''s2'', ep_old_secrets := [(''s1'', Some 3600)], ep_updated_at := Some 0\<rparr>] = Some ep'
     \<and> hd (signing_secrets 60 ep') = ''s2'' \<and> ''s1'' \<in> set (signing_secrets 60 ep')"
proof -
  have rot: "rotate_secret 0 1 ''e'' ''s2'' [sample_endpoint] =
      Inr [sample_endpoint\<lparr>ep_secret_enc := ''s2'', ep_old_secrets := [(''s1'', Some 3600)], ep_updated_at := Some 0\<rparr>]"
    by (simp add: rotate_secret_def endpoint_by_id_def sample_endpoint_def update_where_def)
  have ep: "endpoint_by_id ''e'' [sample_endpoint] = Some sample_endpoint" by (simp add: endpoint_by_id_def sample_endpoint_def)
  have s1: "ep_secret_enc sample_endpoint = ''s1''" by (simp add: sample_endpoint_def)
  from rotation_grace[OF rot ep, of 60] show ?thesis unfolding s1 by auto
qed

end
