(* ===== verification/Py_Value.thy ===== *)
theory Py_Value
  imports Json
begin

text \<open>
  Python values of mixed type, as rows of the database and parsed YAML documents hold them: an integer, a float
  and a boolean are different values. A dictionary is the list of its items in insertion order, with text keys.
\<close>

datatype pyval = PNone | PBool bool | PInt int | PFloat float64 | PStr string | PUuid string | PTime rat
  | PList "pyval list" | PDict "(string \<times> pyval) list" | POther

text \<open>\<^verbatim>\<open>d.get(k)\<close> and \<^verbatim>\<open>d.get(k, default)\<close>.\<close>

definition dget :: "(string \<times> pyval) list \<Rightarrow> string \<Rightarrow> pyval" where
  "dget d k = (case map_of d k of Some v \<Rightarrow> v | None \<Rightarrow> PNone)"

definition dget_or :: "(string \<times> pyval) list \<Rightarrow> string \<Rightarrow> pyval \<Rightarrow> pyval" where
  "dget_or d k v = (case map_of d k of Some w \<Rightarrow> w | None \<Rightarrow> v)"

text \<open>\<^verbatim>\<open>bool(v)\<close>.\<close>

fun py_true :: "pyval \<Rightarrow> bool" where
  "py_true PNone = False"
| "py_true (PBool b) = b"
| "py_true (PInt n) = (n \<noteq> 0)"
| "py_true (PFloat x) = (x \<noteq> 0)"
| "py_true (PStr s) = (s \<noteq> [])"
| "py_true (PList vs) = (vs \<noteq> [])"
| "py_true (PDict kvs) = (kvs \<noteq> [])"
| "py_true _ = True"

text \<open>\<^verbatim>\<open>s.lower()\<close>, for comparison with a text of ASCII letters.\<close>

definition lower_ascii :: "string \<Rightarrow> string" where
  "lower_ascii s = map (\<lambda>c. let n = of_char c :: nat in if 65 \<le> n \<and> n \<le> 90 then char_of (n + 32) else c) s"

text \<open>A list all of whose members are non-empty text.\<close>

fun text_list :: "pyval list \<Rightarrow> string list option" where
  "text_list [] = Some []"
| "text_list (PStr s # vs) = (if s = [] then None else map_option ((#) s) (text_list vs))"
| "text_list (_ # vs) = None"

fun text_items :: "(string \<times> pyval) list \<Rightarrow> (string \<times> string) list option" where
  "text_items [] = Some []"
| "text_items ((k, PStr s) # kvs) = map_option ((#) (k, s)) (text_items kvs)"
| "text_items (_ # kvs) = None"

lemma text_list_nonempty: "text_list vs = Some ss \<Longrightarrow> [] \<notin> set ss \<and> (ss = [] \<longleftrightarrow> vs = [])"
  by (induction vs arbitrary: ss rule: text_list.induct) (auto split: if_splits)

end
