(* ===== verification/Audit_Chain.thy ===== *)
theory Audit_Chain
  imports Py_Value "HOL-Library.Char_ord" "HOL-Library.List_Lexorder"
begin

text \<open>
  The tamper-evident audit log: canonical rows and their hashes (\<^verbatim>\<open>security/audit_chain.py\<close>), the writer
  (\<^verbatim>\<open>db/repositories/audit.py\<close>) and the verifier (\<^verbatim>\<open>scripts/verify_audit_chain.py\<close>). The digest and the text
  of a JSON document are arguments. A row is the dictionary of its columns; a table is the rows in insertion
  order, and a query's order is computed from it. The advisory lock makes one write atomic.
\<close>

section \<open>Canonical rows\<close>

type_synonym row = "(string \<times> pyval) list"

text \<open>The canonical documents that are serialised; an integer and a float have different texts.\<close>

datatype doc = DNull | DBool bool | DInt int | DFloat float64 | DStr string | DList "doc list" | DObj "(string \<times> doc) list"

type_synonym items = "(string \<times> doc) list"

record digest_lib =
  dl_sha256 :: "string \<Rightarrow> string"
  dl_dumps :: "items \<Rightarrow> string"
  dl_iso :: "rat \<Rightarrow> string"

definition CANONICAL_FIELDS :: "string list" where
  "CANONICAL_FIELDS = [''app_id'', ''attribution_verified'', ''confidence'', ''confidence_band'', ''created_at'', ''decision'',
     ''dept_id'', ''detection_mode'', ''detection_scores'', ''execution_mode'', ''guardrail_scores'', ''input_hash'',
     ''input_length'', ''input_source'', ''ip_address'', ''key_id'', ''latency_ms'', ''llm_invoked'', ''model_version'',
     ''policy_source'', ''primary_reason'', ''principal_type'', ''proxy_interaction_id'', ''risk_score'', ''run_id'',
     ''session_id'', ''severity'', ''source'', ''tenant_id'', ''threats'', ''trace_id'', ''turn_index'', ''user_agent'', ''user_id'']"

definition CANONICAL_FIELDS_V2 :: "string list" where
  "CANONICAL_FIELDS_V2 = CANONICAL_FIELDS @ [''chain_seq'']"

definition CURRENT_CHAIN_FORMAT :: int where
  "CURRENT_CHAIN_FORMAT = 2"

definition fields_for_format :: "int option \<Rightarrow> string list py" where
  "fields_for_format f = (case f of
     None \<Rightarrow> Inr CANONICAL_FIELDS
   | Some n \<Rightarrow> if n = 1 then Inr CANONICAL_FIELDS else if n = 2 then Inr CANONICAL_FIELDS_V2 else Inl ValueError)"

fun json_safe :: "digest_lib \<Rightarrow> pyval \<Rightarrow> doc py"
and json_safe_list :: "digest_lib \<Rightarrow> pyval list \<Rightarrow> doc list py"
and json_safe_items :: "digest_lib \<Rightarrow> (string \<times> pyval) list \<Rightarrow> items py" where
  "json_safe L PNone = Inr DNull"
| "json_safe L (PBool b) = Inr (DBool b)"
| "json_safe L (PInt n) = Inr (DInt n)"
| "json_safe L (PFloat x) = Inr (DFloat x)"
| "json_safe L (PStr s) = Inr (DStr s)"
| "json_safe L (PUuid s) = Inr (DStr s)"
| "json_safe L (PTime t) = Inr (DStr (dl_iso L t))"
| "json_safe L (PList vs) = py_bind (json_safe_list L vs) (\<lambda>js. Inr (DList js))"
| "json_safe L (PDict kvs) = py_bind (json_safe_items L kvs) (\<lambda>js. Inr (DObj (dict_update [] (sort_key fst js))))"
| "json_safe L POther = Inl TypeError"
| "json_safe_list L [] = Inr []"
| "json_safe_list L (v # vs) = py_bind (json_safe L v) (\<lambda>j. py_bind (json_safe_list L vs) (\<lambda>js. Inr (j # js)))"
| "json_safe_items L [] = Inr []"
| "json_safe_items L ((k, v) # vs) = py_bind (json_safe L v) (\<lambda>j. py_bind (json_safe_items L vs) (\<lambda>js. Inr ((k, j) # js)))"

definition canonical_row :: "digest_lib \<Rightarrow> row \<Rightarrow> int option \<Rightarrow> string py" where
  "canonical_row L data f =
     py_bind (fields_for_format f) (\<lambda>fields.
     py_bind (json_safe_items L (map (\<lambda>n. (n, dget data n)) fields)) (\<lambda>normalized. Inr (dl_dumps L normalized)))"

text \<open>\<^verbatim>\<open>UnicodeEncodeError\<close> is a \<^verbatim>\<open>ValueError\<close>.\<close>

definition ascii_encode :: "string \<Rightarrow> string py" where
  "ascii_encode s = (if list_all (\<lambda>c. of_char c < (128::nat)) s then Inr s else Inl ValueError)"

definition compute_record_hash :: "digest_lib \<Rightarrow> row \<Rightarrow> string option \<Rightarrow> int option \<Rightarrow> string py" where
  "compute_record_hash L data prev_hash f =
     py_bind (canonical_row L data f) (\<lambda>c.
     py_bind (ascii_encode (str_or prev_hash [])) (\<lambda>p. Inr (dl_sha256 L (c @ p))))"

section \<open>Columns\<close>

definition opt_str :: "pyval \<Rightarrow> string option" where
  "opt_str v = (case v of PStr s \<Rightarrow> Some s | _ \<Rightarrow> None)"

definition opt_int :: "pyval \<Rightarrow> int option" where
  "opt_int v = (case v of PInt n \<Rightarrow> Some n | _ \<Rightarrow> None)"

definition of_opt_str :: "string option \<Rightarrow> pyval" where
  "of_opt_str v = (case v of Some s \<Rightarrow> PStr s | None \<Rightarrow> PNone)"

abbreviation "tenant_of r \<equiv> opt_str (dget r ''tenant_id'')"
abbreviation "seq_of r \<equiv> opt_int (dget r ''chain_seq'')"
abbreviation "format_of r \<equiv> opt_int (dget r ''chain_format'')"
abbreviation "prev_of r \<equiv> opt_str (dget r ''prev_hash'')"
abbreviation "hash_of r \<equiv> opt_str (dget r ''record_hash'')"

section \<open>Writer\<close>

text \<open>The defaults of the hashed columns that are no factories (Python and server defaults of the table).\<close>

definition COLUMN_DEFAULTS :: "(string \<times> pyval) list" where
  "COLUMN_DEFAULTS = [(''attribution_verified'', PBool False), (''input_length'', PInt 0), (''input_source'', PStr ''user_prompt''),
     (''llm_invoked'', PBool False), (''principal_type'', PStr ''api_key'')]"

definition materialise_defaults :: "row \<Rightarrow> row" where
  "materialise_defaults data = fold (\<lambda>name d.
     if dget d name \<noteq> PNone then d
     else (case map_of COLUMN_DEFAULTS name of Some v \<Rightarrow> dict_set name v d | None \<Rightarrow> d)) CANONICAL_FIELDS_V2 data"

text \<open>
  \<^verbatim>\<open>ORDER BY chain_seq DESC LIMIT 1\<close> among the tenant's hashed rows: PostgreSQL puts a missing position first.
\<close>

definition seq_le :: "row \<Rightarrow> row \<Rightarrow> bool" where
  "seq_le a b = (case (seq_of a, seq_of b) of (_, None) \<Rightarrow> True | (None, Some _) \<Rightarrow> False | (Some x, Some y) \<Rightarrow> x \<le> y)"

definition chained :: "string \<Rightarrow> row list \<Rightarrow> row list" where
  "chained tid table = filter (\<lambda>r. tenant_of r = Some tid \<and> hash_of r \<noteq> None) table"

definition tip :: "string \<Rightarrow> row list \<Rightarrow> row option" where
  "tip tid table = fold (\<lambda>r best. case best of None \<Rightarrow> Some r | Some b \<Rightarrow> if seq_le r b then Some b else Some r) (chained tid table) None"

text \<open>The hash to chain from and the next position.\<close>

definition chain_head :: "string \<Rightarrow> row list \<Rightarrow> string option \<times> int" where
  "chain_head tid table = (case tip tid table of
     None \<Rightarrow> (None, 1) | Some r \<Rightarrow> (hash_of r, (if_none (seq_of r) 0) + 1))"

definition set_default :: "string \<Rightarrow> pyval \<Rightarrow> row \<Rightarrow> row" where
  "set_default k v d = (if map_of d k = None then dict_set k v d else d)"

text \<open>The row that is stored for a tenant's data at a given head of its chain.\<close>

definition chain_row :: "digest_lib \<Rightarrow> string option \<times> int \<Rightarrow> row \<Rightarrow> row py" where
  "chain_row L h data =
     (let d = materialise_defaults (dict_set ''chain_format'' (PInt CURRENT_CHAIN_FORMAT) (dict_set ''chain_seq'' (PInt (snd h)) data));
          d1 = dict_set ''prev_hash'' (of_opt_str (fst h)) d
      in py_bind (compute_record_hash L d1 (fst h) (Some CURRENT_CHAIN_FORMAT)) (\<lambda>rh. Inr (dict_set ''record_hash'' (PStr rh) d1)))"

definition create :: "digest_lib \<Rightarrow> rat \<Rightarrow> row \<Rightarrow> row list \<Rightarrow> row list py" where
  "create L now data table =
     (let d = set_default ''created_at'' (PTime now) data in
      if truthy (tenant_of d)
      then py_bind (chain_row L (chain_head (the (tenant_of d)) table) d) (\<lambda>r. Inr (table @ [r]))
      else Inr (table @ [d]))"

text \<open>The rows of a batch, with the chain carried forward in memory.\<close>

fun batch_rows :: "digest_lib \<Rightarrow> rat \<Rightarrow> bool \<Rightarrow> string option \<times> int \<Rightarrow> row list \<Rightarrow> row list py" where
  "batch_rows L now has_tenant h [] = Inr []"
| "batch_rows L now has_tenant h (data # rows) =
     (let d = set_default ''created_at'' (PTime now) data in
      if has_tenant
      then py_bind (chain_row L h d) (\<lambda>r. py_bind (batch_rows L now has_tenant (hash_of r, snd h + 1) rows) (\<lambda>rs. Inr (r # rs)))
      else py_bind (batch_rows L now has_tenant h rows) (\<lambda>rs. Inr (d # rs)))"

definition create_many :: "digest_lib \<Rightarrow> rat \<Rightarrow> row list \<Rightarrow> row list \<Rightarrow> row list py" where
  "create_many L now rows table =
     (case rows of
        [] \<Rightarrow> Inr table
      | d # _ \<Rightarrow>
          if list_ex (\<lambda>r. tenant_of r \<noteq> tenant_of d) rows then Inl ValueError
          else py_bind (batch_rows L now (truthy (tenant_of d))
                 (if truthy (tenant_of d) then chain_head (the (tenant_of d)) table else (None, 1)) rows) (\<lambda>rs. Inr (table @ rs)))"

section \<open>Verifier\<close>

datatype break_kind = UnknownFormat | ContentModified | LinkBroken

record tenant_report =
  rp_rows_verified :: nat
  rp_gap_spans :: "(int option \<times> int option) list"
  rp_forks :: "string list"
  rp_first_break :: "break_kind option"
  rp_unchained :: nat

text \<open>The hashes that more than one row names as its predecessor.\<close>

definition forks :: "row list \<Rightarrow> string list" where
  "forks rs = filter (\<lambda>h. 1 < length (filter (\<lambda>r. prev_of r = Some h) rs)) (remdups (List.map_filter (\<lambda>r. prev_of r) rs))"

text \<open>A format this build does not know is a break; any other exception leaves the verifier.\<close>

fun verify_rows :: "digest_lib \<Rightarrow> row option \<Rightarrow> row list \<Rightarrow> tenant_report \<Rightarrow> tenant_report py" where
  "verify_rows L previous [] rep = Inr rep"
| "verify_rows L previous (r # rs) rep =
     (case compute_record_hash L r (prev_of r) (format_of r) of
        Inl ValueError \<Rightarrow> Inr (rep\<lparr>rp_first_break := Some UnknownFormat\<rparr>)
      | Inl e \<Rightarrow> Inl e
      | Inr recomputed \<Rightarrow>
          if Some recomputed \<noteq> hash_of r then Inr (rep\<lparr>rp_first_break := Some ContentModified\<rparr>)
          else (case previous of
              None \<Rightarrow> verify_rows L (Some r) rs (rep\<lparr>rp_rows_verified := Suc (rp_rows_verified rep)\<rparr>)
            | Some p \<Rightarrow>
                if if_none (seq_of r) 0 = if_none (seq_of p) 0 + 1
                then if prev_of r \<noteq> hash_of p then Inr (rep\<lparr>rp_first_break := Some LinkBroken\<rparr>)
                     else verify_rows L (Some r) rs (rep\<lparr>rp_rows_verified := Suc (rp_rows_verified rep)\<rparr>)
                else verify_rows L (Some r) rs (rep\<lparr>rp_rows_verified := Suc (rp_rows_verified rep),
                       rp_gap_spans := rp_gap_spans rep @ [(seq_of p, seq_of r)]\<rparr>)))"

text \<open>\<^verbatim>\<open>ORDER BY chain_seq ASC\<close>: a missing position comes last.\<close>

definition seq_sorted :: "row list \<Rightarrow> row list" where
  "seq_sorted rs = sort_key (\<lambda>r. if_none (seq_of r) 0) (filter (\<lambda>r. seq_of r \<noteq> None) rs) @ filter (\<lambda>r. seq_of r = None) rs"

definition chain_of :: "string \<Rightarrow> row list \<Rightarrow> row list" where
  "chain_of tid table = filter (\<lambda>r. hash_of r \<noteq> None) (seq_sorted (filter (\<lambda>r. tenant_of r = Some tid) table))"

definition verify_tenant :: "digest_lib \<Rightarrow> string \<Rightarrow> row list \<Rightarrow> tenant_report py" where
  "verify_tenant L tid table =
     (let rows = seq_sorted (filter (\<lambda>r. tenant_of r = Some tid) table);
          ch = chain_of tid table;
          rep = \<lparr>rp_rows_verified = 0, rp_gap_spans = [], rp_forks = [], rp_first_break = None, rp_unchained = length rows - length ch\<rparr>
      in if ch = [] then Inr rep else verify_rows L None ch (rep\<lparr>rp_forks := forks ch\<rparr>))"

definition report_ok :: "tenant_report \<Rightarrow> bool" where
  "report_ok rep \<longleftrightarrow> rp_first_break rep = None \<and> rp_forks rep = []"

end
