(* ===== verification/Audit_Facts.thy ===== *)
theory Audit_Facts
  imports Audit_Chain
begin

text \<open>
  Facts about the audit chain: what the writer appends always verifies, and two logs that verify and end in the
  same hash agree on their content, or contain a collision of the digest.
\<close>

section \<open>The digest interface\<close>

text \<open>
  What the chain relies on of \<^verbatim>\<open>json.dumps\<close> and \<^verbatim>\<open>hexdigest\<close>: a document can be read back from its text, the text
  of an object ends in its closing brace, and a digest is a non-empty text without braces.
\<close>

fun canon :: "doc \<Rightarrow> bool" where
  "canon (DList ds) = (\<forall>d\<in>set ds. canon d)"
| "canon (DObj kvs) = (sorted_wrt (<) (map fst kvs) \<and> (\<forall>p\<in>set kvs. canon (snd p)))"
| "canon _ = True"

definition canon_items :: "items \<Rightarrow> bool" where
  "canon_items x = (distinct (map fst x) \<and> (\<forall>p\<in>set x. canon (snd p)))"

locale chain_digest =
  fixes L :: digest_lib
  assumes dumps_inj: "map fst x = map fst y \<Longrightarrow> canon_items x \<Longrightarrow> canon_items y \<Longrightarrow> dl_dumps L x = dl_dumps L y \<Longrightarrow> x = y"
    and dumps_brace: "\<exists>s. dl_dumps L x = s @ ''}''"
    and digest_text: "dl_sha256 L m \<noteq> [] \<and> CHR ''}'' \<notin> set (dl_sha256 L m)"

text \<open>What a row's hash covers: the canonical fields of the current format.\<close>

definition content_of :: "digest_lib \<Rightarrow> row \<Rightarrow> items py" where
  "content_of L r = json_safe_items L (map (\<lambda>n. (n, dget r n)) CANONICAL_FIELDS_V2)"

text \<open>Two rows whose different hash inputs have one digest.\<close>

definition row_input :: "digest_lib \<Rightarrow> row \<Rightarrow> string py" where
  "row_input L r = py_bind (content_of L r) (\<lambda>c. Inr (dl_dumps L c @ str_or (prev_of r) []))"

definition collides :: "digest_lib \<Rightarrow> row \<Rightarrow> row \<Rightarrow> bool" where
  "collides L r s = (case (row_input L r, row_input L s) of
     (Inr x, Inr y) \<Rightarrow> x \<noteq> y \<and> dl_sha256 L x = dl_sha256 L y | _ \<Rightarrow> False)"

section \<open>Canonical documents\<close>

lemma sorted_dict_set:
  assumes "sorted_wrt (<) (map fst d)" "\<forall>k'\<in>fst ` set d. k' \<le> (k :: 'k::linorder)"
  shows "sorted_wrt (<) (map fst (dict_set k v d))"
  using assms
proof (induction k v d rule: dict_set.induct)
  case (2 k v k' v' d)
  show ?case
  proof (cases "k = k'")
    case False
    have "k' < x" if "x \<in> fst ` set (dict_set k v d)" for x
      using that False "2.prems" by (auto simp: order_le_less)
    with 2 False show ?thesis by (auto simp del: keys_dict_set)
  qed (use 2 in simp)
qed simp

lemma values_dict_set: "snd ` set (dict_set k v d) \<subseteq> insert v (snd ` set d)"
  by (induction k v d rule: dict_set.induct) auto

lemma dict_update_sorted:
  assumes "sorted (map fst js)" "sorted_wrt (<) (map fst d)" "\<forall>k\<in>fst ` set d. \<forall>k'\<in>fst ` set js. k \<le> (k' :: 'k::linorder)"
  shows "sorted_wrt (<) (map fst (dict_update d js)) \<and> snd ` set (dict_update d js) \<subseteq> snd ` set d \<union> snd ` set js"
  using assms unfolding dict_update_def
proof (induction js arbitrary: d)
  case (Cons p js)
  obtain k v where p: "p = (k, v)" by (cases p)
  have "sorted_wrt (<) (map fst (dict_set k v d))" using Cons.prems by (intro sorted_dict_set) (auto simp: p)
  moreover have "\<forall>x\<in>fst ` set (dict_set k v d). \<forall>y\<in>fst ` set js. x \<le> y" using Cons.prems(1,3) by (auto simp: p)
  ultimately have "sorted_wrt (<) (map fst (fold (\<lambda>(k, v). dict_set k v) js (dict_set k v d)))
      \<and> snd ` set (fold (\<lambda>(k, v). dict_set k v) js (dict_set k v d)) \<subseteq> snd ` set (dict_set k v d) \<union> snd ` set js"
    using Cons.prems(1) by (intro Cons.IH) (simp_all add: p)
  then show ?case using values_dict_set[of k v d] unfolding p by (simp only: fold_simps prod.case) (simp, blast)
qed simp

lemma json_safe_canon:
  "json_safe L v = Inr d \<Longrightarrow> canon d"
  "json_safe_list L vs = Inr ds \<Longrightarrow> \<forall>d\<in>set ds. canon d"
  "json_safe_items L kvs = Inr js \<Longrightarrow> map fst js = map fst kvs \<and> (\<forall>p\<in>set js. canon (snd p))"
proof (induction L v and L vs and L kvs arbitrary: d and ds and js rule: json_safe_json_safe_list_json_safe_items.induct)
  case (9 L kvs)
  then obtain js where js: "json_safe_items L kvs = Inr js" "d = DObj (dict_update [] (sort_key fst js))"
    by (auto simp: py_bind_Inr_conv)
  have "\<forall>x\<in>snd ` set js. canon x" using "9.IH"[OF js(1)] by simp
  moreover have "sorted_wrt (<) (map fst (dict_update [] (sort_key fst js)))" "snd ` set (dict_update [] (sort_key fst js)) \<subseteq> snd ` set js"
    using dict_update_sorted[of "sort_key fst js" "[]"] by simp_all
  ultimately have "\<forall>x\<in>snd ` set (dict_update [] (sort_key fst js)). canon x" by blast
  with \<open>sorted_wrt (<) (map fst (dict_update [] (sort_key fst js)))\<close> show ?case unfolding js(2) by simp
qed (auto simp: py_bind_Inr_conv, force)

lemma content_canon: "content_of L r = Inr c \<Longrightarrow> map fst c = CANONICAL_FIELDS_V2 \<and> canon_items c"
  using json_safe_canon(3)[of L "map (\<lambda>n. (n, dget r n)) CANONICAL_FIELDS_V2" c]
  by (auto simp: content_of_def canon_items_def comp_def CANONICAL_FIELDS_V2_def CANONICAL_FIELDS_def)

section \<open>Chains\<close>

definition row_sound :: "digest_lib \<Rightarrow> row \<Rightarrow> bool" where
  "row_sound L r \<longleftrightarrow> format_of r = Some 2 \<and> (\<exists>h. hash_of r = Some h \<and> compute_record_hash L r (prev_of r) (Some 2) = Inr h)"

lemma row_sound_hash:
  "row_sound L r \<Longrightarrow> \<exists>c. content_of L r = Inr c \<and> hash_of r = Some (dl_sha256 L (dl_dumps L c @ str_or (prev_of r) []))"
  by (auto simp: row_sound_def compute_record_hash_def canonical_row_def fields_for_format_def content_of_def py_bind_Inr_conv
      ascii_encode_def split: if_splits)

text \<open>A chain, newest row first: every row hashes to what it stores and names its predecessor's hash.\<close>

fun linked :: "digest_lib \<Rightarrow> row list \<Rightarrow> bool" where
  "linked L [] \<longleftrightarrow> True"
| "linked L [r] \<longleftrightarrow> row_sound L r"
| "linked L (r # p # rs) \<longleftrightarrow> row_sound L r \<and> prev_of r = hash_of p \<and> linked L (p # rs)"

text \<open>A predecessor column as the writer fills it: empty, or a digest.\<close>

definition plain :: "string option \<Rightarrow> bool" where
  "plain p \<longleftrightarrow> (case p of None \<Rightarrow> True | Some s \<Rightarrow> s \<noteq> [] \<and> CHR ''}'' \<notin> set s)"

context chain_digest
begin

lemma brace_split:
  assumes "s @ ''}'' @ p = t @ ''}'' @ q" "CHR ''}'' \<notin> set p" "CHR ''}'' \<notin> set q"
  shows "s = t \<and> p = q"
proof -
  have "takeWhile (\<lambda>c. c \<noteq> CHR ''}'') (rev (x @ ''}'' @ y)) = rev y" if "CHR ''}'' \<notin> set y" for x y
    unfolding rev_append append_assoc using that by (subst takeWhile_append2) auto
  then have "rev p = rev q" using assms by metis
  with assms(1) show ?thesis by simp
qed

lemma input_inj:
  assumes "dl_dumps L c @ p = dl_dumps L d @ q" "CHR ''}'' \<notin> set p" "CHR ''}'' \<notin> set q"
    and "content_of L r = Inr c" "content_of L s = Inr d"
  shows "c = d \<and> p = q"
proof -
  obtain u v where uv: "dl_dumps L c = u @ ''}''" "dl_dumps L d = v @ ''}''" using dumps_brace by metis
  with assms brace_split[of u p v q] have "u = v" "p = q" by auto
  with uv dumps_inj[of c d] content_canon[OF assms(4)] content_canon[OF assms(5)] show ?thesis by simp
qed

text \<open>Equal hashes of two sound rows mean equal contents and equal predecessors, or a collision.\<close>

lemma plain_hash: "row_sound L r \<Longrightarrow> plain (hash_of r)"
  using row_sound_hash[of L r] digest_text by (auto simp: plain_def)

lemma plain_str_or: "plain p \<Longrightarrow> CHR ''}'' \<notin> set (str_or p [])"
  by (auto simp: plain_def split: option.splits)

lemma str_or_inj: "plain p \<Longrightarrow> plain q \<Longrightarrow> str_or p [] = str_or q [] \<Longrightarrow> p = q"
  by (auto simp: plain_def split: option.splits)

lemma same_hash:
  assumes "row_sound L r" "row_sound L s" "hash_of r = hash_of s" "plain (prev_of r)" "plain (prev_of s)" "\<not> collides L r s"
  shows "content_of L r = content_of L s \<and> prev_of r = prev_of s"
proof -
  obtain c where c: "content_of L r = Inr c" "hash_of r = Some (dl_sha256 L (dl_dumps L c @ str_or (prev_of r) []))"
    using row_sound_hash[OF assms(1)] by blast
  obtain d where d: "content_of L s = Inr d" "hash_of s = Some (dl_sha256 L (dl_dumps L d @ str_or (prev_of s) []))"
    using row_sound_hash[OF assms(2)] by blast
  have "dl_dumps L c @ str_or (prev_of r) [] = dl_dumps L d @ str_or (prev_of s) []"
    using assms(3,6) c d by (simp add: collides_def row_input_def)
  from input_inj[OF this plain_str_or plain_str_or c(1) d(1)] str_or_inj c(1) d(1) assms(4,5) show ?thesis by auto
qed

lemma linked_hd: "linked L (s # ss) \<Longrightarrow> row_sound L s"
  by (cases ss) simp_all

lemma linked_prev: "linked L (s # ss) \<Longrightarrow> plain (prev_of (last (s # ss))) \<Longrightarrow> plain (prev_of s)"
  using linked_hd plain_hash by (cases ss) auto

lemma linked_agree:
  assumes "linked L xs" "linked L ys" "xs \<noteq> []" "ys \<noteq> []" "hash_of (hd xs) = hash_of (hd ys)"
    and "plain (prev_of (last xs))" "plain (prev_of (last ys))" "\<forall>r\<in>set xs. \<forall>s\<in>set ys. \<not> collides L r s"
  shows "map (content_of L) (take (min (length xs) (length ys)) xs) = map (content_of L) (take (min (length xs) (length ys)) ys)"
  using assms
proof (induction xs arbitrary: ys rule: induct_list012)
  case (2 r)
  obtain s ss where ys: "ys = s # ss" using 2 by (cases ys) auto
  have "row_sound L s" "plain (prev_of s)"
    using linked_hd[of s ss] linked_prev[of s ss] "2.prems"(2,7) unfolding ys by simp_all
  then have "content_of L r = content_of L s" using 2 same_hash[of r s] unfolding ys by simp
  then show ?case by (simp add: ys)
next
  case (3 r p rs)
  obtain s ss where ys: "ys = s # ss" using 3 by (cases ys) auto
  have s: "row_sound L s" "plain (prev_of s)"
    using linked_hd[of s ss] linked_prev[of s ss] "3.prems"(2,7) unfolding ys by simp_all
  have r: "row_sound L r" "prev_of r = hash_of p" "linked L (p # rs)" using "3.prems"(1) by simp_all
  have pr: "plain (prev_of r)" using plain_hash[OF linked_hd[OF r(3)]] r(2) by simp
  have "hash_of r = hash_of s" using "3.prems"(5) ys by simp
  have "\<not> collides L r s" using "3.prems"(8) ys by simp
  from same_hash[OF r(1) s(1) \<open>hash_of r = hash_of s\<close> pr s(2) this] r(2)
  have eq: "content_of L r = content_of L s" "hash_of p = prev_of s" by simp_all
  show ?case
  proof (cases ss)
    case Nil
    with ys eq show ?thesis by simp
  next
    case (Cons q qs)
    have l: "linked L ss" "hash_of (hd (p # rs)) = hash_of (hd ss)" "plain (prev_of (last ss))"
      using "3.prems"(2,7) ys Cons eq(2) by simp_all
    have p: "plain (prev_of (last (p # rs)))" "\<forall>r\<in>set (p # rs). \<forall>s\<in>set ss. \<not> collides L r s"
      using "3.prems"(6,8) ys by simp_all
    from "3.IH"(2)[OF r(3) l(1) _ _ l(2) p(1) l(3) p(2)] ys Cons eq(1) show ?thesis by simp
  qed
qed simp

end

section \<open>What an accepting verifier has seen\<close>

lemma verify_rows_gaps: "verify_rows L p rs rep = Inr rep' \<Longrightarrow> \<exists>g. rp_gap_spans rep' = rp_gap_spans rep @ g"
  by (induction L p rs rep arbitrary: rep' rule: verify_rows.induct)
     (fastforce split: sum.splits py_exn.splits if_splits option.splits)+

lemma verify_rows_sound:
  assumes "compute_record_hash L r (prev_of r) (format_of r) = Inr h" "Some h = hash_of r" "format_of r = Some 2"
  shows "row_sound L r"
  using assms by (auto simp: row_sound_def)

lemma verify_rows_linked:
  assumes "verify_rows L (Some p) rs rep = Inr rep'" "rp_first_break rep' = None" "rp_gap_spans rep' = rp_gap_spans rep"
    and "linked L (p # acc)" "list_all (\<lambda>r. format_of r = Some 2) rs"
  shows "linked L (rev rs @ p # acc)"
  using assms
proof (induction rs arbitrary: p rep acc)
  case (Cons r rs)
  obtain h where h: "compute_record_hash L r (prev_of r) (format_of r) = Inr h" "Some h = hash_of r"
    using Cons.prems(1,2) by (auto split: sum.splits py_exn.splits if_splits)
  show ?case
  proof (cases "if_none (seq_of r) 0 = if_none (seq_of p) 0 + 1")
    case True
    with Cons.prems(1,2) h have step: "prev_of r = hash_of p"
      "verify_rows L (Some r) rs (rep\<lparr>rp_rows_verified := Suc (rp_rows_verified rep)\<rparr>) = Inr rep'"
      by (auto split: if_splits)
    have "linked L (r # p # acc)" using step(1) Cons.prems(4,5) verify_rows_sound[OF h] by simp
    from Cons.IH[OF step(2) Cons.prems(2) _ this] Cons.prems(3,5) show ?thesis by simp
  next
    case False
    with Cons.prems(1) h have "verify_rows L (Some r) rs (rep\<lparr>rp_rows_verified := Suc (rp_rows_verified rep),
        rp_gap_spans := rp_gap_spans rep @ [(seq_of p, seq_of r)]\<rparr>) = Inr rep'"
      by (auto split: if_splits)
    from verify_rows_gaps[OF this] Cons.prems(3) show ?thesis by auto
  qed
qed simp

lemma verify_tenant_linked:
  assumes "verify_tenant L tid table = Inr rep" "report_ok rep" "rp_gap_spans rep = []"
    and "list_all (\<lambda>r. format_of r = Some 2) (chain_of tid table)"
  shows "linked L (rev (chain_of tid table))"
proof (cases "chain_of tid table")
  case (Cons r rs)
  obtain rep0 where rep0: "verify_rows L None (r # rs) rep0 = Inr rep" "rp_gap_spans rep0 = []" "rp_rows_verified rep0 = 0"
    using assms(1) unfolding verify_tenant_def Let_def Cons by auto
  obtain h where h: "compute_record_hash L r (prev_of r) (format_of r) = Inr h" "Some h = hash_of r"
    using rep0(1) assms(2) by (auto simp: report_ok_def split: sum.splits py_exn.splits if_splits)
  have "verify_rows L (Some r) rs (rep0\<lparr>rp_rows_verified := 1\<rparr>) = Inr rep" using rep0 h by simp
  from verify_rows_linked[OF this, of "[]"] rep0(2) assms(2-4) verify_rows_sound[OF h] Cons
  show ?thesis by (simp add: report_ok_def)
qed simp


section \<open>What the writer stores\<close>

lemma dget_dict_set: "dget (dict_set k v d) k' = (if k' = k then v else dget d k')"
  by (simp add: dget_def)

lemma materialise_fold:
  "k \<notin> fst ` set COLUMN_DEFAULTS \<Longrightarrow> dget (fold (\<lambda>name d.
     if dget d name \<noteq> PNone then d
     else (case map_of COLUMN_DEFAULTS name of Some v \<Rightarrow> dict_set name v d | None \<Rightarrow> d)) ns data) k = dget data k"
proof (induction ns arbitrary: data)
  case (Cons n ns)
  have "dget (case map_of COLUMN_DEFAULTS n of Some v \<Rightarrow> dict_set n v data | None \<Rightarrow> data) k = dget data k"
    using Cons.prems by (auto simp: dget_dict_set split: option.splits dest!: map_of_SomeD intro: rev_image_eqI)
  then show ?case using Cons.IH[OF Cons.prems] by simp
qed simp

lemma materialise_keeps:
  assumes "k \<in> {''tenant_id'', ''chain_seq'', ''chain_format'', ''prev_hash'', ''record_hash''}"
  shows "dget (materialise_defaults data) k = dget data k"
  unfolding materialise_defaults_def by (rule materialise_fold) (use assms in \<open>auto simp: COLUMN_DEFAULTS_def\<close>)

lemma opt_of_opt [simp]: "opt_str (of_opt_str p) = p"
  by (cases p) (simp_all add: opt_str_def of_opt_str_def)

lemma compute_hash_cong:
  "(\<And>n. n \<in> set CANONICAL_FIELDS_V2 \<Longrightarrow> dget r n = dget s n) \<Longrightarrow>
     compute_record_hash L r p (Some 2) = compute_record_hash L s p (Some 2)"
  unfolding compute_record_hash_def canonical_row_def fields_for_format_def
  by (simp cong: map_cong)

lemma chain_row_facts:
  assumes "chain_row L h d = Inr r"
  shows "tenant_of r = tenant_of d \<and> seq_of r = Some (snd h) \<and> prev_of r = fst h \<and> row_sound L r"
proof -
  define d1 where "d1 = dict_set ''prev_hash'' (of_opt_str (fst h))
    (materialise_defaults (dict_set ''chain_format'' (PInt CURRENT_CHAIN_FORMAT) (dict_set ''chain_seq'' (PInt (snd h)) d)))"
  obtain rh where rh: "compute_record_hash L d1 (fst h) (Some 2) = Inr rh" "r = dict_set ''record_hash'' (PStr rh) d1"
    using assms by (auto simp: chain_row_def Let_def d1_def CURRENT_CHAIN_FORMAT_def py_bind_Inr_conv)
  have "compute_record_hash L r (fst h) (Some 2) = compute_record_hash L d1 (fst h) (Some 2)"
    by (rule compute_hash_cong) (auto simp: rh(2) dget_dict_set CANONICAL_FIELDS_V2_def CANONICAL_FIELDS_def)
  moreover have "prev_of r = fst h" "tenant_of r = tenant_of d" "seq_of r = Some (snd h)" "format_of r = Some 2" "hash_of r = Some rh"
    by (simp_all add: rh(2) d1_def dget_dict_set materialise_keeps opt_int_def opt_str_def[of "PStr rh"] CURRENT_CHAIN_FORMAT_def)
  ultimately show ?thesis using rh(1) by (auto simp: row_sound_def)
qed

text \<open>A tenant's rows as the writer leaves them: all hashed, numbered from 1 without a gap, and linked to a genesis row.\<close>

definition tenant_rows :: "string \<Rightarrow> row list \<Rightarrow> row list" where
  "tenant_rows tid table = filter (\<lambda>r. tenant_of r = Some tid) table"

definition good_chain :: "digest_lib \<Rightarrow> row list \<Rightarrow> bool" where
  "good_chain L rs \<longleftrightarrow> linked L (rev rs) \<and> map seq_of rs = map (\<lambda>i. Some (int (Suc i))) [0..<length rs] \<and> (rs \<noteq> [] \<longrightarrow> prev_of (hd rs) = None)"

lemma good_chain_sound: "good_chain L rs \<Longrightarrow> r \<in> set rs \<Longrightarrow> row_sound L r"
proof -
  have "linked L xs \<Longrightarrow> r \<in> set xs \<Longrightarrow> row_sound L r" for xs
    by (induction xs rule: linked.induct) auto
  from this[of "rev rs"] show "good_chain L rs \<Longrightarrow> r \<in> set rs \<Longrightarrow> row_sound L r" by (simp add: good_chain_def)
qed

lemma good_chain_hashed: "good_chain L (tenant_rows tid table) \<Longrightarrow> chained tid table = tenant_rows tid table"
proof -
  assume g: "good_chain L (tenant_rows tid table)"
  have "hash_of r \<noteq> None" if "r \<in> set (tenant_rows tid table)" for r
    using good_chain_sound[OF g that] by (auto simp: row_sound_def)
  then show ?thesis by (auto simp: chained_def tenant_rows_def intro!: filter_cong)
qed

lemma good_chain_snoc:
  assumes "good_chain L rs" "row_sound L r" "seq_of r = Some (int (Suc (length rs)))"
    and "prev_of r = (if rs = [] then None else hash_of (last rs))"
  shows "good_chain L (rs @ [r])"
proof (cases rs rule: rev_cases)
  case (snoc ys y)
  with assms show ?thesis by (auto simp: good_chain_def hd_append)
qed (use assms in \<open>simp add: good_chain_def\<close>)

lemma tip_last:
  assumes "map seq_of rs = map (\<lambda>i. Some (int (Suc i))) [0..<length rs]"
  shows "fold (\<lambda>r best. case best of None \<Rightarrow> Some r | Some b \<Rightarrow> if seq_le r b then Some b else Some r) rs None
           = (if rs = [] then None else Some (last rs))"
  using assms
proof (induction rs rule: rev_induct)
  case (snoc r rs)
  have m: "map seq_of rs = map (\<lambda>i. Some (int (Suc i))) [0..<length rs]" "seq_of r = Some (int (Suc (length rs)))"
    using snoc.prems by simp_all
  show ?case
  proof (cases rs rule: rev_cases)
    case (snoc ys y)
    then have "seq_of y = Some (int (length rs))" using m(1) by simp
    then show ?thesis using snoc.IH[OF m(1)] m(2) snoc by (simp add: seq_le_def)
  qed simp
qed simp

lemma chain_head_good:
  assumes "good_chain L (tenant_rows tid table)"
  shows "chain_head tid table = (if tenant_rows tid table = [] then None else hash_of (last (tenant_rows tid table)),
           int (Suc (length (tenant_rows tid table))))"
proof -
  let ?rs = "tenant_rows tid table"
  have m: "map seq_of ?rs = map (\<lambda>i. Some (int (Suc i))) [0..<length ?rs]" using assms by (simp add: good_chain_def)
  have "seq_of (last ?rs) = Some (int (length ?rs))" if "?rs \<noteq> []"
    using that m by (cases ?rs rule: rev_cases) simp_all
  then show ?thesis
    unfolding chain_head_def tip_def good_chain_hashed[OF assms] tip_last[OF m] by auto
qed

section \<open>Every written log verifies\<close>

lemma set_default_tenant: "tenant_of (set_default ''created_at'' v d) = tenant_of d"
  by (simp add: set_default_def dget_dict_set)

lemma good_chain_next:
  assumes "good_chain L rs" "chain_row L (if rs = [] then None else hash_of (last rs), int (Suc (length rs))) d = Inr r"
  shows "good_chain L (rs @ [r])"
  using chain_row_facts[OF assms(2)] by (intro good_chain_snoc[OF assms(1)]) simp_all

lemma batch_rows_good:
  assumes "good_chain L rs" "batch_rows L now True (if rs = [] then None else hash_of (last rs), int (Suc (length rs))) data = Inr new"
  shows "good_chain L (rs @ new) \<and> map tenant_of new = map tenant_of data"
  using assms
proof (induction data arbitrary: rs new)
  case (Cons d data)
  let ?d = "set_default ''created_at'' (PTime now) d"
  obtain r rest where r: "chain_row L (if rs = [] then None else hash_of (last rs), int (Suc (length rs))) ?d = Inr r"
    "batch_rows L now True (hash_of r, int (Suc (length rs)) + 1) data = Inr rest" "new = r # rest"
    using Cons.prems(2) by (auto simp: Let_def py_bind_Inr_conv)
  from Cons.IH[OF good_chain_next[OF Cons.prems(1) r(1)], of rest] r(2)
  have "good_chain L ((rs @ [r]) @ rest) \<and> map tenant_of rest = map tenant_of data" by (simp add: add.commute)
  with r(3) chain_row_facts[OF r(1)] show ?case by (simp add: set_default_tenant)
qed simp

lemma batch_rows_tenants: "batch_rows L now b h data = Inr new \<Longrightarrow> map tenant_of new = map tenant_of data"
proof (induction data arbitrary: h new)
  case (Cons d data)
  show ?case
  proof (cases b)
    case True
    with Cons.prems obtain r rest where r: "chain_row L h (set_default ''created_at'' (PTime now) d) = Inr r"
      "batch_rows L now b (hash_of r, snd h + 1) data = Inr rest" "new = r # rest"
      by (auto simp: Let_def py_bind_Inr_conv)
    with Cons.IH[OF r(2)] chain_row_facts[OF r(1)] show ?thesis by (simp add: set_default_tenant)
  next
    case False
    with Cons.prems obtain rest where "batch_rows L now b h data = Inr rest" "new = set_default ''created_at'' (PTime now) d # rest"
      by (auto simp: Let_def py_bind_Inr_conv)
    with Cons.IH show ?thesis by (simp add: set_default_tenant)
  qed
qed simp

lemma tenant_rows_append: "tenant_rows tid (t @ u) = tenant_rows tid t @ tenant_rows tid u"
  by (simp add: tenant_rows_def)

lemma create_good:
  assumes "good_chain L (tenant_rows tid table)" "create L now data table = Inr table'" "tid \<noteq> []"
  shows "good_chain L (tenant_rows tid table')"
proof -
  let ?d = "set_default ''created_at'' (PTime now) data"
  show ?thesis
  proof (cases "truthy (tenant_of ?d)")
    case False
    then have "tenant_of ?d \<noteq> Some tid" using assms(3) by auto
    with False assms(1,2) show ?thesis by (auto simp: create_def Let_def tenant_rows_append tenant_rows_def)
  next
    case True
    then obtain x where x: "tenant_of ?d = Some x" by (cases "tenant_of ?d") auto
    obtain r where r: "chain_row L (chain_head x table) ?d = Inr r" "table' = table @ [r]"
      using assms(2) True x by (auto simp: create_def Let_def py_bind_Inr_conv)
    have ten: "tenant_of r = Some x" using chain_row_facts[OF r(1)] x by simp
    show ?thesis
    proof (cases "x = tid")
      case True
      with r(1) good_chain_next[OF assms(1)] chain_head_good[OF assms(1)] ten r(2) show ?thesis
        by (simp add: tenant_rows_append tenant_rows_def)
    qed (use assms(1) ten r(2) in \<open>simp add: tenant_rows_append tenant_rows_def\<close>)
  qed
qed

lemma tenant_rows_same:
  assumes "map tenant_of new = map tenant_of data" "\<forall>d\<in>set data. tenant_of d = T"
  shows "tenant_rows tid new = (if T = Some tid then new else [])"
proof -
  have "\<forall>r\<in>set new. tenant_of r = T"
    using assms by (metis (no_types, lifting) in_set_conv_nth length_map nth_map)
  then show ?thesis by (auto simp: tenant_rows_def filter_empty_iff intro: filter_True)
qed

lemma create_many_good:
  assumes "good_chain L (tenant_rows tid table)" "create_many L now data table = Inr table'" "tid \<noteq> []"
  shows "good_chain L (tenant_rows tid table')"
proof (cases data)
  case (Cons d ds)
  define T where "T = tenant_of d"
  have "\<not> list_ex (\<lambda>r. tenant_of r \<noteq> T) data" using assms(2) unfolding create_many_def Cons T_def by (simp split: if_splits)
  then have same: "\<forall>r\<in>set data. tenant_of r = T" by (simp add: list_ex_iff)
  have "py_bind (batch_rows L now (truthy T) (if truthy T then chain_head (the T) table else (None, 1)) data) (\<lambda>rs. Inr (table @ rs)) = Inr table'"
    using assms(2) \<open>\<not> list_ex (\<lambda>r. tenant_of r \<noteq> T) data\<close> unfolding create_many_def Cons T_def by (simp only: list.case if_False)
  then obtain new where new: "batch_rows L now (truthy T) (if truthy T then chain_head (the T) table else (None, 1)) data = Inr new"
    "table' = table @ new" unfolding py_bind_Inr_conv by blast
  show ?thesis
  proof (cases "T = Some tid")
    case True
    have b: "batch_rows L now True (if tenant_rows tid table = [] then None else hash_of (last (tenant_rows tid table)),
        int (Suc (length (tenant_rows tid table)))) data = Inr new"
      using new(1) True assms(3) chain_head_good[OF assms(1)] by simp
    from batch_rows_good[OF assms(1) b] tenant_rows_same[OF _ same] True new(2) show ?thesis
      by (simp add: tenant_rows_append)
  next
    case False
    have "map tenant_of new = map tenant_of data"
      by (rule batch_rows_tenants[OF new(1)])
    from tenant_rows_same[OF this same] False assms(1) new(2) show ?thesis by (simp add: tenant_rows_append)
  qed
qed (use assms in \<open>simp add: create_many_def\<close>)

text \<open>The tables the writer can produce.\<close>

inductive written :: "digest_lib \<Rightarrow> row list \<Rightarrow> bool" for L where
  "written L []"
| "written L t \<Longrightarrow> create L now data t = Inr t' \<Longrightarrow> written L t'"
| "written L t \<Longrightarrow> create_many L now rows t = Inr t' \<Longrightarrow> written L t'"

lemma written_good: "written L t \<Longrightarrow> tid \<noteq> [] \<Longrightarrow> good_chain L (tenant_rows tid t)"
proof (induction rule: written.induct)
  case 1
  show ?case by (simp add: good_chain_def tenant_rows_def)
next
  case (2 t now data t')
  show ?case by (rule create_good[OF "2.IH"[OF "2.prems"] "2.hyps"(2) "2.prems"])
next
  case (3 t now rows t')
  show ?case by (rule create_many_good[OF "3.IH"[OF "3.prems"] "3.hyps"(2) "3.prems"])
qed

lemma good_chain_seq_sorted: "good_chain L rs \<Longrightarrow> seq_sorted rs = rs"
proof -
  assume "good_chain L rs"
  then have m: "map seq_of rs = map (\<lambda>i. Some (int (Suc i))) [0..<length rs]" by (simp add: good_chain_def)
  have n: "\<forall>r\<in>set rs. seq_of r \<noteq> None"
  proof
    fix r assume "r \<in> set rs"
    then have "seq_of r \<in> set (map seq_of rs)" by simp
    then show "seq_of r \<noteq> None" unfolding m by auto
  qed
  have "map (\<lambda>r. if_none (seq_of r) 0) rs = map (\<lambda>o'. if_none o' 0) (map seq_of rs)" by simp
  also have "\<dots> = map (\<lambda>i. int (Suc i)) [0..<length rs]" unfolding m by simp
  finally have "sorted (map (\<lambda>r. if_none (seq_of r) 0) rs)" by (simp add: sorted_map)
  with n show ?thesis by (simp add: seq_sorted_def sort_key_id_if_sorted filter_empty_iff)
qed

lemma linked_conv: "linked L xs \<longleftrightarrow> (\<forall>r\<in>set xs. row_sound L r) \<and> successively (\<lambda>r p. prev_of r = hash_of p) xs"
  by (induction xs rule: linked.induct) auto

text \<open>The rows of a good chain by position.\<close>

lemma good_chain_nth:
  assumes "good_chain L rs"
  shows "i < length rs \<Longrightarrow> seq_of (rs ! i) = Some (int (Suc i))"
    and "Suc i < length rs \<Longrightarrow> prev_of (rs ! Suc i) = hash_of (rs ! i)"
proof -
  show "seq_of (rs ! i) = Some (int (Suc i))" if "i < length rs"
  proof -
    have "map seq_of rs ! i = map (\<lambda>i. Some (int (Suc i))) [0..<length rs] ! i" using assms by (simp add: good_chain_def)
    with that show ?thesis by simp
  qed
  have "successively (\<lambda>p r. prev_of r = hash_of p) rs"
    using assms by (simp add: good_chain_def linked_conv)
  then show "prev_of (rs ! Suc i) = hash_of (rs ! i)" if "Suc i < length rs"
    using that by (simp add: successively_conv_nth)
qed

lemma verify_rows_steps:
  assumes "\<forall>r\<in>set rs. row_sound L r"
    and "successively (\<lambda>p r. prev_of r = hash_of p \<and> if_none (seq_of r) 0 = if_none (seq_of p) 0 + 1) (p # rs)"
  shows "verify_rows L (Some p) rs rep = Inr (rep\<lparr>rp_rows_verified := rp_rows_verified rep + length rs\<rparr>)"
  using assms
proof (induction rs arbitrary: p rep)
  case (Cons r rs)
  obtain h where h: "compute_record_hash L r (prev_of r) (format_of r) = Inr h" "hash_of r = Some h"
    using Cons.prems(1) by (auto simp: row_sound_def)
  have "prev_of r = hash_of p" "if_none (seq_of r) 0 = if_none (seq_of p) 0 + 1" using Cons.prems(2) by simp_all
  with h have "verify_rows L (Some p) (r # rs) rep = verify_rows L (Some r) rs (rep\<lparr>rp_rows_verified := Suc (rp_rows_verified rep)\<rparr>)"
    by simp
  also have "\<dots> = Inr (rep\<lparr>rp_rows_verified := rp_rows_verified rep + length (r # rs)\<rparr>)"
    using Cons.IH[of r] Cons.prems by simp
  finally show ?case .
qed simp

lemma verify_rows_good:
  assumes "good_chain L rs"
  shows "verify_rows L None rs rep = Inr (rep\<lparr>rp_rows_verified := rp_rows_verified rep + length rs\<rparr>)"
proof (cases rs)
  case (Cons r rest)
  have s: "\<forall>r\<in>set rs. row_sound L r" using good_chain_sound[OF assms] by blast
  then obtain h where h: "compute_record_hash L r (prev_of r) (format_of r) = Inr h" "hash_of r = Some h"
    by (auto simp: row_sound_def Cons)
  have "successively (\<lambda>p r. prev_of r = hash_of p \<and> if_none (seq_of r) 0 = if_none (seq_of p) 0 + 1) rs"
    using good_chain_nth[OF assms] by (simp add: successively_conv_nth)
  with verify_rows_steps[of rest L r] s show ?thesis unfolding Cons by (simp add: h)
qed simp

lemma chain_of_good: "good_chain L (tenant_rows tid t) \<Longrightarrow> seq_sorted (filter (\<lambda>r. tenant_of r = Some tid) t) = tenant_rows tid t \<and> chain_of tid t = tenant_rows tid t"
  using good_chain_seq_sorted[of L "tenant_rows tid t"] good_chain_sound[of L "tenant_rows tid t"]
  unfolding chain_of_def tenant_rows_def[symmetric] by (auto simp: row_sound_def filter_id_conv)

section \<open>A good chain does not fork\<close>

lemma replicate_distinct: "distinct (replicate n x) \<Longrightarrow> n \<le> 1"
  by (cases n; cases "n - 1") simp_all

lemma forks_nil:
  assumes "distinct (map (\<lambda>r. prev_of r) (filter (\<lambda>r. prev_of r \<noteq> None) rs))"
  shows "forks rs = []"
proof -
  have "length (filter (\<lambda>r. prev_of r = Some h) rs) \<le> 1" for h
  proof -
    let ?zs = "filter (\<lambda>r. prev_of r = Some h) rs"
    have zs: "?zs = filter (\<lambda>r. prev_of r = Some h) (filter (\<lambda>r. prev_of r \<noteq> None) rs)" by (auto intro: filter_cong)
    have "map (\<lambda>r. prev_of r) ?zs = replicate (length ?zs) (Some h)" by (auto simp: map_replicate_const[symmetric] intro: map_cong)
    moreover have "distinct (map (\<lambda>r. prev_of r) ?zs)" unfolding zs using assms by (rule distinct_map_filter)
    ultimately show ?thesis using replicate_distinct by metis
  qed
  then show ?thesis by (auto simp: forks_def filter_empty_iff not_less)
qed

lemma json_safe_items_get:
  "json_safe_items L kvs = Inr js \<Longrightarrow> map_of kvs k = Some v \<Longrightarrow> \<exists>d. json_safe L v = Inr d \<and> map_of js k = Some d"
  by (induction kvs arbitrary: js) (auto simp: py_bind_Inr_conv split: if_splits)

lemma content_seq:
  assumes "content_of L r = Inr c" "seq_of r = Some n"
  shows "map_of c ''chain_seq'' = Some (DInt n)"
proof -
  have "dget r ''chain_seq'' = PInt n" using assms(2) by (auto simp: opt_int_def split: pyval.splits)
  then have "map_of (map (\<lambda>n. (n, dget r n)) CANONICAL_FIELDS_V2) ''chain_seq'' = Some (PInt n)"
    by (simp add: CANONICAL_FIELDS_V2_def CANONICAL_FIELDS_def)
  from json_safe_items_get[OF assms(1)[unfolded content_of_def] this] show ?thesis by simp
qed

lemma prevs_of_good:
  assumes "good_chain L rs"
  shows "map (\<lambda>r. prev_of r) (filter (\<lambda>r. prev_of r \<noteq> None) rs) = map (\<lambda>r. hash_of r) (butlast rs)"
proof (cases rs)
  case (Cons r rest)
  have n: "prev_of r = None" using assms Cons by (simp add: good_chain_def)
  have e: "map (\<lambda>r. prev_of r) rest = map (\<lambda>r. hash_of r) (butlast rs)"
  proof (rule nth_equalityI)
    fix i assume "i < length (map (\<lambda>r. prev_of r) rest)"
    then have i: "i < length rest" by simp
    then have "prev_of (rs ! Suc i) = hash_of (rs ! i)" by (intro good_chain_nth(2)[OF assms]) (simp add: Cons)
    moreover have "butlast rs ! i = rs ! i" using i by (intro nth_butlast) (auto simp: Cons)
    ultimately have "prev_of (rest ! i) = hash_of (butlast rs ! i)" by (simp add: Cons)
    moreover have "i < length (butlast rs)" using i by (auto simp: Cons)
    ultimately show "map (\<lambda>r. prev_of r) rest ! i = map (\<lambda>r. hash_of r) (butlast rs) ! i" using i by (simp only: nth_map)
  qed (simp add: Cons)
  have "prev_of x \<noteq> None" if "x \<in> set rest" for x
  proof -
    have "prev_of x \<in> set (map (\<lambda>r. hash_of r) (butlast rs))" using that unfolding e[symmetric] by simp
    then obtain y where "y \<in> set (butlast rs)" "prev_of x = hash_of y" by auto
    with good_chain_sound[OF assms in_set_butlastD] show ?thesis by (auto simp: row_sound_def)
  qed
  then have "filter (\<lambda>r. prev_of r \<noteq> None) rs = rest" using n by (simp add: Cons filter_id_conv)
  with e show ?thesis by simp
qed simp

context chain_digest
begin

lemma good_chain_prev_plain: "good_chain L rs \<Longrightarrow> r \<in> set rs \<Longrightarrow> plain (prev_of r)"
proof -
  assume g: "good_chain L rs" and "r \<in> set rs"
  then obtain i where i: "i < length rs" "r = rs ! i" by (auto simp: in_set_conv_nth)
  show "plain (prev_of r)"
  proof (cases i)
    case 0
    with g i have "prev_of r = None" by (cases rs) (auto simp: good_chain_def)
    then show ?thesis by (simp add: plain_def)
  next
    case (Suc j)
    with g i have "prev_of r = hash_of (rs ! j)" by (simp add: good_chain_nth)
    with plain_hash[of "rs ! j"] good_chain_sound[OF g] i Suc show ?thesis by simp
  qed
qed

lemma good_chain_hashes_distinct:
  assumes "good_chain L rs" "\<forall>r\<in>set rs. \<forall>s\<in>set rs. \<not> collides L r s"
  shows "distinct (map (\<lambda>r. hash_of r) rs)"
proof -
  have "i = j" if ij: "i < length rs" "j < length rs" "hash_of (rs ! i) = hash_of (rs ! j)" for i j
  proof -
    have m: "rs ! i \<in> set rs" "rs ! j \<in> set rs" using ij by simp_all
    have s: "row_sound L (rs ! i)" "row_sound L (rs ! j)" using good_chain_sound[OF assms(1)] m by blast+
    have "content_of L (rs ! i) = content_of L (rs ! j)"
      using same_hash[OF s ij(3) good_chain_prev_plain[OF assms(1) m(1)] good_chain_prev_plain[OF assms(1) m(2)]] m assms(2) by simp
    moreover obtain c where c: "content_of L (rs ! i) = Inr c" using row_sound_hash[OF s(1)] by blast
    ultimately have d: "content_of L (rs ! j) = Inr c" by simp
    from content_seq[OF c good_chain_nth(1)[OF assms(1) ij(1)]] content_seq[OF d good_chain_nth(1)[OF assms(1) ij(2)]]
    show ?thesis by (simp only: option.inject doc.inject of_nat_eq_iff nat.inject)
  qed
  then show ?thesis by (auto simp: distinct_conv_nth)
qed

lemma good_chain_no_fork:
  assumes "good_chain L rs" "\<forall>r\<in>set rs. \<forall>s\<in>set rs. \<not> collides L r s"
  shows "forks rs = []"
proof (rule forks_nil)
  have "distinct (map (\<lambda>r. hash_of r) (butlast rs))"
    using distinct_butlast[OF good_chain_hashes_distinct[OF assms]] by (simp add: map_butlast)
  then show "distinct (map (\<lambda>r. prev_of r) (filter (\<lambda>r. prev_of r \<noteq> None) rs))" unfolding prevs_of_good[OF assms(1)] .
qed

end


end
