(* ===== verification/Audit_Digest.thy ===== *)
theory Audit_Digest
  imports Audit_Facts
begin

text \<open>
  An executable instance of the digest interface, and concrete logs written with it: the text of a document is a
  prefix code of its values closed by a brace, the digest is its length.
\<close>

section \<open>A prefix code of documents\<close>

definition enc_nat :: "nat \<Rightarrow> string" where
  "enc_nat n = replicate n CHR ''1'' @ ''0''"

definition enc_int :: "int \<Rightarrow> string" where
  "enc_int i = (if i < 0 then ''-'' else ''+'') @ enc_nat (nat \<bar>i\<bar>)"

definition enc_rat :: "rat \<Rightarrow> string" where
  "enc_rat q = enc_int (fst (quotient_of q)) @ enc_int (snd (quotient_of q))"

fun enc_str :: "string \<Rightarrow> string" where
  "enc_str [] = ''.''"
| "enc_str (c # s) = CHR '','' # c # enc_str s"

fun enc_doc :: "doc \<Rightarrow> string" and enc_docs :: "doc list \<Rightarrow> string" and enc_items :: "items \<Rightarrow> string" where
  "enc_doc DNull = ''n''"
| "enc_doc (DBool b) = (if b then ''t'' else ''f'')"
| "enc_doc (DInt i) = CHR ''i'' # enc_int i"
| "enc_doc (DFloat x) = CHR ''r'' # enc_rat x"
| "enc_doc (DStr s) = CHR ''s'' # enc_str s"
| "enc_doc (DList ds) = CHR ''l'' # enc_docs ds"
| "enc_doc (DObj kvs) = CHR ''o'' # enc_items kvs"
| "enc_docs [] = ''.''"
| "enc_docs (d # ds) = CHR '','' # enc_doc d @ enc_docs ds"
| "enc_items [] = ''.''"
| "enc_items ((k, d) # ds) = CHR '','' # enc_str k @ enc_doc d @ enc_items ds"

lemma enc_nat_prefix: "enc_nat m @ u = enc_nat n @ v \<longleftrightarrow> m = n \<and> u = v"
proof (induction m arbitrary: n)
  case 0
  show ?case by (cases n) (auto simp: enc_nat_def)
next
  case (Suc m)
  then show ?case by (cases n) (auto simp: enc_nat_def)
qed

lemma enc_int_prefix: "enc_int i @ u = enc_int j @ v \<longleftrightarrow> i = j \<and> u = v"
  by (auto simp: enc_int_def enc_nat_prefix)

lemma enc_rat_prefix: "enc_rat x @ u = enc_rat y @ v \<longleftrightarrow> x = y \<and> u = v"
proof -
  have "x = y" if "fst (quotient_of x) = fst (quotient_of y)" "snd (quotient_of x) = snd (quotient_of y)"
    using that by (metis prod_eqI quotient_of_inject)
  then show ?thesis by (auto simp: enc_rat_def enc_int_prefix)
qed

lemma enc_str_prefix: "enc_str s @ u = enc_str t @ v \<longleftrightarrow> s = t \<and> u = v"
proof (induction s arbitrary: t)
  case Nil
  show ?case by (cases t) auto
next
  case (Cons c s)
  then show ?case by (cases t) auto
qed

lemmas enc_prefix = enc_int_prefix enc_rat_prefix enc_str_prefix

lemma enc_doc_prefix:
  "enc_doc d @ u = enc_doc e @ v \<longleftrightarrow> d = e \<and> u = v"
  "enc_docs ds @ u = enc_docs es @ v \<longleftrightarrow> ds = es \<and> u = v"
  "enc_items xs @ u = enc_items ys @ v \<longleftrightarrow> xs = ys \<and> u = v"
proof (induction d and ds and xs arbitrary: e u v and es u v and ys u v rule: enc_doc_enc_docs_enc_items.induct)
  case (9 d ds)
  then show ?case by (cases es) auto
next
  case 8
  then show ?case by (cases es) auto
next
  case 10
  then show ?case by (cases ys rule: enc_items.cases) auto
next
  case (11 k d ds)
  then show ?case by (cases ys rule: enc_items.cases) (auto simp: enc_prefix)
qed ((case_tac e; simp add: enc_prefix)+)

section \<open>The instance\<close>

definition code_digest :: digest_lib where
  "code_digest = \<lparr>dl_sha256 = (\<lambda>m. CHR ''h'' # enc_nat (length m mod 16)),
     dl_dumps = (\<lambda>x. enc_items x @ ''}''), dl_iso = enc_rat\<rparr>"

interpretation code: chain_digest code_digest
proof
  show "x = y" if "dl_dumps code_digest x = dl_dumps code_digest y" for x y
    using that enc_doc_prefix(3)[of x "''}''" y "''}''"] by (simp add: code_digest_def)
qed (auto simp: code_digest_def enc_nat_def)

section \<open>Concrete logs\<close>

definition sample_row :: "string \<Rightarrow> row" where
  "sample_row trace = [(''tenant_id'', PStr ''t1''), (''trace_id'', PStr trace), (''risk_score'', PFloat (1 / 2)),
     (''threats'', PList [PStr ''XSS'']), (''detection_scores'', PDict [(''sql'', PFloat 0), (''rules'', PFloat 1)])]"

definition sample_log :: "row list" where
  "sample_log = (case create code_digest 7 (sample_row ''a'') [] of
     Inr t \<Rightarrow> (case create code_digest 9 (sample_row ''b'') t of Inr t' \<Rightarrow> t' | Inl _ \<Rightarrow> []) | Inl _ \<Rightarrow> [])"

definition ok_report :: "nat \<Rightarrow> tenant_report" where
  "ok_report n = \<lparr>rp_rows_verified = n, rp_gap_spans = [], rp_forks = [], rp_first_break = None, rp_unchained = 0\<rparr>"

lemma ok_report_simps [simp]: "report_ok (ok_report n)" "rp_gap_spans (ok_report n) = []"
  by (simp_all add: ok_report_def report_ok_def)

lemma sample_log_length: "length sample_log = 2"
  by code_simp

text \<open>
  The log as written verifies, and so does the log after retention has removed its first row and a column that is
  not hashed has changed in the other.
\<close>

definition purged_row :: row where
  "purged_row = dict_set ''request_path'' (PStr ''/v1/scan'') (sample_log ! 1)"

lemma sample_log_verifies: "verify_tenant code_digest ''t1'' sample_log = Inr (ok_report 2)"
  by code_simp

lemma sample_tail_verifies: "verify_tenant code_digest ''t1'' [purged_row] = Inr (ok_report 1)"
  by code_simp

lemma sample_chains:
  "chain_of ''t1'' sample_log = [sample_log ! 0, sample_log ! 1]"
  "chain_of ''t1'' [purged_row] = [purged_row]"
  by code_simp+

lemma sample_rows:
  "list_all (\<lambda>r. format_of r = Some 2) [sample_log ! 0, sample_log ! 1, purged_row]"
  "plain (prev_of (sample_log ! 0))" "plain (prev_of purged_row)" "hash_of (sample_log ! 1) = hash_of purged_row"
  by code_simp+


lemma sample_log_written: "written code_digest sample_log"
proof -
  obtain t where t: "create code_digest 7 (sample_row ''a'') [] = Inr t"
    using sample_log_length by (cases "create code_digest 7 (sample_row ''a'') []") (simp_all add: sample_log_def)
  obtain u where u: "create code_digest 9 (sample_row ''b'') t = Inr u"
    using sample_log_length t by (cases "create code_digest 9 (sample_row ''b'') t") (simp_all add: sample_log_def)
  have "sample_log = u" by (simp add: sample_log_def t u)
  with written.intros(2)[OF written.intros(2)[OF written.intros(1) t] u] show ?thesis by simp
qed


end
