(* ===== verification/MCP_Config.thy ===== *)
theory MCP_Config
  imports Py_Value
begin

text \<open>
  Configuration of the MCP gateway (\<^verbatim>\<open>mcp_gateway/config.py\<close>): the typed records with the checks of their
  constructors, and the loader from a parsed YAML document. Reading the file and the YAML parser are arguments;
  \<^verbatim>\<open>ConfigError\<close> carries no message here.
\<close>

section \<open>Constants and names\<close>

definition NAMESPACE_SEPARATOR :: string where
  "NAMESPACE_SEPARATOR = ''__''"

definition DEFAULT_CALL_TIMEOUT_S :: float64 where
  "DEFAULT_CALL_TIMEOUT_S = 120"

definition MAX_TOOL_NAME_LENGTH :: nat where
  "MAX_TOOL_NAME_LENGTH = 128"

abbreviation config_error :: "'a py" where
  "config_error \<equiv> Inl (OtherError ''ConfigError'')"

text \<open>What \<^verbatim>\<open>^...$\<close> has to cover: \<^verbatim>\<open>$\<close> also matches in front of one trailing line feed.\<close>

definition dollar_body :: "string \<Rightarrow> string" where
  "dollar_body s = (if s \<noteq> [] \<and> last s = CHR 0x0A then butlast s else s)"

definition ascii_alnum_char :: "char \<Rightarrow> bool" where
  "ascii_alnum_char c \<longleftrightarrow> (let n = of_char c :: nat in (48 \<le> n \<and> n \<le> 57) \<or> (65 \<le> n \<and> n \<le> 90) \<or> (97 \<le> n \<and> n \<le> 122))"

definition server_name_ok :: "string \<Rightarrow> bool" where
  "server_name_ok s \<longleftrightarrow> (let b = dollar_body s in
     1 \<le> length b \<and> length b \<le> 64 \<and> list_all (\<lambda>c. ascii_alnum_char c \<or> c = CHR ''.'' \<or> c = CHR ''-'') b)"

text \<open>\<^verbatim>\<open>NAMESPACE_SEPARATOR in s\<close>, and the text in front of its first occurrence.\<close>

fun has_separator :: "string \<Rightarrow> bool" where
  "has_separator (a # b # s) = ((a = CHR ''_'' \<and> b = CHR ''_'') \<or> has_separator (b # s))"
| "has_separator _ = False"

fun before_separator :: "string \<Rightarrow> string" where
  "before_separator (a # b # s) = (if a = CHR ''_'' \<and> b = CHR ''_'' then [] else a # before_separator (b # s))"
| "before_separator s = s"

section \<open>Records\<close>

record tool_policy =
  tp_allow :: "string list"
  tp_deny :: "string list"

record server_config =
  sc_name :: string
  sc_command :: "string list"
  sc_env :: "(string \<times> string) list"
  sc_cwd :: "string option"
  sc_tools :: tool_policy
  sc_call_timeout_s :: float64

definition mk_server_config :: "server_config \<Rightarrow> server_config py" where
  "mk_server_config c =
     (if \<not> server_name_ok (sc_name c) then config_error
      else if sc_command c = [] then config_error
      else if sc_call_timeout_s c \<le> 0 then config_error
      else Inr c)"

record wrapsec_config =
  wc_base_url :: string
  wc_api_key_env :: string
  wc_timeout_s :: int

definition mk_wrapsec_config :: "wrapsec_config \<Rightarrow> wrapsec_config py" where
  "mk_wrapsec_config c =
     (if wc_base_url c = [] then config_error
      else if wc_api_key_env c = [] then config_error
      else if wc_timeout_s c \<le> 0 then config_error
      else Inr c)"

record scan_config =
  sn_mode :: string
  sn_tool_definitions :: bool
  sn_results :: bool
  sn_call_arguments :: bool
  sn_max_chars :: int

definition mk_scan_config :: "scan_config \<Rightarrow> scan_config py" where
  "mk_scan_config c =
     (if sn_mode c \<noteq> ''fast'' then config_error
      else if sn_max_chars c \<le> 0 then config_error
      else Inr c)"

definition default_scan_config :: scan_config where
  "default_scan_config = \<lparr>sn_mode = ''fast'', sn_tool_definitions = True, sn_results = True, sn_call_arguments = True,
     sn_max_chars = 8000\<rparr>"

definition inspects_anything :: "scan_config \<Rightarrow> bool" where
  "inspects_anything c \<longleftrightarrow> sn_tool_definitions c \<or> sn_results c \<or> sn_call_arguments c"

record gateway_config =
  gc_servers :: "server_config list"
  gc_wrapsec :: "wrapsec_config option"
  gc_scan :: scan_config

definition by_name :: "gateway_config \<Rightarrow> string \<Rightarrow> server_config option" where
  "by_name c n = find (\<lambda>s. sc_name s = n) (gc_servers c)"

text \<open>\<^verbatim>\<open>validate_against\<close>: with several servers every policy entry is namespaced.\<close>

definition entries_resolvable :: "gateway_config \<Rightarrow> bool" where
  "entries_resolvable c \<longleftrightarrow> length (gc_servers c) = 1
     \<or> list_all (\<lambda>s. list_all has_separator (tp_allow (sc_tools s)) \<and> list_all has_separator (tp_deny (sc_tools s))) (gc_servers c)"

definition mk_gateway_config :: "gateway_config \<Rightarrow> gateway_config py" where
  "mk_gateway_config c =
     (if gc_servers c = [] then config_error
      else if \<not> distinct (map sc_name (gc_servers c)) then config_error
      else if \<not> entries_resolvable c then config_error
      else Inr c)"

section \<open>Loading\<close>

definition only_keys :: "(string \<times> pyval) list \<Rightarrow> string list \<Rightarrow> bool" where
  "only_keys d ks \<longleftrightarrow> list_all (\<lambda>(k, _). k \<in> set ks) d"

definition policy_entries :: "(string \<times> pyval) list \<Rightarrow> string \<Rightarrow> string list py" where
  "policy_entries raw key = (case dget raw key of
     PNone \<Rightarrow> Inr []
   | PList vs \<Rightarrow> (case text_list vs of Some ss \<Rightarrow> Inr ss | None \<Rightarrow> config_error)
   | _ \<Rightarrow> config_error)"

definition policy_from :: "pyval \<Rightarrow> tool_policy py" where
  "policy_from raw = (case raw of
     PNone \<Rightarrow> Inr \<lparr>tp_allow = [], tp_deny = []\<rparr>
   | PDict d \<Rightarrow>
       if \<not> only_keys d [''allow'', ''deny''] then config_error
       else py_bind (policy_entries d ''allow'') (\<lambda>al. py_bind (policy_entries d ''deny'') (\<lambda>de. Inr \<lparr>tp_allow = al, tp_deny = de\<rparr>))
   | _ \<Rightarrow> config_error)"

definition text_or_error :: "pyval \<Rightarrow> string py" where
  "text_or_error v = (case v of PStr s \<Rightarrow> if s = [] then config_error else Inr s | _ \<Rightarrow> config_error)"

definition bool_or_error :: "pyval \<Rightarrow> bool py" where
  "bool_or_error v = (case v of PBool b \<Rightarrow> Inr b | _ \<Rightarrow> config_error)"

definition int_or_error :: "pyval \<Rightarrow> int py" where
  "int_or_error v = (case v of PInt n \<Rightarrow> Inr n | _ \<Rightarrow> config_error)"

definition command_from :: "pyval \<Rightarrow> string list py" where
  "command_from v = (case v of
     PList vs \<Rightarrow> (case text_list vs of Some (s # ss) \<Rightarrow> Inr (s # ss) | _ \<Rightarrow> config_error) | _ \<Rightarrow> config_error)"

definition env_from :: "pyval \<Rightarrow> (string \<times> string) list py" where
  "env_from v = (if \<not> py_true v then Inr [] else case v of
     PDict kvs \<Rightarrow> (case text_items kvs of Some e \<Rightarrow> Inr e | None \<Rightarrow> config_error) | _ \<Rightarrow> config_error)"

definition cwd_from :: "pyval \<Rightarrow> string option py" where
  "cwd_from v = (case v of PNone \<Rightarrow> Inr None | PStr s \<Rightarrow> Inr (Some s) | _ \<Rightarrow> config_error)"

definition seconds_from :: "pyval \<Rightarrow> float64 py" where
  "seconds_from v = (case v of PInt n \<Rightarrow> Inr (fl (of_int n)) | PFloat x \<Rightarrow> Inr x | _ \<Rightarrow> config_error)"

definition server_from :: "pyval \<Rightarrow> server_config py" where
  "server_from entry = (case entry of
     PDict d \<Rightarrow>
       if \<not> only_keys d [''name'', ''transport'', ''command'', ''env'', ''cwd'', ''tools'', ''call_timeout_s''] then config_error
       else py_bind (text_or_error (dget d ''name'')) (\<lambda>name.
         if dget_or d ''transport'' (PStr ''stdio'') \<noteq> PStr ''stdio'' then config_error
         else py_bind (command_from (dget d ''command'')) (\<lambda>command.
           py_bind (env_from (dget d ''env'')) (\<lambda>env.
           py_bind (cwd_from (dget d ''cwd'')) (\<lambda>cwd.
           py_bind (seconds_from (dget_or d ''call_timeout_s'' (PFloat DEFAULT_CALL_TIMEOUT_S))) (\<lambda>timeout.
           py_bind (policy_from (dget d ''tools'')) (\<lambda>tools.
             mk_server_config \<lparr>sc_name = name, sc_command = command, sc_env = env, sc_cwd = cwd, sc_tools = tools,
               sc_call_timeout_s = timeout\<rparr>))))))
   | _ \<Rightarrow> config_error)"

definition looks_like_key :: "string \<Rightarrow> bool" where
  "looks_like_key s \<longleftrightarrow> (let l = lower_ascii s in take 4 l = ''wsk_'' \<or> take 3 l = ''sk-'')"

definition wrapsec_from :: "pyval \<Rightarrow> wrapsec_config option py" where
  "wrapsec_from raw = (case raw of
     PNone \<Rightarrow> Inr None
   | PDict d \<Rightarrow>
       if \<not> only_keys d [''base_url'', ''api_key_env'', ''timeout_s''] then config_error
       else py_bind (text_or_error (dget d ''base_url'')) (\<lambda>base_url.
         py_bind (text_or_error (dget_or d ''api_key_env'' (PStr ''WRAPSEC_API_KEY''))) (\<lambda>api_key_env.
         if looks_like_key api_key_env then config_error
         else py_bind (int_or_error (dget_or d ''timeout_s'' (PInt 10))) (\<lambda>timeout.
           py_bind (mk_wrapsec_config \<lparr>wc_base_url = base_url, wc_api_key_env = api_key_env, wc_timeout_s = timeout\<rparr>) (\<lambda>w.
             Inr (Some w)))))
   | _ \<Rightarrow> config_error)"

definition scan_from :: "pyval \<Rightarrow> scan_config py" where
  "scan_from raw = (case raw of
     PNone \<Rightarrow> mk_scan_config default_scan_config
   | PDict d \<Rightarrow>
       if \<not> only_keys d [''mode'', ''tool_definitions'', ''results'', ''call_arguments'', ''max_chars''] then config_error
       else (case dget_or d ''mode'' (PStr ''fast'') of
         PStr mode \<Rightarrow>
           py_bind (bool_or_error (dget_or d ''tool_definitions'' (PBool True))) (\<lambda>definitions.
           py_bind (bool_or_error (dget_or d ''results'' (PBool True))) (\<lambda>results.
           py_bind (bool_or_error (dget_or d ''call_arguments'' (PBool True))) (\<lambda>call_arguments.
           py_bind (int_or_error (dget_or d ''max_chars'' (PInt 8000))) (\<lambda>max_chars.
             mk_scan_config \<lparr>sn_mode = mode, sn_tool_definitions = definitions, sn_results = results,
               sn_call_arguments = call_arguments, sn_max_chars = max_chars\<rparr>))))
       | _ \<Rightarrow> config_error)
   | _ \<Rightarrow> config_error)"

primrec servers_from :: "pyval list \<Rightarrow> server_config list py" where
  "servers_from [] = Inr []"
| "servers_from (e # es) = py_bind (server_from e) (\<lambda>s. py_bind (servers_from es) (\<lambda>ss. Inr (s # ss)))"

definition load_config :: "string py \<Rightarrow> (string \<Rightarrow> pyval py) \<Rightarrow> gateway_config py" where
  "load_config file safe_load = (case file of
     Inl e \<Rightarrow> if e = OtherError ''OSError'' then config_error else Inl e
   | Inr raw \<Rightarrow> (case safe_load raw of
       Inl e \<Rightarrow> if e = OtherError ''YAMLError'' then config_error else Inl e
     | Inr (PDict parsed) \<Rightarrow>
         if \<not> only_keys parsed [''servers'', ''wrapsec'', ''scan''] then config_error
         else (case dget parsed ''servers'' of
             PList (e # es) \<Rightarrow>
               py_bind (servers_from (e # es)) (\<lambda>servers.
               py_bind (wrapsec_from (dget parsed ''wrapsec'')) (\<lambda>wrapsec.
               py_bind (scan_from (dget parsed ''scan'')) (\<lambda>scan.
                 mk_gateway_config \<lparr>gc_servers = servers, gc_wrapsec = wrapsec, gc_scan = scan\<rparr>)))
           | _ \<Rightarrow> config_error)
     | Inr _ \<Rightarrow> config_error))"

end
