(* ===== verification/MCP_Gateway.thy ===== *)
theory MCP_Gateway
  imports MCP_Config Py_Text
begin

text \<open>
  The MCP gateway: routing (\<^verbatim>\<open>routing.py\<close>), refusals (\<^verbatim>\<open>decision.py\<close>), the scanner client (\<^verbatim>\<open>scanner.py\<close>), the
  three inspections (\<^verbatim>\<open>interceptors/\<close>), the downstream pool (\<^verbatim>\<open>session.py\<close>), result content (\<^verbatim>\<open>mcp_compat.py\<close>) and
  the two protocol handlers (\<^verbatim>\<open>proxy.py\<close>). The detection API, the downstream servers, the renderer of structured
  values, the digest of a definition and fresh identifiers are arguments.
\<close>

section \<open>Routing\<close>

text \<open>A published tool; an attribute that is no text is \<open>None\<close>.\<close>

record tool_def =
  td_name :: "string option"
  td_title :: "string option"
  td_description :: "string option"
  td_schema :: pyval

record route_entry =
  re_server :: string
  re_original :: string
  re_definition :: tool_def

datatype reject_reason = NameNotString | TooLong nat | BadCharacters | AlreadyPublished string string

record rejected_tool =
  rj_server :: string
  rj_raw :: string
  rj_reason :: reject_reason

record routing_table =
  rg_routes :: "(string \<times> route_entry) list"
  rg_rejected :: "rejected_tool list"

definition exposed_name :: "string \<Rightarrow> string \<Rightarrow> string" where
  "exposed_name server tool = server @ NAMESPACE_SEPARATOR @ tool"

definition conforming_tool_name :: "string \<Rightarrow> bool" where
  "conforming_tool_name s \<longleftrightarrow> (let b = dollar_body s in
     1 \<le> length b \<and> length b \<le> 128 \<and> list_all (\<lambda>c. ascii_alnum_char c \<or> c = CHR ''.'' \<or> c = CHR ''_'' \<or> c = CHR ''-'') b)"

definition empty_table :: routing_table where
  "empty_table = \<lparr>rg_routes = [], rg_rejected = []\<rparr>"

definition reject :: "string \<Rightarrow> string \<Rightarrow> reject_reason \<Rightarrow> routing_table \<Rightarrow> routing_table" where
  "reject server raw reason t = t\<lparr>rg_rejected := rg_rejected t @ [\<lparr>rj_server = server, rj_raw = raw, rj_reason = reason\<rparr>]\<rparr>"

definition add_tool :: "string \<Rightarrow> tool_def \<Rightarrow> routing_table \<Rightarrow> routing_table" where
  "add_tool server tool t =
     (if \<not> truthy (td_name tool) then reject server (str_or (td_name tool) []) NameNotString t
      else let raw = the (td_name tool); composed = exposed_name server raw in
        if MAX_TOOL_NAME_LENGTH < length composed then reject server raw (TooLong (length composed)) t
        else if \<not> conforming_tool_name composed then reject server raw BadCharacters t
        else (case map_of (rg_routes t) composed of
            Some existing \<Rightarrow> reject server raw (AlreadyPublished composed (re_server existing)) t
          | None \<Rightarrow> t\<lparr>rg_routes := dict_set composed \<lparr>re_server = server, re_original = raw, re_definition = tool\<rparr> (rg_routes t)\<rparr>))"

definition add_server :: "string \<Rightarrow> tool_def list \<Rightarrow> routing_table \<Rightarrow> routing_table" where
  "add_server server tools t = fold (add_tool server) tools t"

definition resolve :: "routing_table \<Rightarrow> string \<Rightarrow> route_entry option" where
  "resolve t name = map_of (rg_routes t) name"

text \<open>A tool name that reads as another configured server's.\<close>

definition shadowing :: "gateway_config \<Rightarrow> route_entry \<Rightarrow> bool" where
  "shadowing c e \<longleftrightarrow> has_separator (re_original e)
     \<and> before_separator (re_original e) \<in> set (map sc_name (gc_servers c)) \<and> before_separator (re_original e) \<noteq> re_server e"

definition assert_no_cross_server_shadowing :: "routing_table \<Rightarrow> gateway_config \<Rightarrow> unit py" where
  "assert_no_cross_server_shadowing t c =
     (if list_ex (\<lambda>(_, e). shadowing c e) (rg_routes t) then Inl (OtherError ''RoutingError'') else Inr ())"

section \<open>Refusals\<close>

text \<open>The operator's detail text is not modelled; \<^verbatim>\<open>refusal_text\<close> does not read it.\<close>

record refusal =
  rf_reason :: string
  rf_trace_id :: string
  rf_failed :: bool

definition AGENT_MESSAGES :: "(string \<times> string) list" where
  "AGENT_MESSAGES = [(''TOOL_NOT_RESOLVED'', ''The requested tool is not available through this gateway.''),
     (''TOOL_DENIED_BY_POLICY'', ''This tool is not permitted by security policy.''),
     (''UNSUPPORTED_MCP_SERVER_REQUEST'', ''The tool attempted an operation this gateway does not support.''),
     (''DOWNSTREAM_UNAVAILABLE'', ''The tool could not be reached.''),
     (''DOWNSTREAM_RESPONSE_UNUSABLE'', ''The tool returned a response this gateway could not use.''),
     (''SYSTEM_ERROR'', ''The operation was refused because a security check could not run.'')]"

definition CONTENT_REFUSED :: string where
  "CONTENT_REFUSED = ''The content was refused by a security policy.''"

definition refusal_text :: "refusal \<Rightarrow> string" where
  "refusal_text r =
     (let message = (case map_of AGENT_MESSAGES (rf_reason r) of
          Some m \<Rightarrow> m
        | None \<Rightarrow> if rf_failed r then the (map_of AGENT_MESSAGES ''SYSTEM_ERROR'') else CONTENT_REFUSED)
      in ''[WrapSec] '' @ message @ '' Trace: '' @ rf_trace_id r @ ''. Do not retry this operation.'')"

section \<open>Result content\<close>

record resource =
  rs_text :: "string option"
  rs_uri :: "string option"
  rs_blob :: "string option"
  rs_meta :: "pyval option"

text \<open>The attributes of all block types; one that a type lacks is \<open>None\<close>.\<close>

record block =
  bk_type :: string
  bk_text :: "string option"
  bk_name :: "string option"
  bk_title :: "string option"
  bk_description :: "string option"
  bk_uri :: "string option"
  bk_data :: "string option"
  bk_resource :: "resource option"
  bk_annotations :: "pyval option"
  bk_meta :: "pyval option"
  bk_icons :: "pyval option"

record tool_result =
  tr_content :: "block list"
  tr_structured :: "pyval option"
  tr_is_error :: bool
  tr_meta :: "pyval option"

definition text_block :: "string \<Rightarrow> block" where
  "text_block s = \<lparr>bk_type = ''text'', bk_text = Some s, bk_name = None, bk_title = None, bk_description = None, bk_uri = None,
     bk_data = None, bk_resource = None, bk_annotations = None, bk_meta = None, bk_icons = None\<rparr>"

definition refusal_result :: "refusal \<Rightarrow> tool_result" where
  "refusal_result r = \<lparr>tr_content = [text_block (refusal_text r)], tr_structured = None, tr_is_error = True, tr_meta = None\<rparr>"

text \<open>The non-empty texts of a list of attributes.\<close>

definition present :: "string option list \<Rightarrow> string list" where
  "present vs = List.map_filter (\<lambda>v. if truthy v then v else None) vs"

definition block_text :: "block \<Rightarrow> string list" where
  "block_text b = present [bk_text b, bk_name b, bk_title b, bk_description b, bk_uri b]
     @ (case bk_resource b of None \<Rightarrow> [] | Some r \<Rightarrow> present [rs_text r, rs_uri r])"

definition text_parts_of :: "(pyval \<Rightarrow> string py) \<Rightarrow> tool_result \<Rightarrow> string list py" where
  "text_parts_of structured_text r =
     (let parts = concat (map block_text (tr_content r)) in
      case tr_structured r of None \<Rightarrow> Inr parts | Some v \<Rightarrow> py_bind (structured_text v) (\<lambda>s. Inr (parts @ [s])))"

definition stripped_block :: "block \<Rightarrow> block" where
  "stripped_block b = b\<lparr>bk_annotations := None, bk_meta := None, bk_icons := None,
     bk_resource := map_option (\<lambda>r. r\<lparr>rs_meta := None\<rparr>) (bk_resource b)\<rparr>"

definition without_unscanned_metadata :: "tool_result \<Rightarrow> tool_result" where
  "without_unscanned_metadata r = r\<lparr>tr_content := map stripped_block (tr_content r), tr_meta := None\<rparr>"

text \<open>\<^verbatim>\<open>"\\n".join(parts)\<close>.\<close>

fun join_lf :: "string list \<Rightarrow> string" where
  "join_lf [] = []"
| "join_lf [s] = s"
| "join_lf (s # t # ts) = s @ CHR 0x0A # join_lf (t # ts)"

section \<open>Tool definitions as text\<close>

text \<open>The prose of a schema, down to depth 12 below the first node.\<close>

fun schema_prose :: "nat \<Rightarrow> pyval \<Rightarrow> string list"
and schema_items :: "nat \<Rightarrow> (string \<times> pyval) list \<Rightarrow> string list"
and schema_elems :: "nat \<Rightarrow> pyval list \<Rightarrow> string list" where
  "schema_prose 0 node = []"
| "schema_prose (Suc n) (PDict kvs) = schema_items n kvs"
| "schema_prose (Suc n) (PList vs) = schema_elems n vs"
| "schema_prose (Suc n) _ = []"
| "schema_items n [] = []"
| "schema_items n ((k, v) # kvs) =
     (case v of
        PStr s \<Rightarrow> if k \<in> {''description'', ''title''} \<and> s \<noteq> [] then [s] else []
      | PDict _ \<Rightarrow> schema_prose n v
      | PList _ \<Rightarrow> schema_prose n v
      | _ \<Rightarrow> []) @ schema_items n kvs"
| "schema_elems n [] = []"
| "schema_elems n (v # vs) = schema_prose n v @ schema_elems n vs"

definition definition_text :: "tool_def \<Rightarrow> string" where
  "definition_text d = join_lf (present [td_name d, td_title d, td_description d] @ schema_prose 13 (td_schema d))"

section \<open>The scanner\<close>

definition SOURCE_TOOL_DEFINITION :: string where
  "SOURCE_TOOL_DEFINITION = ''external_content''"

definition SOURCE_TOOL_RESULT :: string where
  "SOURCE_TOOL_RESULT = ''tool_output''"

definition SOURCE_TOOL_ARGUMENT :: string where
  "SOURCE_TOOL_ARGUMENT = ''agent_tool_call''"

record scan_verdict =
  vt_blocked :: bool
  vt_sanitized :: "string option"
  vt_reason :: string
  vt_trace_id :: string
  vt_failed :: bool

text \<open>What the detection API reports for a text.\<close>

record scan_reply =
  sp_trace_id :: "string option"
  sp_is_system_error :: bool
  sp_is_blocked :: bool
  sp_is_sanitized :: bool
  sp_sanitized_input :: "string option"
  sp_primary_reason :: "string option"

definition verdict_from :: "scan_reply \<Rightarrow> string \<Rightarrow> scan_verdict" where
  "verdict_from p trace_id =
     (let reported = str_or (sp_trace_id p) trace_id in
      if sp_is_system_error p
      then \<lparr>vt_blocked = True, vt_sanitized = None, vt_reason = ''SYSTEM_ERROR'', vt_trace_id = reported, vt_failed = True\<rparr>
      else if sp_is_blocked p
      then \<lparr>vt_blocked = True, vt_sanitized = None, vt_reason = str_or (sp_primary_reason p) ''BLOCKED'', vt_trace_id = reported, vt_failed = False\<rparr>
      else \<lparr>vt_blocked = False, vt_sanitized = (if sp_is_sanitized p then sp_sanitized_input p else None),
             vt_reason = str_or (sp_primary_reason p) ''ALLOWED'', vt_trace_id = reported, vt_failed = False\<rparr>)"

text \<open>A client answers for a text, its source and the turn.\<close>

type_synonym scan_client = "string \<Rightarrow> string \<Rightarrow> nat \<Rightarrow> scan_reply py"

definition scan :: "scan_client \<Rightarrow> int \<Rightarrow> string \<Rightarrow> string \<Rightarrow> string \<Rightarrow> nat \<Rightarrow> scan_verdict" where
  "scan client max_chars content source trace_id turn =
     (if content = []
      then \<lparr>vt_blocked = False, vt_sanitized = None, vt_reason = ''NO_CONTENT'', vt_trace_id = trace_id, vt_failed = False\<rparr>
      else if int (length content) > max_chars
      then \<lparr>vt_blocked = True, vt_sanitized = None, vt_reason = ''CONTENT_TOO_LARGE'', vt_trace_id = trace_id, vt_failed = True\<rparr>
      else (case client content source turn of
          Inl _ \<Rightarrow> \<lparr>vt_blocked = True, vt_sanitized = None, vt_reason = ''SYSTEM_ERROR'', vt_trace_id = trace_id, vt_failed = True\<rparr>
        | Inr p \<Rightarrow> verdict_from p trace_id))"

section \<open>The gateway\<close>

text \<open>How a call to a downstream server can fail, and what the pool makes of it.\<close>

datatype downstream_exn = ValidationError | MCPError int | UnexpectedClaimedResult | RuntimeErr string | OtherDownstream string

datatype pool_error = UnusableDownstreamResponse | DownstreamUnavailable | UnsupportedDownstreamRequest | Unclassified

type_synonym tool_args = "(string \<times> pyval) list"

record mcp_env =
  me_config :: gateway_config
  me_enforcing :: bool
  me_routes :: routing_table
  me_client :: scan_client
  me_structured_text :: "pyval \<Rightarrow> string py"
  me_digest :: "tool_def \<Rightarrow> string"
  me_downstream :: "string \<Rightarrow> string \<Rightarrow> tool_args \<Rightarrow> downstream_exn + tool_result"
  me_timeout_code :: int

record mcp_state =
  ms_turn :: nat
  ms_seen :: "((string \<times> string) \<times> (string \<times> bool)) list"
  ms_changes :: "(string \<times> string \<times> string \<times> string) list"
  ms_refusals :: "refusal list"

definition env_scan :: "mcp_env \<Rightarrow> string \<Rightarrow> string \<Rightarrow> string \<Rightarrow> nat \<Rightarrow> scan_verdict" where
  "env_scan E = scan (me_client E) (sn_max_chars (gc_scan (me_config E)))"

definition begin_turn :: "mcp_state \<Rightarrow> mcp_state" where
  "begin_turn st = st\<lparr>ms_turn := Suc (ms_turn st)\<rparr>"

definition note_refusal :: "refusal option \<Rightarrow> mcp_state \<Rightarrow> mcp_state" where
  "note_refusal r st = (case r of None \<Rightarrow> st | Some x \<Rightarrow> st\<lparr>ms_refusals := ms_refusals st @ [x]\<rparr>)"

definition refuse :: "string \<Rightarrow> string \<Rightarrow> bool \<Rightarrow> refusal" where
  "refuse reason trace_id failed = \<lparr>rf_reason = reason, rf_trace_id = trace_id, rf_failed = failed\<rparr>"

definition verdict_refusal :: "scan_verdict \<Rightarrow> refusal" where
  "verdict_refusal v = refuse (vt_reason v) (vt_trace_id v) (vt_failed v)"

section \<open>Tool definitions\<close>

definition judge_definition :: "mcp_env \<Rightarrow> string \<times> string \<Rightarrow> string \<Rightarrow> tool_def \<Rightarrow> string \<Rightarrow> mcp_state \<Rightarrow> mcp_state \<times> refusal option" where
  "judge_definition E key fp d trace_id st =
     (let v = env_scan E (definition_text d) SOURCE_TOOL_DEFINITION trace_id (ms_turn st) in
      if vt_blocked v then (st\<lparr>ms_seen := dict_set key (fp, False) (ms_seen st)\<rparr>, Some (verdict_refusal v))
      else (st\<lparr>ms_seen := dict_set key (fp, True) (ms_seen st)\<rparr>, None))"

definition inspect_definition :: "mcp_env \<Rightarrow> string \<Rightarrow> tool_def \<Rightarrow> string \<Rightarrow> mcp_state \<Rightarrow> mcp_state \<times> refusal option" where
  "inspect_definition E server d trace_id st =
     (if \<not> sn_tool_definitions (gc_scan (me_config E)) then (st, None)
      else let name = str_or (td_name d) []; fp = me_digest E d; key = (server, name) in
        case map_of (ms_seen st) key of
          Some (previous, published) \<Rightarrow>
            if previous = fp then (st, if published then None else Some (refuse ''TOOL_DEFINITION_BLOCKED'' trace_id False))
            else judge_definition E key fp d trace_id (st\<lparr>ms_changes := ms_changes st @ [(server, name, previous, fp)]\<rparr>)
        | None \<Rightarrow> judge_definition E key fp d trace_id st)"

section \<open>Tool calls\<close>

definition policy_matches :: "string list \<Rightarrow> string \<Rightarrow> string \<Rightarrow> bool" where
  "policy_matches entries exposed original =
     list_ex (\<lambda>entry. if has_separator entry then entry = exposed else entry = original) entries"

definition policy_refusal :: "gateway_config \<Rightarrow> string \<Rightarrow> string \<Rightarrow> string \<Rightarrow> string \<Rightarrow> refusal option" where
  "policy_refusal c server original exposed trace_id =
     (case by_name c server of
        None \<Rightarrow> Some (refuse ''TOOL_DENIED_BY_POLICY'' trace_id False)
      | Some s \<Rightarrow>
          if policy_matches (tp_deny (sc_tools s)) exposed original then Some (refuse ''TOOL_DENIED_BY_POLICY'' trace_id False)
          else if tp_allow (sc_tools s) \<noteq> [] \<and> \<not> policy_matches (tp_allow (sc_tools s)) exposed original
          then Some (refuse ''TOOL_DENIED_BY_POLICY'' trace_id False)
          else None)"

definition inspect_call :: "mcp_env \<Rightarrow> string \<Rightarrow> string \<Rightarrow> string \<Rightarrow> tool_args \<Rightarrow> string \<Rightarrow> nat \<Rightarrow> refusal option py" where
  "inspect_call E server original exposed args trace_id turn =
     (case policy_refusal (me_config E) server original exposed trace_id of
        Some r \<Rightarrow> Inr (Some r)
      | None \<Rightarrow>
          if \<not> sn_call_arguments (gc_scan (me_config E)) \<or> args = [] then Inr None
          else py_bind (me_structured_text E (PDict args)) (\<lambda>content.
            let v = env_scan E content SOURCE_TOOL_ARGUMENT trace_id turn
            in Inr (if vt_blocked v then Some (verdict_refusal v) else None)))"

section \<open>Tool results\<close>

definition sanitized_result :: "tool_result \<Rightarrow> string \<Rightarrow> tool_result" where
  "sanitized_result original sanitized =
     \<lparr>tr_content = [text_block sanitized], tr_structured = None, tr_is_error = tr_is_error original, tr_meta = None\<rparr>"

definition inspect_result :: "mcp_env \<Rightarrow> tool_result \<Rightarrow> string \<Rightarrow> nat \<Rightarrow> (refusal + tool_result) py" where
  "inspect_result E result trace_id turn =
     (if \<not> sn_results (gc_scan (me_config E)) then Inr (Inr (without_unscanned_metadata result))
      else py_bind (text_parts_of (me_structured_text E) result) (\<lambda>parts.
        if parts = [] then Inr (Inr (without_unscanned_metadata result))
        else let v = env_scan E (join_lf parts) SOURCE_TOOL_RESULT trace_id turn in
          if vt_blocked v then Inr (Inl (verdict_refusal v))
          else (case vt_sanitized v of
              Some s \<Rightarrow> Inr (Inr (sanitized_result result s))
            | None \<Rightarrow> Inr (Inr (without_unscanned_metadata result)))))"

section \<open>Downstream calls\<close>

fun contains :: "string \<Rightarrow> string \<Rightarrow> bool" where
  "contains [] needle = (needle = [])"
| "contains (c # s) needle = (startswith (c # s) needle \<or> contains s needle)"

definition is_input_required_refusal :: "string \<Rightarrow> bool" where
  "is_input_required_refusal msg \<longleftrightarrow>
     list_all (contains (lower_ascii msg)) [''inputrequiredresult'', ''allow_input_required'']"

definition pool_call_tool :: "mcp_env \<Rightarrow> string \<Rightarrow> string \<Rightarrow> tool_args \<Rightarrow> pool_error + tool_result" where
  "pool_call_tool E server tool args =
     (case me_downstream E server tool args of
        Inr r \<Rightarrow> Inr r
      | Inl ValidationError \<Rightarrow> Inl UnusableDownstreamResponse
      | Inl (MCPError code) \<Rightarrow> Inl (if code = me_timeout_code E then DownstreamUnavailable else Unclassified)
      | Inl UnexpectedClaimedResult \<Rightarrow> Inl UnsupportedDownstreamRequest
      | Inl (RuntimeErr msg) \<Rightarrow> Inl (if is_input_required_refusal msg then UnsupportedDownstreamRequest else Unclassified)
      | Inl (OtherDownstream _) \<Rightarrow> Inl Unclassified)"

fun pool_refusal :: "pool_error \<Rightarrow> string \<Rightarrow> refusal" where
  "pool_refusal UnsupportedDownstreamRequest t = refuse ''UNSUPPORTED_MCP_SERVER_REQUEST'' t False"
| "pool_refusal UnusableDownstreamResponse t = refuse ''DOWNSTREAM_RESPONSE_UNUSABLE'' t False"
| "pool_refusal DownstreamUnavailable t = refuse ''DOWNSTREAM_UNAVAILABLE'' t False"
| "pool_refusal Unclassified t = refuse ''DOWNSTREAM_UNAVAILABLE'' t True"

section \<open>The protocol handlers\<close>

text \<open>
  A handler yields its new state, the calls it made downstream (server, tool, arguments) and its answer. Fresh
  identifiers are the function \<open>traces\<close>: the \<open>i\<close>-th decision of the request has trace \<open>traces i\<close>.
\<close>

type_synonym forwarded = "(string \<times> string \<times> tool_args) list"

definition call_verdict :: "mcp_env \<Rightarrow> route_entry \<Rightarrow> string \<Rightarrow> tool_args \<Rightarrow> string \<Rightarrow> nat \<Rightarrow> refusal option py" where
  "call_verdict E e name args trace_id turn =
     (if me_enforcing E then inspect_call E (re_server e) (re_original e) name args trace_id turn else Inr None)"

definition result_verdict :: "mcp_env \<Rightarrow> tool_result \<Rightarrow> string \<Rightarrow> nat \<Rightarrow> (refusal + tool_result) py" where
  "result_verdict E result trace_id turn = (if me_enforcing E then inspect_result E result trace_id turn else Inr (Inr result))"

definition forward_call :: "mcp_env \<Rightarrow> route_entry \<Rightarrow> tool_args \<Rightarrow> (nat \<Rightarrow> string) \<Rightarrow> nat \<Rightarrow> mcp_state \<Rightarrow> mcp_state \<times> tool_result py" where
  "forward_call E e args traces turn st =
     (case pool_call_tool E (re_server e) (re_original e) args of
        Inl err \<Rightarrow> (st, Inr (refusal_result (pool_refusal err (traces 0))))
      | Inr result \<Rightarrow>
          (case result_verdict E result (traces 1) turn of
             Inl x \<Rightarrow> (st, Inl x)
           | Inr (Inl rf) \<Rightarrow> (note_refusal (Some rf) st, Inr (refusal_result rf))
           | Inr (Inr r) \<Rightarrow> (st, Inr r)))"

definition serve_call_tool :: "mcp_env \<Rightarrow> string \<Rightarrow> tool_args \<Rightarrow> (nat \<Rightarrow> string) \<Rightarrow> nat \<Rightarrow> mcp_state \<Rightarrow>
    mcp_state \<times> forwarded \<times> tool_result py" where
  "serve_call_tool E name args traces turn st =
     (case resolve (me_routes E) name of
        None \<Rightarrow> (st, [], Inr (refusal_result (refuse ''TOOL_NOT_RESOLVED'' (traces 0) False)))
      | Some e \<Rightarrow>
          (case call_verdict E e name args (traces 0) turn of
             Inl x \<Rightarrow> (st, [], Inl x)
           | Inr (Some rf) \<Rightarrow> (note_refusal (Some rf) st, [], Inr (refusal_result rf))
           | Inr None \<Rightarrow>
               (case forward_call E e args traces turn st of
                  (st', answer) \<Rightarrow> (st', [(re_server e, re_original e, args)], answer))))"

definition on_call_tool :: "mcp_env \<Rightarrow> string \<Rightarrow> tool_args \<Rightarrow> (nat \<Rightarrow> string) \<Rightarrow> mcp_state \<Rightarrow> mcp_state \<times> forwarded \<times> tool_result" where
  "on_call_tool E name args traces st =
     (let st1 = begin_turn st in
      case serve_call_tool E name args traces (ms_turn st1) st1 of
        (st2, calls, answer) \<Rightarrow>
          (st2, calls, try_except answer (\<lambda>_. refusal_result (refuse ''SYSTEM_ERROR'' (traces 0) True))))"

definition republish :: "tool_def \<Rightarrow> string \<Rightarrow> tool_def" where
  "republish d name = \<lparr>td_name = Some name, td_title = td_title d, td_description = td_description d,
     td_schema = (if py_true (td_schema d) then td_schema d else PDict [(''type'', PStr ''object'')])\<rparr>"

definition on_tool_definition :: "mcp_env \<Rightarrow> string \<Rightarrow> tool_def \<Rightarrow> string \<Rightarrow> mcp_state \<Rightarrow> mcp_state \<times> bool" where
  "on_tool_definition E server d trace_id st =
     (if me_enforcing E
      then (case inspect_definition E server d trace_id st of (st', r) \<Rightarrow> (note_refusal r st', r = None))
      else (st, True))"

fun list_entries :: "mcp_env \<Rightarrow> (nat \<Rightarrow> string) \<Rightarrow> nat \<Rightarrow> (string \<times> route_entry) list \<Rightarrow> mcp_state \<Rightarrow> mcp_state \<times> tool_def list" where
  "list_entries E traces i [] st = (st, [])"
| "list_entries E traces i ((name, e) # es) st =
     (case on_tool_definition E (re_server e) (re_definition e) (traces i) st of
        (st', publish) \<Rightarrow> (case list_entries E traces (Suc i) es st' of
           (st'', rest) \<Rightarrow> (st'', if publish then republish (re_definition e) name # rest else rest)))"

definition on_list_tools :: "mcp_env \<Rightarrow> (nat \<Rightarrow> string) \<Rightarrow> mcp_state \<Rightarrow> mcp_state \<times> tool_def list" where
  "on_list_tools E traces st = list_entries E traces 0 (rg_routes (me_routes E)) (begin_turn st)"

section \<open>Startup\<close>

definition require_enforcement :: "string \<Rightarrow> bool \<Rightarrow> gateway_config \<Rightarrow> unit py" where
  "require_enforcement environment enforcing c =
     (if environment = ''development'' then Inr ()
      else if \<not> enforcing then Inl (OtherError ''EnforcementDisabled'')
      else if \<not> inspects_anything (gc_scan c) then Inl (OtherError ''EnforcementDisabled'')
      else Inr ())"

fun connect_servers :: "(string \<Rightarrow> tool_def list py) \<Rightarrow> server_config list \<Rightarrow> routing_table \<Rightarrow> routing_table py" where
  "connect_servers listing [] t = Inr t"
| "connect_servers listing (s # ss) t =
     py_bind (listing (sc_name s)) (\<lambda>tools. connect_servers listing ss (add_server (sc_name s) tools t))"

definition connect_all :: "(string \<Rightarrow> tool_def list py) \<Rightarrow> gateway_config \<Rightarrow> routing_table py" where
  "connect_all listing c =
     py_bind (connect_servers listing (gc_servers c) empty_table) (\<lambda>t.
     py_bind (assert_no_cross_server_shadowing t c) (\<lambda>_. Inr t))"

text \<open>Whether the configuration yields an enforcing interceptor; an unset credential refuses to start.\<close>

definition build_interceptor :: "(string \<Rightarrow> string option) \<Rightarrow> gateway_config \<Rightarrow> bool py" where
  "build_interceptor environ c = (case gc_wrapsec c of
     None \<Rightarrow> Inr False
   | Some w \<Rightarrow> if truthy (environ (wc_api_key_env w)) then Inr True else config_error)"

text \<open>The startup of \<^verbatim>\<open>_run\<close>: what is served, or a refusal to start.\<close>

definition startup :: "unit py \<Rightarrow> (string \<Rightarrow> string option) \<Rightarrow> (string \<Rightarrow> string py) \<Rightarrow> (string \<Rightarrow> pyval py) \<Rightarrow>
    (string \<Rightarrow> tool_def list py) \<Rightarrow> (gateway_config \<times> bool \<times> routing_table) py" where
  "startup verify_package environ read_file safe_load listing =
     py_bind verify_package (\<lambda>_.
     py_bind (if truthy (environ ''WRAPSEC_MCP_CONFIG'') then load_config (read_file (the (environ ''WRAPSEC_MCP_CONFIG''))) safe_load
              else config_error) (\<lambda>c.
     py_bind (build_interceptor environ c) (\<lambda>enforcing.
     py_bind (require_enforcement (if_none (environ ''WRAPSEC_ENV'') ''production'') enforcing c) (\<lambda>_.
     py_bind (connect_all listing c) (\<lambda>t. Inr (c, enforcing, t))))))"

end
