(* ===== verification/MCP_Facts.thy ===== *)
theory MCP_Facts
  imports MCP_Gateway
begin

text \<open>
  Facts about the MCP gateway: what the configuration loader accepts, exact routing, mediation of calls and
  results, and the life of a tool definition's verdict.
\<close>

section \<open>Configuration\<close>

definition wf_server :: "bool \<Rightarrow> server_config \<Rightarrow> bool" where
  "wf_server single s \<longleftrightarrow> server_name_ok (sc_name s) \<and> sc_command s \<noteq> [] \<and> [] \<notin> set (sc_command s) \<and> 0 < sc_call_timeout_s s
     \<and> list_all (\<lambda>e. e \<noteq> [] \<and> (single \<or> has_separator e)) (tp_allow (sc_tools s) @ tp_deny (sc_tools s))"

definition wf_wrapsec :: "wrapsec_config \<Rightarrow> bool" where
  "wf_wrapsec w \<longleftrightarrow> wc_base_url w \<noteq> [] \<and> wc_api_key_env w \<noteq> [] \<and> \<not> looks_like_key (wc_api_key_env w) \<and> 0 < wc_timeout_s w"

definition wf_scan :: "scan_config \<Rightarrow> bool" where
  "wf_scan c \<longleftrightarrow> sn_mode c = ''fast'' \<and> 0 < sn_max_chars c"

definition wf_config :: "gateway_config \<Rightarrow> bool" where
  "wf_config c \<longleftrightarrow> gc_servers c \<noteq> [] \<and> distinct (map sc_name (gc_servers c))
     \<and> list_all (wf_server (length (gc_servers c) = 1)) (gc_servers c)
     \<and> (case gc_wrapsec c of None \<Rightarrow> True | Some w \<Rightarrow> wf_wrapsec w) \<and> wf_scan (gc_scan c)"

text \<open>The document a configuration is written as.\<close>

definition texts_value :: "string list \<Rightarrow> pyval" where
  "texts_value ss = PList (map PStr ss)"

definition server_value :: "server_config \<Rightarrow> pyval" where
  "server_value s = PDict [(''name'', PStr (sc_name s)), (''command'', texts_value (sc_command s)),
     (''env'', PDict (map (\<lambda>(k, v). (k, PStr v)) (sc_env s))),
     (''cwd'', case sc_cwd s of None \<Rightarrow> PNone | Some x \<Rightarrow> PStr x),
     (''tools'', PDict [(''allow'', texts_value (tp_allow (sc_tools s))), (''deny'', texts_value (tp_deny (sc_tools s)))]),
     (''call_timeout_s'', PFloat (sc_call_timeout_s s))]"

definition config_value :: "gateway_config \<Rightarrow> pyval" where
  "config_value c = PDict [(''servers'', PList (map server_value (gc_servers c))),
     (''wrapsec'', case gc_wrapsec c of None \<Rightarrow> PNone
        | Some w \<Rightarrow> PDict [(''base_url'', PStr (wc_base_url w)), (''api_key_env'', PStr (wc_api_key_env w)), (''timeout_s'', PInt (wc_timeout_s w))]),
     (''scan'', PDict [(''mode'', PStr (sn_mode (gc_scan c))), (''tool_definitions'', PBool (sn_tool_definitions (gc_scan c))),
        (''results'', PBool (sn_results (gc_scan c))), (''call_arguments'', PBool (sn_call_arguments (gc_scan c))),
        (''max_chars'', PInt (sn_max_chars (gc_scan c)))])]"

lemma text_list_map: "[] \<notin> set ss \<Longrightarrow> text_list (map PStr ss) = Some ss"
  by (induction ss) auto

lemma text_items_map: "text_items (map (\<lambda>(k, v). (k, PStr v)) e) = Some e"
  by (induction e) auto

lemma policy_entries_ok: "policy_entries d k = Inr es \<Longrightarrow> [] \<notin> set es"
  by (auto simp: policy_entries_def dest: text_list_nonempty split: pyval.splits option.splits)

lemma policy_from_ok: "policy_from v = Inr p \<Longrightarrow> [] \<notin> set (tp_allow p) \<and> [] \<notin> set (tp_deny p)"
  unfolding policy_from_def
  by (auto simp: py_bind_Inr_conv dest: policy_entries_ok split: pyval.splits if_splits)

lemma command_from_ok: "command_from v = Inr c \<Longrightarrow> c \<noteq> [] \<and> [] \<notin> set c"
  by (auto simp: command_from_def dest: text_list_nonempty split: pyval.splits option.splits list.splits)

lemma server_from_ok:
  assumes "server_from v = Inr s"
  shows "server_name_ok (sc_name s) \<and> sc_command s \<noteq> [] \<and> [] \<notin> set (sc_command s) \<and> 0 < sc_call_timeout_s s
     \<and> [] \<notin> set (tp_allow (sc_tools s)) \<and> [] \<notin> set (tp_deny (sc_tools s))"
proof -
  obtain d where d: "v = PDict d" using assms by (cases v) (simp_all add: server_from_def)
  obtain name command env cwd timeout tools where
    c: "command_from (dget d ''command'') = Inr command" and p: "policy_from (dget d ''tools'') = Inr tools"
    and m: "mk_server_config \<lparr>sc_name = name, sc_command = command, sc_env = env, sc_cwd = cwd, sc_tools = tools,
               sc_call_timeout_s = timeout\<rparr> = Inr s"
    using assms unfolding server_from_def d by (auto simp: py_bind_Inr_conv split: if_splits)
  from m have s: "s = \<lparr>sc_name = name, sc_command = command, sc_env = env, sc_cwd = cwd, sc_tools = tools, sc_call_timeout_s = timeout\<rparr>"
    and "server_name_ok name \<and> 0 < timeout"
    by (auto simp: mk_server_config_def split: if_splits)
  with command_from_ok[OF c] policy_from_ok[OF p] show ?thesis by simp
qed

lemma servers_from_ok: "servers_from es = Inr ss \<Longrightarrow> s \<in> set ss \<Longrightarrow> \<exists>e. server_from e = Inr s"
  by (induction es arbitrary: ss) (auto simp: py_bind_Inr_conv)

lemma wrapsec_from_ok: "wrapsec_from v = Inr (Some w) \<Longrightarrow> wf_wrapsec w"
  unfolding wrapsec_from_def
  by (auto simp: py_bind_Inr_conv mk_wrapsec_config_def wf_wrapsec_def split: pyval.splits if_splits)

lemma scan_from_ok: "scan_from v = Inr c \<Longrightarrow> wf_scan c"
  unfolding scan_from_def
  by (auto simp: py_bind_Inr_conv mk_scan_config_def wf_scan_def default_scan_config_def split: pyval.splits if_splits)

lemma load_config_parts:
  assumes "load_config file safe_load = Inr c"
  obtains es w n where "servers_from es = Inr (gc_servers c)" "wrapsec_from w = Inr (gc_wrapsec c)" "scan_from n = Inr (gc_scan c)"
    "mk_gateway_config c = Inr c"
proof -
  obtain raw where raw: "file = Inr raw" using assms by (cases "file") (auto simp: load_config_def split: if_splits)
  obtain d where d: "safe_load raw = Inr (PDict d)"
    using assms raw by (auto simp: load_config_def split: sum.splits if_splits pyval.splits)
  obtain e es where es: "dget d ''servers'' = PList (e # es)"
    using assms raw d by (auto simp: load_config_def split: if_splits pyval.splits list.splits)
  obtain ss w n where "servers_from (e # es) = Inr ss" "wrapsec_from (dget d ''wrapsec'') = Inr w" "scan_from (dget d ''scan'') = Inr n"
    "mk_gateway_config \<lparr>gc_servers = ss, gc_wrapsec = w, gc_scan = n\<rparr> = Inr c"
    using assms raw d es unfolding load_config_def by (auto simp: py_bind_Inr_conv simp del: servers_from.simps split: if_splits)
  moreover then have "c = \<lparr>gc_servers = ss, gc_wrapsec = w, gc_scan = n\<rparr>" by (auto simp: mk_gateway_config_def split: if_splits)
  ultimately show thesis using that[of "e # es"] by (simp del: servers_from.simps)
qed

lemma load_config_wf:
  assumes "load_config file safe_load = Inr c"
  shows "wf_config c"
proof -
  obtain es w n where p: "servers_from es = Inr (gc_servers c)" "wrapsec_from w = Inr (gc_wrapsec c)" "scan_from n = Inr (gc_scan c)"
    "mk_gateway_config c = Inr c" by (rule load_config_parts[OF assms])
  have g: "gc_servers c \<noteq> []" "distinct (map sc_name (gc_servers c))" "entries_resolvable c"
    using p(4) by (auto simp: mk_gateway_config_def split: if_splits)
  have "wf_server (length (gc_servers c) = 1) s" if "s \<in> set (gc_servers c)" for s
    using servers_from_ok[OF p(1) that] server_from_ok[of _ s] g(3) that
    by (fastforce simp: wf_server_def entries_resolvable_def list_all_iff)
  moreover have "case gc_wrapsec c of None \<Rightarrow> True | Some w \<Rightarrow> wf_wrapsec w"
    using p(2) wrapsec_from_ok by (cases "gc_wrapsec c") auto
  ultimately show ?thesis using g scan_from_ok[OF p(3)] by (simp add: wf_config_def list_all_iff)
qed

lemma server_from_value:
  assumes "wf_server single s"
  shows "server_from (server_value s) = Inr s"
proof -
  have w: "server_name_ok (sc_name s)" "sc_command s \<noteq> []" "[] \<notin> set (sc_command s)" "0 < sc_call_timeout_s s"
    "[] \<notin> set (tp_allow (sc_tools s))" "[] \<notin> set (tp_deny (sc_tools s))"
    using assms by (auto simp: wf_server_def list_all_iff)
  obtain x xs where xs: "sc_command s = x # xs" using w(2) by (cases "sc_command s") auto
  have cmd: "command_from (texts_value (sc_command s)) = Inr (sc_command s)"
    using w(3) text_list_map[of "sc_command s"] by (simp add: command_from_def texts_value_def xs)
  have env: "env_from (PDict (map (\<lambda>(k, v). (k, PStr v)) (sc_env s))) = Inr (sc_env s)"
    by (simp add: env_from_def text_items_map)
  have cwd: "cwd_from (case sc_cwd s of None \<Rightarrow> PNone | Some x \<Rightarrow> PStr x) = Inr (sc_cwd s)"
    by (cases "sc_cwd s") (simp_all add: cwd_from_def)
  have tools: "policy_from (PDict [(''allow'', texts_value (tp_allow (sc_tools s))), (''deny'', texts_value (tp_deny (sc_tools s)))]) = Inr (sc_tools s)"
    using w(5,6) by (simp add: policy_from_def only_keys_def policy_entries_def dget_def texts_value_def text_list_map)
  have name: "text_or_error (PStr (sc_name s)) = Inr (sc_name s)"
    using w(1) by (auto simp: text_or_error_def server_name_ok_def dollar_body_def)
  show ?thesis
    unfolding server_from_def server_value_def
    by (simp add: only_keys_def dget_def dget_or_def name cmd env cwd tools seconds_from_def mk_server_config_def w not_le)
qed

lemma servers_from_value: "list_all (wf_server single) ss \<Longrightarrow> servers_from (map server_value ss) = Inr ss"
  by (induction ss) (auto dest: server_from_value)

text \<open>
  C19: Every configuration the loader accepts is well-formed: at least one server, unique names without underscore
  usable as namespace prefixes, a command, a positive call timeout, no ambiguous policy entry, a positive scan bound
  and no credential in place of a variable name. And every well-formed configuration, written as a document, is
  accepted and read back unchanged.
\<close>
theorem load_config_typed:
  "(load_config file safe_load = Inr c \<longrightarrow> wf_config c)
   \<and> (wf_config c' \<longrightarrow> load_config (Inr raw) (\<lambda>_. Inr (config_value c')) = Inr c')"
proof (intro conjI impI)
  show "wf_config c" if "load_config file safe_load = Inr c" by (rule load_config_wf[OF that])
next
  assume w: "wf_config c'"
  then obtain s ss where ss: "gc_servers c' = s # ss" by (cases "gc_servers c'") (auto simp: wf_config_def)
  have "list_all (wf_server (ss = [])) (s # ss)" using w ss by (simp add: wf_config_def)
  from servers_from_value[OF this] have servers: "servers_from (server_value s # map server_value ss) = Inr (s # ss)" by simp
  have wrapsec: "wrapsec_from (case gc_wrapsec c' of None \<Rightarrow> PNone
        | Some w \<Rightarrow> PDict [(''base_url'', PStr (wc_base_url w)), (''api_key_env'', PStr (wc_api_key_env w)), (''timeout_s'', PInt (wc_timeout_s w))])
        = Inr (gc_wrapsec c')"
    using w by (cases "gc_wrapsec c'")
      (simp_all add: wf_config_def wf_wrapsec_def wrapsec_from_def only_keys_def dget_def dget_or_def text_or_error_def int_or_error_def mk_wrapsec_config_def)
  have scn: "scan_from (PDict [(''mode'', PStr (sn_mode (gc_scan c'))), (''tool_definitions'', PBool (sn_tool_definitions (gc_scan c'))),
        (''results'', PBool (sn_results (gc_scan c'))), (''call_arguments'', PBool (sn_call_arguments (gc_scan c'))),
        (''max_chars'', PInt (sn_max_chars (gc_scan c')))]) = Inr (gc_scan c')"
    using w by (simp add: wf_config_def wf_scan_def scan_from_def only_keys_def dget_or_def bool_or_error_def int_or_error_def mk_scan_config_def)
  have "entries_resolvable c'"
    using w unfolding entries_resolvable_def wf_config_def wf_server_def by (auto simp: list_all_iff)
  then have mk: "mk_gateway_config c' = Inr c'"
    using w by (simp add: mk_gateway_config_def wf_config_def)
  have eta: "\<lparr>gc_servers = s # ss, gc_wrapsec = gc_wrapsec c', gc_scan = gc_scan c'\<rparr> = c'" using ss by simp
  show "load_config (Inr raw) (\<lambda>_. Inr (config_value c')) = Inr c'"
    unfolding load_config_def config_value_def ss
    by (simp add: only_keys_def dget_def servers wrapsec scn eta mk del: servers_from.simps)
qed

section \<open>Routing\<close>

lemma server_name_no_underscore: "server_name_ok s \<Longrightarrow> CHR ''_'' \<notin> set s"
proof -
  assume ok: "server_name_ok s"
  have no: "CHR ''_'' \<notin> set (dollar_body s)"
    using ok by (auto simp: server_name_ok_def Let_def list_all_iff ascii_alnum_char_def)
  show ?thesis
  proof (cases "s \<noteq> [] \<and> last s = CHR 0x0A")
    case True
    then have d: "dollar_body s = butlast s" by (simp add: dollar_body_def)
    have "butlast s @ [CHR 0x0A] = s" using True append_butlast_last_id[of s] by simp
    then have "set s = set (butlast s @ [CHR 0x0A])" by simp
    with no d show ?thesis by simp
  next
    case False
    then have "dollar_body s = s" by (simp only: dollar_body_def if_False)
    with no show ?thesis by simp
  qed
qed

lemma exposed_name_inj:
  assumes "exposed_name s t = exposed_name s' t'" "server_name_ok s" "server_name_ok s'"
  shows "s = s' \<and> t = t'"
proof -
  have u: "takeWhile (\<lambda>c. c \<noteq> CHR ''_'') (exposed_name x y) = x" if "server_name_ok x" for x y
    using server_name_no_underscore[OF that] unfolding exposed_name_def NAMESPACE_SEPARATOR_def
    by (subst takeWhile_append2) auto
  from u[OF assms(2), of t] u[OF assms(3), of t'] assms(1) have "s = s'" by simp
  with assms(1) show ?thesis by (simp add: exposed_name_def)
qed

text \<open>A tool the gateway can publish for a server.\<close>

definition publishable :: "string \<Rightarrow> string \<Rightarrow> bool" where
  "publishable server raw \<longleftrightarrow> raw \<noteq> [] \<and> length (exposed_name server raw) \<le> MAX_TOOL_NAME_LENGTH
     \<and> conforming_tool_name (exposed_name server raw)"

definition entry_ok :: "string \<times> route_entry \<Rightarrow> bool" where
  "entry_ok = (\<lambda>(n, e). n = exposed_name (re_server e) (re_original e) \<and> td_name (re_definition e) = Some (re_original e)
     \<and> publishable (re_server e) (re_original e))"

lemma reject_routes [simp]: "rg_routes (reject s r x t) = rg_routes t"
  by (simp add: reject_def)

lemma add_tool_routes:
  "rg_routes (add_tool s d t) =
     (case td_name d of
        None \<Rightarrow> rg_routes t
      | Some raw \<Rightarrow> if publishable s raw \<and> map_of (rg_routes t) (exposed_name s raw) = None
          then dict_set (exposed_name s raw) \<lparr>re_server = s, re_original = raw, re_definition = d\<rparr> (rg_routes t) else rg_routes t)"
  by (auto simp: add_tool_def Let_def publishable_def split: option.splits)

lemma dict_set_new: "map_of d k = None \<Longrightarrow> dict_set k v d = d @ [(k, v)]"
  by (induction d) (auto split: if_splits)

lemma map_of_append_None: "map_of d k = None \<Longrightarrow> map_of (d @ [(k, v)]) k' = (if k' = k then Some v else map_of d k')"
  by (induction d) (auto split: if_splits)

lemma add_tool_keeps: "map_of (rg_routes t) n = Some e \<Longrightarrow> map_of (rg_routes (add_tool s d t)) n = Some e"
  by (auto simp: add_tool_routes split: option.splits)

lemma add_tool_ok:
  assumes "list_all entry_ok (rg_routes t)" "distinct (map fst (rg_routes t))"
  shows "list_all entry_ok (rg_routes (add_tool s d t)) \<and> distinct (map fst (rg_routes (add_tool s d t)))"
  using assms by (auto simp: add_tool_routes dict_set_new entry_ok_def map_of_eq_None_iff split: option.splits)

lemma add_tool_from: "x \<in> set (rg_routes (add_tool s d t)) \<Longrightarrow> x \<in> set (rg_routes t) \<or> re_server (snd x) = s \<and> re_definition (snd x) = d"
  by (auto simp: add_tool_routes dict_set_new split: option.splits if_splits)

lemma add_tool_publishes:
  "td_name d = Some raw \<Longrightarrow> publishable s raw \<Longrightarrow> map_of (rg_routes (add_tool s d t)) (exposed_name s raw) \<noteq> None"
  by (auto simp: add_tool_routes)

lemma add_server_keeps: "map_of (rg_routes t) n = Some e \<Longrightarrow> map_of (rg_routes (add_server s ds t)) n = Some e"
  unfolding add_server_def by (induction ds arbitrary: t) (auto simp: add_tool_keeps)

lemma add_server_ok:
  "list_all entry_ok (rg_routes t) \<Longrightarrow> distinct (map fst (rg_routes t)) \<Longrightarrow>
     list_all entry_ok (rg_routes (add_server s ds t)) \<and> distinct (map fst (rg_routes (add_server s ds t)))"
  unfolding add_server_def by (induction ds arbitrary: t) (auto simp: add_tool_ok)

lemma add_server_from:
  "x \<in> set (rg_routes (add_server s ds t)) \<Longrightarrow> x \<in> set (rg_routes t) \<or> re_server (snd x) = s \<and> re_definition (snd x) \<in> set ds"
  unfolding add_server_def by (induction ds arbitrary: t) (auto dest: add_tool_from)

lemma add_server_publishes:
  assumes "d \<in> set ds" "td_name d = Some raw" "publishable s raw"
  shows "map_of (rg_routes (add_server s ds t)) (exposed_name s raw) \<noteq> None"
  using assms(1)
proof (induction ds arbitrary: t)
  case (Cons d' ds)
  show ?case
  proof (cases "d' = d")
    case True
    obtain e where "map_of (rg_routes (add_tool s d t)) (exposed_name s raw) = Some e"
      using add_tool_publishes[OF assms(2,3)] by blast
    from add_server_keeps[OF this, of s ds] True show ?thesis by (simp add: add_server_def)
  next
    case False
    with Cons show ?thesis by (simp add: add_server_def)
  qed
qed simp

lemma connect_keeps:
  "connect_servers listing ss t = Inr t' \<Longrightarrow> map_of (rg_routes t) n = Some e \<Longrightarrow> map_of (rg_routes t') n = Some e"
  by (induction ss arbitrary: t) (auto simp: py_bind_Inr_conv add_server_keeps)

lemma connect_ok:
  "connect_servers listing ss t = Inr t' \<Longrightarrow> list_all entry_ok (rg_routes t) \<Longrightarrow> distinct (map fst (rg_routes t)) \<Longrightarrow>
     list_all entry_ok (rg_routes t') \<and> distinct (map fst (rg_routes t'))"
  by (induction ss arbitrary: t) (auto simp: py_bind_Inr_conv add_server_ok)

lemma connect_from:
  "connect_servers listing ss t = Inr t' \<Longrightarrow> x \<in> set (rg_routes t') \<Longrightarrow> x \<in> set (rg_routes t)
     \<or> (\<exists>s tools. s \<in> set ss \<and> listing (sc_name s) = Inr tools \<and> re_server (snd x) = sc_name s \<and> re_definition (snd x) \<in> set tools)"
proof (induction ss arbitrary: t)
  case (Cons s' ss)
  obtain tools' where c: "listing (sc_name s') = Inr tools'" "connect_servers listing ss (add_server (sc_name s') tools' t) = Inr t'"
    using Cons.prems(1) by (auto simp: py_bind_Inr_conv)
  from Cons.IH[OF c(2) Cons.prems(2)] add_server_from[of x "sc_name s'" tools' t] c(1) show ?case by auto
qed simp

lemma connect_publishes:
  assumes "connect_servers listing ss t = Inr t'" "s \<in> set ss" "listing (sc_name s) = Inr tools" "d \<in> set tools"
    and "td_name d = Some raw" "publishable (sc_name s) raw"
  shows "map_of (rg_routes t') (exposed_name (sc_name s) raw) \<noteq> None"
  using assms(1,2)
proof (induction ss arbitrary: t)
  case (Cons s' ss)
  obtain tools' where c: "listing (sc_name s') = Inr tools'" "connect_servers listing ss (add_server (sc_name s') tools' t) = Inr t'"
    using Cons.prems(1) by (auto simp: py_bind_Inr_conv)
  show ?case
  proof (cases "s' = s")
    case True
    obtain e where "map_of (rg_routes (add_server (sc_name s) tools t)) (exposed_name (sc_name s) raw) = Some e"
      using add_server_publishes[OF assms(4-6)] by blast
    from connect_keeps[OF _ this] c assms(3) True show ?thesis by auto
  next
    case False
    with Cons c(2) show ?thesis by auto
  qed
qed simp

text \<open>
  Routing is exact. After a start from an accepted configuration every exposed name resolves to the server that
  published the tool and to the name it published, and reads as no other configured server's. Conversely every
  publishable tool of every server is reachable under its own exposed name: no downstream server can take a name
  of another one.
\<close>
theorem routing_exact:
  assumes "load_config file safe_load = Inr c" "connect_all listing c = Inr t"
  shows "(resolve t name = Some e \<longrightarrow> name = exposed_name (re_server e) (re_original e) \<and> \<not> shadowing c e
            \<and> (\<exists>s tools. s \<in> set (gc_servers c) \<and> re_server e = sc_name s \<and> listing (sc_name s) = Inr tools
                  \<and> re_definition e \<in> set tools \<and> td_name (re_definition e) = Some (re_original e)))
       \<and> (s \<in> set (gc_servers c) \<and> listing (sc_name s) = Inr tools \<and> d \<in> set tools \<and> td_name d = Some raw \<and> publishable (sc_name s) raw
          \<longrightarrow> (\<exists>e. resolve t (exposed_name (sc_name s) raw) = Some e \<and> re_server e = sc_name s \<and> re_original e = raw))"
proof -
  have con: "connect_servers listing (gc_servers c) empty_table = Inr t" and shadow: "\<forall>x\<in>set (rg_routes t). \<not> shadowing c (snd x)"
    using assms(2) by (auto simp: connect_all_def py_bind_Inr_conv assert_no_cross_server_shadowing_def list_ex_iff split: if_splits)
  have ok: "list_all entry_ok (rg_routes t)"
    using connect_ok[OF con] by (simp add: empty_table_def)
  have names: "server_name_ok (sc_name s)" if "s \<in> set (gc_servers c)" for s
    using load_config_wf[OF assms(1)] that by (simp add: wf_config_def wf_server_def list_all_iff)
  have found: "name = exposed_name (re_server e) (re_original e) \<and> \<not> shadowing c e
            \<and> (\<exists>s tools. s \<in> set (gc_servers c) \<and> re_server e = sc_name s \<and> listing (sc_name s) = Inr tools
                  \<and> re_definition e \<in> set tools \<and> td_name (re_definition e) = Some (re_original e))"
    if r: "resolve t name = Some e" for name e
  proof -
    have m: "(name, e) \<in> set (rg_routes t)" using r map_of_SomeD by (fastforce simp: resolve_def)
    have "entry_ok (name, e)" using ok m by (auto simp: list_all_iff)
    moreover have "\<not> shadowing c e" using shadow m by auto
    ultimately show ?thesis using connect_from[OF con m] by (auto simp: entry_ok_def empty_table_def)
  qed
  moreover have "\<exists>e. resolve t (exposed_name (sc_name s) raw) = Some e \<and> re_server e = sc_name s \<and> re_original e = raw"
    if h: "s \<in> set (gc_servers c)" "listing (sc_name s) = Inr tools" "d \<in> set tools" "td_name d = Some raw" "publishable (sc_name s) raw"
  proof -
    obtain e where e: "resolve t (exposed_name (sc_name s) raw) = Some e"
      using connect_publishes[OF con h] by (auto simp: resolve_def)
    from found[OF e] obtain s' where s': "s' \<in> set (gc_servers c)" "re_server e = sc_name s'"
      and eq: "exposed_name (sc_name s) raw = exposed_name (sc_name s') (re_original e)" by auto
    from exposed_name_inj[OF eq names[OF h(1)] names[OF s'(1)]] e s'(2) show ?thesis by simp
  qed
  ultimately show ?thesis by blast
qed

definition sample_server :: "string \<Rightarrow> server_config" where
  "sample_server n = \<lparr>sc_name = n, sc_command = [''run''], sc_env = [], sc_cwd = None,
     sc_tools = \<lparr>tp_allow = [], tp_deny = [''files__rm'']\<rparr>, sc_call_timeout_s = 120\<rparr>"

definition sample_config :: gateway_config where
  "sample_config = \<lparr>gc_servers = [sample_server ''files'', sample_server ''web''],
     gc_wrapsec = Some \<lparr>wc_base_url = ''http://api'', wc_api_key_env = ''WRAPSEC_API_KEY'', wc_timeout_s = 10\<rparr>,
     gc_scan = default_scan_config\<rparr>"

definition sample_tool :: "string \<Rightarrow> tool_def" where
  "sample_tool n = \<lparr>td_name = Some n, td_title = None, td_description = Some ''reads a file'', td_schema = PNone\<rparr>"

definition sample_table :: routing_table where
  "sample_table = (case connect_all (\<lambda>n. Inr [sample_tool ''read'', sample_tool ''rm'']) sample_config of Inr t \<Rightarrow> t | Inl _ \<Rightarrow> empty_table)"

lemma sample_loads: "load_config (Inr []) (\<lambda>_. Inr (config_value sample_config)) = Inr sample_config"
  by code_simp

lemma sample_connects: "connect_all (\<lambda>n. Inr [sample_tool ''read'', sample_tool ''rm'']) sample_config = Inr sample_table"
proof -
  have "\<exists>t. connect_all (\<lambda>n. Inr [sample_tool ''read'', sample_tool ''rm'']) sample_config = Inr t"
    by (rule exI[of _ sample_table]) code_simp
  then show ?thesis by (auto simp: sample_table_def)
qed

theorem routing_exact_witness:
  "resolve sample_table ''web__read'' = Some \<lparr>re_server = ''web'', re_original = ''read'', re_definition = sample_tool ''read''\<rparr>
     \<and> \<not> shadowing sample_config \<lparr>re_server = ''web'', re_original = ''read'', re_definition = sample_tool ''read''\<rparr>"
proof -
  have r: "resolve sample_table ''web__read'' = Some \<lparr>re_server = ''web'', re_original = ''read'', re_definition = sample_tool ''read''\<rparr>"
    by code_simp
  with routing_exact[OF sample_loads sample_connects, of "''web__read''"] show ?thesis by blast
qed

section \<open>Startup\<close>

text \<open>
  C15: Whatever is served inspects. Outside development the gateway only starts with an interceptor that enforces, a
  credential for the detection API in the environment, at least one inspection switched on, a well-formed
  configuration and a routing table in which no tool reads as another server's; every other start is refused.
\<close>
theorem startup_enforces:
  assumes "startup verify_package environ read_file safe_load listing = Inr (c, enforcing, t)"
    and "environ ''WRAPSEC_ENV'' \<noteq> Some ''development''"
  shows "enforcing \<and> inspects_anything (gc_scan c) \<and> wf_config c
     \<and> (\<exists>w. gc_wrapsec c = Some w \<and> truthy (environ (wc_api_key_env w)))
     \<and> connect_all listing c = Inr t \<and> (\<forall>x\<in>set (rg_routes t). \<not> shadowing c (snd x))"
proof -
  let ?load = "if truthy (environ ''WRAPSEC_MCP_CONFIG'') then load_config (read_file (the (environ ''WRAPSEC_MCP_CONFIG''))) safe_load else config_error"
  have load: "?load = Inr c" and build: "build_interceptor environ c = Inr enforcing"
    and req: "require_enforcement (if_none (environ ''WRAPSEC_ENV'') ''production'') enforcing c = Inr ()"
    and con: "connect_all listing c = Inr t"
    using assms(1) unfolding startup_def by (auto simp: py_bind_Inr_conv)
  have "wf_config c" using load by (auto dest: load_config_wf split: if_splits)
  moreover have "if_none (environ ''WRAPSEC_ENV'') ''production'' \<noteq> ''development''"
    using assms(2) by (cases "environ ''WRAPSEC_ENV''") auto
  with req have "enforcing \<and> inspects_anything (gc_scan c)" by (auto simp: require_enforcement_def split: if_splits)
  moreover from this build have "\<exists>w. gc_wrapsec c = Some w \<and> truthy (environ (wc_api_key_env w))"
    by (auto simp: build_interceptor_def split: option.splits if_splits)
  moreover have "\<forall>x\<in>set (rg_routes t). \<not> shadowing c (snd x)"
    using con by (auto simp: connect_all_def py_bind_Inr_conv assert_no_cross_server_shadowing_def list_ex_iff split: if_splits)
  ultimately show ?thesis using con by blast
qed

definition sample_environ :: "string \<Rightarrow> string option" where
  "sample_environ n = (if n = ''WRAPSEC_MCP_CONFIG'' then Some ''gateway.yaml'' else if n = ''WRAPSEC_API_KEY'' then Some ''key'' else None)"

theorem startup_enforces_witness: "inspects_anything (gc_scan sample_config) \<and> truthy (sample_environ ''WRAPSEC_API_KEY'')"
proof -
  have "startup (Inr ()) sample_environ (\<lambda>_. Inr []) (\<lambda>_. Inr (config_value sample_config))
      (\<lambda>n. Inr [sample_tool ''read'', sample_tool ''rm'']) = Inr (sample_config, True, sample_table)"
    by (simp add: startup_def sample_loads sample_connects sample_environ_def build_interceptor_def require_enforcement_def
        sample_config_def[THEN arg_cong, of gc_wrapsec] sample_config_def[THEN arg_cong, of gc_scan] inspects_anything_def default_scan_config_def)
  from startup_enforces[OF this] show ?thesis by (simp add: sample_environ_def)
qed

section \<open>Mediation\<close>

text \<open>The detection API let a text pass (an empty text is not sent).\<close>

definition accepted :: "mcp_env \<Rightarrow> string \<Rightarrow> string \<Rightarrow> nat \<Rightarrow> bool" where
  "accepted E content source turn \<longleftrightarrow> content = [] \<or> (int (length content) \<le> sn_max_chars (gc_scan (me_config E))
     \<and> (case me_client E content source turn of Inr p \<Rightarrow> \<not> sp_is_system_error p \<and> \<not> sp_is_blocked p | Inl _ \<Rightarrow> False))"

lemma scan_accepted: "\<not> vt_blocked (env_scan E content source trace_id turn) \<longleftrightarrow> accepted E content source turn"
  by (auto simp: env_scan_def scan_def accepted_def verdict_from_def Let_def split: sum.splits)

lemma scan_sanitized:
  assumes "vt_sanitized (env_scan E content source trace_id turn) = Some s"
  shows "\<exists>p. me_client E content source turn = Inr p \<and> sp_is_sanitized p \<and> sp_sanitized_input p = Some s"
  using assms by (auto simp: env_scan_def scan_def verdict_from_def Let_def split: sum.splits if_splits)

lemma policy_refusal_None:
  "policy_refusal c server original exposed trace_id = None \<longleftrightarrow>
     (\<exists>s. by_name c server = Some s \<and> \<not> policy_matches (tp_deny (sc_tools s)) exposed original
        \<and> (tp_allow (sc_tools s) = [] \<or> policy_matches (tp_allow (sc_tools s)) exposed original))"
  by (auto simp: policy_refusal_def split: option.splits)

lemma inspect_call_None:
  assumes "inspect_call E server original exposed args trace_id turn = Inr None"
  shows "policy_refusal (me_config E) server original exposed trace_id = None
     \<and> (sn_call_arguments (gc_scan (me_config E)) \<and> args \<noteq> []
        \<longrightarrow> (\<exists>content. me_structured_text E (PDict args) = Inr content \<and> accepted E content SOURCE_TOOL_ARGUMENT turn))"
  using assms scan_accepted
  by (auto simp: inspect_call_def py_bind_Inr_conv Let_def split: option.splits if_splits)

text \<open>What is left of a result once every field no detector sees is gone.\<close>

definition block_inspected :: "block \<Rightarrow> bool" where
  "block_inspected b \<longleftrightarrow> bk_annotations b = None \<and> bk_meta b = None \<and> bk_icons b = None
     \<and> (case bk_resource b of None \<Rightarrow> True | Some r \<Rightarrow> rs_meta r = None)"

definition no_metadata :: "tool_result \<Rightarrow> bool" where
  "no_metadata r \<longleftrightarrow> tr_meta r = None \<and> list_all block_inspected (tr_content r)"

lemma stripped_no_metadata: "no_metadata (without_unscanned_metadata r)"
  by (auto simp: no_metadata_def without_unscanned_metadata_def list_all_iff block_inspected_def stripped_block_def split: option.splits)

lemma stripped_text: "block_text (stripped_block b) = block_text b"
  by (auto simp: block_text_def stripped_block_def split: option.splits)

lemma stripped_parts: "text_parts_of f (without_unscanned_metadata r) = text_parts_of f r"
  by (simp add: text_parts_of_def without_unscanned_metadata_def stripped_text comp_def)

lemma inspect_result_delivers:
  assumes "inspect_result E result trace_id turn = Inr (Inr r)" "sn_results (gc_scan (me_config E))"
  shows "\<exists>parts. text_parts_of (me_structured_text E) result = Inr parts \<and> accepted E (join_lf parts) SOURCE_TOOL_RESULT turn
     \<and> no_metadata r
     \<and> (text_parts_of (me_structured_text E) r = Inr parts
        \<or> (\<exists>p s. me_client E (join_lf parts) SOURCE_TOOL_RESULT turn = Inr p \<and> sp_is_sanitized p \<and> sp_sanitized_input p = Some s
              \<and> r = sanitized_result result s))"
proof -
  obtain parts where parts: "text_parts_of (me_structured_text E) result = Inr parts"
    using assms by (auto simp: inspect_result_def py_bind_Inr_conv)
  show ?thesis
  proof (cases "parts = []")
    case True
    with assms parts have "r = without_unscanned_metadata result" by (simp add: inspect_result_def)
    with parts True show ?thesis by (simp add: stripped_parts stripped_no_metadata accepted_def)
  next
    case False
    let ?v = "env_scan E (join_lf parts) SOURCE_TOOL_RESULT trace_id turn"
    have acc: "accepted E (join_lf parts) SOURCE_TOOL_RESULT turn"
      using assms parts False scan_accepted[of E "join_lf parts" SOURCE_TOOL_RESULT trace_id turn]
      by (auto simp: inspect_result_def Let_def split: if_splits)
    show ?thesis
    proof (cases "vt_sanitized ?v")
      case None
      with assms parts False have "r = without_unscanned_metadata result" by (auto simp: inspect_result_def Let_def split: if_splits)
      with parts acc show ?thesis by (simp add: stripped_parts stripped_no_metadata)
    next
      case (Some s)
      with assms parts False have "r = sanitized_result result s" by (auto simp: inspect_result_def Let_def split: if_splits)
      with parts acc scan_sanitized[OF Some] show ?thesis
        by (auto simp: no_metadata_def sanitized_result_def text_block_def block_inspected_def)
    qed
  qed
qed



section \<open>The life of a definition's verdict\<close>

text \<open>
  A run of the gateway: requests of the agent in any order. The detection API may answer differently at every
  request, so each step has its own client, and the list of the clients so far is kept.
\<close>

abbreviation at_client :: "mcp_env \<Rightarrow> scan_client \<Rightarrow> mcp_env" where
  "at_client E c \<equiv> E\<lparr>me_client := c\<rparr>"

inductive mcp_run :: "mcp_env \<Rightarrow> mcp_state \<Rightarrow> scan_client list \<Rightarrow> mcp_state \<Rightarrow> bool" for E where
  start: "mcp_run E st [] st"
| listed: "mcp_run E st0 cs st \<Longrightarrow> on_list_tools (at_client E c) traces st = (st', tools) \<Longrightarrow> mcp_run E st0 (c # cs) st'"
| called: "mcp_run E st0 cs st \<Longrightarrow> on_call_tool (at_client E c) name args traces st = (st', calls, answer) \<Longrightarrow> mcp_run E st0 (c # cs) st'"

definition initial_state :: mcp_state where
  "initial_state = \<lparr>ms_turn = 0, ms_seen = [], ms_changes = [], ms_refusals = []\<rparr>"

definition definition_accepted :: "mcp_env \<Rightarrow> scan_client set \<Rightarrow> tool_def \<Rightarrow> bool" where
  "definition_accepted E C d \<longleftrightarrow> (\<exists>c\<in>C. \<exists>turn. accepted (at_client E c) (definition_text d) SOURCE_TOOL_DEFINITION turn)"

definition seen_ok :: "mcp_env \<Rightarrow> scan_client set \<Rightarrow> mcp_state \<Rightarrow> bool" where
  "seen_ok E C st \<longleftrightarrow> ms_changes st = [] \<and> (\<forall>s n fp p. map_of (ms_seen st) (s, n) = Some (fp, p) \<longrightarrow>
     (\<exists>x e. (x, e) \<in> set (rg_routes (me_routes E)) \<and> re_server e = s \<and> td_name (re_definition e) = Some n
        \<and> fp = me_digest E (re_definition e) \<and> (p \<longrightarrow> definition_accepted E C (re_definition e))))"

definition table_ok :: "routing_table \<Rightarrow> bool" where
  "table_ok t \<longleftrightarrow> list_all entry_ok (rg_routes t) \<and> distinct (map fst (rg_routes t))"

lemma connect_table_ok: "connect_all listing c = Inr t \<Longrightarrow> table_ok t"
  using connect_ok[of listing "gc_servers c" empty_table]
  by (auto simp: connect_all_def py_bind_Inr_conv table_ok_def empty_table_def)

lemma table_unique:
  assumes "table_ok t" "(x, e) \<in> set (rg_routes t)" "(x', e') \<in> set (rg_routes t)" "re_server e = re_server e'"
    and "td_name (re_definition e) = td_name (re_definition e')"
  shows "e = e'"
proof -
  have "entry_ok (x, e)" "entry_ok (x', e')" using assms by (auto simp: table_ok_def list_all_iff)
  with assms(4,5) have "x = x'" by (auto simp: entry_ok_def)
  with assms(1-3) show ?thesis by (auto simp: table_ok_def dest: eq_key_imp_eq_value)
qed

lemma seen_ok_mono: "seen_ok E C st \<Longrightarrow> C \<subseteq> D \<Longrightarrow> seen_ok E D st"
  unfolding seen_ok_def definition_accepted_def by (meson subsetD)

lemma seen_ok_cong: "ms_changes st' = ms_changes st \<Longrightarrow> ms_seen st' = ms_seen st \<Longrightarrow> seen_ok E C st' = seen_ok E C st"
  by (simp add: seen_ok_def)

lemma judge_step:
  assumes "judge_definition (at_client E c) (s, n) fp d tr st = (st', r)"
  shows "ms_changes st' = ms_changes st \<and> ms_seen st' = dict_set (s, n) (fp, r = None) (ms_seen st)
     \<and> (r = None \<longrightarrow> accepted (at_client E c) (definition_text d) SOURCE_TOOL_DEFINITION (ms_turn st))"
  using assms scan_accepted[of "at_client E c" "definition_text d" SOURCE_TOOL_DEFINITION tr "ms_turn st"]
  by (auto simp: judge_definition_def Let_def split: if_splits)

lemma seen_ok_judged:
  assumes "seen_ok E C st" "(x, e) \<in> set (rg_routes (me_routes E))" "td_name (re_definition e) = Some n"
    and "ms_changes st' = ms_changes st" "ms_seen st' = dict_set (re_server e, n) (me_digest E (re_definition e), p) (ms_seen st)"
    and "p \<longrightarrow> definition_accepted E C (re_definition e)"
  shows "seen_ok E C st'"
  using assms unfolding seen_ok_def by auto

lemma definition_step:
  assumes "table_ok (me_routes E)" "seen_ok E C st" "(x, e) \<in> set (rg_routes (me_routes E))" "c \<in> C"
    and "on_tool_definition (at_client E c) (re_server e) (re_definition e) tr st = (st', pub)"
  shows "seen_ok E C st' \<and> (me_enforcing E \<and> sn_tool_definitions (gc_scan (me_config E)) \<and> pub \<longrightarrow> definition_accepted E C (re_definition e))"
proof (cases "me_enforcing E \<and> sn_tool_definitions (gc_scan (me_config E))")
  case False
  then have "st' = st" using assms(5) by (auto simp: on_tool_definition_def inspect_definition_def note_refusal_def split: if_splits)
  with False assms(2) show ?thesis by auto
next
  case True
  have eok: "entry_ok (x, e)" using assms(1,3) by (auto simp: table_ok_def list_all_iff)
  then obtain n where n: "td_name (re_definition e) = Some n" "n \<noteq> []" by (auto simp: entry_ok_def publishable_def)
  define fp where "fp = me_digest E (re_definition e)"
  obtain st1 r where i: "inspect_definition (at_client E c) (re_server e) (re_definition e) tr st = (st1, r)" by (metis surj_pair)
  with assms(5) True have st': "st' = note_refusal r st1" "pub \<longleftrightarrow> r = None" by (auto simp: on_tool_definition_def)
  have "seen_ok E C st1 \<and> (r = None \<longrightarrow> definition_accepted E C (re_definition e))"
  proof (cases "map_of (ms_seen st) (re_server e, n)")
    case None
    then have j: "judge_definition (at_client E c) (re_server e, n) fp (re_definition e) tr st = (st1, r)"
      using i True n by (simp add: inspect_definition_def fp_def)
    note js = judge_step[OF j]
    have acc: "r = None \<longrightarrow> definition_accepted E C (re_definition e)"
      using js assms(4) unfolding definition_accepted_def by blast
    with seen_ok_judged[OF assms(2,3) n(1)] js show ?thesis unfolding fp_def by blast
  next
    case (Some v)
    obtain f p where v: "v = (f, p)" by (cases v)
    from assms(2) Some v obtain x' e' where e': "(x', e') \<in> set (rg_routes (me_routes E))" "re_server e' = re_server e"
      "td_name (re_definition e') = Some n" "f = me_digest E (re_definition e')" "p \<longrightarrow> definition_accepted E C (re_definition e')"
      unfolding seen_ok_def by blast
    have "e' = e" using table_unique[OF assms(1) e'(1) assms(3)] e' n by simp
    with e' have "f = fp" "p \<longrightarrow> definition_accepted E C (re_definition e)" by (simp_all add: fp_def)
    with i True n Some v have "st1 = st" "r = None \<longrightarrow> definition_accepted E C (re_definition e)"
      by (auto simp: inspect_definition_def fp_def Let_def split: if_splits)
    with assms(2) show ?thesis by simp
  qed
  then show ?thesis using st' seen_ok_cong[of st' st1 E C] by (auto simp: note_refusal_def split: option.splits)
qed

lemma list_step:
  assumes "list_entries (at_client E c) traces i es st = (st', tools)" "table_ok (me_routes E)" "seen_ok E C st" "c \<in> C"
    and "set es \<subseteq> set (rg_routes (me_routes E))"
  shows "seen_ok E C st' \<and> (me_enforcing E \<and> sn_tool_definitions (gc_scan (me_config E)) \<longrightarrow>
     (\<forall>d\<in>set tools. \<exists>x e. (x, e) \<in> set es \<and> d = republish (re_definition e) x \<and> definition_accepted E C (re_definition e)))"
  using assms
proof (induction es arbitrary: i st st' tools)
  case (Cons xe es)
  obtain x e where xe: "xe = (x, e)" by (cases xe)
  obtain st1 pub where d: "on_tool_definition (at_client E c) (re_server e) (re_definition e) (traces i) st = (st1, pub)" by (metis surj_pair)
  obtain rest where l: "list_entries (at_client E c) traces (Suc i) es st1 = (st', rest)"
    and tools: "tools = (if pub then republish (re_definition e) x # rest else rest)"
    using Cons.prems(1) d by (auto simp: xe split: prod.splits)
  have m: "(x, e) \<in> set (rg_routes (me_routes E))" "set es \<subseteq> set (rg_routes (me_routes E))" using Cons.prems(5) xe by auto
  note ds = definition_step[OF Cons.prems(2,3) m(1) Cons.prems(4) d]
  note ih = Cons.IH[OF l Cons.prems(2) conjunct1[OF ds] Cons.prems(4) m(2)]
  show ?case
  proof (intro conjI impI ballI)
    show "seen_ok E C st'" using ih by blast
  next
    fix d assume on: "me_enforcing E \<and> sn_tool_definitions (gc_scan (me_config E))" and "d \<in> set tools"
    then consider "pub" "d = republish (re_definition e) x" | "d \<in> set rest" unfolding tools by (auto split: if_splits)
    then show "\<exists>x e. (x, e) \<in> set (xe # es) \<and> d = republish (re_definition e) x \<and> definition_accepted E C (re_definition e)"
    proof cases
      case 1
      with ds on show ?thesis unfolding xe by auto
    next
      case 2
      with ih on have "\<exists>x e. (x, e) \<in> set es \<and> d = republish (re_definition e) x \<and> definition_accepted E C (re_definition e)" by blast
      then show ?thesis by auto
    qed
  qed
qed simp

lemma call_seen:
  "on_call_tool E name args traces st = (st', calls, answer) \<Longrightarrow> ms_changes st' = ms_changes st \<and> ms_seen st' = ms_seen st"
  by (auto simp: on_call_tool_def serve_call_tool_def forward_call_def begin_turn_def note_refusal_def Let_def
      split: option.splits sum.splits prod.splits)

lemma run_seen:
  assumes "mcp_run E st0 cs st" "table_ok (me_routes E)" "seen_ok E C st0"
  shows "seen_ok E (C \<union> set cs) st"
  using assms
proof (induction rule: mcp_run.induct)
  case (listed st0 cs st c traces st' tools)
  have s: "seen_ok E (C \<union> set (c # cs)) (begin_turn st)"
    using seen_ok_mono[OF listed.IH[OF listed.prems], of "C \<union> set (c # cs)"] seen_ok_cong[of "begin_turn st" st]
    by (simp add: begin_turn_def subset_insertI)
  have "list_entries (at_client E c) traces 0 (rg_routes (me_routes E)) (begin_turn st) = (st', tools)"
    using listed.hyps(2) by (simp add: on_list_tools_def)
  from list_step[OF this listed.prems(1) s] show ?case by simp
next
  case (called st0 cs st c name args traces st' calls answer)
  have "seen_ok E (C \<union> set (c # cs)) st" by (rule seen_ok_mono[OF called.IH[OF called.prems]]) auto
  with call_seen[OF called.hyps(2)] seen_ok_cong show ?case by blast
qed simp

lemma initial_seen: "seen_ok E {} initial_state"
  by (simp add: seen_ok_def initial_state_def)

text \<open>The change detection never fires: the listing a gateway serves is the one it read at startup.\<close>

lemma changes_never_recorded:
  "mcp_run E initial_state cs st \<Longrightarrow> table_ok (me_routes E) \<Longrightarrow> ms_changes st = []"
  using run_seen[OF _ _ initial_seen] by (auto simp: seen_ok_def)


section \<open>Concrete requests\<close>

text \<open>An API that refuses one text, and a server that hides text in its metadata.\<close>

definition sample_client :: scan_client where
  "sample_client content source turn = Inr \<lparr>sp_trace_id = None, sp_is_system_error = False, sp_is_blocked = (content = ''poison''),
     sp_is_sanitized = False, sp_sanitized_input = None, sp_primary_reason = Some ''PROMPT_INJECTION''\<rparr>"

definition sample_result :: tool_result where
  "sample_result = \<lparr>tr_content = [(text_block ''hello'')\<lparr>bk_meta := Some (PStr ''hidden'')\<rparr>], tr_structured = None, tr_is_error = False,
     tr_meta = Some (PStr ''hidden'')\<rparr>"

definition sample_env :: mcp_env where
  "sample_env = \<lparr>me_config = sample_config, me_enforcing = True, me_routes = sample_table, me_client = sample_client,
     me_structured_text = (\<lambda>_. Inr ''args''), me_digest = definition_text,
     me_downstream = (\<lambda>server tool args. if tool = ''read'' then Inr sample_result else Inl (RuntimeErr ''gone'')), me_timeout_code = 408\<rparr>"

lemma sample_env_simps [simp]:
  "me_config sample_env = sample_config" "me_enforcing sample_env" "me_routes sample_env = sample_table"
  "sn_results (gc_scan sample_config)" "sn_tool_definitions (gc_scan sample_config)"
  by (simp_all add: sample_env_def sample_config_def default_scan_config_def)

definition sample_traces :: "nat \<Rightarrow> string" where
  "sample_traces n = replicate (Suc n) CHR ''t''"

definition sample_call :: "mcp_state \<times> forwarded \<times> tool_result" where
  "sample_call = on_call_tool sample_env ''web__read'' [(''path'', PStr ''a'')] sample_traces initial_state"

lemma sample_call_value:
  "sample_call = (initial_state\<lparr>ms_turn := 1\<rparr>, [(''web'', ''read'', [(''path'', PStr ''a'')])],
     \<lparr>tr_content = [text_block ''hello''], tr_structured = None, tr_is_error = False, tr_meta = None\<rparr>)"
  by code_simp

theorem load_config_typed_witness: "load_config (Inr []) (\<lambda>_. Inr (config_value sample_config)) = Inr sample_config \<and> wf_config sample_config"
proof -
  have l: "load_config (Inr []) (\<lambda>_. Inr (config_value sample_config)) = Inr sample_config" by (rule sample_loads)
  then have "wf_config sample_config"
    using load_config_typed[of "Inr []" "\<lambda>_. Inr (config_value sample_config)" sample_config sample_config "[]"] by blast
  with l show ?thesis by blast
qed




text \<open>
  An outage while a definition is judged withholds the tool for the rest of the process, and later listings report
  a judgement: the verdict of a failed scan is remembered like one about the content.
\<close>

lemma outage_is_remembered:
  "let (st1, r1) = inspect_definition (at_client sample_env (\<lambda>_ _ _. Inl TimeoutError)) ''web'' (sample_tool ''read'') ''a'' initial_state;
       (st2, r2) = inspect_definition sample_env ''web'' (sample_tool ''read'') ''b'' st1
   in r1 = Some (refuse ''SYSTEM_ERROR'' ''a'' True) \<and> r2 = Some (refuse ''TOOL_DEFINITION_BLOCKED'' ''b'' False)"
  by code_simp

text \<open>A verdict to sanitize that carries no redacted text lets the result through as it is.\<close>

lemma sanitize_without_text_delivers:
  "inspect_result (at_client sample_env (\<lambda>_ _ _. Inr \<lparr>sp_trace_id = None, sp_is_system_error = False, sp_is_blocked = False,
       sp_is_sanitized = True, sp_sanitized_input = None, sp_primary_reason = None\<rparr>)) sample_result ''a'' 1
     = Inr (Inr (without_unscanned_metadata sample_result))"
  by code_simp

text \<open>A published name may end in a line feed, which the name pattern does not exclude.\<close>

lemma name_may_end_in_line_feed: "conforming_tool_name (exposed_name ''web'' (''read'' @ [CHR 0x0A]))"
  by code_simp

end
