(* ===== verification/Provider_Router.thy ===== *)
theory Provider_Router
  imports Py_Value Py_Text
begin

text \<open>
  The model string parser, the provider resolver (\<^verbatim>\<open>engine/proxy/router.py\<close>) and the two provider adapters
  (\<^verbatim>\<open>engine/proxy/providers/openai.py\<close>, \<^verbatim>\<open>ollama.py\<close>). The HTTP client is an argument: what it is asked to send,
  and how the exchange ends.
\<close>

section \<open>JSON on the wire\<close>

text \<open>Values of a request or response body, whose texts are arbitrary Unicode.\<close>

datatype wire = WNull | WBool bool | WInt int | WNum float64 | WText ustr | WList "wire list" | WDict "(ustr \<times> wire) list"

type_synonym message = "(ustr \<times> wire) list"

definition wget :: "message \<Rightarrow> string \<Rightarrow> wire option" where
  "wget d k = map_of d (us k)"

text \<open>\<^verbatim>\<open>v[k]\<close> with a text key, and \<^verbatim>\<open>v[0]\<close>.\<close>

fun item_at :: "wire \<Rightarrow> string \<Rightarrow> wire py" where
  "item_at (WDict d) k = (case wget d k of Some v \<Rightarrow> Inr v | None \<Rightarrow> Inl KeyError)"
| "item_at _ k = Inl TypeError"

fun first_item :: "wire \<Rightarrow> wire py" where
  "first_item (WList (v # _)) = Inr v"
| "first_item (WList []) = Inl (OtherError ''IndexError'')"
| "first_item (WText (c # _)) = Inr (WText [c])"
| "first_item (WText []) = Inl (OtherError ''IndexError'')"
| "first_item (WDict _) = Inl KeyError"
| "first_item _ = Inl TypeError"

section \<open>Model strings\<close>

definition SUPPORTED_PROVIDERS :: "string list" where
  "SUPPORTED_PROVIDERS = [''openai'', ''ollama'', ''custom'']"

definition SLASH :: uchar where
  "SLASH = 47"

definition parse_model_string :: "ustr \<Rightarrow> (ustr \<times> ustr) py" where
  "parse_model_string model =
     (if model = [] \<or> SLASH \<notin> set model then Inl ValueError
      else let provider = strip (takeWhile (\<lambda>c. c \<noteq> SLASH) model);
               model_name = strip (tl (dropWhile (\<lambda>c. c \<noteq> SLASH) model)) in
        if provider = [] then Inl ValueError
        else if model_name = [] then Inl ValueError
        else if provider \<notin> us ` set SUPPORTED_PROVIDERS then Inl ValueError
        else Inr (provider, model_name))"

section \<open>Providers\<close>

text \<open>A row of the provider table.\<close>

record provider_config =
  pc_provider :: string
  pc_base_url :: string
  pc_api_key_enc :: "string option"
  pc_default_model :: string
  pc_timeout_seconds :: int

datatype adapter = OpenAIProxyProvider | OllamaProxyProvider

record provider =
  pv_adapter :: adapter
  pv_api_key :: string
  pv_base_url :: string
  pv_timeout :: int

text \<open>\<^verbatim>\<open>base_url.rstrip("/")\<close>.\<close>

definition rstrip_slash :: "string \<Rightarrow> string" where
  "rstrip_slash s = rev (dropWhile (\<lambda>c. c = CHR ''/'') (rev s))"

definition resolve_provider :: "(string \<Rightarrow> string py) \<Rightarrow> ustr \<Rightarrow> provider_config \<Rightarrow> provider py" where
  "resolve_provider decrypt provider config =
     py_bind (if truthy (pc_api_key_enc config) then py_bind (decrypt (the (pc_api_key_enc config))) (\<lambda>k. Inr (Some k)) else Inr None) (\<lambda>key.
       if provider = us ''openai'' \<or> provider = us ''custom'' then
         (if provider = us ''openai'' \<and> \<not> truthy key then Inl ValueError
          else Inr \<lparr>pv_adapter = OpenAIProxyProvider, pv_api_key = str_or key [], pv_base_url = rstrip_slash (pc_base_url config),
                    pv_timeout = pc_timeout_seconds config\<rparr>)
       else if provider = us ''ollama'' then
         Inr \<lparr>pv_adapter = OllamaProxyProvider, pv_api_key = [], pv_base_url = rstrip_slash (pc_base_url config),
              pv_timeout = pc_timeout_seconds config\<rparr>
       else Inl ValueError)"

text \<open>
  The same from a policy override, whose values are JSON: \<^verbatim>\<open>x or ""\<close>, \<^verbatim>\<open>rstrip\<close> on the value and \<^verbatim>\<open>int\<close> of it. A
  credential that is no text is not modelled (the resolver of policies always yields text).
\<close>

definition json_text :: "json \<Rightarrow> string py" where
  "json_text v = (case v of JStr s \<Rightarrow> Inr s | _ \<Rightarrow> Inl (OtherError ''AttributeError''))"

definition resolve_provider_from_dict :: "ustr \<Rightarrow> jdict \<Rightarrow> provider py" where
  "resolve_provider_from_dict provider d =
     py_bind (case map_of d ''api_key'' of None \<Rightarrow> Inr [] | Some v \<Rightarrow> if json_truthy v then json_text v else Inr []) (\<lambda>api_key.
     py_bind (case map_of d ''timeout_seconds'' of None \<Rightarrow> Inr 60 | Some v \<Rightarrow> json_int v) (\<lambda>timeout.
     let base_url = (case map_of d ''base_url'' of None \<Rightarrow> Inr [] | Some v \<Rightarrow> json_text v) in
       if provider = us ''openai'' \<or> provider = us ''custom'' then
         (if provider = us ''openai'' \<and> api_key = [] then Inl ValueError
          else py_bind base_url (\<lambda>u. Inr \<lparr>pv_adapter = OpenAIProxyProvider, pv_api_key = api_key, pv_base_url = rstrip_slash u, pv_timeout = timeout\<rparr>))
       else if provider = us ''ollama'' then
         py_bind base_url (\<lambda>u. Inr \<lparr>pv_adapter = OllamaProxyProvider, pv_api_key = [], pv_base_url = rstrip_slash u, pv_timeout = timeout\<rparr>)
       else Inl ValueError))"

section \<open>Calls\<close>

record http_request =
  hq_url :: string
  hq_headers :: "(string \<times> string) list"
  hq_payload :: message
  hq_timeout :: int

text \<open>
  How a posted request ends: the time limit, another transport failure, a status outside the success range with
  its retry advice, a body that is JSON or not, or an exception of another class.
\<close>

datatype http_outcome = HTimeout | HTransport | HStatus nat "string option" | HBody "wire py" | HEscape string

record provider_response =
  pr_content :: wire
  pr_model :: wire
  pr_finish_reason :: wire
  pr_latency_ms :: int
  pr_raw :: wire

datatype provider_failure = PTimeout | PTransport | PStatus nat "string option" | PMalformed | PEscape py_exn

definition http_headers :: "provider \<Rightarrow> string \<Rightarrow> (string \<times> string) list" where
  "http_headers pv trace_id =
     (case pv_adapter pv of
        OpenAIProxyProvider \<Rightarrow> [(''Authorization'', ''Bearer '' @ pv_api_key pv), (''Content-Type'', ''application/json'')]
      | OllamaProxyProvider \<Rightarrow> [(''Content-Type'', ''application/json'')])
     @ (if trace_id = [] then [] else [(''X-WrapSec-Trace-Id'', trace_id)])"

definition http_payload :: "provider \<Rightarrow> ustr \<Rightarrow> message list \<Rightarrow> message \<Rightarrow> message" where
  "http_payload pv model messages kwargs =
     (case pv_adapter pv of
        OpenAIProxyProvider \<Rightarrow> dict_update [(us ''model'', WText model), (us ''messages'', WList (map WDict messages))] kwargs
      | OllamaProxyProvider \<Rightarrow> [(us ''model'', WText model), (us ''messages'', WList (map WDict messages)), (us ''stream'', WBool False)])"

definition provider_request :: "provider \<Rightarrow> ustr \<Rightarrow> message list \<Rightarrow> string \<Rightarrow> message \<Rightarrow> http_request" where
  "provider_request pv model messages trace_id kwargs =
     \<lparr>hq_url = pv_base_url pv @ (case pv_adapter pv of OpenAIProxyProvider \<Rightarrow> ''/chat/completions'' | OllamaProxyProvider \<Rightarrow> ''/api/chat''),
      hq_headers = http_headers pv trace_id, hq_payload = http_payload pv model messages kwargs, hq_timeout = pv_timeout pv\<rparr>"

text \<open>\<^verbatim>\<open>d.get(k, default)\<close> on a value already known to be a dictionary.\<close>

definition get_or :: "wire \<Rightarrow> string \<Rightarrow> wire \<Rightarrow> wire" where
  "get_or v k dflt = (case v of WDict d \<Rightarrow> (case wget d k of Some w \<Rightarrow> w | None \<Rightarrow> dflt) | _ \<Rightarrow> dflt)"

definition read_response :: "adapter \<Rightarrow> ustr \<Rightarrow> int \<Rightarrow> wire \<Rightarrow> provider_response py" where
  "read_response a model latency body =
     (case a of
        OpenAIProxyProvider \<Rightarrow>
          py_bind (item_at body ''choices'') (\<lambda>choices.
          py_bind (first_item choices) (\<lambda>choice.
          py_bind (item_at choice ''message'') (\<lambda>msg.
          py_bind (item_at msg ''content'') (\<lambda>content.
            Inr \<lparr>pr_content = content, pr_model = get_or body ''model'' (WText model),
                 pr_finish_reason = get_or choice ''finish_reason'' (WText (us ''stop'')), pr_latency_ms = latency, pr_raw = body\<rparr>))))
      | OllamaProxyProvider \<Rightarrow>
          py_bind (item_at body ''message'') (\<lambda>msg.
          py_bind (item_at msg ''content'') (\<lambda>content.
            Inr \<lparr>pr_content = content, pr_model = WText model, pr_finish_reason = WText (us ''stop''), pr_latency_ms = latency, pr_raw = body\<rparr>)))"

text \<open>
  The exceptions an answer that cannot be read raises, \<^verbatim>\<open>(KeyError, IndexError, TypeError, ValueError)\<close>; any other
  leaves the endpoint.
\<close>

definition malformed :: "py_exn \<Rightarrow> bool" where
  "malformed e \<longleftrightarrow> e \<in> {KeyError, OtherError ''IndexError'', TypeError, ValueError}"

definition chat_completions :: "(http_request \<Rightarrow> http_outcome) \<Rightarrow> (http_request \<Rightarrow> int) \<Rightarrow> provider \<Rightarrow> ustr \<Rightarrow> message list \<Rightarrow>
    string \<Rightarrow> message \<Rightarrow> provider_failure + provider_response" where
  "chat_completions post latency pv model messages trace_id kwargs =
     (let q = provider_request pv model messages trace_id kwargs in
      case post q of
        HTimeout \<Rightarrow> Inl PTimeout
      | HTransport \<Rightarrow> Inl PTransport
      | HStatus n retry \<Rightarrow> Inl (PStatus n retry)
      | HEscape e \<Rightarrow> Inl (PEscape (OtherError e))
      | HBody body \<Rightarrow>
          (case py_bind body (read_response (pv_adapter pv) model (latency q)) of
             Inr r \<Rightarrow> Inr r
           | Inl e \<Rightarrow> Inl (if malformed e then PMalformed else PEscape e)))"

end
