(* ===== verification/Chat_Proxy.thy ===== *)
theory Chat_Proxy
  imports Provider_Router Gateway Policy_Resolver Audit_Chain
begin

text \<open>
  The OpenAI-compatible proxy endpoint (\<^verbatim>\<open>api/v1/endpoints/proxy.py\<close>) and the fan-out over the messages of a
  request (\<^verbatim>\<open>services/gateway/fanout.py\<close>), composed from the gateway service, the policy resolver, the provider
  adapters and the audit writer. Clocks, identifiers, the HTTP client, the configuration query, the rate limiter's
  answer and the outcome of a commit are arguments. Human-readable messages, metrics and log lines are left out.
\<close>

section \<open>Fan-out\<close>

record scan_item =
  si_input :: ustr
  si_input_source :: string
  si_trace_id :: "string option"

text \<open>
  The results in the order of the items, whatever order the scans finish in; \<open>fresh\<close> yields the identifier of an
  item that brings none.
\<close>

definition item_request :: "detection_mode \<Rightarrow> execution_mode \<Rightarrow> request_metadata \<Rightarrow> string \<Rightarrow> scan_item \<Rightarrow> incoming_request" where
  "item_request dmode emode md fresh it =
     \<lparr>rq_input = si_input it, rq_trace_id = mk_trace_id fresh (si_trace_id it), rq_detection_mode = dmode,
      rq_execution_mode = emode, rq_model = None, rq_input_source = Some (us (si_input_source it)), rq_metadata = md,
      rq_stream = False, rq_debug = False\<rparr>"

definition scan_items :: "gw_env \<Rightarrow> gw_args \<Rightarrow> detection_mode \<Rightarrow> execution_mode \<Rightarrow> request_metadata \<Rightarrow> (nat \<Rightarrow> string) \<Rightarrow> scan_item list \<Rightarrow>
    (incoming_request \<times> gateway_result \<times> (string \<times> ustr) list) list" where
  "scan_items G args dmode emode md fresh items =
     map (\<lambda>(i, it). let rq = item_request dmode emode md (fresh i) it in (rq, process G args rq)) (enumerate 0 items)"

section \<open>Messages\<close>

definition SUPPORTED_ROLES :: "string list" where
  "SUPPORTED_ROLES = [''user'', ''assistant'', ''system'']"

text \<open>A role that is a list or a dictionary cannot be looked up in a set.\<close>

definition check_role :: "message \<Rightarrow> unit py" where
  "check_role m = (case wget m ''role'' of
     Some (WText r) \<Rightarrow> if r \<in> us ` set SUPPORTED_ROLES then Inr () else Inl ValueError
   | Some (WList _) \<Rightarrow> Inl TypeError
   | Some (WDict _) \<Rightarrow> Inl TypeError
   | _ \<Rightarrow> Inl ValueError)"

primrec roles_are_supported :: "message list \<Rightarrow> unit py" where
  "roles_are_supported [] = Inr ()"
| "roles_are_supported (m # ms) = py_bind (check_role m) (\<lambda>_. roles_are_supported ms)"

definition ROLE_SOURCES :: "(string \<times> string) list" where
  "ROLE_SOURCES = [(''user'', ''user_prompt''), (''assistant'', ''external_content'')]"

record segment =
  sg_index :: nat
  sg_role :: string
  sg_text :: ustr
  sg_source :: string

definition message_text :: "message \<Rightarrow> ustr" where
  "message_text m = (case wget m ''content'' of Some (WText t) \<Rightarrow> t | _ \<Rightarrow> [])"

definition scannable_roles :: "bool \<Rightarrow> string list" where
  "scannable_roles scan_assistant = (if scan_assistant then map fst ROLE_SOURCES else [''user''])"

definition segment_of :: "bool \<Rightarrow> nat \<times> message \<Rightarrow> segment option" where
  "segment_of scan_assistant = (\<lambda>(i, m).
     case wget m ''role'' of
       Some (WText r) \<Rightarrow>
         (case find (\<lambda>x. us x = r) (scannable_roles scan_assistant) of
            Some role \<Rightarrow> if message_text m = [] then None
              else Some \<lparr>sg_index = i, sg_role = role, sg_text = message_text m, sg_source = the (map_of ROLE_SOURCES role)\<rparr>
          | None \<Rightarrow> None)
     | _ \<Rightarrow> None)"

definition eligible_segments :: "message list \<Rightarrow> bool \<Rightarrow> bool \<Rightarrow> segment list py" where
  "eligible_segments messages scan_all scan_assistant =
     (let segments = List.map_filter (segment_of scan_assistant) (enumerate 0 messages) in
      if segments = [] then Inl ValueError else Inr (if scan_all then segments else [last segments]))"

section \<open>One decision for several messages\<close>

fun DECISION_RANK :: "decision_type \<Rightarrow> nat" where
  "DECISION_RANK ALLOW = 0"
| "DECISION_RANK SANITIZE = 1"
| "DECISION_RANK BLOCK = 2"

type_synonym rank = "nat \<times> float64"

definition rank_less :: "rank \<Rightarrow> rank \<Rightarrow> bool" where
  "rank_less a b \<longleftrightarrow> fst a < fst b \<or> (fst a = fst b \<and> snd a < snd b)"

definition rank_of :: "gateway_result \<Rightarrow> rank" where
  "rank_of r = (DECISION_RANK (gd_decision (gr_decision r)), rs_value (gd_risk_score (gr_decision r)))"

text \<open>\<^verbatim>\<open>max(enumerate(...), key=rank)\<close>: the first of the greatest.\<close>

fun max_index :: "nat \<Rightarrow> rank \<Rightarrow> nat \<Rightarrow> rank list \<Rightarrow> nat" where
  "max_index j b i [] = j"
| "max_index j b i (k # ks) = (if rank_less b k then max_index i k (Suc i) ks else max_index j b (Suc i) ks)"

definition strictest_index :: "gateway_result list \<Rightarrow> nat py" where
  "strictest_index results = (case results of [] \<Rightarrow> Inl ValueError | r # rs \<Rightarrow> Inr (max_index 0 (rank_of r) 1 (map rank_of rs)))"

section \<open>Audit evidence\<close>

fun level_value :: "risk_level \<Rightarrow> string" where
  "level_value CRITICAL = ''CRITICAL''"
| "level_value HIGH = ''HIGH''"
| "level_value MEDIUM = ''MEDIUM''"
| "level_value LOW = ''LOW''"

fun mode_value :: "detection_mode \<Rightarrow> string" where
  "mode_value FAST = ''fast''"
| "mode_value FULL = ''full''"

definition confidence_band_of :: "float64 \<Rightarrow> string" where
  "confidence_band_of c = (if fl (7/10) \<le> c then ''HIGH'' else if fl (4/10) \<le> c then ''MEDIUM'' else ''LOW'')"

definition reason_of :: "gateway_decision \<Rightarrow> string" where
  "reason_of d = if_none (gd_primary_reason d) ''NO_THREAT_DETECTED''"

definition detection_scores_of :: "gateway_decision \<Rightarrow> (string \<times> float64) list" where
  "detection_scores_of d = (case gd_layer_scores d of None \<Rightarrow> []
     | Some s \<Rightarrow> if s = [] then [] else [(''rule'', ls_get s ''rule_score''), (''ml'', ls_get s ''ml_score''), (''llm'', ls_get s ''llm_score'')])"

definition pii_scores_of :: "gateway_decision \<Rightarrow> (string \<times> float64) list" where
  "pii_scores_of d = (case gd_layer_scores d of None \<Rightarrow> [] | Some s \<Rightarrow> if s = [] then [] else [(''pii'', ls_get s ''pii_score'')])"

record evidence =
  ev_trace_id :: string
  ev_decision :: decision_type
  ev_risk_score :: float64
  ev_threats :: "string list"
  ev_primary_reason :: string
  ev_confidence :: float64
  ev_input_length :: nat
  ev_input_source :: "string option"
  ev_detection_scores :: "(string \<times> float64) list"
  ev_guardrail_scores :: "(string \<times> float64) list"
  ev_detection_mode :: string
  ev_llm_invoked :: bool
  ev_latency_ms :: float64

text \<open>The row of one message: \<open>latency\<close> is the rounded duration of its scan.\<close>

definition segment_row :: "segment \<Rightarrow> incoming_request \<Rightarrow> gateway_decision \<Rightarrow> float64 \<Rightarrow> evidence" where
  "segment_row s rq d latency =
     \<lparr>ev_trace_id = rq_trace_id rq, ev_decision = gd_decision d, ev_risk_score = rs_value (gd_risk_score d),
      ev_threats = map threat_value (gd_threats d), ev_primary_reason = str_or (gd_primary_reason d) ''NO_THREAT_DETECTED'',
      ev_confidence = if_none (gd_confidence d) 0, ev_input_length = length (sg_text s), ev_input_source = Some (sg_source s),
      ev_detection_scores = detection_scores_of d, ev_guardrail_scores = pii_scores_of d,
      ev_detection_mode = mode_value (gd_detection_mode d), ev_llm_invoked = gd_llm_invoked d, ev_latency_ms = latency\<rparr>"

definition segment_audit_rows :: "segment list \<Rightarrow> (incoming_request \<times> gateway_result \<times> (string \<times> ustr) list) list \<Rightarrow> (nat \<Rightarrow> float64) \<Rightarrow> evidence list py" where
  "segment_audit_rows segments scanned latencies =
     (if length segments \<noteq> length scanned then Inl ValueError
      else Inr (map (\<lambda>(i, s, rq, r, _). segment_row s rq (gr_decision r) (latencies i)) (enumerate 0 (zip segments scanned))))"

section \<open>Rewriting\<close>

text \<open>\<^verbatim>\<open>messages[i]["content"] = text\<close> for every replacement whose index exists.\<close>

definition apply_sanitized_segments :: "message list \<Rightarrow> (nat \<times> ustr) list \<Rightarrow> message list" where
  "apply_sanitized_segments messages replacements =
     fold (\<lambda>(i, t) ms. if i < length ms then ms[i := dict_set (us ''content'') (WText t) (ms ! i)] else ms) replacements messages"

definition replacements_of :: "segment list \<Rightarrow> gateway_result list \<Rightarrow> (nat \<times> ustr) list" where
  "replacements_of segments results =
     List.map_filter (\<lambda>(s, r). if truthy (gd_sanitized_input (gr_decision r))
        then Some (sg_index s, the (gd_sanitized_input (gr_decision r))) else None) (zip segments results)"

section \<open>Provider failures\<close>

definition PROVIDER_STATUS_MAP :: "(nat \<times> nat \<times> string) list" where
  "PROVIDER_STATUS_MAP = [(429, 429, ''provider_rate_limited''), (401, 502, ''provider_auth_failed''), (403, 502, ''provider_auth_failed''),
     (404, 400, ''provider_model_not_found''), (400, 400, ''provider_rejected_request''), (422, 400, ''provider_rejected_request'')]"

text \<open>Status, code and retry advice; \<open>None\<close> is a failure below HTTP.\<close>

definition map_provider_failure :: "(nat \<times> string option) option \<Rightarrow> nat \<times> string \<times> string option" where
  "map_provider_failure exc = (case exc of
     Some (upstream, retry_after) \<Rightarrow>
       (case map_of PROVIDER_STATUS_MAP upstream of
          Some (status, code) \<Rightarrow> (status, code, retry_after)
        | None \<Rightarrow> if 500 \<le> upstream then (502, ''provider_unavailable'', retry_after) else (502, ''provider_unreachable'', retry_after))
   | None \<Rightarrow> (502, ''provider_unreachable'', None))"

section \<open>Environment, state and answers\<close>

record proxy_settings =
  px_scan_assistant :: bool
  px_max_messages :: nat
  px_storage_mode :: "string option"

record caller =
  cl_principal_type :: "string option"
  cl_key_id :: "string option"
  cl_key_type :: string
  cl_key_name :: "string option"
  cl_tenant_id :: "string option"
  cl_dept_id :: "string option"
  cl_app_id :: "string option"
  cl_ip_address :: "string option"
  cl_user_agent :: "string option"

record chat_headers =
  ch_scan_all :: "string option"
  ch_mode :: "string option"
  ch_inline :: "string option"

record chat_request =
  cr_model :: "ustr option"
  cr_messages :: "message list"
  cr_temperature :: "float64 option"
  cr_max_tokens :: "int option"
  cr_top_p :: "float64 option"

record proxy_env =
  pe_settings :: proxy_settings
  pe_gateway :: gw_env
  pe_trace :: string
  pe_policy :: "string option \<Rightarrow> string option \<Rightarrow> string option \<Rightarrow> policy_error + (jdict \<times> string)"
  pe_config :: "string option \<Rightarrow> provider_config option py"
  pe_decrypt :: "string \<Rightarrow> string py"
  pe_limited :: "nat \<Rightarrow> bool"
  pe_post :: "http_request \<Rightarrow> http_outcome"
  pe_provider_ms :: "http_request \<Rightarrow> int"
  pe_item_ms :: "nat \<Rightarrow> float64"
  pe_scan_ms :: int
  pe_guard_ms :: int
  pe_total_ms :: int
  pe_uuid :: "string \<Rightarrow> string py"
  pe_commit :: "unit py"
  pe_interaction_id :: string
  pe_audit_write :: "unit py"
  pe_digest :: digest_lib
  pe_now :: rat

text \<open>A row of the interaction table; identifiers are kept as text.\<close>

record interaction =
  in_trace_id :: string
  in_key_id :: "string option"
  in_tenant_id :: "string option"
  in_dept_id :: "string option"
  in_app_id :: "string option"
  in_input_raw :: "ustr option"
  in_input_sanitized :: "ustr option"
  in_input_decision :: decision_type
  in_input_reason :: string
  in_input_confidence :: float64
  in_input_threats :: "string list"
  in_input_attack_type :: "string option"
  in_provider :: "ustr option"
  in_model :: "ustr option"
  in_provider_ms :: "int option"
  in_input_scan_ms :: int
  in_output_scan_ms :: "int option"
  in_status :: string
  in_output_raw :: "ustr option"
  in_output_sanitized :: "ustr option"
  in_output_decision :: "decision_type option"
  in_output_reason :: "string option"
  in_output_confidence :: "float64 option"
  in_output_threats :: "string list option"
  in_total_ms :: int

record proxy_db =
  db_interactions :: "interaction list"
  db_audit :: "row list"

section \<open>Persistence\<close>

text \<open>What \<^verbatim>\<open>data_storage_mode\<close> lets a row keep: any value but \<^verbatim>\<open>full\<close> drops the raw texts.\<close>

definition apply_storage_mode :: "string option \<Rightarrow> interaction \<Rightarrow> interaction" where
  "apply_storage_mode setting ix =
     (let mode = lower_ascii (str_or setting ''masked'') in
      if mode = ''none'' then ix\<lparr>in_input_raw := None, in_input_sanitized := None, in_output_raw := None, in_output_sanitized := None\<rparr>
      else if mode = ''full'' then ix
      else ix\<lparr>in_input_raw := None, in_output_raw := None\<rparr>)"

definition opt_uuid :: "(string \<Rightarrow> string py) \<Rightarrow> string option \<Rightarrow> string option py" where
  "opt_uuid f v = (if truthy v then py_bind (f (the v)) (\<lambda>u. Inr (Some u)) else Inr None)"

definition floats_value :: "(string \<times> float64) list \<Rightarrow> pyval" where
  "floats_value d = PDict (map (\<lambda>(k, v). (k, PFloat v)) d)"

definition audit_row :: "proxy_env \<Rightarrow> caller \<Rightarrow> string \<Rightarrow> evidence \<Rightarrow> row" where
  "audit_row E c source ev =
     [(''trace_id'', PStr (ev_trace_id ev)), (''decision'', PStr (decision_value (ev_decision ev))),
      (''risk_score'', PFloat (ev_risk_score ev)), (''threats'', PList (map PStr (ev_threats ev))),
      (''input_hash'', PStr (''proxy:'' @ ev_trace_id ev)), (''detection_mode'', PStr (ev_detection_mode ev)),
      (''execution_mode'', PStr ''proxy''), (''llm_invoked'', PBool (ev_llm_invoked ev)),
      (''latency_ms'', PFloat (ev_latency_ms ev)), (''detection_scores'', floats_value (ev_detection_scores ev)),
      (''guardrail_scores'', floats_value (ev_guardrail_scores ev)), (''key_id'', of_opt_str (cl_key_id c)),
      (''primary_reason'', PStr (ev_primary_reason ev)), (''confidence'', PFloat (ev_confidence ev)),
      (''confidence_band'', PStr (confidence_band_of (ev_confidence ev))), (''input_length'', PInt (int (ev_input_length ev))),
      (''tenant_id'', of_opt_str (cl_tenant_id c)), (''dept_id'', of_opt_str (cl_dept_id c)), (''app_id'', of_opt_str (cl_app_id c)),
      (''source'', PStr source), (''ip_address'', of_opt_str (cl_ip_address c)), (''user_agent'', of_opt_str (cl_user_agent c)),
      (''severity'', PStr (level_value (compute_severity (ev_decision ev) (ev_risk_score ev) (Some (ev_primary_reason ev))))),
      (''proxy_interaction_id'', PUuid (pe_interaction_id E))]
     @ (case ev_input_source ev of Some s \<Rightarrow> [(''input_source'', PStr s)] | None \<Rightarrow> [])"

text \<open>The row that stands for a request without evidence of its messages.\<close>

definition aggregate_evidence :: "interaction \<Rightarrow> float64 \<Rightarrow> (string \<times> float64) list \<Rightarrow> (string \<times> float64) list \<Rightarrow> nat \<Rightarrow> evidence" where
  "aggregate_evidence ix risk det grd len =
     \<lparr>ev_trace_id = in_trace_id ix, ev_decision = in_input_decision ix, ev_risk_score = risk, ev_threats = in_input_threats ix,
      ev_primary_reason = in_input_reason ix, ev_confidence = in_input_confidence ix, ev_input_length = len, ev_input_source = None,
      ev_detection_scores = det, ev_guardrail_scores = grd, ev_detection_mode = ''fast'', ev_llm_invoked = False,
      ev_latency_ms = fl (of_int (in_total_ms ix))\<rparr>"

text \<open>
  \<^verbatim>\<open>_log_interaction\<close> never raises: an identifier that is no UUID or a failing commit leaves nothing, a failing
  batch of audit rows leaves the interaction alone.
\<close>

definition log_interaction :: "proxy_env \<Rightarrow> caller \<Rightarrow> string \<Rightarrow> interaction \<Rightarrow> evidence list \<Rightarrow> evidence \<Rightarrow> proxy_db \<Rightarrow> proxy_db" where
  "log_interaction E c source ix rows aggregate db =
     (case py_bind (opt_uuid (pe_uuid E) (cl_tenant_id c)) (\<lambda>t. py_bind (opt_uuid (pe_uuid E) (cl_dept_id c)) (\<lambda>d.
           py_bind (opt_uuid (pe_uuid E) (cl_app_id c)) (\<lambda>a. py_bind (pe_commit E) (\<lambda>_. Inr (t, d, a))))) of
        Inl _ \<Rightarrow> db
      | Inr (t, d, a) \<Rightarrow>
          let stored = (apply_storage_mode (px_storage_mode (pe_settings E)) ix)\<lparr>in_tenant_id := t, in_dept_id := d, in_app_id := a\<rparr>;
              db1 = db\<lparr>db_interactions := db_interactions db @ [stored]\<rparr>;
              audit_rows = map (audit_row E c source) (if rows = [] then [aggregate] else rows)
          in (case py_bind (pe_audit_write E) (\<lambda>_. create_many (pe_digest E) (pe_now E) audit_rows (db_audit db)) of
                Inl _ \<Rightarrow> db1
              | Inr table \<Rightarrow> db1\<lparr>db_audit := table\<rparr>))"

section \<open>Planning a request\<close>

text \<open>How a request ends before anything is scanned: a refusal with status, type and code, or an exception.\<close>

datatype early_stop = Refuse nat string string | Escape policy_error

abbreviation invalid_request :: "string \<Rightarrow> early_stop" where
  "invalid_request code \<equiv> Refuse 400 ''invalid_request_error'' code"

definition and_then :: "'e + 'a \<Rightarrow> ('a \<Rightarrow> 'e + 'b) \<Rightarrow> 'e + 'b" where
  "and_then m f = (case m of Inl e \<Rightarrow> Inl e | Inr x \<Rightarrow> f x)"

lemma and_then_Inr: "and_then m f = Inr y \<longleftrightarrow> (\<exists>x. m = Inr x \<and> f x = Inr y)"
  by (cases m) (auto simp: and_then_def)

definition escaping :: "'a py \<Rightarrow> early_stop + 'a" where
  "escaping m = (case m of Inl e \<Rightarrow> Inl (Escape (Raised e)) | Inr x \<Rightarrow> Inr x)"

text \<open>\<^verbatim>\<open>except ValueError\<close> with a refusal.\<close>

definition refuse_value_error :: "'a py \<Rightarrow> string \<Rightarrow> early_stop + 'a" where
  "refuse_value_error m code = (case m of Inl ValueError \<Rightarrow> Inl (invalid_request code) | _ \<Rightarrow> escaping m)"

definition requested_model :: "chat_request \<Rightarrow> early_stop + (ustr \<times> ustr) option" where
  "requested_model q = (case cr_model q of
     None \<Rightarrow> Inr None
   | Some m \<Rightarrow> and_then (refuse_value_error (parse_model_string m) ''invalid_model_format'') (\<lambda>pm. Inr (Some pm)))"

text \<open>Where the provider is configured: a row of the tenant or, if the policy has one, its override.\<close>

datatype provider_origin = Stored provider_config | Override json

definition provider_source :: "proxy_env \<Rightarrow> caller \<Rightarrow> jdict \<Rightarrow> early_stop + provider_origin" where
  "provider_source E c policy =
     (let dept_cfg = if_none (map_of policy ''proxy_provider'') JNull in
      if json_truthy dept_cfg then Inr (Override dept_cfg)
      else and_then (escaping (pe_config E (cl_tenant_id c))) (\<lambda>config.
        case config of Some r \<Rightarrow> Inr (Stored r) | None \<Rightarrow> Inl (invalid_request ''proxy_not_configured'')))"

text \<open>\<^verbatim>\<open>(dept_proxy_cfg or {}).get(key)\<close>.\<close>

definition override_get :: "json \<Rightarrow> string \<Rightarrow> json py" where
  "override_get v k = (case v of JObj d \<Rightarrow> Inr (if_none (map_of d k) JNull) | _ \<Rightarrow> Inl (OtherError ''AttributeError''))"

definition default_model :: "provider_origin \<Rightarrow> json py" where
  "default_model src = (case src of Stored r \<Rightarrow> Inr (JStr (pc_default_model r)) | Override v \<Rightarrow> override_get v ''default_model'')"

definition configured_provider :: "provider_origin \<Rightarrow> json py" where
  "configured_provider src = (case src of Stored r \<Rightarrow> Inr (JStr (pc_provider r)) | Override v \<Rightarrow> override_get v ''provider'')"

text \<open>\<^verbatim>\<open>parse_model_string\<close> on a truthy JSON value: \<^verbatim>\<open>"/" in model\<close> on a container looks at its members.\<close>

definition parse_json_model :: "json \<Rightarrow> (ustr \<times> ustr) py" where
  "parse_json_model v = (case v of
     JStr s \<Rightarrow> parse_model_string (us s)
   | JList l \<Rightarrow> if JStr ''/'' \<in> set l then Inl (OtherError ''AttributeError'') else Inl ValueError
   | JObj d \<Rightarrow> if ''/'' \<in> fst ` set d then Inl (OtherError ''AttributeError'') else Inl ValueError
   | _ \<Rightarrow> Inl TypeError)"

definition effective_model :: "provider_origin \<Rightarrow> (ustr \<times> ustr) option \<Rightarrow> early_stop + (ustr \<times> ustr)" where
  "effective_model src requested = (case requested of
     Some pm \<Rightarrow> Inr pm
   | None \<Rightarrow> and_then (escaping (default_model src)) (\<lambda>m.
       if \<not> json_truthy m then Inl (invalid_request ''model_required'')
       else refuse_value_error (parse_json_model m) ''invalid_model_format''))"

definition check_provider :: "provider_origin \<Rightarrow> ustr \<Rightarrow> early_stop + unit" where
  "check_provider src provider_name =
     and_then (escaping (configured_provider src)) (\<lambda>p.
       if json_truthy p \<and> provider_name \<noteq> [] \<and> (case p of JStr s \<Rightarrow> us s \<noteq> provider_name | _ \<Rightarrow> True)
       then Inl (invalid_request ''provider_mismatch'') else Inr ())"

definition header_true :: "string option \<Rightarrow> bool" where
  "header_true v \<longleftrightarrow> lower_ascii (if_none v ''false'') = ''true''"

definition header_mode :: "string option \<Rightarrow> detection_mode" where
  "header_mode v = (if lower_ascii (if_none v ''fast'') = ''full'' then FULL else FAST)"

record plan =
  pl_source :: provider_origin
  pl_provider :: ustr
  pl_model :: ustr
  pl_policy :: jdict
  pl_mode :: detection_mode
  pl_segments :: "segment list"

text \<open>
  Steps 0 to 5 in their order: the kind of key, the model string, the policy, the provider configuration, the
  messages to scan, their number, and the extra units they cost.
\<close>

definition plan_request :: "proxy_env \<Rightarrow> caller \<Rightarrow> chat_headers \<Rightarrow> chat_request \<Rightarrow> early_stop + plan" where
  "plan_request E c h q =
     (if cl_key_type c = ''trial'' then Inl (Refuse 403 ''forbidden'' ''trial_proxy_disabled'')
      else and_then (requested_model q) (\<lambda>requested.
        and_then (case pe_policy E (cl_tenant_id c) (cl_dept_id c) (cl_app_id c) of Inl e \<Rightarrow> Inl (Escape e) | Inr (p, _) \<Rightarrow> Inr p) (\<lambda>policy.
        and_then (provider_source E c policy) (\<lambda>src.
        and_then (effective_model src requested) (\<lambda>(provider_name, model_name).
        and_then (check_provider src provider_name) (\<lambda>_.
        and_then (refuse_value_error (eligible_segments (cr_messages q) (header_true (ch_scan_all h)) (px_scan_assistant (pe_settings E)))
          ''invalid_messages'') (\<lambda>segments.
        if px_max_messages (pe_settings E) < length segments then Inl (invalid_request ''too_many_messages'')
        else if pe_limited E (length segments) then Inl (Escape (Raised (OtherError ''RateLimitError'')))
        else Inr \<lparr>pl_source = src, pl_provider = provider_name, pl_model = model_name, pl_policy = policy,
                  pl_mode = header_mode (ch_mode h), pl_segments = segments\<rparr>)))))))"

section \<open>Detection\<close>

text \<open>\<^verbatim>\<open>d.get(k, {})\<close> on a JSON value, and a threshold that may be absent.\<close>

definition section_of :: "json \<Rightarrow> string \<Rightarrow> json py" where
  "section_of v k = (case v of JObj d \<Rightarrow> Inr (if_none (map_of d k) (JObj [])) | _ \<Rightarrow> Inl (OtherError ''AttributeError''))"

definition threshold_in :: "json \<Rightarrow> string \<Rightarrow> float64 option py" where
  "threshold_in v k = py_bind (override_get v k) (\<lambda>x. if x = JNull then Inr None else py_bind (as_num x) (\<lambda>n. Inr (Some n)))"

text \<open>
  The detection policy of one request. A guardrail threshold that is no number makes every scan a system error in
  the code and an exception here.
\<close>

definition detection_args :: "jdict \<Rightarrow> detection_mode \<Rightarrow> gw_args py" where
  "detection_args policy dmode =
     py_bind (section_of (JObj policy) ''guardrails'') (\<lambda>guardrails.
     py_bind (section_of guardrails ''pii'') (\<lambda>pii.
     py_bind (section_of guardrails ''toxicity'') (\<lambda>tox.
     py_bind (get2 policy ''thresholds'' ''block'') (\<lambda>block.
     py_bind (get2 policy ''thresholds'' ''sanitize'') (\<lambda>sanitize.
     py_bind (as_num block) (\<lambda>b. py_bind (as_num sanitize) (\<lambda>s.
     py_bind (threshold_in pii ''block_threshold'') (\<lambda>pb. py_bind (threshold_in pii ''sanitize_threshold'') (\<lambda>ps.
     py_bind (threshold_in tox ''block_threshold'') (\<lambda>tb.
     py_bind (get2 policy ''detection'' ''rule_enabled'') (\<lambda>rule.
     py_bind (get2 policy ''detection'' ''ml_enabled'') (\<lambda>ml.
     py_bind (if dmode = FULL then get2 policy ''detection'' ''llm_enabled'' else Inr (JBool False)) (\<lambda>llm.
     py_bind (get1 policy ''llm'') (\<lambda>llm_settings.
       Inr \<lparr>ga_block_threshold = Some b, ga_sanitize_threshold = Some s, ga_pii_block_threshold = pb, ga_pii_sanitize_threshold = ps,
            ga_toxicity_block_threshold = tb, ga_rule_enabled = json_truthy rule, ga_ml_enabled = json_truthy ml,
            ga_llm_enabled = json_truthy llm,
            ga_llm_settings_model = (case llm_settings of JObj d \<Rightarrow> (case map_of d ''model'' of Some (JStr m) \<Rightarrow> Some m | _ \<Rightarrow> None) | _ \<Rightarrow> None)\<rparr>))))))))))))))"

definition dec_string :: "nat \<Rightarrow> string" where
  "dec_string n = map char_of (str_nat n)"

definition segment_item :: "string \<Rightarrow> segment \<Rightarrow> scan_item" where
  "segment_item trace_id s = \<lparr>si_input = sg_text s, si_input_source = sg_source s, si_trace_id = Some (trace_id @ ''-'' @ dec_string (sg_index s))\<rparr>"

record input_verdict =
  iv_decision :: decision_type
  iv_reason :: string
  iv_confidence :: float64
  iv_threats :: "string list"
  iv_sanitized :: "ustr option"
  iv_risk_score :: float64
  iv_detection_scores :: "(string \<times> float64) list"
  iv_guardrail_scores :: "(string \<times> float64) list"
  iv_scan_input :: ustr
  iv_rows :: "evidence list"
  iv_results :: "gateway_result list"

text \<open>
  Step 6: every selected message is scanned on its own and the strictest result decides. The engine's decisions
  are the three the endpoint knows, so its refusal of an unknown fourth one has no counterpart here.
\<close>

definition judge_input :: "proxy_env \<Rightarrow> caller \<Rightarrow> plan \<Rightarrow> input_verdict py" where
  "judge_input E c pl =
     py_bind (detection_args (pl_policy pl) (pl_mode pl)) (\<lambda>args.
     let segments = pl_segments pl;
         scanned = scan_items (pe_gateway E) args (pl_mode pl) SCAN_ONLY \<lparr>md_tenant_id = cl_tenant_id c, md_source = None, md_user_id = None\<rparr>
           (\<lambda>_. pe_trace E) (map (segment_item (pe_trace E)) segments);
         results = map (\<lambda>x. fst (snd x)) scanned in
     py_bind (strictest_index results) (\<lambda>winner.
     py_bind (segment_audit_rows segments scanned (pe_item_ms E)) (\<lambda>rows.
     let d = gr_decision (results ! winner) in
       Inr \<lparr>iv_decision = gd_decision d, iv_reason = reason_of d, iv_confidence = if_none (gd_confidence d) 0,
            iv_threats = map threat_value (gd_threats d), iv_sanitized = gd_sanitized_input d, iv_risk_score = rs_value (gd_risk_score d),
            iv_detection_scores = detection_scores_of d,
            iv_guardrail_scores = pii_scores_of d @ (case gd_layer_scores d of
               Some s \<Rightarrow> if s \<noteq> [] \<and> 0 < ls_get s ''toxicity_score'' then [(''toxicity'', ls_get s ''toxicity_score'')] else [] | None \<Rightarrow> []),
            iv_scan_input = sg_text (segments ! winner), iv_rows = rows, iv_results = results\<rparr>)))"

section \<open>Answers\<close>

record wrapsec_headers =
  wh_trace_id :: string
  wh_input_decision :: decision_type
  wh_input_reason :: string
  wh_input_confidence :: float64
  wh_input_sanitized :: bool
  wh_output_decision :: string
  wh_output_sanitized :: bool
  wh_status :: string
  wh_provider :: ustr
  wh_model :: ustr
  wh_latency_ms :: int

record inline_meta =
  im_decision :: decision_type
  im_input_reason :: string
  im_input_confidence :: float64
  im_input_sanitized :: bool
  im_output_decision :: decision_type
  im_output_sanitized :: bool
  im_status :: string
  im_provider :: ustr
  im_model :: wire
  im_total_ms :: int

record completion =
  cp_content :: "ustr option"
  cp_model :: wire
  cp_finish_reason :: wire
  cp_usage :: "message option"
  cp_meta :: "inline_meta option"

datatype chat_answer = CatalogRefusal string | Refusal nat string string | ChatFailure nat string string wrapsec_headers "string option"
  | Completion completion wrapsec_headers | Unhandled policy_error | Unprocessable

text \<open>The new state, the requests that left for a provider, the webhook events that run after the answer, and the answer.\<close>

record chat_run =
  ru_db :: proxy_db
  ru_calls :: "http_request list"
  ru_events :: "row list"
  ru_answer :: chat_answer

definition build_headers_of :: "proxy_env \<Rightarrow> input_verdict \<Rightarrow> bool \<Rightarrow> decision_type option \<Rightarrow> bool \<Rightarrow> string \<Rightarrow> (ustr \<times> ustr) option \<Rightarrow> wrapsec_headers" where
  "build_headers_of E iv input_sanitized output_decision output_sanitized status target =
     \<lparr>wh_trace_id = pe_trace E, wh_input_decision = iv_decision iv, wh_input_reason = iv_reason iv,
      wh_input_confidence = round4 (iv_confidence iv), wh_input_sanitized = input_sanitized,
      wh_output_decision = (case output_decision of Some d \<Rightarrow> decision_value d | None \<Rightarrow> ''N/A''), wh_output_sanitized = output_sanitized,
      wh_status = status, wh_provider = str_or (map_option fst target) (us ''N/A''), wh_model = str_or (map_option snd target) (us ''N/A''),
      wh_latency_ms = pe_total_ms E\<rparr>"

definition proxy_audit_dict :: "proxy_env \<Rightarrow> caller \<Rightarrow> plan \<Rightarrow> input_verdict \<Rightarrow> row" where
  "proxy_audit_dict E c pl iv =
     [(''trace_id'', PStr (pe_trace E)), (''tenant_id'', of_opt_str (cl_tenant_id c)), (''decision'', PStr (decision_value (iv_decision iv))),
      (''risk_score'', PFloat (iv_risk_score iv)), (''primary_reason'', PStr (iv_reason iv)), (''confidence'', PFloat (iv_confidence iv)),
      (''confidence_band'', PStr (confidence_band_of (iv_confidence iv))), (''threats'', PList (map PStr (iv_threats iv))),
      (''detection_mode'', PStr (mode_value (pl_mode pl))), (''execution_mode'', PStr ''proxy''), (''source'', PStr ''proxy''),
      (''key_id'', of_opt_str (cl_key_id c)),
      (''severity'', PStr (level_value (compute_severity (iv_decision iv) (iv_risk_score iv) (Some (iv_reason iv)))))]"

text \<open>The interaction of a request whose input was judged, before anything is known of a provider.\<close>

definition input_interaction :: "proxy_env \<Rightarrow> caller \<Rightarrow> input_verdict \<Rightarrow> interaction" where
  "input_interaction E c iv =
     \<lparr>in_trace_id = pe_trace E, in_key_id = cl_key_id c, in_tenant_id = cl_tenant_id c, in_dept_id = cl_dept_id c, in_app_id = cl_app_id c,
      in_input_raw = Some (iv_scan_input iv), in_input_sanitized = iv_sanitized iv, in_input_decision = iv_decision iv,
      in_input_reason = iv_reason iv, in_input_confidence = iv_confidence iv, in_input_threats = iv_threats iv,
      in_input_attack_type = (case iv_threats iv of [] \<Rightarrow> None | x # _ \<Rightarrow> Some x), in_provider = None, in_model = None,
      in_provider_ms = None, in_input_scan_ms = pe_scan_ms E, in_output_scan_ms = None, in_status = ''FAILED'', in_output_raw = None,
      in_output_sanitized = None, in_output_decision = None, in_output_reason = None, in_output_confidence = None,
      in_output_threats = None, in_total_ms = pe_total_ms E\<rparr>"

definition record_run :: "proxy_env \<Rightarrow> caller \<Rightarrow> input_verdict \<Rightarrow> interaction \<Rightarrow> proxy_db \<Rightarrow> proxy_db" where
  "record_run E c iv ix = log_interaction E c (str_or (cl_key_name c) ''proxy'') ix (iv_rows iv)
     (aggregate_evidence ix (iv_risk_score iv) (iv_detection_scores iv) (iv_guardrail_scores iv) (length (iv_scan_input iv)))"

section \<open>Serving\<close>

definition refuse_input :: "proxy_env \<Rightarrow> caller \<Rightarrow> input_verdict \<Rightarrow> proxy_db \<Rightarrow> proxy_db \<times> chat_answer" where
  "refuse_input E c iv db =
     (record_run E c iv ((input_interaction E c iv)\<lparr>in_input_sanitized := None, in_status := ''BLOCKED''\<rparr>) db,
      ChatFailure 400 ''invalid_request_error'' ''input_blocked'' (build_headers_of E iv False None False ''BLOCKED'' None) None)"

definition fail_provider :: "proxy_env \<Rightarrow> caller \<Rightarrow> plan \<Rightarrow> input_verdict \<Rightarrow> proxy_db \<Rightarrow> string \<Rightarrow> nat \<times> string \<times> string option \<Rightarrow> proxy_db \<times> chat_answer" where
  "fail_provider E c pl iv db status = (\<lambda>(http, code, retry_after).
     (record_run E c iv ((input_interaction E c iv)\<lparr>in_provider := Some (pl_provider pl), in_model := Some (pl_model pl), in_status := status\<rparr>) db,
      ChatFailure http ''provider_error'' code
        (build_headers_of E iv (iv_decision iv = SANITIZE) None False status (Some (pl_provider pl, pl_model pl)))
        (if truthy retry_after then retry_after else None)))"

definition guarded_interaction :: "proxy_env \<Rightarrow> caller \<Rightarrow> plan \<Rightarrow> input_verdict \<Rightarrow> provider_response \<Rightarrow> ustr \<Rightarrow> output_guard_result \<Rightarrow> string \<Rightarrow> interaction" where
  "guarded_interaction E c pl iv resp raw og status =
     (input_interaction E c iv)\<lparr>in_provider := Some (pl_provider pl), in_model := Some (pl_model pl),
        in_provider_ms := Some (pr_latency_ms resp), in_output_scan_ms := Some (pe_guard_ms E), in_status := status, in_output_raw := Some raw,
        in_output_sanitized := (if og_decision og = SANITIZE then og_sanitized_text og else None),
        in_output_decision := Some (og_decision og), in_output_reason := Some (og_primary_reason og),
        in_output_confidence := Some (og_confidence og), in_output_threats := Some (og_threats og)\<rparr>"

definition usage_of :: "wire \<Rightarrow> message option" where
  "usage_of raw = (case raw of WDict d \<Rightarrow> (case wget d ''usage'' of Some (WDict u) \<Rightarrow> Some u | _ \<Rightarrow> None) | _ \<Rightarrow> None)"

definition complete_chat :: "proxy_env \<Rightarrow> chat_headers \<Rightarrow> plan \<Rightarrow> input_verdict \<Rightarrow> provider_response \<Rightarrow> ustr \<Rightarrow> output_guard_result \<Rightarrow> chat_answer" where
  "complete_chat E h pl iv resp raw og =
     Completion \<lparr>cp_content = (if og_decision og = SANITIZE then og_sanitized_text og else Some raw), cp_model = pr_model resp,
        cp_finish_reason = pr_finish_reason resp, cp_usage = usage_of (pr_raw resp),
        cp_meta = (if header_true (ch_inline h)
          then Some \<lparr>im_decision = iv_decision iv, im_input_reason = iv_reason iv, im_input_confidence = round4 (iv_confidence iv),
                 im_input_sanitized = (iv_decision iv = SANITIZE), im_output_decision = og_decision og,
                 im_output_sanitized = (og_decision og = SANITIZE), im_status = ''SUCCESS'', im_provider = pl_provider pl,
                 im_model = pr_model resp, im_total_ms = pe_total_ms E\<rparr>
          else None)\<rparr>
       (build_headers_of E iv (iv_decision iv = SANITIZE) (Some (og_decision og)) (og_decision og = SANITIZE) ''SUCCESS''
          (Some (pl_provider pl, pl_model pl)))"

text \<open>Steps 9 to 13: only text can be inspected, and only inspected text is released.\<close>

definition deliver :: "proxy_env \<Rightarrow> caller \<Rightarrow> chat_headers \<Rightarrow> plan \<Rightarrow> input_verdict \<Rightarrow> provider_response \<Rightarrow> proxy_db \<Rightarrow> proxy_db \<times> chat_answer" where
  "deliver E c h pl iv resp db = (case pr_content resp of
     WText raw \<Rightarrow>
       (case ge_output_guard (pe_gateway E) raw of
          Inl e \<Rightarrow> (db, Unhandled (Raised e))
        | Inr og \<Rightarrow>
            if og_decision og = BLOCK
            then (record_run E c iv ((guarded_interaction E c pl iv resp raw og ''OUTPUT_BLOCKED'')\<lparr>in_output_sanitized := None\<rparr>) db,
                  ChatFailure 400 ''policy_violation'' ''output_blocked''
                    (build_headers_of E iv (iv_decision iv = SANITIZE) (Some (og_decision og)) False ''OUTPUT_BLOCKED''
                       (Some (pl_provider pl, pl_model pl))) None)
            else (record_run E c iv (guarded_interaction E c pl iv resp raw og ''SUCCESS'') db, complete_chat E h pl iv resp raw og))
   | _ \<Rightarrow> fail_provider E c pl iv db ''FAILED'' (502, ''provider_response_unsupported'', None))"

definition provider_of :: "proxy_env \<Rightarrow> plan \<Rightarrow> provider py" where
  "provider_of E pl = (case pl_source pl of
     Stored config \<Rightarrow> resolve_provider (pe_decrypt E) (pl_provider pl) config
   | Override v \<Rightarrow> (case v of JObj d \<Rightarrow> resolve_provider_from_dict (pl_provider pl) d | _ \<Rightarrow> Inl (OtherError ''AttributeError'')))"

definition request_kwargs :: "chat_request \<Rightarrow> message" where
  "request_kwargs q =
     (case cr_temperature q of Some x \<Rightarrow> [(us ''temperature'', WNum x)] | None \<Rightarrow> [])
     @ (case cr_max_tokens q of Some n \<Rightarrow> [(us ''max_tokens'', WInt n)] | None \<Rightarrow> [])
     @ (case cr_top_p q of Some x \<Rightarrow> [(us ''top_p'', WNum x)] | None \<Rightarrow> [])"

definition forwarded_messages :: "chat_request \<Rightarrow> plan \<Rightarrow> input_verdict \<Rightarrow> message list" where
  "forwarded_messages q pl iv = apply_sanitized_segments (cr_messages q) (replacements_of (pl_segments pl) (iv_results iv))"

text \<open>Step 8: the call, and what each way it can end becomes.\<close>

definition call_provider :: "proxy_env \<Rightarrow> caller \<Rightarrow> chat_headers \<Rightarrow> chat_request \<Rightarrow> plan \<Rightarrow> input_verdict \<Rightarrow> provider \<Rightarrow> proxy_db \<Rightarrow> proxy_db \<times> chat_answer" where
  "call_provider E c h q pl iv pv db =
     (case chat_completions (pe_post E) (pe_provider_ms E) pv (pl_model pl) (forwarded_messages q pl iv) (pe_trace E) (request_kwargs q) of
        Inl PTimeout \<Rightarrow> fail_provider E c pl iv db ''TIMEOUT'' (504, ''provider_timeout'', None)
      | Inl PMalformed \<Rightarrow> fail_provider E c pl iv db ''FAILED'' (502, ''provider_malformed_response'', None)
      | Inl PTransport \<Rightarrow> fail_provider E c pl iv db ''FAILED'' (map_provider_failure None)
      | Inl (PStatus n retry) \<Rightarrow> fail_provider E c pl iv db ''FAILED'' (map_provider_failure (Some (n, retry)))
      | Inl (PEscape e) \<Rightarrow> (db, Unhandled (Raised e))
      | Inr resp \<Rightarrow> deliver E c h pl iv resp db)"

text \<open>An exception that leaves the endpoint takes the scheduled webhook event with it.\<close>

definition finish_run :: "row \<Rightarrow> http_request list \<Rightarrow> proxy_db \<times> chat_answer \<Rightarrow> chat_run" where
  "finish_run event calls = (\<lambda>(db, answer).
     \<lparr>ru_db = db, ru_calls = calls, ru_events = (case answer of Unhandled _ \<Rightarrow> [] | _ \<Rightarrow> [event]), ru_answer = answer\<rparr>)"

definition serve_judged :: "proxy_env \<Rightarrow> caller \<Rightarrow> chat_headers \<Rightarrow> chat_request \<Rightarrow> plan \<Rightarrow> input_verdict \<Rightarrow> proxy_db \<Rightarrow> chat_run" where
  "serve_judged E c h q pl iv db =
     (let event = proxy_audit_dict E c pl iv in
      if iv_decision iv = BLOCK then finish_run event [] (refuse_input E c iv db)
      else (case provider_of E pl of
          Inl ValueError \<Rightarrow> finish_run event [] (db, Refusal 500 ''provider_error'' ''provider_config_error'')
        | Inl e \<Rightarrow> finish_run event [] (db, Unhandled (Raised e))
        | Inr pv \<Rightarrow> finish_run event [provider_request pv (pl_model pl) (forwarded_messages q pl iv) (pe_trace E) (request_kwargs q)]
            (call_provider E c h q pl iv pv db)))"

definition unscanned_run :: "proxy_db \<Rightarrow> chat_answer \<Rightarrow> chat_run" where
  "unscanned_run db answer = \<lparr>ru_db = db, ru_calls = [], ru_events = [], ru_answer = answer\<rparr>"

definition proxy_chat_completions :: "proxy_env \<Rightarrow> caller \<Rightarrow> chat_headers \<Rightarrow> chat_request \<Rightarrow> proxy_db \<Rightarrow> chat_run" where
  "proxy_chat_completions E c h q db =
     (case roles_are_supported (cr_messages q) of
        Inl ValueError \<Rightarrow> unscanned_run db Unprocessable
      | Inl e \<Rightarrow> unscanned_run db (Unhandled (Raised e))
      | Inr _ \<Rightarrow>
          if cl_principal_type c = Some ''user'' then unscanned_run db (CatalogRefusal ''PROXY_REQUIRES_API_KEY'')
          else (case plan_request E c h q of
              Inl (Refuse status etype code) \<Rightarrow> unscanned_run db (Refusal status etype code)
            | Inl (Escape e) \<Rightarrow> unscanned_run db (Unhandled e)
            | Inr pl \<Rightarrow>
                (case judge_input E c pl of
                   Inl e \<Rightarrow> unscanned_run db (Unhandled (Raised e))
                 | Inr iv \<Rightarrow> serve_judged E c h q pl iv db)))"

end
