(* ===== verification/Idempotency.thy ===== *)
theory Idempotency
  imports Auth_Middleware
begin

text \<open>
  The idempotency middleware (\<^verbatim>\<open>api/v1/middleware/idempotency.py\<close>) over the store: the claim of a slot before
  the handler runs, the refusal or the replay of a repeated request, and the storing of the answer afterwards. The
  handler runs between the two halves, so requests interleave; a trace is any sequence of halves. One reading of the
  clock serves the commands of one half. Bodies are byte strings, documents are what \<^verbatim>\<open>json.loads\<close> yields.
\<close>

section \<open>Operations\<close>

definition IDEMPOTENCY_PATHS :: "string list" where
  "IDEMPOTENCY_PATHS = [''/v1/ai/request'', ''/v1/chat/completions'']"

definition idempotency_hash :: "string \<Rightarrow> string" where
  "idempotency_hash idem_hash = ''idempotency:'' @ idem_hash @ '':hash''"

definition idempotency_response :: "string \<Rightarrow> string" where
  "idempotency_response idem_hash = ''idempotency:'' @ idem_hash @ '':resp''"

record idem_request =
  iq_path :: string
  iq_method :: string
  iq_header :: string
  iq_body :: string
  iq_key_id :: "string option"

text \<open>A streaming answer: the chunks its body iterator still has to yield.\<close>

record reply =
  ry_status :: nat
  ry_chunks :: "string list"

record ('r, 'j) idem_env =
  ie_redis :: "('r, 'j \<times> nat) redis"
  ie_sha256 :: "string \<Rightarrow> string"
  ie_loads :: "string \<Rightarrow> 'j py"
  ie_window :: int

definition applies :: "idem_request \<Rightarrow> bool" where
  "applies q \<longleftrightarrow> iq_path q \<in> set IDEMPOTENCY_PATHS \<and> iq_method q = ''POST'' \<and> strip_str (iq_header q) \<noteq> [] \<and> truthy (iq_key_id q)"

definition idem_scope :: "idem_request \<Rightarrow> string" where
  "idem_scope q = the (iq_key_id q) @ '':'' @ strip_str (iq_header q)"

definition idem_hash :: "('r, 'j) idem_env \<Rightarrow> idem_request \<Rightarrow> string" where
  "idem_hash E q = ie_sha256 E (idem_scope q)"

definition body_hash :: "('r, 'j) idem_env \<Rightarrow> idem_request \<Rightarrow> string" where
  "body_hash E q = ie_sha256 E (iq_body q)"

datatype 'j precheck = Proceed | Conflicting | Hit 'j nat

text \<open>Before the handler. A stored answer that is no document raises, and every exception means: process normally.\<close>

definition idem_check :: "('r, 'j) idem_env \<Rightarrow> rat \<Rightarrow> idem_request \<Rightarrow> ('r, 'j precheck) rcmd" where
  "idem_check E now q =
     (let hash_key = idempotency_hash (idem_hash E q); response_key = idempotency_response (idem_hash E q); bh = body_hash E q in
      rbind (r_set_nx (ie_redis E) now hash_key (RStr bh) (ie_window E)) (\<lambda>claimed.
        if claimed then rret Proceed
        else rbind (r_get (ie_redis E) now hash_key) (\<lambda>stored_hash.
          if (case stored_hash of None \<Rightarrow> False | Some (RStr h) \<Rightarrow> h \<noteq> [] \<and> h \<noteq> bh | Some _ \<Rightarrow> True) then rret Conflicting
          else rbind (r_get (ie_redis E) now response_key) (\<lambda>cached. case cached of
              Some (RDoc (d, status)) \<Rightarrow> rret (Hit d status)
            | Some (RStr s) \<Rightarrow> if s = [] then rret Proceed else (\<lambda>r. (r, Inl ValueError))
            | Some (RInt _) \<Rightarrow> (\<lambda>r. (r, Inl TypeError))
            | None \<Rightarrow> rret Proceed))))"

definition idem_begin :: "('r, 'j) idem_env \<Rightarrow> rat \<Rightarrow> idem_request \<Rightarrow> 'r \<Rightarrow> 'r \<times> 'j precheck" where
  "idem_begin E now q r = (if applies q then rtry (idem_check E now q) (\<lambda>_. Proceed) r else (r, Proceed))"

datatype 'j idem_reply = ConflictReply | Replayed 'j nat | Rendered 'j nat | Passed reply

text \<open>After the handler. Reading the body empties its iterator, whatever happens next.\<close>

definition idem_store :: "('r, 'j) idem_env \<Rightarrow> rat \<Rightarrow> idem_request \<Rightarrow> reply \<Rightarrow> ('r, 'j idem_reply) rcmd" where
  "idem_store E now q rp = (case ie_loads E (concat (ry_chunks rp)) of
     Inl e \<Rightarrow> (\<lambda>r. (r, Inl e))
   | Inr d \<Rightarrow> rbind (r_setex (ie_redis E) now (idempotency_response (idem_hash E q)) (ie_window E) (RDoc (d, ry_status rp)))
                (\<lambda>_. rret (Rendered d (ry_status rp))))"

definition idem_end :: "('r, 'j) idem_env \<Rightarrow> rat \<Rightarrow> idem_request \<Rightarrow> reply \<Rightarrow> 'r \<Rightarrow> 'r \<times> 'j idem_reply" where
  "idem_end E now q rp r =
     (if applies q \<and> ry_status rp < 500 then rtry (idem_store E now q rp) (\<lambda>_. Passed (rp\<lparr>ry_chunks := []\<rparr>)) r
      else (r, Passed rp))"

text \<open>One request on its own: \<open>rp\<close> is what the handler answers if it is called, the flag says whether it was.\<close>

definition idem_dispatch :: "('r, 'j) idem_env \<Rightarrow> rat \<Rightarrow> rat \<Rightarrow> idem_request \<Rightarrow> reply \<Rightarrow> 'r \<Rightarrow> 'r \<times> 'j idem_reply \<times> bool" where
  "idem_dispatch E now later q rp r = (case idem_begin E now q r of
     (r1, Conflicting) \<Rightarrow> (r1, ConflictReply, False)
   | (r1, Hit d status) \<Rightarrow> (r1, Replayed d status, False)
   | (r1, Proceed) \<Rightarrow> (case idem_end E later q rp r1 of (r2, a) \<Rightarrow> (r2, a, True)))"

section \<open>Interleaved requests\<close>

datatype idem_event = Begin (ev_at: rat) (ev_req: idem_request) | End (ev_at: rat) (ev_req: idem_request) reply

fun idem_step :: "('r, 'j) idem_env \<Rightarrow> idem_event \<Rightarrow> 'r \<Rightarrow> 'r" where
  "idem_step E (Begin t q) r = fst (idem_begin E t q r)"
| "idem_step E (End t q rp) r = fst (idem_end E t q rp r)"

definition idem_trace :: "('r, 'j) idem_env \<Rightarrow> idem_event list \<Rightarrow> 'r \<Rightarrow> 'r" where
  "idem_trace E es r = fold (idem_step E) es r"

text \<open>The answer an event leaves in the slot \<open>h\<close>, and the last one a trace leaves there.\<close>

fun stored_by :: "('r, 'j) idem_env \<Rightarrow> string \<Rightarrow> idem_event \<Rightarrow> ('j \<times> nat) option" where
  "stored_by E h (End t q rp) =
     (if applies q \<and> idem_hash E q = h \<and> ry_status rp < 500
      then (case ie_loads E (concat (ry_chunks rp)) of Inr d \<Rightarrow> Some (d, ry_status rp) | Inl _ \<Rightarrow> None) else None)"
| "stored_by E h (Begin t q) = None"

definition last_stored :: "('r, 'j) idem_env \<Rightarrow> string \<Rightarrow> idem_event list \<Rightarrow> ('j \<times> nat) option \<Rightarrow> ('j \<times> nat) option" where
  "last_stored E h es x = fold (\<lambda>e x. case stored_by E h e of None \<Rightarrow> x | Some y \<Rightarrow> Some y) es x"

lemma last_stored_simps [simp]:
  "last_stored E h [] x = x"
  "last_stored E h (e # es) x = last_stored E h es (case stored_by E h e of None \<Rightarrow> x | Some y \<Rightarrow> Some y)"
  by (simp_all add: last_stored_def)

lemma last_stored_some: "x \<noteq> None \<Longrightarrow> last_stored E h es x \<noteq> None"
  by (induction es arbitrary: x) (auto split: option.splits)

lemma idem_keys [simp]:
  "idempotency_hash h = idempotency_hash h' \<longleftrightarrow> h = h'" "idempotency_response h = idempotency_response h' \<longleftrightarrow> h = h'"
  "idempotency_hash h \<noteq> idempotency_response h'" "idempotency_response h' \<noteq> idempotency_hash h"
proof -
  have "idempotency_hash h \<noteq> idempotency_response h'"
  proof
    assume "idempotency_hash h = idempotency_response h'"
    then have "rev (idempotency_hash h) = rev (idempotency_response h')" by simp
    then show False by (simp add: idempotency_hash_def idempotency_response_def)
  qed
  then show "idempotency_hash h \<noteq> idempotency_response h'" "idempotency_response h' \<noteq> idempotency_hash h" by auto
qed (auto simp: idempotency_hash_def idempotency_response_def)

end
