(* ===== verification/Idempotency_Facts.thy ===== *)
theory Idempotency_Facts
  imports Idempotency
begin

text \<open>
  What the idempotency middleware guarantees over a store that answers: a slot that was claimed and answered is
  never processed again within its window, whatever other requests interleave, and a replay only ever comes from the
  same caller. Three lemmas record where it falls short of its description.
\<close>

section \<open>The store as a trace sees it\<close>

locale idem_server = redis_up "ie_redis E" val for E :: "('r, 'j) idem_env" and val +
  assumes window: "0 < ie_window E" and digest: "ie_sha256 E s \<noteq> []"
begin

text \<open>A half of one request changes nothing but its own slot: a claim that was free, or the stored answer.\<close>

lemma begin_effect:
  assumes "idem_begin E t q r = (r', v)" "t \<le> t'"
  shows "val r' t' k = (if applies q \<and> k = idempotency_hash (idem_hash E q) \<and> val r t k = None
           then until t (ie_window E) (RStr (body_hash E q)) t' else val r t' k)"
proof (cases "applies q")
  case True
  let ?h = "idempotency_hash (idem_hash E q)" and ?p = "idempotency_response (idem_hash E q)"
  obtain r1 b where c: "r_set_nx (ie_redis E) t ?h (RStr (body_hash E q)) (ie_window E) r = (r1, Inr b)" using set_nx_up by blast
  show ?thesis
  proof (cases b)
    case True
    with c have nx: "r_set_nx (ie_redis E) t ?h (RStr (body_hash E q)) (ie_window E) r = (r1, Inr True)" by simp
    have r': "r' = r1" using assms \<open>applies q\<close> nx by (simp add: idem_begin_def idem_check_def rtry_def rbind_def Let_def)
    have upd: "val r t ?h = None \<and> val r1 t' k' = (if k' = ?h then until t (ie_window E) (RStr (body_hash E q)) t' else val r t' k')" for k'
      by (rule set_nx_new[OF nx window assms(2)])
    show ?thesis using upd[of k] by (simp add: r' \<open>applies q\<close>)
  next
    case False
    with c have nx: "r_set_nx (ie_redis E) t ?h (RStr (body_hash E q)) (ie_window E) r = (r1, Inr False)" by simp
    note old = set_nx_old[OF nx]
    obtain r2 where g2: "r_get (ie_redis E) t ?h r1 = (r2, Inr (val r1 t ?h))" and v2: "\<And>t' k'. t \<le> t' \<Longrightarrow> val r2 t' k' = val r1 t' k'"
      using get_answers[of t ?h r1] by blast
    obtain r3 where g3: "r_get (ie_redis E) t ?p r2 = (r3, Inr (val r2 t ?p))" and v3: "\<And>t' k'. t \<le> t' \<Longrightarrow> val r3 t' k' = val r2 t' k'"
      using get_answers[of t ?p r2] by blast
    have "r' = r2 \<or> r' = r3"
      using assms \<open>applies q\<close> nx g2 g3
      by (auto simp: idem_begin_def idem_check_def rtry_def rbind_def Let_def split: option.splits rval.splits prod.splits if_splits)
    then have "val r' t' k = val r t' k" using v2 v3 old assms(2) by auto
    moreover have "val r t ?h \<noteq> None" using old by blast
    ultimately show ?thesis by auto
  qed
qed (use assms in \<open>simp add: idem_begin_def\<close>)

lemma end_effect:
  assumes "idem_end E t q rp r = (r', a)" "t \<le> t'"
  shows "val r' t' k = (case stored_by E (idem_hash E q) (End t q rp) of
           Some x \<Rightarrow> if k = idempotency_response (idem_hash E q) then until t (ie_window E) (RDoc x) t' else val r t' k
         | None \<Rightarrow> val r t' k)"
proof (cases "stored_by E (idem_hash E q) (End t q rp)")
  case None
  then show ?thesis using assms
    by (auto simp: idem_end_def idem_store_def rtry_def split: if_splits sum.splits)
next
  case (Some x)
  then obtain d where ap: "applies q" "ry_status rp < 500" and l: "ie_loads E (concat (ry_chunks rp)) = Inr d"
    and x: "x = (d, ry_status rp)" by (auto split: if_splits sum.splits)
  obtain r1 u where s: "r_setex (ie_redis E) t (idempotency_response (idem_hash E q)) (ie_window E) (RDoc x) r = (r1, Inr u)"
    using setex_up by blast
  then have "r' = r1" using assms ap l by (simp add: x idem_end_def idem_store_def rtry_def rbind_def)
  with setex_val[OF s window assms(2)] Some show ?thesis by simp
qed

text \<open>What a begin answers for a slot that is claimed and answered.\<close>

lemma begin_answer:
  assumes "applies q" "val r t (idempotency_hash (idem_hash E q)) = Some (RStr bh)" "bh \<noteq> []"
    "val r t (idempotency_response (idem_hash E q)) = Some (RDoc (d, status))"
  shows "snd (idem_begin E t q r) = (if body_hash E q = bh then Hit d status else Conflicting)"
proof -
  let ?h = "idempotency_hash (idem_hash E q)" and ?p = "idempotency_response (idem_hash E q)"
  obtain r1 b where c: "r_set_nx (ie_redis E) t ?h (RStr (body_hash E q)) (ie_window E) r = (r1, Inr b)" using set_nx_up by blast
  have nb: "\<not> b"
  proof
    assume b
    with c have nx: "r_set_nx (ie_redis E) t ?h (RStr (body_hash E q)) (ie_window E) r = (r1, Inr True)" by simp
    show False using set_nx_new[OF nx window order_refl] assms(2) by simp
  qed
  with c have nx: "r_set_nx (ie_redis E) t ?h (RStr (body_hash E q)) (ie_window E) r = (r1, Inr False)" by simp
  note old = set_nx_old[OF nx, THEN conjunct2]
  obtain r2 where g2: "r_get (ie_redis E) t ?h r1 = (r2, Inr (val r1 t ?h))" and v2: "\<And>t' k'. t \<le> t' \<Longrightarrow> val r2 t' k' = val r1 t' k'"
    using get_answers[of t ?h r1] by blast
  obtain r3 where g3: "r_get (ie_redis E) t ?p r2 = (r3, Inr (val r2 t ?p))" using get_answers[of t ?p r2] by blast
  show ?thesis using assms nx g2 g3 v2 old
    by (auto simp: idem_begin_def idem_check_def rtry_def rbind_def Let_def)
qed

lemma begin_hit:
  assumes "snd (idem_begin E t q r) = Hit d status"
  shows "applies q \<and> val r t (idempotency_response (idem_hash E q)) = Some (RDoc (d, status))"
proof -
  let ?h = "idempotency_hash (idem_hash E q)" and ?p = "idempotency_response (idem_hash E q)"
  have ap: "applies q" using assms by (auto simp: idem_begin_def split: if_splits)
  obtain r1 b where c: "r_set_nx (ie_redis E) t ?h (RStr (body_hash E q)) (ie_window E) r = (r1, Inr b)" using set_nx_up by blast
  have nb: "\<not> b" using assms ap c by (auto simp: idem_begin_def idem_check_def rtry_def rbind_def Let_def)
  with c have nx: "r_set_nx (ie_redis E) t ?h (RStr (body_hash E q)) (ie_window E) r = (r1, Inr False)" by simp
  obtain r2 where g2: "r_get (ie_redis E) t ?h r1 = (r2, Inr (val r1 t ?h))" and v2: "\<forall>t' k'. t \<le> t' \<longrightarrow> val r2 t' k' = val r1 t' k'"
    using get_answers[of t ?h r1] by blast
  obtain r3 where g3: "r_get (ie_redis E) t ?p r2 = (r3, Inr (val r2 t ?p))" using get_answers[of t ?p r2] by blast
  have "val r2 t ?p = Some (RDoc (d, status))"
    using assms ap nx g2 g3
    by (auto simp: idem_begin_def idem_check_def rtry_def rbind_def Let_def split: option.splits rval.splits prod.splits if_splits)
  with ap v2 set_nx_old[OF nx order_refl] show ?thesis by auto
qed

lemmas step_effects = begin_effect[OF surjective_pairing] end_effect[OF surjective_pairing]

end

section \<open>One slot within its window\<close>

text \<open>Until the claim runs out the slot holds the claim, and the answer \<open>x\<close> once there is one.\<close>

definition slot_holds :: "('r \<Rightarrow> rat \<Rightarrow> string \<Rightarrow> ('j \<times> nat) rval option) \<Rightarrow> string \<Rightarrow> rat \<Rightarrow> string \<Rightarrow> ('j \<times> nat) option \<Rightarrow> rat \<Rightarrow> 'r \<Rightarrow> bool" where
  "slot_holds val h limit bh x now r \<longleftrightarrow> (\<forall>t'. now \<le> t' \<and> t' < limit \<longrightarrow>
     val r t' (idempotency_hash h) = Some (RStr bh) \<and> (x \<noteq> None \<longrightarrow> val r t' (idempotency_response h) = Some (RDoc (the x))))"

text \<open>The answers left in every slot come from an event of the trace.\<close>

definition answers_from :: "('r, 'j) idem_env \<Rightarrow> ('r \<Rightarrow> rat \<Rightarrow> string \<Rightarrow> ('j \<times> nat) rval option) \<Rightarrow> idem_event list \<Rightarrow> rat \<Rightarrow> 'r \<Rightarrow> bool" where
  "answers_from E val es now r \<longleftrightarrow> (\<forall>t' h d status. now \<le> t' \<longrightarrow> val r t' (idempotency_response h) = Some (RDoc (d, status)) \<longrightarrow>
     (\<exists>e \<in> set es. stored_by E h e = Some (d, status)))"

context idem_server
begin

lemma slot_step:
  assumes "slot_holds val h limit bh x now r" "now \<le> ev_at e" "ev_at e < limit" "limit \<le> ev_at e + of_int (ie_window E)"
  shows "slot_holds val h limit bh (case stored_by E h e of None \<Rightarrow> x | Some y \<Rightarrow> Some y) (ev_at e) (idem_step E e r)"
proof (cases e)
  case (Begin t q)
  have "val r t (idempotency_hash h) \<noteq> None" using assms Begin by (auto simp: slot_holds_def)
  with assms Begin show ?thesis by (auto simp: slot_holds_def step_effects(1))
next
  case (End t q rp)
  show ?thesis
  proof (cases "idem_hash E q = h")
    case True
    with assms End show ?thesis
      by (cases "stored_by E h (End t q rp)") (auto simp: slot_holds_def step_effects(2) until_def simp del: stored_by.simps)
  next
    case False
    then have none: "stored_by E h (End t q rp) = None" by simp
    have "val (idem_step E e r) t' k = val r t' k" if "t \<le> t'" "k = idempotency_hash h \<or> k = idempotency_response h" for t' k
      using that False unfolding End idem_step.simps step_effects(2)[OF that(1)] by (auto split: option.splits)
    with assms none End show ?thesis by (auto simp: slot_holds_def simp del: stored_by.simps)
  qed
qed

lemma slot_trace:
  assumes "slot_holds val h limit bh x now r" "sorted (now # map ev_at es)" "list_all (\<lambda>e. ev_at e < limit) es"
    "limit \<le> now + of_int (ie_window E)"
  shows "slot_holds val h limit bh (last_stored E h es x)
           (last (now # map ev_at es)) (idem_trace E es r)"
  using assms
proof (induction es arbitrary: now x r)
  case (Cons e es)
  from Cons.prems have "slot_holds val h limit bh (case stored_by E h e of None \<Rightarrow> x | Some y \<Rightarrow> Some y) (ev_at e) (idem_step E e r)"
    by (intro slot_step) auto
  from Cons.IH[OF this] Cons.prems show ?case by (simp add: idem_trace_def)
qed (simp add: idem_trace_def)

lemma answers_step:
  assumes "answers_from E val es now r" "now \<le> ev_at e"
  shows "answers_from E val (e # es) (ev_at e) (idem_step E e r)"
proof (cases e)
  case (Begin t q)
  with assms show ?thesis by (auto simp: answers_from_def step_effects(1)) (meson order_trans)
next
  case (End t q rp)
  show ?thesis unfolding answers_from_def
  proof (intro allI impI)
    fix t' h d status
    assume le: "ev_at e \<le> t'" and v: "val (idem_step E e r) t' (idempotency_response h) = Some (RDoc (d, status))"
    have old: "\<exists>e' \<in> set (e # es). stored_by E h e' = Some (d, status)" if "val r t' (idempotency_response h) = Some (RDoc (d, status))"
    proof -
      have "now \<le> t'" using assms(2) le by simp
      with assms(1) that show ?thesis unfolding answers_from_def by (metis list.set_intros(2))
    qed
    show "\<exists>e' \<in> set (e # es). stored_by E h e' = Some (d, status)"
    proof (cases "stored_by E (idem_hash E q) (End t q rp)")
      case None
      then have "val r t' (idempotency_response h) = Some (RDoc (d, status))"
        using v le unfolding End idem_step.simps idem_event.sel step_effects(2)[OF le[unfolded End idem_event.sel]]
        by (simp del: stored_by.simps)
      then show ?thesis by (rule old)
    next
      case (Some y)
      then have "if h = idem_hash E q then y = (d, status) else val r t' (idempotency_response h) = Some (RDoc (d, status))"
        using v le unfolding End idem_step.simps idem_event.sel step_effects(2)[OF le[unfolded End idem_event.sel]]
        by (auto simp: until_def simp del: stored_by.simps split: if_splits)
      with Some old End show ?thesis by (auto simp del: stored_by.simps split: if_splits)
    qed
  qed
qed

lemma answers_trace:
  assumes "answers_from E val past now r" "sorted (now # map ev_at es)"
  shows "answers_from E val (rev es @ past) (last (now # map ev_at es)) (idem_trace E es r)"
  using assms
proof (induction es arbitrary: past now r)
  case (Cons e es)
  from Cons.IH[OF answers_step[OF Cons.prems(1)]] Cons.prems show ?case by (simp add: idem_trace_def)
qed (simp add: idem_trace_def)

end

section \<open>The guarantees\<close>


text \<open>An identity of the authentication middleware: a kind and a name, neither with a colon.\<close>

definition key_id_ok :: "string option \<Rightarrow> bool" where
  "key_id_ok k \<longleftrightarrow> (\<exists>p n. k = Some (p @ '':'' @ n) \<and> CHR '':'' \<notin> set p \<and> CHR '':'' \<notin> set n)"

lemma colon_split:
  "u @ CHR '':'' # v = u' @ CHR '':'' # v' \<Longrightarrow> CHR '':'' \<notin> set u \<Longrightarrow> CHR '':'' \<notin> set u' \<Longrightarrow> u = u' \<and> v = v'"
proof (induction u arbitrary: u')
  case Nil
  then show ?case by (cases u') auto
next
  case (Cons c u)
  then show ?case by (cases u') auto
qed

lemma key_id_prefix:
  assumes "key_id_ok (Some a)" "key_id_ok (Some b)" "a @ '':'' @ x = b @ '':'' @ y"
  shows "a = b \<and> x = y"
proof -
  obtain p n p' n' where a: "a = p @ '':'' @ n" "CHR '':'' \<notin> set p" "CHR '':'' \<notin> set n"
    and b: "b = p' @ '':'' @ n'" "CHR '':'' \<notin> set p'" "CHR '':'' \<notin> set n'" using assms(1,2) by (auto simp: key_id_ok_def)
  from colon_split[of p "n @ CHR '':'' # x" p' "n' @ CHR '':'' # y"] colon_split[of n x n' y] a b assms(3) show ?thesis by simp
qed

text \<open>
  A replay is the caller's own. From a store without stored answers, and whatever requests of whatever callers
  interleave, a request that is answered by a replay gets a document and a status that some handler produced for a
  request of the same identity with the same Idempotency-Key.
\<close>
theorem replay_is_own:
  assumes server: "idem_server E val" and inj: "inj (ie_sha256 E)"
    and empty_store: "\<And>t h. val r t (idempotency_response h) = None"
    and times: "sorted (map ev_at es @ [now])"
    and ids: "list_all (\<lambda>e. applies (ev_req e) \<longrightarrow> key_id_ok (iq_key_id (ev_req e))) es" "key_id_ok (iq_key_id q)"
    and hit: "snd (idem_begin E now q (idem_trace E es r)) = Hit d status"
  shows "\<exists>t q0 rp. End t q0 rp \<in> set es \<and> iq_key_id q0 = iq_key_id q \<and> strip_str (iq_header q0) = strip_str (iq_header q)
     \<and> ry_status rp = status \<and> status < 500 \<and> ie_loads E (concat (ry_chunks rp)) = Inr d"
proof -
  define t0 where "t0 = (case es of [] \<Rightarrow> now | e # _ \<Rightarrow> ev_at e)"
  have s: "sorted (t0 # map ev_at es @ [now])" using times by (cases es) (auto simp: t0_def)
  then have sorted: "sorted (t0 # map ev_at es)" by (auto simp: sorted_append)
  have "last (t0 # map ev_at es) \<in> insert t0 (ev_at ` set es)" using last_in_set[of "t0 # map ev_at es"] by auto
  with s have le: "last (t0 # map ev_at es) \<le> now" by (auto simp: sorted_append)
  have "answers_from E val [] t0 r" using empty_store by (simp add: answers_from_def)
  from idem_server.answers_trace[OF server this sorted]
  have "answers_from E val (rev es) (last (t0 # map ev_at es)) (idem_trace E es r)" by simp
  with idem_server.begin_hit[OF server hit] le
  obtain e where e: "e \<in> set es" "stored_by E (idem_hash E q) e = Some (d, status)"
    unfolding answers_from_def by (metis set_rev)
  from e(2) obtain t q0 rp where end0: "e = End t q0 rp" "applies q0" "idem_hash E q0 = idem_hash E q" "ry_status rp < 500"
      "ie_loads E (concat (ry_chunks rp)) = Inr d" "ry_status rp = status"
    by (cases e) (auto split: if_splits sum.splits)
  have scope: "idem_scope q0 = idem_scope q" using inj end0(3) by (simp add: idem_hash_def inj_eq)
  have "key_id_ok (iq_key_id q0)" using ids(1) e(1) end0(1,2) by (auto simp: list_all_iff)
  with ids(2) obtain a b where ab: "iq_key_id q0 = Some a" "iq_key_id q = Some b" "key_id_ok (Some a)" "key_id_ok (Some b)"
    by (auto simp: key_id_ok_def)
  with key_id_prefix[OF ab(3,4)] scope
  have "iq_key_id q0 = iq_key_id q \<and> strip_str (iq_header q0) = strip_str (iq_header q)" by (simp add: idem_scope_def)
  with e end0 show ?thesis by blast
qed

section \<open>A server to evaluate\<close>

definition demo_server :: "((string \<times> nat) mem, string) idem_env" where
  "demo_server = \<lparr>ie_redis = mem_redis, ie_sha256 = (\<lambda>s. CHR ''#'' # s), ie_loads = Inr, ie_window = 60\<rparr>"

definition demo_post :: "string \<Rightarrow> idem_request" where
  "demo_post body = \<lparr>iq_path = ''/v1/ai/request'', iq_method = ''POST'', iq_header = ''k1'', iq_body = body, iq_key_id = Some ''key:7''\<rparr>"

definition demo_reply :: "string \<Rightarrow> reply" where
  "demo_reply body = \<lparr>ry_status = 200, ry_chunks = [body]\<rparr>"

interpretation demo: idem_server demo_server mem_val
proof -
  have "ie_redis demo_server = mem_redis" by (simp add: demo_server_def)
  then show "idem_server demo_server mem_val"
    by (auto simp: idem_server_def idem_server_axioms_def mem_up.redis_up_axioms) (simp_all add: demo_server_def)
qed

lemma strip_k1 [simp]: "strip_str ''k1'' = ''k1''"
  by (rule strip_str_id) (simp add: strip_def lstrip_def is_space_def)

lemma demo_server_simps [simp]:
  "ie_redis demo_server = mem_redis" "ie_window demo_server = 60" "ie_loads demo_server = Inr"
  "ry_status (demo_reply a) = 200" "ry_chunks (demo_reply a) = [a]"
  by (simp_all add: demo_server_def demo_reply_def)

lemma demo_post_simps [simp]:
  "applies (demo_post b)" "idem_scope (demo_post b) = ''key:7:k1''" "idem_hash demo_server (demo_post b) = ''#key:7:k1''"
  "body_hash demo_server (demo_post b) = CHR ''#'' # b" "iq_key_id (demo_post b) = Some ''key:7''"
  by (simp_all add: applies_def demo_post_def IDEMPOTENCY_PATHS_def idem_scope_def idem_hash_def body_hash_def demo_server_def)

text \<open>The two halves of a request on the in-memory store.\<close>

abbreviation "demo_claim \<equiv> idempotency_hash ''#key:7:k1''"
abbreviation "demo_answer \<equiv> idempotency_response ''#key:7:k1''"

lemma demo_begin:
  "idem_begin demo_server t (demo_post b) m = (case mem_val m t demo_claim of
     None \<Rightarrow> (m(demo_claim \<mapsto> (RStr (CHR ''#'' # b), t + 60)), Proceed)
   | Some (RStr h) \<Rightarrow> (m, if h \<noteq> [] \<and> h \<noteq> CHR ''#'' # b then Conflicting else (case mem_val m t demo_answer of
       Some (RDoc (d, s)) \<Rightarrow> Hit d s | _ \<Rightarrow> Proceed))
   | Some _ \<Rightarrow> (m, Conflicting))"
  by (simp add: idem_begin_def idem_check_def rtry_def rbind_def Let_def mem_redis_def split: option.splits rval.splits prod.splits)

lemma demo_end:
  "idem_end demo_server t (demo_post b) (demo_reply a) m = (m(demo_answer \<mapsto> (RDoc (a, 200), t + 60)), Rendered a 200)"
  by (simp add: idem_end_def idem_store_def rtry_def rbind_def mem_redis_def)

lemmas demo_run = demo_begin demo_end idem_trace_def mem_val_def


theorem replay_is_own_witness:
  "\<exists>t q0 rp. End t q0 rp \<in> set [Begin 0 (demo_post ''q''), End 5 (demo_post ''q'') (demo_reply ''first'')]
     \<and> iq_key_id q0 = Some ''key:7'' \<and> ry_status rp = 200"
proof -
  let ?es = "[Begin 0 (demo_post ''q''), End 5 (demo_post ''q'') (demo_reply ''first'')]"
  have ok: "key_id_ok (Some ''key:7'')" unfolding key_id_ok_def by (intro exI[of _ "''key''"] exI[of _ "''7''"]) simp
  have hit: "snd (idem_begin demo_server 10 (demo_post ''q'') (idem_trace demo_server ?es Map.empty)) = Hit ''first'' 200"
    by (simp add: demo_run)
  have inj: "inj (ie_sha256 demo_server)" by (simp add: demo_server_def inj_def)
  show ?thesis
    using replay_is_own[OF demo.idem_server_axioms inj _ _ _ _ hit] ok by (auto simp: mem_val_def)
qed

section \<open>Where it falls short\<close>

text \<open>While the first request is being handled, a retry is handled too: nothing was stored that could be replayed.\<close>

lemma in_flight_retry_processed:
  "snd (idem_begin demo_server 1 (demo_post ''q'') (idem_trace demo_server [Begin 0 (demo_post ''q'')] Map.empty)) = Proceed"
  by (simp add: demo_run)

text \<open>
  The stored answer outlives the claim by the time the handler took. A request with another body that claims the slot
  in between and is retried while in flight gets the answer to the first body.
\<close>

lemma stale_answer_replayed:
  "snd (idem_begin demo_server 75 (demo_post ''second'') (idem_trace demo_server
     [Begin 0 (demo_post ''first''), End 50 (demo_post ''first'') (demo_reply ''answer to first''), Begin 70 (demo_post ''second'')]
     Map.empty)) = Hit ''answer to first'' 200"
  by (simp add: demo_run)

text \<open>When the store fails after the handler, the caller gets the status and an empty body.\<close>

lemma outage_empties_answer:
  assumes "applies q" "ry_status rp < 500" "ie_loads E (concat (ry_chunks rp)) = Inr d"
    and "r_setex (ie_redis E) t (idempotency_response (idem_hash E q)) (ie_window E) (RDoc (d, ry_status rp)) r = (r', Inl e)"
  shows "snd (idem_end E t q rp r) = Passed (rp\<lparr>ry_chunks := []\<rparr>)"
  using assms by (simp add: idem_end_def idem_store_def rtry_def rbind_def)

end
