(* ===== verification/Access_Scope.thy ===== *)
theory Access_Scope
  imports Chat_Proxy
begin

text \<open>
  Who may do what, and which audit rows they see: the dependencies of the endpoints
  (\<^verbatim>\<open>api/v1/dependencies/auth.py\<close>, \<^verbatim>\<open>scope.py\<close>) and the lookups by trace identifier of the audit repository. A
  refusal is the code of the error catalogue. Which limit an endpoint's own bucket has is looked up in a cache and the
  settings table, whose answers are arguments.
\<close>

section \<open>Principals\<close>

datatype api_error = Catalog string | Crash policy_error

text \<open>The request state the authentication middleware leaves.\<close>

record api_caller = caller +
  cl_is_admin :: bool
  cl_user_role :: "string option"

definition permissions_of :: "string \<Rightarrow> string list" where
  "permissions_of role = if_none (map_of ROLE_PERMISSIONS role) []"

definition principal_from_state :: "api_caller \<Rightarrow> api_error + principal" where
  "principal_from_state c =
     (if \<not> truthy (cl_principal_type c) then Inl (Catalog ''UNAUTHORIZED'')
      else if cl_principal_type c = Some ''user'' then
        Inr \<lparr>pr_id = if_none (cl_key_id c) [], pr_type = USER, pr_tenant_id = str_or (cl_tenant_id c) [], pr_dept_id = cl_dept_id c,
             pr_roles = (if truthy (cl_user_role c) then [the (cl_user_role c)] else []),
             pr_permissions = permissions_of (str_or (cl_user_role c) []), pr_is_admin = cl_is_admin c, pr_email = cl_key_name c\<rparr>
      else let role = (if cl_is_admin c then ''ADMIN'' else ''DEVELOPER'') in
        Inr \<lparr>pr_id = if_none (cl_key_id c) [], pr_type = API_KEY, pr_tenant_id = str_or (cl_tenant_id c) [], pr_dept_id = cl_dept_id c,
             pr_roles = [role], pr_permissions = permissions_of role, pr_is_admin = cl_is_admin c, pr_email = None\<rparr>)"

definition require_jwt :: "api_caller \<Rightarrow> api_error + principal" where
  "require_jwt c = (if cl_principal_type c \<noteq> Some ''user'' then Inl (Catalog ''FORBIDDEN'') else principal_from_state c)"

definition require_role :: "string list \<Rightarrow> api_caller \<Rightarrow> api_error + principal" where
  "require_role roles c = and_then (require_jwt c) (\<lambda>p. if has_role p roles then Inr p else Inl (Catalog ''FORBIDDEN''))"

definition require_admin :: "api_caller \<Rightarrow> api_error + principal" where
  "require_admin = require_role [''ADMIN'']"

definition require_any_admin :: "api_caller \<Rightarrow> api_error + principal" where
  "require_any_admin c = and_then (principal_from_state c) (\<lambda>p. if pr_is_admin p then Inr p else Inl (Catalog ''FORBIDDEN''))"

definition holds_permission :: "api_caller \<Rightarrow> string \<Rightarrow> bool \<Rightarrow> api_error + bool" where
  "holds_permission c permission allow_trial = and_then (principal_from_state c) (\<lambda>p.
     if \<not> allow_trial \<and> cl_key_type c = ''trial'' then Inr False else Inr (has_permission p permission))"

definition require_permission :: "string \<Rightarrow> bool \<Rightarrow> api_caller \<Rightarrow> api_error + principal" where
  "require_permission permission allow_trial c = and_then (principal_from_state c) (\<lambda>p.
     if \<not> allow_trial \<and> cl_key_type c = ''trial'' then Inl (Catalog ''FORBIDDEN'')
     else if \<not> has_permission p permission then Inl (Catalog ''FORBIDDEN'') else Inr p)"

definition MASTER_ADMIN_KEY_ID :: string where
  "MASTER_ADMIN_KEY_ID = ''key:admin''"

definition require_platform_operator :: "api_caller \<Rightarrow> api_error + principal" where
  "require_platform_operator c = and_then (principal_from_state c) (\<lambda>p.
     if cl_key_id c \<noteq> Some MASTER_ADMIN_KEY_ID then Inl (Catalog ''FORBIDDEN'') else Inr p)"

section \<open>Audit scope\<close>

definition is_master_admin :: "api_caller \<Rightarrow> bool" where
  "is_master_admin c \<longleftrightarrow> cl_key_id c = Some MASTER_ADMIN_KEY_ID"

text \<open>The filters an endpoint must use: the tenant, and the department, where the scope fixes them.\<close>

definition get_audit_scope :: "api_caller \<Rightarrow> string option option \<times> string option option" where
  "get_audit_scope c =
     (if is_master_admin c then (None, None)
      else (Some (cl_tenant_id c), if cl_is_admin c then None else Some (cl_dept_id c)))"

text \<open>The trace column is unique, so a query by it has at most one row.\<close>

definition trace_is :: "string \<Rightarrow> row \<Rightarrow> bool" where
  "trace_is tid r \<longleftrightarrow> dget r ''trace_id'' = PStr tid"

definition get_by_trace_id :: "row list \<Rightarrow> string \<Rightarrow> row option" where
  "get_by_trace_id table tid = find (trace_is tid) table"

definition get_by_trace_id_tenant_scoped :: "row list \<Rightarrow> string \<Rightarrow> string \<Rightarrow> row option" where
  "get_by_trace_id_tenant_scoped table tid tenant_id = find (\<lambda>r. trace_is tid r \<and> dget r ''tenant_id'' = PStr tenant_id) table"

definition get_by_trace_id_scoped :: "row list \<Rightarrow> string \<Rightarrow> string \<Rightarrow> string \<Rightarrow> row option" where
  "get_by_trace_id_scoped table tid dept_id tenant_id =
     find (\<lambda>r. trace_is tid r \<and> dget r ''dept_id'' = PStr dept_id \<and> dget r ''tenant_id'' = PStr tenant_id) table"

text \<open>A plain position comes before any other suffix; the identifier breaks ties.\<close>

type_synonym position = "nat \<times> nat \<times> string"

definition position_less :: "position \<Rightarrow> position \<Rightarrow> bool" where
  "position_less = (\<lambda>(a, n, s) (b, m, t). a < b \<or> (a = b \<and> (n < m \<or> (n = m \<and> s < t))))"

definition ascii_digits :: "string \<Rightarrow> bool" where
  "ascii_digits s \<longleftrightarrow> s \<noteq> [] \<and> list_all (\<lambda>c. 48 \<le> (of_char c :: nat) \<and> (of_char c :: nat) \<le> 57) s"

definition digits_value :: "string \<Rightarrow> nat" where
  "digits_value s = foldl (\<lambda>n c. 10 * n + (of_char c - 48)) 0 s"

definition position_of :: "string \<Rightarrow> string \<Rightarrow> position" where
  "position_of pre tid = (let suffix = drop (length pre) tid in
     if ascii_digits suffix then (0, digits_value suffix, tid) else (1, 0, tid))"

fun first_by :: "(string \<Rightarrow> position) \<Rightarrow> string \<Rightarrow> string list \<Rightarrow> string" where
  "first_by f best [] = best"
| "first_by f best (x # xs) = first_by f (if position_less (f x) (f best) then x else best) xs"

definition first_derived_trace_id :: "row list \<Rightarrow> string \<Rightarrow> string option \<Rightarrow> string option" where
  "first_derived_trace_id table base tenant_id =
     (let pre = base @ ''-'';
          candidates = List.map_filter (\<lambda>r. opt_str (dget r ''trace_id''))
            (filter (\<lambda>r. (case opt_str (dget r ''trace_id'') of Some t \<Rightarrow> startswith t pre | None \<Rightarrow> False)
                \<and> (truthy tenant_id \<longrightarrow> dget r ''tenant_id'' = PStr (the tenant_id))) table)
      in (case candidates of [] \<Rightarrow> None | x # xs \<Rightarrow> Some (first_by (position_of pre) x xs)))"

definition scoped_lookup :: "row list \<Rightarrow> api_caller \<Rightarrow> string \<Rightarrow> row option" where
  "scoped_lookup table c tid =
     (let tenant_id = str_or (cl_tenant_id c) [] in
      if cl_is_admin c then get_by_trace_id_tenant_scoped table tid tenant_id
      else if truthy (cl_dept_id c) then get_by_trace_id_scoped table tid (the (cl_dept_id c)) tenant_id
      else get_by_trace_id_tenant_scoped table tid tenant_id)"

definition get_scoped_audit_record :: "row list \<Rightarrow> string \<Rightarrow> api_caller \<Rightarrow> row option" where
  "get_scoped_audit_record table trace_id c =
     (let derived = (\<lambda>lookup tenant. case first_derived_trace_id table trace_id tenant of
            Some t \<Rightarrow> if t = [] then None else lookup t | None \<Rightarrow> None) in
      if is_master_admin c
      then (case get_by_trace_id table trace_id of Some r \<Rightarrow> Some r | None \<Rightarrow> derived (get_by_trace_id table) None)
      else (case scoped_lookup table c trace_id of Some r \<Rightarrow> Some r
        | None \<Rightarrow> derived (scoped_lookup table c) (if truthy (cl_tenant_id c) then cl_tenant_id c else None)))"

section \<open>The bucket of one endpoint\<close>

definition endpoint_rate_limit_key :: "string \<Rightarrow> string \<Rightarrow> string" where
  "endpoint_rate_limit_key path identity = ''endpoint:'' @ path @ '':'' @ identity"

text \<open>
  The limit: the tenant's cached document, else its stored one, else the configured value. A failing read or a
  document that lacks the setting falls through to the next source.
\<close>

definition endpoint_limit :: "bool \<Rightarrow> string option \<Rightarrow> jdict option py \<Rightarrow> jdict option py \<Rightarrow> string \<Rightarrow> json \<Rightarrow> json" where
  "endpoint_limit testing tenant cached stored setting configured =
     (let look = (\<lambda>src. case src of Inr (Some d) \<Rightarrow> map_of d setting | _ \<Rightarrow> None);
          found = (\<lambda>v. case v of None \<Rightarrow> None | Some JNull \<Rightarrow> None | Some x \<Rightarrow> Some x) in
      if testing \<or> \<not> truthy tenant then configured
      else (case found (look cached) of Some v \<Rightarrow> v
        | None \<Rightarrow> (case found (look stored) of Some v \<Rightarrow> v | None \<Rightarrow> configured)))"

definition endpoint_identity :: "string option \<Rightarrow> string option \<Rightarrow> string" where
  "endpoint_identity key_id client_ip = str_or key_id (str_or client_ip ''unknown'')"

end
