(* ===== verification/Semantic_Cache.thy ===== *)
theory Semantic_Cache
  imports Redis Provider_Router
begin

text \<open>
  The cache of scan responses (\<^verbatim>\<open>cache/semantic_cache.py\<close>): the digest of the policy a verdict was reached under,
  the key of an entry, reading, writing and deletion. SHA-256 and \<^verbatim>\<open>json.dumps\<close> with sorted keys are arguments;
  a stored body is kept as the document its text decodes to.
\<close>

section \<open>Keys\<close>

definition CACHE_PREFIX :: string where
  "CACHE_PREFIX = ''prompt_cache:''"

definition CACHE_TTL :: int where
  "CACHE_TTL = 3600"

definition SECRET_POLICY_FIELDS :: "string list" where
  "SECRET_POLICY_FIELDS = [''api_key'', ''api_key_enc'']"

text \<open>The decision inputs a resolved policy contributes.\<close>

record decision_inputs =
  di_block :: "float64 option"
  di_sanitize :: "float64 option"
  di_pii_block :: "float64 option"
  di_pii_sanitize :: "float64 option"
  di_toxicity_block :: "float64 option"
  di_toxicity_sanitize :: "float64 option"
  di_rule_enabled :: bool
  di_ml_enabled :: bool
  di_llm_enabled :: bool
  di_llm_settings :: json

definition json_opt :: "float64 option \<Rightarrow> json" where
  "json_opt x = (case x of None \<Rightarrow> JNull | Some v \<Rightarrow> JNum v)"

definition safe_llm :: "json \<Rightarrow> jdict" where
  "safe_llm v = (case v of JObj d \<Rightarrow> filter (\<lambda>(k, _). k \<notin> set SECRET_POLICY_FIELDS) d | _ \<Rightarrow> [])"

definition policy_material :: "decision_inputs \<Rightarrow> jdict" where
  "policy_material d =
     [(''block_threshold'', json_opt (di_block d)), (''sanitize_threshold'', json_opt (di_sanitize d)),
      (''pii_block_threshold'', json_opt (di_pii_block d)), (''pii_sanitize_threshold'', json_opt (di_pii_sanitize d)),
      (''toxicity_block_threshold'', json_opt (di_toxicity_block d)), (''toxicity_sanitize_threshold'', json_opt (di_toxicity_sanitize d)),
      (''rule_enabled'', JBool (di_rule_enabled d)), (''ml_enabled'', JBool (di_ml_enabled d)), (''llm_enabled'', JBool (di_llm_enabled d)),
      (''llm_settings'', JObj (safe_llm (di_llm_settings d)))]"

record cache_lib =
  ca_sha256 :: "ustr \<Rightarrow> string"
  ca_dumps :: "jdict \<Rightarrow> ustr"
  ca_lower :: "ustr \<Rightarrow> ustr"

definition policy_identity :: "cache_lib \<Rightarrow> decision_inputs \<Rightarrow> string" where
  "policy_identity L d = take 32 (ca_sha256 L (ca_dumps L (policy_material d)))"

text \<open>Everything an entry is addressed by.\<close>

record cache_slot =
  ck_text :: ustr
  ck_detection_mode :: string
  ck_execution_mode :: string
  ck_tenant :: string
  ck_policy :: string
  ck_source :: string

definition folded :: "cache_lib \<Rightarrow> ustr \<Rightarrow> ustr" where
  "folded L t = ca_lower L (strip t)"

definition cache_content :: "cache_lib \<Rightarrow> cache_slot \<Rightarrow> ustr" where
  "cache_content L s =
     us (ck_tenant s @ '':'' @ ck_policy s @ '':'' @ ck_source s @ '':'' @ ck_detection_mode s @ '':'' @ ck_execution_mode s @ '':'')
     @ folded L (ck_text s)"

definition cache_key :: "cache_lib \<Rightarrow> cache_slot \<Rightarrow> string py" where
  "cache_key L s =
     (if ck_tenant s = [] then Inl ValueError else Inr (CACHE_PREFIX @ ''v1:'' @ ca_sha256 L (cache_content L s)))"

section \<open>Operations\<close>

definition with_key :: "cache_lib \<Rightarrow> cache_slot \<Rightarrow> (string \<Rightarrow> ('r, 'a) rcmd) \<Rightarrow> ('r, 'a) rcmd" where
  "with_key L s f = (case cache_key L s of Inl e \<Rightarrow> (\<lambda>r. (r, Inl e)) | Inr k \<Rightarrow> f k)"

text \<open>Only bodies are written under these keys; any other value is no document.\<close>

definition get_cached_result :: "('r, wire) redis \<Rightarrow> cache_lib \<Rightarrow> rat \<Rightarrow> cache_slot \<Rightarrow> 'r \<Rightarrow> 'r \<times> wire option" where
  "get_cached_result R L now s = rtry (with_key L s (\<lambda>k. rbind (r_get R now k) (\<lambda>v. case v of
     None \<Rightarrow> rret None | Some (RDoc d) \<Rightarrow> rret (Some d) | Some _ \<Rightarrow> (\<lambda>r. (r, Inl ValueError))))) (\<lambda>_. None)"

definition set_cached_result :: "('r, wire) redis \<Rightarrow> cache_lib \<Rightarrow> rat \<Rightarrow> cache_slot \<Rightarrow> message \<Rightarrow> 'r \<Rightarrow> 'r" where
  "set_cached_result R L now s body r =
     (if wget body ''decision'' \<noteq> Some (WText (us ''ALLOW'')) then r
      else fst (rtry (with_key L s (\<lambda>k. r_setex R now k CACHE_TTL (RDoc (WDict body)))) (\<lambda>_. ()) r))"

definition invalidate :: "('r, wire) redis \<Rightarrow> cache_lib \<Rightarrow> rat \<Rightarrow> cache_slot \<Rightarrow> 'r \<Rightarrow> 'r" where
  "invalidate R L now s r = fst (rtry (with_key L s (r_delete R now)) (\<lambda>_. ()) r)"

section \<open>What a key determines\<close>

text \<open>A colon-separated prefix is read back field by field, as long as no field has a colon.\<close>

lemma colon_char: "of_char c = (58 :: nat) \<longleftrightarrow> c = CHR '':''"
proof -
  have "(58 :: nat) = of_char (CHR '':'')" by simp
  then show ?thesis by (simp only: of_char_eq_iff)
qed

lemma field_split:
  assumes "us a @ us '':'' @ x = us b @ us '':'' @ y" "CHR '':'' \<notin> set a" "CHR '':'' \<notin> set b"
  shows "a = b \<and> x = y"
  using assms
proof (induction a arbitrary: b)
  case Nil
  then show ?case by (cases b) (auto simp: colon_char)
next
  case (Cons c a)
  then show ?case by (cases b) (auto simp: colon_char)
qed

definition plain_slot :: "cache_slot \<Rightarrow> bool" where
  "plain_slot s \<longleftrightarrow> list_all (\<lambda>f. CHR '':'' \<notin> set f) [ck_tenant s, ck_policy s, ck_source s, ck_detection_mode s, ck_execution_mode s]"

definition same_slot :: "cache_lib \<Rightarrow> cache_slot \<Rightarrow> cache_slot \<Rightarrow> bool" where
  "same_slot L s s' \<longleftrightarrow> ck_tenant s = ck_tenant s' \<and> ck_policy s = ck_policy s' \<and> ck_source s = ck_source s'
     \<and> ck_detection_mode s = ck_detection_mode s' \<and> ck_execution_mode s = ck_execution_mode s'
     \<and> folded L (ck_text s) = folded L (ck_text s')"

lemma us_append: "us (a @ b) = us a @ us b"
  by (simp add: us_def)

lemma cache_key_determines:
  assumes "inj (ca_sha256 L)" "plain_slot s" "plain_slot s'" "cache_key L s = Inr k" "cache_key L s' = Inr k"
  shows "same_slot L s s'"
proof -
  have "cache_content L s = cache_content L s'" using assms(1,4,5) by (auto simp: cache_key_def inj_eq split: if_splits)
  with assms(2,3) show ?thesis
    unfolding cache_content_def us_append append_assoc
    by (auto simp: same_slot_def plain_slot_def simp del: us_simps dest!: field_split)
qed

lemma same_slot_key: "same_slot L s s' \<Longrightarrow> cache_key L s = cache_key L s'"
  by (simp add: same_slot_def cache_key_def cache_content_def)

end
