(* ===== verification/Scan_API.thy ===== *)
theory Scan_API
  imports Access_Scope Semantic_Cache Rate_Limit
begin

text \<open>
  The scan endpoints (\<^verbatim>\<open>api/v1/endpoints/ai.py\<close>) with the validators of their bodies (\<^verbatim>\<open>api/v1/schemas/request.py\<close>):
  the single scan with its guards, its response cache and its audit record, the batch scan, and the read-back of one
  record. They are composed from the gateway service, the policy resolver, the rate limiter, the response cache and
  the audit writer. Identifiers, clock readings and durations are arguments; metrics and log lines are left out.
\<close>

section \<open>Request bodies\<close>

record scan_settings =
  ss_max_input_chars :: int
  ss_max_batch_items :: int
  ss_trial_max_input_chars :: int
  ss_trial_rate_limit_per_minute :: int
  ss_debug_rate_limit_per_minute :: int

record scan_body =
  sb_input :: ustr
  sb_detection_mode :: detection_mode
  sb_execution_mode :: execution_mode
  sb_model :: "string option"
  sb_session_id :: "string option"
  sb_turn_index :: "int option"
  sb_run_id :: "string option"
  sb_input_source :: string
  sb_source :: "string option"
  sb_user_id :: "string option"
  sb_stream :: bool
  sb_debug :: bool

text \<open>\<^verbatim>\<open>^[A-Za-z0-9_.:\-]+$\<close> with at most 200 characters.\<close>

definition session_id_ok :: "string option \<Rightarrow> bool" where
  "session_id_ok v = (case v of None \<Rightarrow> True
     | Some s \<Rightarrow> s \<noteq> [] \<and> length s \<le> 200 \<and> list_all (\<lambda>c. ascii_alnum (of_char c) \<or> c \<in> set ''_.:-'') s)"

definition fields_ok :: "scan_body \<Rightarrow> bool" where
  "fields_ok b \<longleftrightarrow> sb_input b \<noteq> [] \<and> session_id_ok (sb_session_id b) \<and> session_id_ok (sb_run_id b)
     \<and> (case sb_turn_index b of None \<Rightarrow> True | Some n \<Rightarrow> 0 \<le> n \<and> n \<le> 10000)"

definition validate_scan :: "scan_settings \<Rightarrow> scan_body \<Rightarrow> api_error + scan_body" where
  "validate_scan S b =
     (let n = int (length (sb_input b)) in
      if \<not> fields_ok b then Inl (Catalog ''VALIDATION_ERROR'')
      else if n > ss_max_input_chars S then Inl (Catalog ''VALIDATION_ERROR'')
      else if (n + 1) div 2 > ss_max_input_chars S div 2 then Inl (Catalog ''VALIDATION_ERROR'')
      else if sb_stream b \<and> sb_execution_mode b = SCAN_ONLY then Inl (Catalog ''STREAM_NOT_SUPPORTED'')
      else if sb_execution_mode b = PROXY \<and> \<not> truthy (sb_model b) then Inl (Catalog ''MODEL_REQUIRED'')
      else Inr (if sb_execution_mode b = SCAN_ONLY then b\<lparr>sb_model := None\<rparr> else b))"

record batch_item =
  bi_input :: ustr
  bi_input_source :: string
  bi_id :: "string option"

record batch_body =
  bb_items :: "batch_item list"
  bb_detection_mode :: detection_mode

definition validate_batch :: "scan_settings \<Rightarrow> batch_body \<Rightarrow> api_error + batch_body" where
  "validate_batch S b =
     (if bb_items b = [] \<or> list_ex (\<lambda>i. bi_input i = [] \<or> (case bi_id i of Some s \<Rightarrow> 200 < length s | None \<Rightarrow> False)) (bb_items b)
      then Inl (Catalog ''VALIDATION_ERROR'')
      else if int (length (bb_items b)) > ss_max_batch_items S then Inl (Catalog ''VALIDATION_ERROR'')
      else if list_ex (\<lambda>i. int (length (bi_input i)) > ss_max_input_chars S) (bb_items b) then Inl (Catalog ''VALIDATION_ERROR'')
      else Inr b)"

section \<open>Responses\<close>

fun execution_value :: "execution_mode \<Rightarrow> string" where
  "execution_value SCAN_ONLY = ''scan_only''"
| "execution_value PROXY = ''proxy''"

abbreviation "wtext s \<equiv> WText (us s)"

definition wopt :: "('a \<Rightarrow> wire) \<Rightarrow> 'a option \<Rightarrow> wire" where
  "wopt f v = (case v of None \<Rightarrow> WNull | Some x \<Rightarrow> f x)"

definition wdict :: "(string \<times> wire) list \<Rightarrow> message" where
  "wdict kvs = map (\<lambda>(k, v). (us k, v)) kvs"

definition round2 :: "float64 \<Rightarrow> float64" where
  "round2 x = fl (of_int (rhe (x * 100)) / 100)"

definition restrict_layer :: "wire \<Rightarrow> wire" where
  "restrict_layer v = (case v of WDict d \<Rightarrow> WDict (filter (\<lambda>(k, _). k \<noteq> us ''score'') d) | _ \<Rightarrow> v)"

definition restrict_layer_scores :: "message \<Rightarrow> message" where
  "restrict_layer_scores body = (case wget body ''assessment'' of
     Some (WDict a) \<Rightarrow> (case wget a ''layers'' of
         Some (WList ls) \<Rightarrow> dict_set (us ''assessment'') (WDict (dict_set (us ''layers'') (WList (map restrict_layer ls)) a)) body
       | _ \<Rightarrow> body)
   | _ \<Rightarrow> body)"

definition layer_decision :: "float64 \<Rightarrow> float64 \<Rightarrow> float64 \<Rightarrow> wire" where
  "layer_decision bt st v = wtext (decision_value (if bt \<le> v then BLOCK else if st \<le> v then SANITIZE else ALLOW))"

definition posture_dict :: "posture_info \<Rightarrow> wire" where
  "posture_dict p = WDict (wdict [(''dimension'', wtext (pi_dimension p)), (''input_source'', WText (pi_input_source p)),
     (''tier'', wtext (pi_tier p)), (''applied_delta'', WNum (pi_applied_delta p)),
     (''effective_block'', WNum (pi_effective_block p)), (''effective_sanitize'', WNum (pi_effective_sanitize p))])"

definition threats_list :: "gateway_decision \<Rightarrow> wire" where
  "threats_list d = WList (map (\<lambda>t. wtext (threat_value t)) (gd_threats d))"

definition build_assessment :: "gateway_decision \<Rightarrow> float64 \<Rightarrow> float64 \<Rightarrow> message" where
  "build_assessment d bt st = wdict
     ([(''decision'', wtext (decision_value (gd_decision d))), (''risk_score'', WNum (rs_value (gd_risk_score d))),
       (''risk_level'', wtext (level_value (gd_risk_level d))), (''primary_reason'', wopt (\<lambda>s. wtext s) (gd_primary_reason d)),
       (''confidence'', wopt WNum (gd_confidence d)), (''confidence_band'', wopt (\<lambda>s. wtext s) (gd_confidence_band d)),
       (''threats'', threats_list d),
       (''layers'', WList (map (\<lambda>(name, v). WDict (wdict [(''name'', wtext name), (''score'', WNum v), (''decision'', layer_decision bt st v)]))
          (if_none (gd_layer_scores d) [])))]
      @ (case gd_posture d of Some p \<Rightarrow> [(''posture'', posture_dict p)] | None \<Rightarrow> []))"

definition debug_block :: "layer_scores \<Rightarrow> float64 \<Rightarrow> float64 \<Rightarrow> wire" where
  "debug_block s bt st = WDict (wdict
     [(''rule_score'', WNum (ls_get s ''rule_score'')), (''ml_score'', WNum (ls_get s ''ml_score'')),
      (''llm_score'', WNum (ls_get s ''llm_score'')), (''pii_score'', WNum (ls_get s ''pii_score'')),
      (''layer_decisions'', WDict (wdict [(''rule'', layer_decision bt st (ls_get s ''rule_score'')),
         (''ml'', layer_decision bt st (ls_get s ''ml_score'')), (''llm'', layer_decision bt st (ls_get s ''llm_score''))]))])"

text \<open>\<^verbatim>\<open>_build_response\<close>; a threshold the caller leaves out is the configured one.\<close>

definition build_response :: "gw_settings \<Rightarrow> gateway_decision \<Rightarrow> bool \<Rightarrow> float64 option \<Rightarrow> float64 option \<Rightarrow> float64 \<Rightarrow> message" where
  "build_response S d debug block sanitize latency =
     (let bt = if_none block (gs_block_threshold S); st = if_none sanitize (gs_sanitize_threshold S) in wdict
      ([(''trace_id'', wtext (gd_trace_id d)), (''decision'', wtext (decision_value (gd_decision d))), (''decision_version'', wtext ''v1.0''),
        (''risk_score'', WNum (rs_value (gd_risk_score d))), (''primary_reason'', wopt (\<lambda>s. wtext s) (gd_primary_reason d)),
        (''confidence'', wopt WNum (gd_confidence d)), (''confidence_band'', wopt (\<lambda>s. wtext s) (gd_confidence_band d)),
        (''threats'', threats_list d), (''sanitization_applied'', WBool (gd_sanitized_input d \<noteq> None)),
        (''processing'', WDict (wdict [(''latency_ms'', WNum (round2 latency)), (''llm_invoked'', WBool (gd_llm_invoked d)),
           (''detection_mode'', wtext (mode_value (gd_detection_mode d))), (''execution_mode'', wtext (execution_value (gd_execution_mode d)))]))]
       @ (case gd_sanitized_input d of Some t \<Rightarrow> [(''sanitized_input'', WText t)] | None \<Rightarrow> [])
       @ (case gd_output d of Some t \<Rightarrow> [(''output'', WText t)] | None \<Rightarrow> [])
       @ (if debug \<and> truthy (gd_layer_scores d) then [(''debug'', debug_block (the (gd_layer_scores d)) bt st)] else [])
       @ [(''assessment'', WDict (build_assessment d bt st))]))"

section \<open>Audit rows\<close>

definition guardrail_scores_of :: "gateway_decision \<Rightarrow> (string \<times> float64) list" where
  "guardrail_scores_of d = (case gd_layer_scores d of None \<Rightarrow> [] | Some s \<Rightarrow> if s = [] then [] else
     (''pii'', ls_get s ''pii_score'') # (if 0 < ls_get s ''toxicity_score'' then [(''toxicity'', ls_get s ''toxicity_score'')] else []))"

definition of_opt_float :: "float64 option \<Rightarrow> pyval" where
  "of_opt_float v = (case v of Some x \<Rightarrow> PFloat x | None \<Rightarrow> PNone)"

definition of_opt_int :: "int option \<Rightarrow> pyval" where
  "of_opt_int v = (case v of Some n \<Rightarrow> PInt n | None \<Rightarrow> PNone)"

text \<open>What the caller supplied about the scan, beside the input.\<close>

record scan_context =
  sx_source :: string
  sx_user_id :: "string option"
  sx_input_length :: nat
  sx_session_id :: "string option"
  sx_turn_index :: "int option"
  sx_run_id :: "string option"
  sx_input_source :: string

definition attribution :: "api_caller \<Rightarrow> scan_context \<Rightarrow> row" where
  "attribution c x =
     [(''tenant_id'', of_opt_str (cl_tenant_id c)), (''source'', PStr (sx_source x)), (''user_id'', of_opt_str (sx_user_id x)),
      (''key_id'', of_opt_str (cl_key_id c)), (''ip_address'', of_opt_str (cl_ip_address c)), (''user_agent'', of_opt_str (cl_user_agent c)),
      (''attribution_verified'', PBool False), (''app_id'', of_opt_str (cl_app_id c)), (''dept_id'', of_opt_str (cl_dept_id c)),
      (''input_length'', PInt (int (sx_input_length x))), (''session_id'', of_opt_str (sx_session_id x)),
      (''turn_index'', of_opt_int (sx_turn_index x)), (''run_id'', of_opt_str (sx_run_id x)), (''input_source'', PStr (sx_input_source x)),
      (''proxy_interaction_id'', PNone)]"

definition build_audit_data :: "api_caller \<Rightarrow> gateway_result \<Rightarrow> string \<Rightarrow> string \<Rightarrow> string \<Rightarrow> string option \<Rightarrow> scan_context \<Rightarrow> float64 \<Rightarrow> row" where
  "build_audit_data c res trace_id det_mode exe_mode policy_source x latency =
     (let d = gr_decision res in
      [(''trace_id'', PStr trace_id), (''decision'', PStr (decision_value (gd_decision d))), (''risk_score'', PFloat (rs_value (gd_risk_score d))),
       (''threats'', PList (map (\<lambda>t. PStr (threat_value t)) (gd_threats d))), (''input_hash'', PStr (al_input_hash (gr_audit_log res))),
       (''detection_mode'', PStr det_mode), (''execution_mode'', PStr exe_mode), (''llm_invoked'', PBool (gd_llm_invoked d)),
       (''latency_ms'', PFloat (round2 latency)), (''detection_scores'', floats_value (detection_scores_of d)),
       (''guardrail_scores'', floats_value (guardrail_scores_of d)), (''policy_source'', of_opt_str policy_source),
       (''primary_reason'', of_opt_str (gd_primary_reason d)), (''confidence'', of_opt_float (gd_confidence d)),
       (''confidence_band'', of_opt_str (gd_confidence_band d)),
       (''severity'', PStr (level_value (compute_severity (gd_decision d) (rs_value (gd_risk_score d)) (gd_primary_reason d))))]
      @ attribution c x)"

text \<open>A body read from the cache, as columns; its texts are the ASCII texts of a built response.\<close>

fun of_wire :: "wire \<Rightarrow> pyval" where
  "of_wire WNull = PNone"
| "of_wire (WBool b) = PBool b"
| "of_wire (WInt n) = PInt n"
| "of_wire (WNum x) = PFloat x"
| "of_wire (WText t) = PStr (map char_of t)"
| "of_wire (WList vs) = PList (map of_wire vs)"
| "of_wire (WDict kvs) = PDict (map (\<lambda>(k, v). (map char_of k, of_wire v)) kvs)"

definition wget_or :: "message \<Rightarrow> string \<Rightarrow> wire \<Rightarrow> wire" where
  "wget_or d k v = if_none (wget d k) v"

text \<open>A decision text that is neither of the two is judged like an allow.\<close>

definition decision_of :: "wire \<Rightarrow> decision_type" where
  "decision_of v = (if v = wtext ''BLOCK'' then BLOCK else if v = wtext ''SANITIZE'' then SANITIZE else ALLOW)"

definition as_number :: "wire \<Rightarrow> float64 py" where
  "as_number v = (case v of WNum x \<Rightarrow> Inr x | WInt n \<Rightarrow> Inr (of_int n) | WBool b \<Rightarrow> Inr (if b then 1 else 0) | _ \<Rightarrow> Inl TypeError)"

definition cached_severity :: "message \<Rightarrow> string py" where
  "cached_severity cached =
     (let d = decision_of (wget_or cached ''decision'' (wtext ''ALLOW''));
          reason = (case wget_or cached ''primary_reason'' WNull of WText t \<Rightarrow> Some (map char_of t) | _ \<Rightarrow> None) in
      if d = BLOCK then py_bind (as_number (wget_or cached ''risk_score'' (WNum 0))) (\<lambda>v. Inr (level_value (compute_severity d v reason)))
      else Inr (level_value (compute_severity d 0 reason)))"

definition build_cache_hit_audit :: "cache_lib \<Rightarrow> api_caller \<Rightarrow> scan_body \<Rightarrow> scan_context \<Rightarrow> message \<Rightarrow> row py" where
  "build_cache_hit_audit L c b x cached =
     py_bind (case wget_or cached ''processing'' (WDict []) of WDict p \<Rightarrow> Inr p | _ \<Rightarrow> Inl (OtherError ''AttributeError'')) (\<lambda>processing.
     py_bind (as_number (wget_or processing ''latency_ms'' (WNum 0))) (\<lambda>latency.
     py_bind (cached_severity cached) (\<lambda>severity.
       Inr ([(''trace_id'', of_wire (wget_or cached ''trace_id'' WNull)), (''decision'', of_wire (wget_or cached ''decision'' (wtext ''ALLOW''))),
         (''risk_score'', of_wire (wget_or cached ''risk_score'' (WNum 0))), (''threats'', of_wire (wget_or cached ''threats'' (WList []))),
         (''input_hash'', PStr (''cache:'' @ take 64 (ca_sha256 L (sb_input b)))), (''detection_mode'', PStr (mode_value (sb_detection_mode b))),
         (''execution_mode'', PStr (execution_value (sb_execution_mode b))),
         (''llm_invoked'', of_wire (wget_or processing ''llm_invoked'' (WBool False))), (''latency_ms'', PFloat (round2 latency)),
         (''detection_scores'', PDict []), (''guardrail_scores'', PDict []), (''policy_source'', PStr ''cache''),
         (''primary_reason'', of_wire (wget_or cached ''primary_reason'' WNull)), (''confidence'', of_wire (wget_or cached ''confidence'' WNull)),
         (''confidence_band'', of_wire (wget_or cached ''confidence_band'' WNull)), (''severity'', PStr severity)]
        @ attribution c x))))"

end
