(* ===== verification/Scan_Endpoints.thy ===== *)
theory Scan_Endpoints
  imports Scan_API
begin

text \<open>
  The three routes of \<^verbatim>\<open>api/v1/endpoints/ai.py\<close>. A route takes the shared state (response cache, rate-limit store,
  audit table) to a new one and to an answer or a refusal; webhook events and provider prompts are recorded in it.
\<close>

section \<open>Environment, state and steps\<close>

record ('r, 'z) scan_env =
  se_settings :: scan_settings
  se_limiter :: limiter_settings
  se_zredis :: "'z zredis"
  se_redis :: "('r, wire) redis"
  se_cache :: cache_lib
  se_gateway :: gw_env
  se_policy :: "string option \<Rightarrow> string option \<Rightarrow> string option \<Rightarrow> policy_error + (jdict \<times> string)"
  se_digest :: digest_lib
  se_now :: rat
  se_member :: "nat \<Rightarrow> ustr"
  se_fresh :: "nat \<Rightarrow> string"
  se_latency :: "nat \<Rightarrow> float64"
  se_dept_name :: "string \<Rightarrow> string option py"
  se_app_name :: "string \<Rightarrow> string option py"
  se_interaction :: "pyval \<Rightarrow> message option py"

record ('r, 'z) scan_world =
  sw_cache :: 'r
  sw_limits :: 'z
  sw_audit :: "row list"
  sw_events :: "row list"
  sw_calls :: "(string \<times> ustr) list"

type_synonym ('w, 'a) step = "'w \<Rightarrow> 'w \<times> (api_error + 'a)"

definition sbind :: "('w, 'a) step \<Rightarrow> ('a \<Rightarrow> ('w, 'b) step) \<Rightarrow> ('w, 'b) step" where
  "sbind m f = (\<lambda>w. case m w of (w', Inl e) \<Rightarrow> (w', Inl e) | (w', Inr x) \<Rightarrow> f x w')"

definition sret :: "'a \<Rightarrow> ('w, 'a) step" where
  "sret x = (\<lambda>w. (w, Inr x))"

definition lift :: "api_error + 'a \<Rightarrow> ('w, 'a) step" where
  "lift m = (\<lambda>w. (w, m))"

definition refuse_if :: "bool \<Rightarrow> string \<Rightarrow> ('w, unit) step" where
  "refuse_if b code = lift (if b then Inl (Catalog code) else Inr ())"

definition crashing :: "'a py \<Rightarrow> api_error + 'a" where
  "crashing m = (case m of Inl e \<Rightarrow> Inl (Crash (Raised e)) | Inr x \<Rightarrow> Inr x)"

text \<open>One unit of a bucket; the limiter itself fails open.\<close>

definition bucket :: "('r, 'z) scan_env \<Rightarrow> nat \<Rightarrow> string \<Rightarrow> int \<Rightarrow> (('r, 'z) scan_world, unit) step" where
  "bucket E i ident limit w =
     (case is_rate_limited (se_zredis E) (se_limiter E) (se_now E) (se_member E i) ident (Some limit) 1 (sw_limits w) of
        (z, (limited, _, _)) \<Rightarrow> (w\<lparr>sw_limits := z\<rparr>, if limited then Inl (Catalog ''RATE_LIMIT_EXCEEDED'') else Inr ()))"

text \<open>A degraded policy is a refusal of its own; anything else the resolver raises leaves the route.\<close>

definition resolve_scope :: "('r, 'z) scan_env \<Rightarrow> api_caller \<Rightarrow> api_error + (jdict \<times> string)" where
  "resolve_scope E c = (case se_policy E (cl_tenant_id c) (cl_dept_id c) (cl_app_id c) of
     Inl (Degraded _) \<Rightarrow> Inl (Catalog ''DETECTION_ERROR'') | Inl e \<Rightarrow> Inl (Crash e) | Inr p \<Rightarrow> Inr p)"

definition write_audit :: "('r, 'z) scan_env \<Rightarrow> row \<Rightarrow> (('r, 'z) scan_world, unit) step" where
  "write_audit E data w = (case create (se_digest E) (se_now E) data (sw_audit w) of
     Inl e \<Rightarrow> (w, Inl (Crash (Raised e))) | Inr table \<Rightarrow> (w\<lparr>sw_audit := table\<rparr>, Inr ()))"

definition schedule_events :: "row list \<Rightarrow> (('r, 'z) scan_world, unit) step" where
  "schedule_events rows w = (w\<lparr>sw_events := sw_events w @ rows\<rparr>, Inr ())"

section \<open>The policy of a scan\<close>

text \<open>\<^verbatim>\<open>policy["thresholds"]\<close> and \<^verbatim>\<open>policy["detection"]\<close>, \<^verbatim>\<open>policy["llm"]\<close>.\<close>

definition core_inputs :: "jdict \<Rightarrow> decision_inputs py" where
  "core_inputs policy =
     py_bind (get2 policy ''thresholds'' ''block'') (\<lambda>block. py_bind (get2 policy ''thresholds'' ''sanitize'') (\<lambda>sanitize.
     py_bind (get2 policy ''detection'' ''rule_enabled'') (\<lambda>rule. py_bind (get2 policy ''detection'' ''ml_enabled'') (\<lambda>ml.
     py_bind (get2 policy ''detection'' ''llm_enabled'') (\<lambda>llm. py_bind (get1 policy ''llm'') (\<lambda>llm_settings.
     py_bind (as_num block) (\<lambda>b. py_bind (as_num sanitize) (\<lambda>s.
       Inr \<lparr>di_block = Some b, di_sanitize = Some s, di_pii_block = None, di_pii_sanitize = None, di_toxicity_block = None,
            di_toxicity_sanitize = None, di_rule_enabled = json_truthy rule, di_ml_enabled = json_truthy ml,
            di_llm_enabled = json_truthy llm, di_llm_settings = llm_settings\<rparr>))))))))"

text \<open>A guardrail threshold that is no number makes every scan a system error in the code and an exception here.\<close>

definition guardrail_inputs :: "jdict \<Rightarrow> decision_inputs \<Rightarrow> decision_inputs py" where
  "guardrail_inputs policy di =
     py_bind (section_of (JObj policy) ''guardrails'') (\<lambda>g. py_bind (section_of g ''pii'') (\<lambda>pii.
     py_bind (threshold_in pii ''block_threshold'') (\<lambda>pb. py_bind (threshold_in pii ''sanitize_threshold'') (\<lambda>ps.
     py_bind (section_of g ''toxicity'') (\<lambda>tox.
     py_bind (threshold_in tox ''block_threshold'') (\<lambda>tb. py_bind (threshold_in tox ''sanitize_threshold'') (\<lambda>ts.
       Inr (di\<lparr>di_pii_block := pb, di_pii_sanitize := ps, di_toxicity_block := tb, di_toxicity_sanitize := ts\<rparr>))))))))"

definition process_args :: "decision_inputs \<Rightarrow> gw_args" where
  "process_args d = \<lparr>ga_block_threshold = di_block d, ga_sanitize_threshold = di_sanitize d, ga_pii_block_threshold = di_pii_block d,
     ga_pii_sanitize_threshold = di_pii_sanitize d, ga_toxicity_block_threshold = di_toxicity_block d,
     ga_rule_enabled = di_rule_enabled d, ga_ml_enabled = di_ml_enabled d, ga_llm_enabled = di_llm_enabled d,
     ga_llm_settings_model = (case di_llm_settings d of
        JObj o1 \<Rightarrow> (case map_of o1 ''model'' of Some (JStr m) \<Rightarrow> Some m | _ \<Rightarrow> None) | _ \<Rightarrow> None)\<rparr>"

section \<open>The single scan\<close>

text \<open>Steps 1 to 4: debug output, its own bucket, and the restrictions of a trial key.\<close>

definition scan_guards :: "('r, 'z) scan_env \<Rightarrow> api_caller \<Rightarrow> scan_body \<Rightarrow> (('r, 'z) scan_world, unit) step" where
  "scan_guards E c b = (let S = se_settings E in
     sbind (lift (principal_from_state c)) (\<lambda>_.
     sbind (refuse_if (sb_debug b \<and> \<not> cl_is_admin c) ''FORBIDDEN'') (\<lambda>_.
     sbind (if sb_debug b then bucket E 0 (''debug:key:'' @ str_or (cl_key_id c) ''admin'') (ss_debug_rate_limit_per_minute S) else sret ()) (\<lambda>_.
     if cl_key_type c \<noteq> ''trial'' then sret ()
     else sbind (refuse_if (int (length (sb_input b)) > ss_trial_max_input_chars S) ''INVALID_REQUEST'') (\<lambda>_.
          sbind (refuse_if (sb_execution_mode b = PROXY) ''FEATURE_UNAVAILABLE'') (\<lambda>_.
          if truthy (cl_key_id c) then bucket E 1 (''trial:key:'' @ the (cl_key_id c)) (ss_trial_rate_limit_per_minute S) else sret ()))))))"

definition scan_inputs :: "('r, 'z) scan_env \<Rightarrow> api_caller \<Rightarrow> scan_body \<Rightarrow> api_error + (jdict \<times> string \<times> decision_inputs)" where
  "scan_inputs E c b =
     and_then (resolve_scope E c) (\<lambda>(policy, source). and_then (crashing (core_inputs policy)) (\<lambda>core.
       if sb_execution_mode b = PROXY \<and> \<not> di_llm_enabled core then Inl (Catalog ''FEATURE_UNAVAILABLE'')
       else and_then (crashing (guardrail_inputs policy core)) (\<lambda>di. Inr (policy, source, di))))"

definition scan_slot :: "('r, 'z) scan_env \<Rightarrow> api_caller \<Rightarrow> scan_body \<Rightarrow> decision_inputs \<Rightarrow> cache_slot" where
  "scan_slot E c b di = \<lparr>ck_text = sb_input b, ck_detection_mode = mode_value (sb_detection_mode b),
     ck_execution_mode = execution_value (sb_execution_mode b), ck_tenant = str_or (cl_tenant_id c) ''global'',
     ck_policy = policy_identity (se_cache E) di, ck_source = sb_input_source b\<rparr>"

definition source_of :: "api_caller \<Rightarrow> string option \<Rightarrow> string" where
  "source_of c stated = (if truthy stated then the stated else str_or (cl_key_name c) ''unknown'')"

definition context_of :: "api_caller \<Rightarrow> scan_body \<Rightarrow> scan_context" where
  "context_of c b = \<lparr>sx_source = source_of c (sb_source b), sx_user_id = sb_user_id b, sx_input_length = length (sb_input b),
     sx_session_id = sb_session_id b, sx_turn_index = sb_turn_index b, sx_run_id = sb_run_id b, sx_input_source = sb_input_source b\<rparr>"

datatype scan_answer = Scanned message | ProviderFailed string

definition served :: "bool \<Rightarrow> message \<Rightarrow> scan_answer" where
  "served may_read body = Scanned (if may_read then body else restrict_layer_scores body)"

text \<open>A hit is served and audited under an identifier of its own.\<close>

definition serve_hit :: "('r, 'z) scan_env \<Rightarrow> api_caller \<Rightarrow> scan_body \<Rightarrow> bool \<Rightarrow> message \<Rightarrow> (('r, 'z) scan_world, scan_answer) step" where
  "serve_hit E c b may_read stored =
     (let cached = dict_set (us ''trace_id'') (wtext (mk_trace_id (se_fresh E 0) None)) stored in
      sbind (lift (crashing (build_cache_hit_audit (se_cache E) c b (context_of c b) cached))) (\<lambda>data.
      sbind (write_audit E data) (\<lambda>_. sbind (schedule_events [data]) (\<lambda>_. sret (served may_read cached)))))"

definition scan_request :: "('r, 'z) scan_env \<Rightarrow> api_caller \<Rightarrow> scan_body \<Rightarrow> incoming_request" where
  "scan_request E c b = \<lparr>rq_input = sb_input b, rq_trace_id = mk_trace_id (se_fresh E 0) None, rq_detection_mode = sb_detection_mode b,
     rq_execution_mode = sb_execution_mode b, rq_model = sb_model b, rq_input_source = Some (us (sb_input_source b)),
     rq_metadata = \<lparr>md_tenant_id = cl_tenant_id c, md_source = sb_source b, md_user_id = sb_user_id b\<rparr>,
     rq_stream = sb_stream b, rq_debug = sb_debug b\<rparr>"

text \<open>The application's bucket. A limit that is no number cannot be enforced; the script compares with a fraction's floor.\<close>

definition app_bucket :: "('r, 'z) scan_env \<Rightarrow> api_caller \<Rightarrow> jdict \<Rightarrow> (('r, 'z) scan_world, unit) step" where
  "app_bucket E c policy =
     (if \<not> truthy (cl_app_id c) then sret ()
      else sbind (lift (crashing (py_bind (section_of (JObj policy) ''rate_limit'') (\<lambda>s. override_get s ''per_minute'')))) (\<lambda>v.
        case v of JNum n \<Rightarrow> bucket E 2 (''app:'' @ the (cl_app_id c)) \<lfloor>n\<rfloor> | _ \<Rightarrow> sret ()))"

definition call_gateway :: "('r, 'z) scan_env \<Rightarrow> decision_inputs \<Rightarrow> incoming_request \<Rightarrow> (('r, 'z) scan_world, gateway_result) step" where
  "call_gateway E di rq w = (case process (se_gateway E) (process_args di) rq of
     (res, calls) \<Rightarrow> (w\<lparr>sw_calls := sw_calls w @ calls\<rparr>, Inr res))"

definition cache_result :: "('r, 'z) scan_env \<Rightarrow> cache_slot \<Rightarrow> message \<Rightarrow> (('r, 'z) scan_world, unit) step" where
  "cache_result E ck body w = (w\<lparr>sw_cache := set_cached_result (se_redis E) (se_cache E) (se_now E) ck body (sw_cache w)\<rparr>, Inr ())"

definition scan_afresh :: "('r, 'z) scan_env \<Rightarrow> api_caller \<Rightarrow> scan_body \<Rightarrow> bool \<Rightarrow> jdict \<Rightarrow> string \<Rightarrow> decision_inputs \<Rightarrow>
    (('r, 'z) scan_world, scan_answer) step" where
  "scan_afresh E c b may_read policy source di =
     sbind (app_bucket E c policy) (\<lambda>_.
     sbind (call_gateway E di (scan_request E c b)) (\<lambda>res.
     let trace_id = rq_trace_id (scan_request E c b);
         data = build_audit_data c res trace_id (mode_value (sb_detection_mode b)) (execution_value (sb_execution_mode b)) (Some source)
                  (context_of c b) (se_latency E 0) in
     sbind (write_audit E data) (\<lambda>_. sbind (schedule_events [data]) (\<lambda>_.
     if gr_provider_error res \<noteq> None then sret (ProviderFailed trace_id)
     else let response = build_response (ge_settings (se_gateway E)) (gr_decision res) (sb_debug b \<and> cl_is_admin c)
                           (di_block di) (di_sanitize di) (se_latency E 0) in
       sbind (cache_result E (scan_slot E c b di) (filter (\<lambda>(k, _). k \<noteq> us ''debug'') response)) (\<lambda>_.
       sret (served may_read response))))))"

definition read_cache :: "('r, 'z) scan_env \<Rightarrow> cache_slot \<Rightarrow> (('r, 'z) scan_world, wire option) step" where
  "read_cache E ck w = (case get_cached_result (se_redis E) (se_cache E) (se_now E) ck (sw_cache w) of
     (r, v) \<Rightarrow> (w\<lparr>sw_cache := r\<rparr>, Inr v))"

fun wire_true :: "wire \<Rightarrow> bool" where
  "wire_true WNull = False"
| "wire_true (WBool b) = b"
| "wire_true (WInt n) = (n \<noteq> 0)"
| "wire_true (WNum x) = (x \<noteq> 0)"
| "wire_true (WText t) = (t \<noteq> [])"
| "wire_true (WList vs) = (vs \<noteq> [])"
| "wire_true (WDict kvs) = (kvs \<noteq> [])"

text \<open>\<^verbatim>\<open>if cached:\<close> and \<^verbatim>\<open>{**cached, ...}\<close>: a stored value that is no dictionary cannot be unpacked.\<close>

definition serve_or_scan :: "('r, 'z) scan_env \<Rightarrow> api_caller \<Rightarrow> scan_body \<Rightarrow> bool \<Rightarrow> jdict \<Rightarrow> string \<Rightarrow> decision_inputs \<Rightarrow> wire option \<Rightarrow>
    (('r, 'z) scan_world, scan_answer) step" where
  "serve_or_scan E c b may_read policy source di cached = (case cached of
     Some (WDict d) \<Rightarrow> if d = [] then scan_afresh E c b may_read policy source di else serve_hit E c b may_read d
   | Some v \<Rightarrow> if wire_true v then lift (Inl (Crash (Raised TypeError))) else scan_afresh E c b may_read policy source di
   | None \<Rightarrow> scan_afresh E c b may_read policy source di)"

definition ai_request :: "('r, 'z) scan_env \<Rightarrow> api_caller \<Rightarrow> scan_body \<Rightarrow> (('r, 'z) scan_world, scan_answer) step" where
  "ai_request E c b =
     sbind (scan_guards E c b) (\<lambda>_. sbind (lift (scan_inputs E c b)) (\<lambda>(policy, source, di).
     sbind (lift (holds_permission c ''settings:read'' False)) (\<lambda>may_read.
     sbind (read_cache E (scan_slot E c b di)) (serve_or_scan E c b may_read policy source di))))"

section \<open>The batch scan\<close>

record batch_summary =
  bs_blocked :: nat
  bs_sanitized :: nat
  bs_allowed :: nat
  bs_highest_risk :: float64
  bs_highest_item :: "string option"
  bs_threats :: "string list"

definition empty_summary :: batch_summary where
  "empty_summary = \<lparr>bs_blocked = 0, bs_sanitized = 0, bs_allowed = 0, bs_highest_risk = 0, bs_highest_item = None, bs_threats = []\<rparr>"

definition count_decision :: "decision_type \<Rightarrow> batch_summary \<Rightarrow> batch_summary" where
  "count_decision v s = (case v of BLOCK \<Rightarrow> s\<lparr>bs_blocked := Suc (bs_blocked s)\<rparr>
     | SANITIZE \<Rightarrow> s\<lparr>bs_sanitized := Suc (bs_sanitized s)\<rparr> | ALLOW \<Rightarrow> s\<lparr>bs_allowed := Suc (bs_allowed s)\<rparr>)"

definition tally :: "batch_item \<Rightarrow> gateway_decision \<Rightarrow> batch_summary \<Rightarrow> batch_summary" where
  "tally it d s0 =
     (let s = count_decision (gd_decision d) s0; risk = rs_value (gd_risk_score d);
          s1 = (if bs_highest_risk s < risk then s\<lparr>bs_highest_risk := risk, bs_highest_item := bi_id it\<rparr> else s)
      in s1\<lparr>bs_threats := add_new (bs_threats s1) (map threat_value (gd_threats d))\<rparr>)"

definition batch_row :: "('r, 'z) scan_env \<Rightarrow> api_caller \<Rightarrow> detection_mode \<Rightarrow> string \<Rightarrow> nat \<Rightarrow> batch_item \<Rightarrow> incoming_request \<Rightarrow> gateway_result \<Rightarrow> row" where
  "batch_row E c dmode source i it rq res =
     build_audit_data c res (rq_trace_id rq) (mode_value dmode) ''scan_only'' (Some source)
       \<lparr>sx_source = source_of c None, sx_user_id = None, sx_input_length = length (bi_input it), sx_session_id = None,
        sx_turn_index = None, sx_run_id = None, sx_input_source = bi_input_source it\<rparr> (se_latency E i)"

definition batch_result :: "('r, 'z) scan_env \<Rightarrow> bool \<Rightarrow> decision_inputs \<Rightarrow> nat \<Rightarrow> batch_item \<Rightarrow> incoming_request \<Rightarrow> gateway_result \<Rightarrow> message" where
  "batch_result E may_read di i it rq res =
     (let full = build_response (ge_settings (se_gateway E)) (gr_decision res) False (di_block di) (di_sanitize di) (se_latency E i);
          body = (if may_read then full else restrict_layer_scores full) in
      wdict [(''id'', wopt (\<lambda>s. wtext s) (bi_id it)), (''trace_id'', wtext (rq_trace_id rq)),
             (''decision'', wtext (decision_value (gd_decision (gr_decision res)))), (''assessment'', wget_or body ''assessment'' WNull)])"

type_synonym scanned_item = "nat \<times> batch_item \<times> incoming_request \<times> gateway_result"

text \<open>The rows are written one after the other; the first failure ends the request with the earlier ones written.\<close>

fun write_batch :: "('r, 'z) scan_env \<Rightarrow> api_caller \<Rightarrow> detection_mode \<Rightarrow> string \<Rightarrow> scanned_item list \<Rightarrow> (('r, 'z) scan_world, unit) step" where
  "write_batch E c dmode source [] = sret ()"
| "write_batch E c dmode source ((i, it, rq, res) # rest) =
     sbind (write_audit E (batch_row E c dmode source i it rq res)) (\<lambda>_. write_batch E c dmode source rest)"

definition batch_response :: "('r, 'z) scan_env \<Rightarrow> bool \<Rightarrow> decision_inputs \<Rightarrow> scanned_item list \<Rightarrow> message" where
  "batch_response E may_read di items =
     (let s = fold (\<lambda>(i, it, rq, res). tally it (gr_decision res)) items empty_summary in wdict
      [(''count'', WInt (int (length items))),
       (''summary'', WDict (wdict [(''blocked'', WInt (int (bs_blocked s))), (''sanitized'', WInt (int (bs_sanitized s))),
          (''allowed'', WInt (int (bs_allowed s))), (''highest_risk'', WNum (round4 (bs_highest_risk s))),
          (''highest_risk_item'', wopt (\<lambda>t. wtext t) (bs_highest_item s)), (''threats'', WList (map (\<lambda>t. wtext t) (sort (bs_threats s))))])),
       (''results'', WList (map (\<lambda>(i, it, rq, res). WDict (batch_result E may_read di i it rq res)) items))])"

definition scan_batch_items :: "('r, 'z) scan_env \<Rightarrow> api_caller \<Rightarrow> batch_body \<Rightarrow> decision_inputs \<Rightarrow> scanned_item list" where
  "scan_batch_items E c b di =
     map (\<lambda>(i, it, rq, res, _). (i, it, rq, res)) (enumerate 0 (zip (bb_items b)
       (scan_items (se_gateway E) (process_args di) (bb_detection_mode b) SCAN_ONLY
          \<lparr>md_tenant_id = cl_tenant_id c, md_source = Some (source_of c None), md_user_id = None\<rparr> (se_fresh E)
          (map (\<lambda>i. \<lparr>si_input = bi_input i, si_input_source = bi_input_source i, si_trace_id = None\<rparr>) (bb_items b)))))"

definition charge_batch :: "('r, 'z) scan_env \<Rightarrow> string option option \<Rightarrow> nat \<Rightarrow> (('r, 'z) scan_world, unit) step" where
  "charge_batch E published n w =
     (case charge_additional_units (se_zredis E) (se_limiter E) (se_now E) (se_member E 0) published (int n) (sw_limits w) of
        (z, limited) \<Rightarrow> (w\<lparr>sw_limits := z\<rparr>, if limited then Inl (Catalog ''RATE_LIMIT_EXCEEDED'') else Inr ()))"

definition ai_scan_batch :: "('r, 'z) scan_env \<Rightarrow> api_caller \<Rightarrow> string option option \<Rightarrow> batch_body \<Rightarrow> (('r, 'z) scan_world, message) step" where
  "ai_scan_batch E c published b =
     sbind (lift (principal_from_state c)) (\<lambda>_. sbind (lift (holds_permission c ''settings:read'' False)) (\<lambda>may_read.
     sbind (refuse_if (cl_key_type c = ''trial''
        \<and> list_ex (\<lambda>i. int (length (bi_input i)) > ss_trial_max_input_chars (se_settings E)) (bb_items b)) ''INVALID_REQUEST'') (\<lambda>_.
     sbind (charge_batch E published (length (bb_items b))) (\<lambda>_.
     sbind (lift (resolve_scope E c)) (\<lambda>(policy, source).
     sbind (lift (crashing (py_bind (core_inputs policy) (guardrail_inputs policy)))) (\<lambda>di.
     let items = scan_batch_items E c b di in
     sbind (write_batch E c (bb_detection_mode b) source items) (\<lambda>_.
     sbind (schedule_events (map (\<lambda>(i, it, rq, res). batch_row E c (bb_detection_mode b) source i it rq res) items)) (\<lambda>_.
       sret (batch_response E may_read di items)))))))))"

section \<open>Reading a record back\<close>

fun to_wire :: "digest_lib \<Rightarrow> pyval \<Rightarrow> wire" where
  "to_wire L PNone = WNull"
| "to_wire L (PBool b) = WBool b"
| "to_wire L (PInt n) = WInt n"
| "to_wire L (PFloat x) = WNum x"
| "to_wire L (PStr s) = WText (us s)"
| "to_wire L (PUuid s) = WText (us s)"
| "to_wire L (PTime t) = WText (us (dl_iso L t))"
| "to_wire L (PList vs) = WList (map (to_wire L) vs)"
| "to_wire L (PDict kvs) = WDict (map (\<lambda>(k, v). (us k, to_wire L v)) kvs)"
| "to_wire L POther = WNull"

text \<open>\<^verbatim>\<open>v or d\<close>.\<close>

definition py_or :: "pyval \<Rightarrow> pyval \<Rightarrow> pyval" where
  "py_or v d = (if py_true v then v else d)"

text \<open>The name of a department or an application; a failing lookup leaves none.\<close>

definition looked_up_name :: "(string \<Rightarrow> string option py) \<Rightarrow> pyval \<Rightarrow> wire" where
  "looked_up_name f v = (if py_true v
     then wopt (\<lambda>s. wtext s) (try_except (case opt_str v of Some s \<Rightarrow> f s | None \<Rightarrow> Inl (OtherError ''AttributeError'')) (\<lambda>_. None))
     else WNull)"

definition record_severity :: "row \<Rightarrow> pyval" where
  "record_severity r = py_or (dget r ''severity'')
     (PStr (level_value (compute_severity
        (case opt_str (dget r ''decision'') of Some s \<Rightarrow> decision_of (wtext s) | None \<Rightarrow> ALLOW)
        (case dget r ''risk_score'' of PFloat x \<Rightarrow> x | _ \<Rightarrow> 0) (opt_str (dget r ''primary_reason'')))))"

definition ATTRIBUTION_FIELDS :: "string list" where
  "ATTRIBUTION_FIELDS = [''source'', ''user_id'', ''key_id'', ''ip_address'', ''user_agent'', ''attribution_verified'']"

definition PROXY_FIELDS :: "string list" where
  "PROXY_FIELDS = [''provider'', ''model'', ''provider_latency_ms'', ''total_latency_ms'', ''execution_status'', ''input_primary_reason'',
     ''input_confidence'', ''input_threats'', ''input_attack_type'', ''input_raw'', ''input_sanitized'', ''output_decision'',
     ''output_primary_reason'', ''output_confidence'', ''output_threats'', ''output_raw'', ''output_sanitized'', ''behavior_flag'', ''output_flags'']"

definition proxy_section :: "message \<Rightarrow> wire" where
  "proxy_section ix = WDict (wdict (map (\<lambda>k. (k,
     if k \<in> {''input_threats'', ''output_threats''} \<and> \<not> wire_true (wget_or ix k WNull) then WList [] else wget_or ix k WNull)) PROXY_FIELDS))"

definition record_response :: "('r, 'z) scan_env \<Rightarrow> bool \<Rightarrow> row \<Rightarrow> message" where
  "record_response E may_read r =
     (let L = se_digest E; w = (\<lambda>k. (k, to_wire L (dget r k)));
          guarded = (\<lambda>k. (k, if may_read then to_wire L (py_or (dget r k) (PDict [])) else WDict [])) in
      wdict
       ([w ''trace_id'', (''timestamp'', to_wire L (dget r ''created_at'')), w ''execution_mode'',
         (''is_proxy'', WBool (dget r ''execution_mode'' = PStr ''proxy'')), (''severity'', to_wire L (record_severity r)),
         (''attribution'', WDict (wdict ([w ''tenant_id'', w ''dept_id'', (''dept_name'', looked_up_name (se_dept_name E) (dget r ''dept_id'')),
            w ''app_id'', (''app_name'', looked_up_name (se_app_name E) (dget r ''app_id''))] @ map w ATTRIBUTION_FIELDS))),
         w ''decision'', w ''risk_score'', w ''primary_reason'', w ''confidence'', w ''confidence_band'',
         (''threats'', to_wire L (py_or (dget r ''threats'') (PList []))), w ''input_hash'',
         (''input_length'', to_wire L (py_or (dget r ''input_length'') (PInt 0))), w ''run_id'', w ''session_id'', w ''turn_index'', w ''input_source'',
         guarded ''detection_scores'', guarded ''guardrail_scores'',
         (''processing'', WDict (wdict [w ''latency_ms'', w ''llm_invoked'', w ''detection_mode'', w ''execution_mode'', w ''policy_source'']))]
        @ (if py_true (dget r ''proxy_interaction_id'')
           then (case se_interaction E (dget r ''proxy_interaction_id'') of Inr (Some ix) \<Rightarrow> [(''proxy'', proxy_section ix)] | _ \<Rightarrow> [])
           else [])))"

definition get_request :: "('r, 'z) scan_env \<Rightarrow> api_caller \<Rightarrow> string \<Rightarrow> (('r, 'z) scan_world, message) step" where
  "get_request E c trace_id w =
     (if CHR 0x00 \<in> set trace_id then (w, Inl (Catalog ''VALIDATION_ERROR''))
      else (w, and_then (principal_from_state c) (\<lambda>_. and_then (holds_permission c ''settings:read'' False) (\<lambda>may_read.
        case get_scoped_audit_record (sw_audit w) trace_id c of
          None \<Rightarrow> Inl (Catalog ''NOT_FOUND'') | Some r \<Rightarrow> Inr (record_response E may_read r)))))"

end
