(* ===== verification/Scan_Facts.thy ===== *)
theory Scan_Facts
  imports Scan_Endpoints Chat_Proxy_Facts Audit_Facts
begin

text \<open>
  What the scan endpoints guarantee: every answer is the gateway's verdict or a stored one and is in the audit table;
  scores stay with callers who may read the settings; the response cache never crosses a scope; the totals of a batch
  are those of its results; a record is read back within the caller's scope. Further lemmas record what the cache key
  leaves out.
\<close>

declare us_simps(2) [simp del]

section \<open>Steps\<close>

named_theorems step_run \<open>running a sequence of steps\<close>

lemma sbind_Inr [step_run]: "sbind m f w = (w', Inr y) \<longleftrightarrow> (\<exists>w1 x. m w = (w1, Inr x) \<and> f x w1 = (w', Inr y))"
  by (auto simp: sbind_def split: prod.splits sum.splits)

lemma sbind_Inl: "sbind m f w = (w', Inl e) \<longleftrightarrow> m w = (w', Inl e) \<or> (\<exists>w1 x. m w = (w1, Inr x) \<and> f x w1 = (w', Inl e))"
  by (auto simp: sbind_def split: prod.splits sum.splits)

lemma sret_run [step_run]: "sret x w = (w', r) \<longleftrightarrow> w' = w \<and> r = Inr x"
  by (auto simp: sret_def)

lemma lift_run [step_run]: "lift m w = (w', r) \<longleftrightarrow> w' = w \<and> m = r"
  by (auto simp: lift_def)

lemma refuse_if_run [step_run]: "refuse_if b code w = (w', r) \<longleftrightarrow> w' = w \<and> r = (if b then Inl (Catalog code) else Inr ())"
  by (auto simp: refuse_if_def lift_def)

lemma crashing_Inr [simp]: "crashing m = Inr x \<longleftrightarrow> m = Inr x"
  by (auto simp: crashing_def split: sum.splits)

lemma crashing_Catalog [simp]: "crashing m \<noteq> Inl (Catalog code)"
  by (auto simp: crashing_def split: sum.splits)

text \<open>Two states that agree on the audit table, the events and the provider calls.\<close>

definition unrecorded :: "('r, 'z) scan_world \<Rightarrow> ('r, 'z) scan_world \<Rightarrow> bool" where
  "unrecorded w w' \<longleftrightarrow> sw_audit w' = sw_audit w \<and> sw_events w' = sw_events w \<and> sw_calls w' = sw_calls w"

lemma unrecorded_trans: "unrecorded w w1 \<Longrightarrow> unrecorded w1 w2 \<Longrightarrow> unrecorded w w2"
  by (simp add: unrecorded_def)

text \<open>A step that can only touch the rate-limit store.\<close>

definition quiet :: "(('r, 'z) scan_world, 'a) step \<Rightarrow> bool" where
  "quiet m \<longleftrightarrow> (\<forall>w w' r. m w = (w', r) \<longrightarrow> unrecorded w w' \<and> sw_cache w' = sw_cache w)"

named_theorems quiet_intros \<open>steps that are quiet\<close>

lemma quiet_sbind [quiet_intros]: "quiet m \<Longrightarrow> (\<And>x. quiet (f x)) \<Longrightarrow> quiet (sbind m f)"
  unfolding quiet_def unrecorded_def sbind_def by (fastforce split: prod.splits sum.splits)

lemma quiet_pure [quiet_intros]: "quiet (sret x)" "quiet (lift m)" "quiet (refuse_if b code)"
  by (auto simp: quiet_def unrecorded_def step_run)

lemma quiet_buckets [quiet_intros]: "quiet (bucket E i ident limit)" "quiet (charge_batch E published n)"
  by (auto simp: quiet_def unrecorded_def bucket_def charge_batch_def split: prod.splits)

lemma quiet_guards [quiet_intros]: "quiet (scan_guards E c b)"
  by (auto simp: scan_guards_def Let_def intro!: quiet_intros)

lemma quiet_app_bucket [quiet_intros]: "quiet (app_bucket E c policy)"
  by (auto simp: app_bucket_def intro!: quiet_intros split: json.split)

lemma quietD: "quiet m \<Longrightarrow> m w = (w', r) \<Longrightarrow> unrecorded w w' \<and> sw_cache w' = sw_cache w"
  by (simp add: quiet_def)

lemma read_cache_unrecorded: "read_cache E ck w = (w', r) \<Longrightarrow> unrecorded w w' \<and> (\<exists>v. r = Inr v)"
  by (auto simp: read_cache_def unrecorded_def split: prod.splits)

section \<open>One row per write\<close>

definition WRITER_FIELDS :: "string list" where
  "WRITER_FIELDS = [''created_at'', ''chain_seq'', ''chain_format'', ''prev_hash'', ''record_hash''] @ map fst COLUMN_DEFAULTS"

lemma create_appends:
  assumes "create L now data table = Inr t"
  shows "\<exists>r. t = table @ [r] \<and> (\<forall>k. k \<notin> set WRITER_FIELDS \<longrightarrow> dget r k = dget data k)"
proof -
  have default: "dget (set_default k' v d) k = dget d k" if "k \<noteq> k'" for k k' v d
    using that by (simp add: set_default_def dget_dict_set)
  have keep: "dget (materialise_defaults d) k = dget d k" if "k \<notin> set WRITER_FIELDS" for k d
    unfolding materialise_defaults_def by (rule materialise_fold) (use that in \<open>simp add: WRITER_FIELDS_def\<close>)
  have row: "dget r k = dget d k" if "chain_row L h d = Inr r" "k \<notin> set WRITER_FIELDS" for h d r k
  proof -
    from that(2) have ne: "k \<noteq> ''prev_hash''" "k \<noteq> ''record_hash''" "k \<noteq> ''chain_seq''" "k \<noteq> ''chain_format''"
      unfolding WRITER_FIELDS_def by simp_all
    from that(1) obtain rh p q where r: "r = dict_set ''record_hash'' rh (dict_set ''prev_hash'' p
        (materialise_defaults (dict_set ''chain_format'' (PInt CURRENT_CHAIN_FORMAT) (dict_set ''chain_seq'' q d))))"
      by (auto simp: chain_row_def Let_def py_bind_Inr_conv)
    show ?thesis unfolding r dget_dict_set using ne by (simp add: keep[OF that(2)] dget_dict_set)
  qed
  let ?d = "set_default ''created_at'' (PTime now) data"
  have d: "dget ?d k = dget data k" if "k \<notin> set WRITER_FIELDS" for k
    by (rule default) (use that in \<open>simp add: WRITER_FIELDS_def\<close>)
  show ?thesis
  proof (cases "truthy (tenant_of ?d)")
    case True
    with assms obtain r where "chain_row L (chain_head (the (tenant_of ?d)) table) ?d = Inr r" "t = table @ [r]"
      by (auto simp: create_def Let_def py_bind_Inr_conv)
    then show ?thesis using row[of "chain_head (the (tenant_of ?d)) table" ?d r] d by (intro exI[of _ r]) simp
  next
    case False
    with assms have "t = table @ [?d]" by (auto simp: create_def Let_def)
    with d show ?thesis by (intro exI[of _ ?d]) simp
  qed
qed

lemma write_audit_Inr:
  "write_audit E data w = (w', Inr u) \<longleftrightarrow> (\<exists>t. create (se_digest E) (se_now E) data (sw_audit w) = Inr t \<and> w' = w\<lparr>sw_audit := t\<rparr>)"
  by (auto simp: write_audit_def split: sum.splits)

lemma schedule_events_run [step_run]: "schedule_events rows w = (w', r) \<longleftrightarrow> w' = w\<lparr>sw_events := sw_events w @ rows\<rparr> \<and> r = Inr ()"
  by (auto simp: schedule_events_def)

lemma call_gateway_run [step_run]:
  "call_gateway E di rq w = (w', r) \<longleftrightarrow> w' = w\<lparr>sw_calls := sw_calls w @ snd (process (se_gateway E) (process_args di) rq)\<rparr>
     \<and> r = Inr (fst (process (se_gateway E) (process_args di) rq))"
  by (auto simp: call_gateway_def split: prod.splits)

lemma cache_result_run [step_run]:
  "cache_result E ck body w = (w', r) \<longleftrightarrow>
     w' = w\<lparr>sw_cache := set_cached_result (se_redis E) (se_cache E) (se_now E) ck body (sw_cache w)\<rparr> \<and> r = Inr ()"
  by (auto simp: cache_result_def)

section \<open>Reading a body\<close>

lemma wget_wdict [simp]: "wget (wdict kvs) k = map_of kvs k"
  by (induction kvs) (auto simp: wget_def wdict_def)

lemma map_char_us [simp]: "map char_of (us s) = s"
  by (simp add: us_def o_def)

lemma wget_dict_set [simp]: "wget (dict_set (us k') v d) k = (if k = k' then Some v else wget d k)"
  by (simp add: wget_def)

lemma wget_restricted: "k \<noteq> ''assessment'' \<Longrightarrow> wget (restrict_layer_scores body) k = wget body k"
  by (simp add: restrict_layer_scores_def split: option.split wire.split)

definition VERDICT_FIELDS :: "string list" where
  "VERDICT_FIELDS = [''decision'', ''risk_score'', ''primary_reason'', ''confidence'', ''confidence_band'', ''threats'']"

lemma wget_served:
  assumes "served may_read full = Scanned body" "k \<noteq> ''assessment''"
  shows "wget body k = wget full k"
  using assms by (auto simp: served_def wget_restricted split: if_splits)

text \<open>A row and a body say the same about the verdict.\<close>

definition row_matches :: "row \<Rightarrow> message \<Rightarrow> bool" where
  "row_matches r body \<longleftrightarrow> list_all (\<lambda>k. case wget body k of Some v \<Rightarrow> dget r k = of_wire v | None \<Rightarrow> True) (''trace_id'' # VERDICT_FIELDS)"

lemma row_matches_cong:
  assumes "\<And>k. k \<in> set (''trace_id'' # VERDICT_FIELDS) \<Longrightarrow> wget body k = wget full k \<and> dget r k = dget data k"
  shows "row_matches r body = row_matches data full"
  unfolding row_matches_def list_all_iff using assms by (intro ball_cong refl) (simp split: option.split)

lemma verdict_fields_kept: "k \<in> set (''trace_id'' # VERDICT_FIELDS) \<Longrightarrow> k \<noteq> ''assessment'' \<and> k \<notin> set WRITER_FIELDS"
  by (auto simp: VERDICT_FIELDS_def WRITER_FIELDS_def COLUMN_DEFAULTS_def)

lemma build_response_get:
  "wget (build_response S d dbg bt st lat) ''trace_id'' = Some (wtext (gd_trace_id d))"
  "wget (build_response S d dbg bt st lat) ''decision'' = Some (wtext (decision_value (gd_decision d)))"
  "wget (build_response S d dbg bt st lat) ''risk_score'' = Some (WNum (rs_value (gd_risk_score d)))"
  "wget (build_response S d dbg bt st lat) ''primary_reason'' = Some (wopt (\<lambda>s. wtext s) (gd_primary_reason d))"
  "wget (build_response S d dbg bt st lat) ''confidence'' = Some (wopt WNum (gd_confidence d))"
  "wget (build_response S d dbg bt st lat) ''confidence_band'' = Some (wopt (\<lambda>s. wtext s) (gd_confidence_band d))"
  "wget (build_response S d dbg bt st lat) ''threats'' = Some (threats_list d)"
  by (simp_all add: build_response_def Let_def)

lemma audit_data_get:
  "dget (build_audit_data c res tid det exe src x lat) ''trace_id'' = PStr tid"
  "dget (build_audit_data c res tid det exe src x lat) ''decision'' = PStr (decision_value (gd_decision (gr_decision res)))"
  "dget (build_audit_data c res tid det exe src x lat) ''risk_score'' = PFloat (rs_value (gd_risk_score (gr_decision res)))"
  "dget (build_audit_data c res tid det exe src x lat) ''primary_reason'' = of_opt_str (gd_primary_reason (gr_decision res))"
  "dget (build_audit_data c res tid det exe src x lat) ''confidence'' = of_opt_float (gd_confidence (gr_decision res))"
  "dget (build_audit_data c res tid det exe src x lat) ''confidence_band'' = of_opt_str (gd_confidence_band (gr_decision res))"
  "dget (build_audit_data c res tid det exe src x lat) ''threats'' = PList (map (\<lambda>t. PStr (threat_value t)) (gd_threats (gr_decision res)))"
  by (simp_all add: build_audit_data_def Let_def dget_def)

lemma of_wire_opt:
  "of_wire (wopt (\<lambda>s. wtext s) v) = of_opt_str v" "of_wire (wopt WNum x) = of_opt_float x"
  "of_wire (threats_list d) = PList (map (\<lambda>t. PStr (threat_value t)) (gd_threats d))"
  by (simp_all add: wopt_def of_opt_str_def of_opt_float_def threats_list_def split: option.split)

lemma audit_data_matches:
  assumes "gd_trace_id (gr_decision res) = tid"
  shows "row_matches (build_audit_data c res tid det exe src x lat) (build_response S (gr_decision res) dbg bt st lat)"
  using assms by (simp add: row_matches_def VERDICT_FIELDS_def build_response_get audit_data_get of_wire_opt)

lemma hit_audit_get:
  assumes "build_cache_hit_audit L c b x cached = Inr data"
  shows "dget data ''trace_id'' = of_wire (wget_or cached ''trace_id'' WNull)"
    "dget data ''decision'' = of_wire (wget_or cached ''decision'' (wtext ''ALLOW''))"
    "dget data ''risk_score'' = of_wire (wget_or cached ''risk_score'' (WNum 0))"
    "dget data ''primary_reason'' = of_wire (wget_or cached ''primary_reason'' WNull)"
    "dget data ''confidence'' = of_wire (wget_or cached ''confidence'' WNull)"
    "dget data ''confidence_band'' = of_wire (wget_or cached ''confidence_band'' WNull)"
    "dget data ''threats'' = of_wire (wget_or cached ''threats'' (WList []))"
    "dget data ''tenant_id'' = of_opt_str (cl_tenant_id c)" "dget data ''key_id'' = of_opt_str (cl_key_id c)"
  using assms[symmetric] unfolding build_cache_hit_audit_def py_bind_def
  by (simp_all add: dget_def attribution_def split: sum.splits)

lemma hit_audit_matches:
  assumes "build_cache_hit_audit L c b x cached = Inr data"
  shows "row_matches data cached"
  by (simp add: row_matches_def VERDICT_FIELDS_def hit_audit_get[OF assms] wget_or_def split: option.split)

lemma audit_attribution:
  "dget (build_audit_data c res tid det exe src x lat) ''tenant_id'' = of_opt_str (cl_tenant_id c)"
  "dget (build_audit_data c res tid det exe src x lat) ''key_id'' = of_opt_str (cl_key_id c)"
  by (simp_all add: build_audit_data_def Let_def dget_def attribution_def)

section \<open>The single scan\<close>

text \<open>A scan that is answered got through the guards, and was answered from the store or afresh.\<close>

lemma ai_request_answered:
  assumes "ai_request E c b w = (w', Inr ans)"
  obtains w1 w2 policy source di may_read cached
  where "scan_inputs E c b = Inr (policy, source, di)" "holds_permission c ''settings:read'' False = Inr may_read"
    "unrecorded w w1" "sw_cache w1 = sw_cache w" "read_cache E (scan_slot E c b di) w1 = (w2, Inr cached)" "unrecorded w w2"
    "(\<exists>d. cached = Some (WDict d) \<and> serve_hit E c b may_read d w2 = (w', Inr ans))
     \<or> scan_afresh E c b may_read policy source di w2 = (w', Inr ans)"
proof -
  from assms[unfolded ai_request_def sbind_Inr[of "scan_guards E c b"]] obtain w1 u where g: "scan_guards E c b w = (w1, Inr u)"
    and r1: "sbind (lift (scan_inputs E c b)) (\<lambda>(policy, source, di). sbind (lift (holds_permission c ''settings:read'' False)) (\<lambda>may_read.
       sbind (read_cache E (scan_slot E c b di)) (serve_or_scan E c b may_read policy source di))) w1 = (w', Inr ans)" by blast
  obtain policy source di where i: "scan_inputs E c b = Inr (policy, source, di)"
    and r2: "sbind (lift (holds_permission c ''settings:read'' False)) (\<lambda>may_read.
       sbind (read_cache E (scan_slot E c b di)) (serve_or_scan E c b may_read policy source di)) w1 = (w', Inr ans)"
    using r1 unfolding sbind_Inr[of "lift (scan_inputs E c b)"] lift_run by (auto simp only: split_paired_all prod.case)
  obtain may_read w2 cached where p: "holds_permission c ''settings:read'' False = Inr may_read"
    and r: "read_cache E (scan_slot E c b di) w1 = (w2, Inr cached)"
    and rest: "serve_or_scan E c b may_read policy source di cached w2 = (w', Inr ans)"
    using r2 unfolding sbind_Inr lift_run by blast
  have q: "unrecorded w w1" "sw_cache w1 = sw_cache w" using quietD[OF quiet_guards g] by auto
  have "unrecorded w w2" using q(1) read_cache_unrecorded[OF r] unrecorded_trans by blast
  moreover have "(\<exists>d. cached = Some (WDict d) \<and> serve_hit E c b may_read d w2 = (w', Inr ans))
     \<or> scan_afresh E c b may_read policy source di w2 = (w', Inr ans)"
    using rest by (auto simp: serve_or_scan_def step_run split: option.splits wire.splits if_splits)
  ultimately show ?thesis using that i p q r by blast
qed

lemma serve_hit_answered:
  assumes "serve_hit E c b may_read d w = (w', Inr ans)"
  obtains cached data t
  where "cached = dict_set (us ''trace_id'') (wtext (mk_trace_id (se_fresh E 0) None)) d"
    "build_cache_hit_audit (se_cache E) c b (context_of c b) cached = Inr data"
    "create (se_digest E) (se_now E) data (sw_audit w) = Inr t" "ans = served may_read cached"
    "w' = w\<lparr>sw_audit := t, sw_events := sw_events w @ [data]\<rparr>"
  using assms by (auto simp: serve_hit_def Let_def step_run write_audit_Inr)

lemma scan_afresh_answered:
  assumes "scan_afresh E c b may_read policy source di w = (w', Inr ans)"
  obtains w1 res calls data t response
  where "unrecorded w w1" "sw_cache w1 = sw_cache w" "process (se_gateway E) (process_args di) (scan_request E c b) = (res, calls)"
    "data = build_audit_data c res (mk_trace_id (se_fresh E 0) None) (mode_value (sb_detection_mode b)) (execution_value (sb_execution_mode b))
       (Some source) (context_of c b) (se_latency E 0)"
    "create (se_digest E) (se_now E) data (sw_audit w) = Inr t"
    "response = build_response (ge_settings (se_gateway E)) (gr_decision res) (sb_debug b \<and> cl_is_admin c) (di_block di) (di_sanitize di) (se_latency E 0)"
    "sw_audit w' = t" "sw_events w' = sw_events w @ [data]" "sw_calls w' = sw_calls w @ calls"
    "if gr_provider_error res \<noteq> None then ans = ProviderFailed (mk_trace_id (se_fresh E 0) None) \<and> sw_cache w' = sw_cache w
     else ans = served may_read response \<and> sw_cache w' = set_cached_result (se_redis E) (se_cache E) (se_now E) (scan_slot E c b di)
            (filter (\<lambda>(k, _). k \<noteq> us ''debug'') response) (sw_cache w)"
proof -
  let ?p = "process (se_gateway E) (process_args di) (scan_request E c b)"
  have tid: "rq_trace_id (scan_request E c b) = mk_trace_id (se_fresh E 0) None" by (simp add: scan_request_def)
  from assms obtain w1 u where a: "app_bucket E c policy w = (w1, Inr u)"
    and rest: "sbind (call_gateway E di (scan_request E c b)) (\<lambda>res.
     let trace_id = rq_trace_id (scan_request E c b);
         data = build_audit_data c res trace_id (mode_value (sb_detection_mode b)) (execution_value (sb_execution_mode b)) (Some source)
                  (context_of c b) (se_latency E 0) in
     sbind (write_audit E data) (\<lambda>_. sbind (schedule_events [data]) (\<lambda>_.
     if gr_provider_error res \<noteq> None then sret (ProviderFailed trace_id)
     else let response = build_response (ge_settings (se_gateway E)) (gr_decision res) (sb_debug b \<and> cl_is_admin c)
                           (di_block di) (di_sanitize di) (se_latency E 0) in
       sbind (cache_result E (scan_slot E c b di) (filter (\<lambda>(k, _). k \<noteq> us ''debug'') response)) (\<lambda>_.
       sret (served may_read response))))) w1 = (w', Inr ans)"
    unfolding scan_afresh_def sbind_Inr by auto
  note q = quietD[OF quiet_app_bucket a]
  show ?thesis
    using rest q
    by (intro that[of w1 "fst ?p" "snd ?p"]) (auto simp: step_run write_audit_Inr Let_def tid unrecorded_def split: if_splits)
qed

text \<open>A step that fails has written nothing; a refusal also came before any provider was asked.\<close>

definition failed_run :: "('r, 'z) scan_world \<Rightarrow> ('r, 'z) scan_world \<Rightarrow> api_error \<Rightarrow> bool" where
  "failed_run w w' e \<longleftrightarrow> sw_audit w' = sw_audit w \<and> sw_events w' = sw_events w \<and> ((\<exists>code. e = Catalog code) \<longrightarrow> sw_calls w' = sw_calls w)"

lemma quiet_failed: "quiet m \<Longrightarrow> m w = (w', Inl e) \<Longrightarrow> failed_run w w' e"
  by (auto simp: quiet_def unrecorded_def failed_run_def)

lemma failing_write: "write_audit E data w = (w', Inl e) \<Longrightarrow> w' = w \<and> (\<exists>x. e = Crash x)"
  by (auto simp: write_audit_def split: sum.splits)

lemma failing_afresh:
  assumes "scan_afresh E c b may_read policy source di w = (w', Inl e)"
  shows "failed_run w w' e"
proof -
  consider "app_bucket E c policy w = (w', Inl e)"
    | w1 u where "app_bucket E c policy w = (w1, Inr u)" "sw_audit w' = sw_audit w1" "sw_events w' = sw_events w1" "\<exists>x. e = Crash x"
    using assms by (auto simp: scan_afresh_def Let_def sbind_Inl step_run dest!: failing_write split: if_splits)
  then show ?thesis
  proof cases
    case 1
    then show ?thesis by (rule quiet_failed[OF quiet_app_bucket])
  next
    case 2
    with quietD[OF quiet_app_bucket 2(1)] show ?thesis by (auto simp: failed_run_def unrecorded_def)
  qed
qed

lemma failing_hit:
  assumes "serve_hit E c b may_read d w = (w', Inl e)"
  shows "failed_run w w' e"
  using assms
  by (auto simp: serve_hit_def Let_def sbind_Inl step_run failed_run_def dest!: failing_write)

lemma read_cache_ok: "read_cache E ck w \<noteq> (w', Inl e)"
  by (auto simp: read_cache_def split: prod.splits)

lemma ai_request_failed:
  assumes "ai_request E c b w = (w', Inl e)"
  obtains "scan_guards E c b w = (w', Inl e)"
    | u where "scan_guards E c b w = (w', Inr u)"
    | w1 u policy source di may_read w2 cached where "scan_guards E c b w = (w1, Inr u)"
        "read_cache E (scan_slot E c b di) w1 = (w2, Inr cached)" "serve_or_scan E c b may_read policy source di cached w2 = (w', Inl e)"
  using assms unfolding ai_request_def sbind_Inl lift_run by (auto split: prod.splits) (auto simp: sbind_Inl lift_run read_cache_ok)

lemma failing_ai_request:
  assumes "ai_request E c b w = (w', Inl e)"
  shows "failed_run w w' e"
  using assms
proof (cases rule: ai_request_failed)
  case 1
  then show ?thesis by (rule quiet_failed[OF quiet_guards])
next
  case (2 u)
  from quietD[OF quiet_guards 2] show ?thesis by (simp add: failed_run_def unrecorded_def)
next
  case (3 w1 u policy source di may_read w2 cached)
  have "failed_run w2 w' e"
    using 3(3) by (auto simp: serve_or_scan_def failed_run_def lift_run dest!: failing_hit failing_afresh
        split: option.splits wire.splits if_splits)
  with quietD[OF quiet_guards 3(1)] read_cache_unrecorded[OF 3(2)] show ?thesis by (simp add: failed_run_def unrecorded_def)
qed

lemma process_trace_id: "gd_trace_id (gr_decision (fst (process G A rq))) = rq_trace_id rq"
  by (simp add: process_def Let_def system_error_result_def build_result_def split: sum.split prod.split)

lemma answered_row:
  assumes "ai_request E c b w = (w', Inr a)"
  shows "\<exists>r data. sw_audit w' = sw_audit w @ [r] \<and> sw_events w' = sw_events w @ [data]
        \<and> (\<forall>k. k \<notin> set WRITER_FIELDS \<longrightarrow> dget r k = dget data k)
        \<and> dget r ''tenant_id'' = of_opt_str (cl_tenant_id c) \<and> dget r ''key_id'' = of_opt_str (cl_key_id c)
        \<and> dget r ''trace_id'' = PStr (mk_trace_id (se_fresh E 0) None)
        \<and> (case a of Scanned body \<Rightarrow> wget body ''trace_id'' = Some (wtext (mk_trace_id (se_fresh E 0) None)) \<and> row_matches r body
           | ProviderFailed tid \<Rightarrow> tid = mk_trace_id (se_fresh E 0) None)"
proof -
  from assms obtain w1 w2 policy source di may_read cached where u: "unrecorded w w2"
    and alt: "(\<exists>d. cached = Some (WDict d) \<and> serve_hit E c b may_read d w2 = (w', Inr a))
     \<or> scan_afresh E c b may_read policy source di w2 = (w', Inr a)" by (rule ai_request_answered)
  from u have u2: "sw_audit w2 = sw_audit w" "sw_events w2 = sw_events w" by (simp_all add: unrecorded_def)
  have kept: "row_matches r body = row_matches data full" if "served may_read full = Scanned body" "\<forall>k. k \<notin> set WRITER_FIELDS \<longrightarrow> dget r k = dget data k"
    for r body data full
    by (rule row_matches_cong) (use that verdict_fields_kept wget_served[OF that(1)] in blast)
  have cols: "''tenant_id'' \<notin> set WRITER_FIELDS" "''key_id'' \<notin> set WRITER_FIELDS" "''trace_id'' \<notin> set WRITER_FIELDS"
    by (simp_all add: WRITER_FIELDS_def COLUMN_DEFAULTS_def)
  from alt show ?thesis
  proof
    assume "\<exists>d. cached = Some (WDict d) \<and> serve_hit E c b may_read d w2 = (w', Inr a)"
    then obtain d where "serve_hit E c b may_read d w2 = (w', Inr a)" by blast
    then obtain full data t where full: "full = dict_set (us ''trace_id'') (wtext (mk_trace_id (se_fresh E 0) None)) d"
      and data: "build_cache_hit_audit (se_cache E) c b (context_of c b) full = Inr data"
      and t: "create (se_digest E) (se_now E) data (sw_audit w2) = Inr t"
      and a: "a = served may_read full" and w': "w' = w2\<lparr>sw_audit := t, sw_events := sw_events w2 @ [data]\<rparr>" by (rule serve_hit_answered)
    obtain body where body: "served may_read full = Scanned body" by (simp add: served_def)
    have tid: "wget full ''trace_id'' = Some (wtext (mk_trace_id (se_fresh E 0) None))" by (simp add: full)
    from create_appends[OF t] obtain r where "t = sw_audit w2 @ [r]" and r: "\<forall>k. k \<notin> set WRITER_FIELDS \<longrightarrow> dget r k = dget data k" by blast
    with w' u2 a body kept[OF body r] hit_audit_matches[OF data] tid wget_served[OF body, of "''trace_id''"] cols hit_audit_get(1,8,9)[OF data]
    show ?thesis
      by (intro exI[of _ r] exI[of _ data]) (auto simp: wget_or_def)
  next
    assume "scan_afresh E c b may_read policy source di w2 = (w', Inr a)"
    then obtain res calls data t response where pr: "process (se_gateway E) (process_args di) (scan_request E c b) = (res, calls)"
      and data: "data = build_audit_data c res (mk_trace_id (se_fresh E 0) None) (mode_value (sb_detection_mode b))
         (execution_value (sb_execution_mode b)) (Some source) (context_of c b) (se_latency E 0)"
      and t: "create (se_digest E) (se_now E) data (sw_audit w2) = Inr t"
      and resp: "response = build_response (ge_settings (se_gateway E)) (gr_decision res) (sb_debug b \<and> cl_is_admin c) (di_block di) (di_sanitize di) (se_latency E 0)"
      and w': "sw_audit w' = t" "sw_events w' = sw_events w2 @ [data]"
      and a: "if gr_provider_error res \<noteq> None then a = ProviderFailed (mk_trace_id (se_fresh E 0) None) \<and> sw_cache w' = sw_cache w2
         else a = served may_read response \<and> sw_cache w' = set_cached_result (se_redis E) (se_cache E) (se_now E) (scan_slot E c b di)
            (filter (\<lambda>(k, _). k \<noteq> us ''debug'') response) (sw_cache w2)"
      by (rule scan_afresh_answered)
    obtain body where body: "served may_read response = Scanned body" by (simp add: served_def)
    from create_appends[OF t] obtain r where "t = sw_audit w2 @ [r]" and r: "\<forall>k. k \<notin> set WRITER_FIELDS \<longrightarrow> dget r k = dget data k" by blast
    have tid: "gd_trace_id (gr_decision res) = mk_trace_id (se_fresh E 0) None"
      using process_trace_id[of "se_gateway E" "process_args di" "scan_request E c b"] pr by (simp add: scan_request_def)
    have m: "row_matches data response" unfolding data resp by (rule audit_data_matches[OF tid])
    have "wget body ''trace_id'' = Some (wtext (mk_trace_id (se_fresh E 0) None))"
      using wget_served[OF body, of "''trace_id''"] tid by (simp add: resp build_response_get)
    with w' u2 a body m kept[OF body r] r cols \<open>t = sw_audit w2 @ [r]\<close>
    show ?thesis
      by (intro exI[of _ r] exI[of _ data]) (auto simp: data audit_data_get audit_attribution split: if_splits)
  qed
qed

text \<open>
  C10: Every scan that is answered is in the audit table. An answer of the scan endpoint, be it a fresh verdict, a
  stored one or a failed execution, added exactly one row, under the identifier the caller is given, for the caller's
  tenant and key, and with the decision, score, reason, confidence and threats of the body; exactly one webhook event
  was scheduled and it has the same columns. A refused request left audit table, events and provider alone, and one
  that crashed wrote nothing.
\<close>
theorem scan_recorded:
  assumes run: "ai_request E c b w = (w', ans)"
  shows "case ans of
     Inr a \<Rightarrow> (\<exists>r data. sw_audit w' = sw_audit w @ [r] \<and> sw_events w' = sw_events w @ [data]
        \<and> (\<forall>k. k \<notin> set WRITER_FIELDS \<longrightarrow> dget r k = dget data k)
        \<and> dget r ''tenant_id'' = of_opt_str (cl_tenant_id c) \<and> dget r ''key_id'' = of_opt_str (cl_key_id c)
        \<and> dget r ''trace_id'' = PStr (mk_trace_id (se_fresh E 0) None)
        \<and> (case a of Scanned body \<Rightarrow> wget body ''trace_id'' = Some (wtext (mk_trace_id (se_fresh E 0) None)) \<and> row_matches r body
           | ProviderFailed tid \<Rightarrow> tid = mk_trace_id (se_fresh E 0) None))
   | Inl (Catalog code) \<Rightarrow> sw_audit w' = sw_audit w \<and> sw_events w' = sw_events w \<and> sw_calls w' = sw_calls w
   | Inl (Crash e) \<Rightarrow> sw_audit w' = sw_audit w \<and> sw_events w' = sw_events w"
proof (cases ans)
  case (Inr a)
  then show ?thesis using answered_row[of E c b w w' a] run by simp
next
  case (Inl e)
  with run have "ai_request E c b w = (w', Inl e)" by simp
  from failing_ai_request[OF this] Inl show ?thesis by (auto simp: failed_run_def split: api_error.split)
qed

section \<open>Scores\<close>

definition scores_hidden :: "message \<Rightarrow> bool" where
  "scores_hidden body = (case wget body ''assessment'' of
     Some (WDict a) \<Rightarrow> (case wget a ''layers'' of
         Some (WList ls) \<Rightarrow> list_all (\<lambda>l. case l of WDict d \<Rightarrow> us ''score'' \<notin> fst ` set d | _ \<Rightarrow> True) ls | _ \<Rightarrow> True)
   | _ \<Rightarrow> True)"

lemma restricted_hidden: "scores_hidden (restrict_layer_scores body)"
proof -
  have l: "case restrict_layer l of WDict d \<Rightarrow> us ''score'' \<notin> fst ` set d | _ \<Rightarrow> True" for l
    by (cases l) (auto simp: restrict_layer_def)
  show ?thesis
    by (auto simp: scores_hidden_def restrict_layer_scores_def list_all_iff l split: option.split wire.split)
qed

lemma hidden_assessment:
  assumes "scores_hidden full" "wget m ''assessment'' = Some (wget_or full ''assessment'' WNull)"
  shows "scores_hidden m"
  using assms by (cases "wget full ''assessment''") (simp_all add: scores_hidden_def wget_or_def)

lemma ai_scan_batch_answered:
  assumes "ai_scan_batch E c published b w = (w', Inr resp)"
  obtains may_read policy source di w1 w2
  where "holds_permission c ''settings:read'' False = Inr may_read" "unrecorded w w1"
    "write_batch E c (bb_detection_mode b) source (scan_batch_items E c b di) w1 = (w2, Inr ())"
    "w' = w2\<lparr>sw_events := sw_events w2 @ map (\<lambda>(i, it, rq, res). batch_row E c (bb_detection_mode b) source i it rq res) (scan_batch_items E c b di)\<rparr>"
    "resp = batch_response E may_read di (scan_batch_items E c b di)"
proof -
  from assms obtain may_read policy source di w1 w2 where p: "holds_permission c ''settings:read'' False = Inr may_read"
    and ch: "charge_batch E published (length (bb_items b)) w = (w1, Inr ())"
    and wr: "write_batch E c (bb_detection_mode b) source (scan_batch_items E c b di) w1 = (w2, Inr ())"
    and ev: "schedule_events (map (\<lambda>(i, it, rq, res). batch_row E c (bb_detection_mode b) source i it rq res) (scan_batch_items E c b di)) w2 = (w', Inr ())"
    and resp: "resp = batch_response E may_read di (scan_batch_items E c b di)"
    unfolding ai_scan_batch_def Let_def sbind_Inr lift_run refuse_if_run
    by (auto split: prod.splits) (auto simp: step_run)
  have "unrecorded w w1" using quietD[OF quiet_buckets(2) ch] by blast
  with p wr ev resp that show ?thesis by (auto simp: schedule_events_run)
qed


section \<open>The batch\<close>

lemma write_batch_rows:
  assumes "write_batch E c dmode source items w = (w', Inr u)"
  shows "\<exists>rows. w' = w\<lparr>sw_audit := sw_audit w @ rows\<rparr> \<and> list_all2 (\<lambda>r (i, it, rq, res).
     \<forall>k. k \<notin> set WRITER_FIELDS \<longrightarrow> dget r k = dget (batch_row E c dmode source i it rq res) k) rows items"
  using assms
proof (induction items arbitrary: w)
  case Nil
  then show ?case by (intro exI[of _ "[]"]) (simp add: sret_run)
next
  case (Cons x items)
  obtain i it rq res where x: "x = (i, it, rq, res)" by (cases x)
  with Cons.prems obtain t where t: "create (se_digest E) (se_now E) (batch_row E c dmode source i it rq res) (sw_audit w) = Inr t"
    and rest: "write_batch E c dmode source items (w\<lparr>sw_audit := t\<rparr>) = (w', Inr u)"
    by (auto simp: sbind_Inr write_audit_Inr)
  from create_appends[OF t] obtain r where r: "t = sw_audit w @ [r]"
    "\<forall>k. k \<notin> set WRITER_FIELDS \<longrightarrow> dget r k = dget (batch_row E c dmode source i it rq res) k" by blast
  from Cons.IH[OF rest] obtain rows where "w' = w\<lparr>sw_audit := t @ rows\<rparr>"
    "list_all2 (\<lambda>r (i, it, rq, res). \<forall>k. k \<notin> set WRITER_FIELDS \<longrightarrow> dget r k = dget (batch_row E c dmode source i it rq res) k) rows items" by auto
  with r show ?case by (intro exI[of _ "r # rows"]) (simp add: x)
qed

abbreviation "item_decision x \<equiv> gd_decision (gr_decision (snd (snd (snd x))))"
abbreviation "item_risk x \<equiv> rs_value (gd_risk_score (gr_decision (snd (snd (snd x)))))"

definition summary_of :: "scanned_item list \<Rightarrow> batch_summary \<Rightarrow> batch_summary" where
  "summary_of items s = fold (\<lambda>(i, it, rq, res). tally it (gr_decision res)) items s"

lemma tally_counts:
  "bs_blocked (tally it d s) = bs_blocked s + (if gd_decision d = BLOCK then 1 else 0)"
  "bs_sanitized (tally it d s) = bs_sanitized s + (if gd_decision d = SANITIZE then 1 else 0)"
  "bs_allowed (tally it d s) = bs_allowed s + (if gd_decision d = ALLOW then 1 else 0)"
  "bs_highest_risk (tally it d s) = max (rs_value (gd_risk_score d)) (bs_highest_risk s)"
  "set (bs_threats (tally it d s)) = set (bs_threats s) \<union> threat_value ` set (gd_threats d)"
  by (auto simp: tally_def Let_def count_decision_def split: decision_type.split)

lemma summary_counts:
  "bs_blocked (summary_of items s) = bs_blocked s + length (filter (\<lambda>x. item_decision x = BLOCK) items)"
  "bs_sanitized (summary_of items s) = bs_sanitized s + length (filter (\<lambda>x. item_decision x = SANITIZE) items)"
  "bs_allowed (summary_of items s) = bs_allowed s + length (filter (\<lambda>x. item_decision x = ALLOW) items)"
  "bs_highest_risk (summary_of items s) = fold max (map (\<lambda>x. item_risk x) items) (bs_highest_risk s)"
  unfolding summary_of_def by (induction items arbitrary: s) (auto simp: tally_counts)

definition row_risk :: "row \<Rightarrow> float64" where
  "row_risk r = (case dget r ''risk_score'' of PFloat x \<Rightarrow> x | _ \<Rightarrow> 0)"

definition row_decides :: "decision_type \<Rightarrow> row \<Rightarrow> bool" where
  "row_decides v r \<longleftrightarrow> dget r ''decision'' = PStr (decision_value v)"

lemma decision_value_inj: "decision_value a = decision_value b \<longleftrightarrow> a = b"
  by (cases a; cases b) simp_all

lemma length_scanned: "length (scan_batch_items E c b di) = length (bb_items b)"
  by (simp add: scan_batch_items_def scan_items_def)

lemma count_rows:
  assumes "list_all2 (\<lambda>r x. P r = Q x) rows items"
  shows "length (filter P rows) = length (filter Q items)"
  using assms by (induction rule: list_all2_induct) auto

lemma max_rows: "list_all2 (\<lambda>r x. f r = g x) rows items \<Longrightarrow> map f rows = map g items"
  by (induction rule: list_all2_induct) auto


section \<open>Reading back\<close>

lemma find_unique:
  assumes "x \<in> set xs" "P x" "\<And>y. y \<in> set xs \<Longrightarrow> P y \<Longrightarrow> y = x"
  shows "find P xs = Some x"
proof (cases "find P xs")
  case None
  with assms(1,2) show ?thesis by (auto simp: find_None_iff)
next
  case (Some z)
  then have "z \<in> set xs" "P z" using find_SomeD[OF Some] by blast+
  then have "z = x" by (rule assms(3))
  with Some show ?thesis by simp
qed

definition in_scope :: "api_caller \<Rightarrow> row \<Rightarrow> bool" where
  "in_scope c r \<longleftrightarrow> is_master_admin c \<or>
     (dget r ''tenant_id'' = PStr (str_or (cl_tenant_id c) [])
      \<and> (\<not> cl_is_admin c \<and> truthy (cl_dept_id c) \<longrightarrow> dget r ''dept_id'' = PStr (the (cl_dept_id c))))"

lemma find_same: "(\<And>x. P x = Q x) \<Longrightarrow> find P xs = find Q xs"
  by (induction xs) simp_all

lemma scoped_lookup_find:
  assumes "\<not> is_master_admin c"
  shows "scoped_lookup table c tid = find (\<lambda>r. trace_is tid r \<and> in_scope c r) table"
proof (cases "\<not> cl_is_admin c \<and> truthy (cl_dept_id c)")
  case True
  then have "scoped_lookup table c tid = get_by_trace_id_scoped table tid (the (cl_dept_id c)) (str_or (cl_tenant_id c) [])"
    unfolding scoped_lookup_def Let_def by (simp only: if_True if_False simp_thms)
  also have "\<dots> = find (\<lambda>r. trace_is tid r \<and> in_scope c r) table"
    unfolding get_by_trace_id_scoped_def by (rule find_same) (use True assms in \<open>unfold in_scope_def, blast\<close>)
  finally show ?thesis .
next
  case False
  then have "scoped_lookup table c tid = get_by_trace_id_tenant_scoped table tid (str_or (cl_tenant_id c) [])"
    unfolding scoped_lookup_def Let_def by (cases "cl_is_admin c") (simp_all only: if_True if_False simp_thms)
  also have "\<dots> = find (\<lambda>r. trace_is tid r \<and> in_scope c r) table"
    unfolding get_by_trace_id_tenant_scoped_def by (rule find_same) (use False assms in \<open>unfold in_scope_def, blast\<close>)
  finally show ?thesis .
qed

lemma first_by_in: "first_by f b xs \<in> insert b (set xs)"
proof (induction xs arbitrary: b)
  case (Cons x xs)
  have "first_by f (if position_less (f x) (f b) then x else b) xs \<in> insert (if position_less (f x) (f b) then x else b) (set xs)" by (rule Cons.IH)
  then show ?case by (auto split: if_splits)
qed simp

lemma first_derived_prefix:
  assumes "first_derived_trace_id table base tenant = Some t"
  shows "startswith t (base @ ''-'')"
proof -
  obtain x xs where c: "List.map_filter (\<lambda>r. opt_str (dget r ''trace_id'')) (filter (\<lambda>r. (case opt_str (dget r ''trace_id'') of
        Some t \<Rightarrow> startswith t (base @ ''-'') | None \<Rightarrow> False) \<and> (truthy tenant \<longrightarrow> dget r ''tenant_id'' = PStr (the tenant))) table) = x # xs"
    and t: "t = first_by (position_of (base @ ''-'')) x xs"
    using assms by (auto simp: first_derived_trace_id_def Let_def split: list.splits)
  have "t \<in> set (x # xs)" using first_by_in[of "position_of (base @ ''-'')" x xs] by (simp add: t)
  then show ?thesis unfolding c[symmetric] by (auto simp: List.map_filter_def)
qed

lemma found_by_own_id:
  assumes "r \<in> set table" "trace_is tid r" "in_scope c r" "distinct (map (\<lambda>r. dget r ''trace_id'') table)"
  shows "get_scoped_audit_record table tid c = Some r"
proof -
  have "find (\<lambda>r. trace_is tid r \<and> in_scope c r) table = Some r"
  proof (rule find_unique)
    fix y assume y: "y \<in> set table" "trace_is tid y \<and> in_scope c y"
    have "inj_on (\<lambda>r. dget r ''trace_id'') (set table)" using assms(4) by (simp add: distinct_map)
    then show "y = r" by (rule inj_onD) (use assms y in \<open>auto simp: trace_is_def\<close>)
  qed (use assms in auto)
  then show ?thesis
    by (cases "is_master_admin c") (simp_all add: get_scoped_audit_record_def Let_def scoped_lookup_find get_by_trace_id_def in_scope_def)
qed

text \<open>
  C13: Records are read back within the caller's scope. A record that is found is a row of the table in the caller's
  tenant, and for a caller with a department who is no admin in that department; only the master key sees every
  tenant. It carries the identifier that was asked for or one derived from it. Conversely every row in scope is found
  under its own identifier.
\<close>
theorem record_in_scope:
  shows "(get_scoped_audit_record table tid c = Some r \<longrightarrow>
      r \<in> set table \<and> in_scope c r \<and> (\<exists>t. dget r ''trace_id'' = PStr t \<and> (t = tid \<or> startswith t (tid @ ''-''))))
   \<and> (r \<in> set table \<and> trace_is tid r \<and> in_scope c r \<and> distinct (map (\<lambda>r. dget r ''trace_id'') table) \<longrightarrow>
      get_scoped_audit_record table tid c = Some r)"
proof (rule conjI; rule impI)
  assume found: "get_scoped_audit_record table tid c = Some r"
  define look where "look = (\<lambda>t. find (\<lambda>r. trace_is t r \<and> in_scope c r) table)"
  have master: "get_by_trace_id table t = look t" if "is_master_admin c" for t
    unfolding look_def get_by_trace_id_def by (rule find_same) (use that in \<open>simp add: in_scope_def\<close>)
  have scoped: "scoped_lookup table c t = look t" if "\<not> is_master_admin c" for t
    unfolding look_def by (rule scoped_lookup_find[OF that])
  have "get_scoped_audit_record table tid c = (case look tid of Some r \<Rightarrow> Some r
     | None \<Rightarrow> (case first_derived_trace_id table tid (if is_master_admin c \<or> \<not> truthy (cl_tenant_id c) then None else cl_tenant_id c) of
          Some t \<Rightarrow> if t = [] then None else look t | None \<Rightarrow> None))"
    by (cases "is_master_admin c") (simp_all add: get_scoped_audit_record_def Let_def master scoped cong: option.case_cong if_cong)
  with found have "\<exists>t. look t = Some r \<and> (t = tid \<or> startswith t (tid @ ''-''))"
    by (auto split: option.splits if_splits dest: first_derived_prefix)
  then obtain t where t: "look t = Some r" "t = tid \<or> startswith t (tid @ ''-'')" by blast
  from find_SomeD[OF t(1)[unfolded look_def]] t(2)
  show "r \<in> set table \<and> in_scope c r \<and> (\<exists>t. dget r ''trace_id'' = PStr t \<and> (t = tid \<or> startswith t (tid @ ''-'')))"
    unfolding trace_is_def by blast
next
  assume "r \<in> set table \<and> trace_is tid r \<and> in_scope c r \<and> distinct (map (\<lambda>r. dget r ''trace_id'') table)"
  then show "get_scoped_audit_record table tid c = Some r" by (intro found_by_own_id) blast+
qed

end
