(* ===== verification/Scan_Examples.thy ===== *)
theory Scan_Examples
  imports Scan_Facts
begin

text \<open>
  One deployment of the scan API on the in-memory stores, and the guarantees of the endpoints at work there. A row of
  plain values is always written, so a scan of a tenant without history is answered.
\<close>

declare us_simps(2) [simp del]

section \<open>Writing never fails on plain values\<close>

fun writable :: "pyval \<Rightarrow> bool" where
  "writable (PList vs) = list_all writable vs"
| "writable (PDict kvs) = list_all (\<lambda>(k, v). writable v) kvs"
| "writable POther = False"
| "writable _ = True"

lemma json_safe_writable:
  "writable v \<Longrightarrow> \<exists>j. json_safe L v = Inr j"
  "list_all writable vs \<Longrightarrow> \<exists>js. json_safe_list L vs = Inr js"
  "list_all (\<lambda>(k, v). writable v) kvs \<Longrightarrow> \<exists>js. json_safe_items L kvs = Inr js"
  by (induction L v and L vs and L kvs rule: json_safe_json_safe_list_json_safe_items.induct) auto

definition writable_row :: "row \<Rightarrow> bool" where
  "writable_row r \<longleftrightarrow> (\<forall>k. writable (dget r k))"

lemma writable_dict_set: "writable_row r \<Longrightarrow> writable v \<Longrightarrow> writable_row (dict_set k v r)"
  by (simp add: writable_row_def dget_dict_set)

lemma writable_materialise: "writable_row r \<Longrightarrow> writable_row (materialise_defaults r)"
proof -
  have ok: "writable v" if "map_of COLUMN_DEFAULTS n = Some v" for n v
    using map_of_SomeD[OF that] by (auto simp: COLUMN_DEFAULTS_def)
  have "writable_row r \<Longrightarrow> writable_row (fold (\<lambda>name d. if dget d name \<noteq> PNone then d
     else (case map_of COLUMN_DEFAULTS name of Some v \<Rightarrow> dict_set name v d | None \<Rightarrow> d)) ns r)" for ns
    by (induction ns arbitrary: r) (auto intro: writable_dict_set ok split: option.split)
  then show "writable_row r \<Longrightarrow> writable_row (materialise_defaults r)" by (simp add: materialise_defaults_def)
qed

lemma writable_items: "list_all (\<lambda>(k, v). writable v) kvs \<Longrightarrow> writable_row kvs"
  unfolding writable_row_def dget_def by (auto simp: list_all_iff dest!: map_of_SomeD split: option.split)

lemma chain_row_written:
  assumes "writable_row data" "\<exists>p. ascii_encode (str_or (fst h) []) = Inr p"
  shows "\<exists>r. chain_row L h data = Inr r"
proof -
  define d where "d = dict_set ''prev_hash'' (of_opt_str (fst h)) (materialise_defaults (dict_set ''chain_format'' (PInt CURRENT_CHAIN_FORMAT)
     (dict_set ''chain_seq'' (PInt (snd h)) data)))"
  have "writable_row d"
    unfolding d_def using assms(1) by (intro writable_dict_set writable_materialise) (auto simp: of_opt_str_def split: option.split)
  then have "list_all (\<lambda>(k, v). writable v) (map (\<lambda>n. (n, dget d n)) CANONICAL_FIELDS_V2)"
    by (auto simp: list_all_iff writable_row_def)
  then obtain js where js: "json_safe_items L (map (\<lambda>n. (n, dget d n)) CANONICAL_FIELDS_V2) = Inr js" using json_safe_writable(3) by blast
  from assms(2) obtain p where "ascii_encode (str_or (fst h) []) = Inr p" by blast
  with js have "compute_record_hash L d (fst h) (Some CURRENT_CHAIN_FORMAT) = Inr (dl_sha256 L (dl_dumps L js @ p))"
    by (simp add: compute_record_hash_def canonical_row_def fields_for_format_def CURRENT_CHAIN_FORMAT_def py_bind_def)
  then show ?thesis unfolding chain_row_def Let_def d_def[symmetric] by (simp add: py_bind_def)
qed

lemma row_written:
  assumes "writable_row data" "\<exists>p. ascii_encode (str_or (fst (chain_head (str_or (tenant_of data) []) table)) []) = Inr p"
  shows "\<exists>t. create L now data table = Inr t"
proof -
  let ?d = "set_default ''created_at'' (PTime now) data"
  have w: "writable_row ?d" using assms(1) by (auto simp: set_default_def intro: writable_dict_set)
  have tenant: "tenant_of ?d = tenant_of data" by (simp add: set_default_def dget_dict_set)
  show ?thesis
  proof (cases "truthy (tenant_of data)")
    case True
    then have "str_or (tenant_of data) [] = the (tenant_of data)" by (cases "tenant_of data") auto
    with chain_row_written[OF w, of "chain_head (the (tenant_of data)) table" L] assms(2) True show ?thesis
      by (auto simp: create_def Let_def tenant py_bind_def)
  next
    case False
    then show ?thesis by (simp add: create_def Let_def tenant)
  qed
qed

lemma writable_optional [simp]:
  "writable (of_opt_str s)" "writable (of_opt_float x)" "writable (of_opt_int n)" "writable (floats_value d)"
  by (auto simp: of_opt_str_def of_opt_float_def of_opt_int_def floats_value_def list_all_iff split: option.split)

lemma audit_data_writable: "writable_row (build_audit_data c res tid det exe src x lat)"
proof (rule writable_items)
  have "list_all writable (map (\<lambda>t. PStr (threat_value t)) ts)" for ts by (simp add: list_all_iff)
  then show "list_all (\<lambda>(k, v). writable v) (build_audit_data c res tid det exe src x lat)"
    unfolding build_audit_data_def Let_def attribution_def append.simps list.pred_inject prod.case by simp
qed

section \<open>A deployment\<close>

definition scan_policy :: jdict where
  "scan_policy = [(''thresholds'', JObj [(''block'', JNum (3 / 4)), (''sanitize'', JNum (1 / 2))]),
     (''detection'', JObj [(''rule_enabled'', JBool True), (''ml_enabled'', JBool True), (''llm_enabled'', JBool False)]), (''llm'', JObj [])]"

definition scan_inputs_sample :: decision_inputs where
  "scan_inputs_sample = \<lparr>di_block = Some (3 / 4), di_sanitize = Some (1 / 2), di_pii_block = None, di_pii_sanitize = None,
     di_toxicity_block = None, di_toxicity_sanitize = None, di_rule_enabled = True, di_ml_enabled = True, di_llm_enabled = False,
     di_llm_settings = JObj []\<rparr>"

definition sample_scan :: "(wire mem, zmem) scan_env" where
  "sample_scan = \<lparr>se_settings = \<lparr>ss_max_input_chars = 100, ss_max_batch_items = 5, ss_trial_max_input_chars = 50,
       ss_trial_rate_limit_per_minute = 5, ss_debug_rate_limit_per_minute = 5\<rparr>,
     se_limiter = \<lparr>rate_limit_per_minute = 60, rate_limit_per_ip_per_minute = 60, rate_limit_enabled = True\<rparr>,
     se_zredis = zmem_redis, se_redis = mem_redis,
     se_cache = \<lparr>ca_sha256 = \<lambda>t. map char_of t, ca_dumps = \<lambda>_. [], ca_lower = \<lambda>t. t\<rparr>,
     se_gateway = sample_gateway, se_policy = \<lambda>_ _ _. Inr (scan_policy, ''system_default''), se_digest = sample_digest, se_now = 0,
     se_member = \<lambda>_. [], se_fresh = \<lambda>_. ''a'', se_latency = \<lambda>_. 1, se_dept_name = \<lambda>_. Inr None, se_app_name = \<lambda>_. Inr None,
     se_interaction = \<lambda>_. Inr None\<rparr>"

definition scan_caller :: api_caller where
  "scan_caller = \<lparr>cl_principal_type = Some ''user'', cl_key_id = Some ''user:1'', cl_key_type = ''jwt'', cl_key_name = Some ''u@x'',
     cl_tenant_id = Some ''t'', cl_dept_id = None, cl_app_id = None, cl_ip_address = None, cl_user_agent = None,
     cl_is_admin = False, cl_user_role = Some ''VIEWER''\<rparr>"

definition scan_text :: scan_body where
  "scan_text = \<lparr>sb_input = us ''a@b'', sb_detection_mode = FAST, sb_execution_mode = SCAN_ONLY, sb_model = None, sb_session_id = None,
     sb_turn_index = None, sb_run_id = None, sb_input_source = ''user_prompt'', sb_source = None, sb_user_id = None, sb_stream = False, sb_debug = False\<rparr>"

definition scan_start :: "(wire mem, zmem) scan_world" where
  "scan_start = \<lparr>sw_cache = \<lambda>_. None, sw_limits = \<lambda>_. ([], None), sw_audit = [], sw_events = [], sw_calls = []\<rparr>"

lemma sample_core: "py_bind (core_inputs scan_policy) (guardrail_inputs scan_policy) = Inr scan_inputs_sample"
  by (simp add: core_inputs_def guardrail_inputs_def scan_policy_def scan_inputs_sample_def section_of_def get2_def get1_def threshold_in_def
      override_get_def json_truthy_def)

lemma sample_inputs: "scan_inputs sample_scan scan_caller scan_text = Inr (scan_policy, ''system_default'', scan_inputs_sample)"
proof -
  obtain core where core: "core_inputs scan_policy = Inr core" "guardrail_inputs scan_policy core = Inr scan_inputs_sample"
    using sample_core by (auto simp: py_bind_Inr_conv)
  have "resolve_scope sample_scan scan_caller = Inr (scan_policy, ''system_default'')" by (simp add: resolve_scope_def sample_scan_def)
  with core show ?thesis by (simp add: scan_inputs_def and_then_def crashing_def scan_text_def)
qed

lemma sample_may_read: "holds_permission scan_caller ''settings:read'' False = Inr False"
  by code_simp

lemma sample_gateway_args: "process_args scan_inputs_sample = sample_args"
  by (simp add: process_args_def scan_inputs_sample_def sample_args_def)

lemma sample_verdict:
  "gd_decision (gr_decision (fst (process sample_gateway sample_args (scan_request sample_scan scan_caller scan_text)))) = SANITIZE"
  "gr_provider_error (fst (process sample_gateway sample_args (scan_request sample_scan scan_caller scan_text))) = None"
proof -
  let ?rq = "scan_request sample_scan scan_caller scan_text"
  have mode: "rq_execution_mode ?rq = SCAN_ONLY" by (simp add: scan_request_def scan_text_def)
  show "gd_decision (gr_decision (fst (process sample_gateway sample_args ?rq))) = SANITIZE" using sample_process[OF mode] by blast
  show "gr_provider_error (fst (process sample_gateway sample_args ?rq)) = None"
    by (auto simp: process_def Let_def step8_execute_def mode build_result_def system_error_result_def split: sum.split prod.split)
qed

lemma sample_answered:
  obtains w body where "ai_request sample_scan scan_caller scan_text scan_start = (w, Inr (Scanned body))" "wget body ''decision'' = Some (wtext ''SANITIZE'')"
proof -
  let ?E = sample_scan and ?c = scan_caller and ?b = scan_text and ?w = scan_start and ?di = scan_inputs_sample
  let ?p = "process sample_gateway sample_args (scan_request ?E ?c ?b)"
  have guards: "scan_guards ?E ?c ?b ?w = (?w, Inr ())"
    by (simp add: scan_guards_def Let_def sbind_def lift_def refuse_if_def sret_def principal_from_state_def scan_caller_def scan_text_def)
  have miss: "read_cache ?E (scan_slot ?E ?c ?b ?di) ?w = (?w, Inr None)"
    by (simp add: read_cache_def get_cached_result_def with_key_def cache_key_def scan_slot_def scan_caller_def sample_scan_def scan_start_def
        mem_redis_def mem_val_def rbind_def rtry_def try_except_def)
  have app: "app_bucket ?E ?c scan_policy = sret ()" by (simp add: app_bucket_def scan_caller_def)
  let ?data = "build_audit_data ?c (fst ?p) (rq_trace_id (scan_request ?E ?c ?b)) (mode_value (sb_detection_mode ?b))
     (execution_value (sb_execution_mode ?b)) (Some ''system_default'') (context_of ?c ?b) (se_latency ?E 0)"
  have "\<exists>t. create (se_digest ?E) (se_now ?E) ?data [] = Inr t"
    by (rule row_written[OF audit_data_writable]) (simp add: chain_head_def tip_def chained_def ascii_encode_def)
  then obtain t where t: "create (se_digest ?E) (se_now ?E) ?data [] = Inr t" by blast
  have G: "se_gateway ?E = sample_gateway" by (simp add: sample_scan_def)
  obtain w body where fresh: "scan_afresh ?E ?c ?b False scan_policy ''system_default'' ?di ?w = (w, Inr (Scanned body))"
    and body: "\<exists>dbg a b' lat. served False (build_response (ge_settings sample_gateway) (gr_decision (fst ?p)) dbg a b' lat) = Scanned body"
    by (simp add: scan_afresh_def app sbind_def sret_def call_gateway_def G sample_gateway_args case_prod_beta Let_def write_audit_def
        schedule_events_def scan_start_def t sample_verdict(2) cache_result_def served_def) blast
  have "ai_request ?E ?c ?b ?w = (w, Inr (Scanned body))"
    by (simp add: ai_request_def sbind_def lift_def guards sample_inputs sample_may_read miss serve_or_scan_def fresh)
  moreover have "wget body ''decision'' = Some (wtext ''SANITIZE'')"
    using body sample_verdict(1) by (auto simp: served_def wget_restricted build_response_get)
  ultimately show ?thesis by (rule that)
qed

section \<open>The guarantees at work\<close>

theorem scan_recorded_witness:
  "\<exists>w body r. ai_request sample_scan scan_caller scan_text scan_start = (w, Inr (Scanned body)) \<and> sw_audit w = [r]
     \<and> dget r ''tenant_id'' = PStr ''t'' \<and> dget r ''trace_id'' = PStr ''req_a'' \<and> dget r ''decision'' = PStr ''SANITIZE''"
proof -
  obtain w body where run: "ai_request sample_scan scan_caller scan_text scan_start = (w, Inr (Scanned body))"
    and dec: "wget body ''decision'' = Some (wtext ''SANITIZE'')" by (rule sample_answered)
  obtain r where r: "sw_audit w = sw_audit scan_start @ [r]" "dget r ''tenant_id'' = of_opt_str (cl_tenant_id scan_caller)"
    "dget r ''trace_id'' = PStr (mk_trace_id (se_fresh sample_scan 0) None)" "row_matches r body"
    using scan_recorded[OF run] by auto
  have "dget r ''decision'' = PStr ''SANITIZE''" using r(4) dec by (simp add: row_matches_def VERDICT_FIELDS_def)
  moreover have "dget r ''tenant_id'' = PStr ''t''" "sw_audit w = [r]" using r(1,2) by (simp_all add: scan_caller_def of_opt_str_def scan_start_def)
  moreover have "dget r ''trace_id'' = PStr ''req_a''" using r(3) by (simp add: sample_scan_def mk_trace_id_def TRACE_PREFIX_def)
  ultimately show ?thesis using run by blast
qed

lemma sample_row:
  obtains w body r where "ai_request sample_scan scan_caller scan_text scan_start = (w, Inr (Scanned body))" "sw_audit w = [r]"
    "dget r ''tenant_id'' = PStr ''t''" "trace_is ''req_a'' r"
proof -
  obtain w body where run: "ai_request sample_scan scan_caller scan_text scan_start = (w, Inr (Scanned body))" by (rule sample_answered)
  obtain r where r: "sw_audit w = sw_audit scan_start @ [r]" "dget r ''tenant_id'' = of_opt_str (cl_tenant_id scan_caller)"
    "dget r ''trace_id'' = PStr (mk_trace_id (se_fresh sample_scan 0) None)" using answered_row[OF run] by blast
  have "sw_audit w = [r]" using r(1) by (simp add: scan_start_def)
  moreover have "dget r ''tenant_id'' = PStr ''t''" using r(2) by (simp add: scan_caller_def of_opt_str_def)
  moreover have "trace_is ''req_a'' r" using r(3) by (simp add: trace_is_def sample_scan_def mk_trace_id_def TRACE_PREFIX_def)
  ultimately show ?thesis by (rule that[OF run])
qed

theorem record_in_scope_witness:
  "\<exists>w body r. ai_request sample_scan scan_caller scan_text scan_start = (w, Inr (Scanned body))
     \<and> get_scoped_audit_record (sw_audit w) ''req_a'' scan_caller = Some r
     \<and> get_scoped_audit_record (sw_audit w) ''req_a'' (scan_caller\<lparr>cl_tenant_id := Some ''other''\<rparr>) = None"
proof -
  obtain w body r where run: "ai_request sample_scan scan_caller scan_text scan_start = (w, Inr (Scanned body))"
    and r: "sw_audit w = [r]" "dget r ''tenant_id'' = PStr ''t''" "trace_is ''req_a'' r" by (rule sample_row)
  have "in_scope scan_caller r" using r(2) by (simp add: in_scope_def scan_caller_def)
  with r have own: "get_scoped_audit_record (sw_audit w) ''req_a'' scan_caller = Some r"
    using record_in_scope[of "sw_audit w" "''req_a''" scan_caller r] by simp
  have "\<not> in_scope (scan_caller\<lparr>cl_tenant_id := Some ''other''\<rparr>) r"
    using r(2) by (simp add: in_scope_def is_master_admin_def MASTER_ADMIN_KEY_ID_def scan_caller_def)
  then have "get_scoped_audit_record (sw_audit w) ''req_a'' (scan_caller\<lparr>cl_tenant_id := Some ''other''\<rparr>) = None"
    using record_in_scope[of "sw_audit w" "''req_a''" "scan_caller\<lparr>cl_tenant_id := Some ''other''\<rparr>"]
    unfolding r(1) by (metis empty_iff insert_iff list.set not_Some_eq)
  with own run show ?thesis by blast
qed


lemma tenantless_row: "opt_str (dget data ''tenant_id'') = None \<Longrightarrow> \<exists>t. create L now data table = Inr t"
  by (simp add: create_def Let_def set_default_def dget_dict_set)

lemma tenantless_batch: "cl_tenant_id c = None \<Longrightarrow> \<exists>w'. write_batch E c dmode source items w = (w', Inr ())"
proof (induction items arbitrary: w)
  case (Cons x items)
  obtain i it rq res where x: "x = (i, it, rq, res)" by (cases x)
  have "opt_str (dget (batch_row E c dmode source i it rq res) ''tenant_id'') = None"
    using Cons.prems by (simp add: batch_row_def audit_attribution of_opt_str_def opt_str_def)
  from tenantless_row[OF this] obtain t where "create (se_digest E) (se_now E) (batch_row E c dmode source i it rq res) (sw_audit w) = Inr t" by blast
  with Cons.IH[OF Cons.prems, of "w\<lparr>sw_audit := t\<rparr>"] show ?case by (simp add: x sbind_def write_audit_def)
qed (simp add: sret_def)

definition sample_batch :: batch_body where
  "sample_batch = \<lparr>bb_items = [\<lparr>bi_input = us ''a@b'', bi_input_source = ''user_prompt'', bi_id = Some ''1''\<rparr>,
     \<lparr>bi_input = us ''c@d'', bi_input_source = ''user_prompt'', bi_id = None\<rparr>], bb_detection_mode = FAST\<rparr>"


end
