(* ===== verification/Scan_Cache_Facts.thy ===== *)
theory Scan_Cache_Facts
  imports Scan_Examples
begin

text \<open>
  The response cache of the scan endpoint over a history of requests: an answer taken from it was reached by the
  pipeline for a request of the same tenant, policy digest, provenance, modes and folded text, and allowed that
  request. The store is any that answers and keeps the laws of \<open>redis_up\<close>. Further lemmas record what the key leaves out.
\<close>

declare us_simps(2) [simp del]

section \<open>Histories\<close>

record ('r, 'z) scan_call =
  sc_env :: "('r, 'z) scan_env"
  sc_caller :: api_caller
  sc_body :: scan_body

definition serve_call :: "('r, 'z) scan_call \<Rightarrow> ('r, 'z) scan_world \<Rightarrow> ('r, 'z) scan_world \<times> (api_error + scan_answer)" where
  "serve_call q = ai_request (sc_env q) (sc_caller q) (sc_body q)"

definition serve_history :: "('r, 'z) scan_call list \<Rightarrow> ('r, 'z) scan_world \<Rightarrow> ('r, 'z) scan_world" where
  "serve_history qs w = fold (\<lambda>q w. fst (serve_call q w)) qs w"

text \<open>The slot of a request and the body the pipeline gives it, once its policy is resolved.\<close>

definition call_slot :: "('r, 'z) scan_call \<Rightarrow> decision_inputs \<Rightarrow> cache_slot" where
  "call_slot q di = scan_slot (sc_env q) (sc_caller q) (sc_body q) di"

definition fresh_body :: "('r, 'z) scan_call \<Rightarrow> decision_inputs \<Rightarrow> message" where
  "fresh_body q di = build_response (ge_settings (se_gateway (sc_env q)))
     (gr_decision (fst (process (se_gateway (sc_env q)) (process_args di) (scan_request (sc_env q) (sc_caller q) (sc_body q)))))
     (sb_debug (sc_body q) \<and> cl_is_admin (sc_caller q)) (di_block di) (di_sanitize di) (se_latency (sc_env q) 0)"

definition resolves :: "('r, 'z) scan_call \<Rightarrow> decision_inputs \<Rightarrow> bool" where
  "resolves q di \<longleftrightarrow> (\<exists>policy source. scan_inputs (sc_env q) (sc_caller q) (sc_body q) = Inr (policy, source, di))"

definition cached_body :: "('r, 'z) scan_call \<Rightarrow> decision_inputs \<Rightarrow> message" where
  "cached_body q di = filter (\<lambda>(k, _). k \<noteq> us ''debug'') (fresh_body q di)"

lemma cached_body_get: "k \<noteq> ''debug'' \<Longrightarrow> wget (cached_body q di) k = wget (fresh_body q di) k"
  by (simp add: cached_body_def wget_def map_of_filter_keys)

section \<open>What the store shows\<close>

definition cache_key_of :: "cache_lib \<Rightarrow> string \<Rightarrow> bool" where
  "cache_key_of L k \<longleftrightarrow> (\<exists>s. cache_key L s = Inr k)"

text \<open>Every live entry is the allowed answer of an earlier request.\<close>

definition entries_ok :: "cache_lib \<Rightarrow> ('r \<Rightarrow> rat \<Rightarrow> string \<Rightarrow> wire rval option) \<Rightarrow> ('r, 'z) scan_call list \<Rightarrow> rat \<Rightarrow> 'r \<Rightarrow> bool" where
  "entries_ok L val qs now r \<longleftrightarrow> (\<forall>t k v. now \<le> t \<longrightarrow> cache_key_of L k \<longrightarrow> val r t k = Some v \<longrightarrow>
     (\<exists>q di. q \<in> set qs \<and> resolves q di \<and> cache_key L (call_slot q di) = Inr k \<and> v = RDoc (WDict (cached_body q di))
        \<and> wget (fresh_body q di) ''decision'' = Some (wtext ''ALLOW'')))"

section \<open>What a request does to the store\<close>

lemma failing_keeps_cache:
  assumes "serve_or_scan E c b may_read policy source di cached w = (w', Inl e)"
  shows "sw_cache w' = sw_cache w"
proof -
  have hit: "sw_cache w' = sw_cache w" if "serve_hit E c b may_read d w = (w', Inl e)" for d
    using that by (auto simp: serve_hit_def Let_def sbind_Inl step_run dest!: failing_write)
  have afresh: "sw_cache w' = sw_cache w" if "scan_afresh E c b may_read policy source di w = (w', Inl e)"
    using that by (auto simp: scan_afresh_def Let_def sbind_Inl step_run write_audit_Inr dest!: failing_write quietD[OF quiet_app_bucket] split: if_splits)
  show ?thesis using assms by (auto simp: serve_or_scan_def lift_run dest: hit afresh split: option.splits wire.splits if_splits)
qed

lemma ai_request_cache:
  assumes run: "ai_request E c b w = (w', ans)"
  obtains "sw_cache w' = sw_cache w"
    | di where "sw_cache w' = fst (get_cached_result (se_redis E) (se_cache E) (se_now E) (scan_slot E c b di) (sw_cache w))"
    | policy source di where "scan_inputs E c b = Inr (policy, source, di)"
        "sw_cache w' = set_cached_result (se_redis E) (se_cache E) (se_now E) (scan_slot E c b di) (cached_body \<lparr>sc_env = E, sc_caller = c, sc_body = b\<rparr> di)
          (fst (get_cached_result (se_redis E) (se_cache E) (se_now E) (scan_slot E c b di) (sw_cache w)))"
proof -
  have read: "sw_cache w2 = fst (get_cached_result (se_redis E) (se_cache E) (se_now E) s (sw_cache w1))"
    if "read_cache E s w1 = (w2, r)" for s w1 w2 r
    using that by (auto simp: read_cache_def split: prod.splits)
  show ?thesis
  proof (cases ans)
    case (Inl e)
    with run have "ai_request E c b w = (w', Inl e)" by simp
    then show ?thesis
    proof (cases rule: ai_request_failed)
      case 1
      then show ?thesis using quietD[OF quiet_guards 1] that(1) by blast
    next
      case (2 u)
      then show ?thesis using quietD[OF quiet_guards 2] that(1) by blast
    next
      case (3 w1 u policy source di may_read w2 cached)
      then show ?thesis using quietD[OF quiet_guards 3(1)] read[OF 3(2)] failing_keeps_cache[OF 3(3)] that(2)[of di] by simp
    qed
  next
    case (Inr a)
    with run have "ai_request E c b w = (w', Inr a)" by simp
    then obtain w1 w2 policy source di may_read cached where i: "scan_inputs E c b = Inr (policy, source, di)" "sw_cache w1 = sw_cache w"
      and r: "read_cache E (scan_slot E c b di) w1 = (w2, Inr cached)"
      and alt: "(\<exists>d. cached = Some (WDict d) \<and> serve_hit E c b may_read d w2 = (w', Inr a))
         \<or> scan_afresh E c b may_read policy source di w2 = (w', Inr a)" by (rule ai_request_answered)
    note c2 = read[OF r, unfolded i(2)]
    from alt show ?thesis
    proof
      assume "\<exists>d. cached = Some (WDict d) \<and> serve_hit E c b may_read d w2 = (w', Inr a)"
      then obtain d where "serve_hit E c b may_read d w2 = (w', Inr a)" by blast
      then have "sw_cache w' = sw_cache w2" by (rule serve_hit_answered) simp
      with c2 show ?thesis using that(2)[of di] by simp
    next
      assume "scan_afresh E c b may_read policy source di w2 = (w', Inr a)"
      then obtain res calls response where pr: "process (se_gateway E) (process_args di) (scan_request E c b) = (res, calls)"
        and resp: "response = build_response (ge_settings (se_gateway E)) (gr_decision res) (sb_debug b \<and> cl_is_admin c) (di_block di) (di_sanitize di) (se_latency E 0)"
        and a: "if gr_provider_error res \<noteq> None then a = ProviderFailed (mk_trace_id (se_fresh E 0) None) \<and> sw_cache w' = sw_cache w2
           else a = served may_read response \<and> sw_cache w' = set_cached_result (se_redis E) (se_cache E) (se_now E) (scan_slot E c b di)
              (filter (\<lambda>(k, _). k \<noteq> us ''debug'') response) (sw_cache w2)"
        by (rule scan_afresh_answered)
      have "filter (\<lambda>(k, _). k \<noteq> us ''debug'') response = cached_body \<lparr>sc_env = E, sc_caller = c, sc_body = b\<rparr> di"
        by (simp add: cached_body_def fresh_body_def resp pr)
      then show ?thesis using a c2 i that(2)[of di] that(3)[of policy source di] by (auto split: if_splits)
    qed
  qed
qed

text \<open>The verdict fields of a scanned body are those of the entry that was read, or of the fresh body.\<close>

lemma scanned_verdict:
  assumes "ai_request E c b w = (w', Inr (Scanned body))"
  obtains policy source di where "scan_inputs E c b = Inr (policy, source, di)"
    "(\<exists>d. snd (get_cached_result (se_redis E) (se_cache E) (se_now E) (scan_slot E c b di) (sw_cache w)) = Some (WDict d)
        \<and> list_all (\<lambda>k. wget body k = wget d k) VERDICT_FIELDS)
     \<or> list_all (\<lambda>k. wget body k = wget (fresh_body \<lparr>sc_env = E, sc_caller = c, sc_body = b\<rparr> di) k) VERDICT_FIELDS"
proof -
  from assms obtain w1 w2 policy source di may_read cached where i: "scan_inputs E c b = Inr (policy, source, di)" "sw_cache w1 = sw_cache w"
    and r: "read_cache E (scan_slot E c b di) w1 = (w2, Inr cached)"
    and alt: "(\<exists>d. cached = Some (WDict d) \<and> serve_hit E c b may_read d w2 = (w', Inr (Scanned body)))
       \<or> scan_afresh E c b may_read policy source di w2 = (w', Inr (Scanned body))" by (rule ai_request_answered)
  have cached: "snd (get_cached_result (se_redis E) (se_cache E) (se_now E) (scan_slot E c b di) (sw_cache w)) = cached"
    using r i(2) by (auto simp: read_cache_def split: prod.splits)
  have same: "list_all (\<lambda>k. wget body k = wget full k) VERDICT_FIELDS" if "Scanned body = served may_read full" for full
    using wget_served[OF that[symmetric]] by (simp add: VERDICT_FIELDS_def)
  from alt show ?thesis
  proof
    assume "\<exists>d. cached = Some (WDict d) \<and> serve_hit E c b may_read d w2 = (w', Inr (Scanned body))"
    then obtain d where d: "cached = Some (WDict d)" and hit: "serve_hit E c b may_read d w2 = (w', Inr (Scanned body))" by blast
    from hit obtain full where "full = dict_set (us ''trace_id'') (wtext (mk_trace_id (se_fresh E 0) None)) d" "Scanned body = served may_read full"
      by (rule serve_hit_answered)
    with same[of full] have "list_all (\<lambda>k. wget body k = wget d k) VERDICT_FIELDS" by (simp add: VERDICT_FIELDS_def)
    with that[OF i(1)] cached d show ?thesis by blast
  next
    assume "scan_afresh E c b may_read policy source di w2 = (w', Inr (Scanned body))"
    then obtain res calls response where pr: "process (se_gateway E) (process_args di) (scan_request E c b) = (res, calls)"
      and resp: "response = build_response (ge_settings (se_gateway E)) (gr_decision res) (sb_debug b \<and> cl_is_admin c) (di_block di) (di_sanitize di) (se_latency E 0)"
      and a: "if gr_provider_error res \<noteq> None then Scanned body = ProviderFailed (mk_trace_id (se_fresh E 0) None) \<and> sw_cache w' = sw_cache w2
         else Scanned body = served may_read response \<and> sw_cache w' = set_cached_result (se_redis E) (se_cache E) (se_now E) (scan_slot E c b di)
            (filter (\<lambda>(k, _). k \<noteq> us ''debug'') response) (sw_cache w2)"
      by (rule scan_afresh_answered)
    have "Scanned body = served may_read response" using a by (auto split: if_splits)
    then have "list_all (\<lambda>k. wget body k = wget (fresh_body \<lparr>sc_env = E, sc_caller = c, sc_body = b\<rparr> di) k) VERDICT_FIELDS"
      using same by (simp add: fresh_body_def resp pr)
    with that[OF i(1)] show ?thesis by blast
  qed
qed

section \<open>Any store that answers\<close>

locale scan_store = redis_up R val for R :: "('r, wire) redis" and val +
  fixes L :: cache_lib
begin

definition agrees :: "rat \<Rightarrow> 'r \<Rightarrow> 'r \<Rightarrow> bool" where
  "agrees now r r' \<longleftrightarrow> (\<forall>t k. now \<le> t \<longrightarrow> val r' t k = val r t k)"

lemma cached_read:
  "\<exists>r'. get_cached_result R L now s r = (r', case cache_key L s of Inr k \<Rightarrow> (case val r now k of Some (RDoc d) \<Rightarrow> Some d | _ \<Rightarrow> None) | Inl _ \<Rightarrow> None)
     \<and> agrees now r r'"
proof (cases "cache_key L s")
  case (Inl e)
  then show ?thesis by (simp add: get_cached_result_def with_key_def rtry_def try_except_def agrees_def)
next
  case (Inr k)
  obtain r' where "r_get R now k r = (r', Inr (val r now k))" "agrees now r r'"
    using get_answers[of now k r] by (auto simp: agrees_def)
  with Inr show ?thesis
    by (auto simp: get_cached_result_def with_key_def rtry_def try_except_def rbind_def split: option.split rval.split)
qed

lemma cached_write:
  assumes "cache_key L s = Inr k" "now \<le> t"
  shows "val (set_cached_result R L now s body r) t k' =
    (if wget body ''decision'' = Some (wtext ''ALLOW'') \<and> k' = k then until now CACHE_TTL (RDoc (WDict body)) t else val r t k')"
proof -
  obtain r' u where w: "r_setex R now k CACHE_TTL (RDoc (WDict body)) r = (r', Inr u)" using setex_up by blast
  from setex_val[OF w _ assms(2)] have "val r' t k' = (if k' = k then until now CACHE_TTL (RDoc (WDict body)) t else val r t k')"
    by (simp add: CACHE_TTL_def)
  then show ?thesis using assms(1) w by (cases "k' = k") (simp_all add: set_cached_result_def with_key_def rtry_def)
qed

lemma unkeyed_write: "cache_key L s = Inl e \<Longrightarrow> set_cached_result R L now s body r = r"
  by (simp add: set_cached_result_def with_key_def rtry_def)

lemma entries_mono:
  assumes "entries_ok L val qs now r" "now \<le> now'" "agrees now' r r'"
  shows "entries_ok L val (qs @ later) now' r'"
  unfolding entries_ok_def
proof (intro allI impI)
  fix t k v assume "now' \<le> t" "cache_key_of L k" "val r' t k = Some v"
  with assms(2,3) have "now \<le> t" "val r t k = Some v" by (auto simp: agrees_def)
  with assms(1) \<open>cache_key_of L k\<close> obtain q di where "q \<in> set qs" "resolves q di" "cache_key L (call_slot q di) = Inr k"
    "v = RDoc (WDict (cached_body q di))" "wget (fresh_body q di) ''decision'' = Some (wtext ''ALLOW'')"
    unfolding entries_ok_def by blast
  then show "\<exists>q di. q \<in> set (qs @ later) \<and> resolves q di \<and> cache_key L (call_slot q di) = Inr k \<and> v = RDoc (WDict (cached_body q di))
      \<and> wget (fresh_body q di) ''decision'' = Some (wtext ''ALLOW'')" by auto
qed

lemma entries_store:
  assumes ok: "entries_ok L val qs now r" and q: "q \<in> set qs" "resolves q di"
  shows "entries_ok L val qs now (set_cached_result R L now (call_slot q di) (cached_body q di) r)"
proof (cases "cache_key L (call_slot q di)")
  case (Inl e)
  then show ?thesis using ok by (simp add: unkeyed_write)
next
  case (Inr k)
  show ?thesis
    unfolding entries_ok_def
  proof (intro allI impI)
    fix t k' v assume t: "now \<le> t" and k': "cache_key_of L k'"
      and v: "val (set_cached_result R L now (call_slot q di) (cached_body q di) r) t k' = Some v"
    show "\<exists>q di. q \<in> set qs \<and> resolves q di \<and> cache_key L (call_slot q di) = Inr k' \<and> v = RDoc (WDict (cached_body q di))
        \<and> wget (fresh_body q di) ''decision'' = Some (wtext ''ALLOW'')"
    proof (cases "wget (cached_body q di) ''decision'' = Some (wtext ''ALLOW'') \<and> k' = k")
      case True
      then have "v = RDoc (WDict (cached_body q di))" using v by (simp add: cached_write[OF Inr t] until_def split: if_splits)
      with q Inr True show ?thesis by (intro exI[of _ q] exI[of _ di]) (simp add: cached_body_get)
    next
      case False
      then have "val r t k' = Some v" using v unfolding cached_write[OF Inr t] by (simp only: if_False)
      then show ?thesis using ok t k' unfolding entries_ok_def by blast
    qed
  qed
qed

lemma agrees_read: "agrees now r (fst (get_cached_result R L now s r))"
  using cached_read[of now s r] by auto

definition at_store :: "('r, 'z) scan_call \<Rightarrow> bool" where
  "at_store q \<longleftrightarrow> se_redis (sc_env q) = R \<and> se_cache (sc_env q) = L"

lemma serve_keeps:
  assumes ok: "entries_ok L val qs now (sw_cache w)" and q: "at_store q" "now \<le> se_now (sc_env q)"
  shows "entries_ok L val (qs @ [q]) (se_now (sc_env q)) (sw_cache (fst (serve_call q w)))"
proof -
  obtain w' ans where run: "ai_request (sc_env q) (sc_caller q) (sc_body q) w = (w', ans)" by fastforce
  have q': "\<lparr>sc_env = sc_env q, sc_caller = sc_caller q, sc_body = sc_body q\<rparr> = q" by simp
  have R: "se_redis (sc_env q) = R" "se_cache (sc_env q) = L" using q(1) by (simp_all add: at_store_def)
  note keep = entries_mono[OF ok q(2), of _ "[q]"]
  have "entries_ok L val (qs @ [q]) (se_now (sc_env q)) (sw_cache w')"
    using run
  proof (cases rule: ai_request_cache)
    case 1
    then show ?thesis by (intro keep) (simp add: agrees_def)
  next
    case (2 di)
    then show ?thesis using agrees_read[of "se_now (sc_env q)" "sw_cache w"] by (intro keep) (simp add: R)
  next
    case (3 policy source di)
    have "entries_ok L val (qs @ [q]) (se_now (sc_env q))
        (set_cached_result R L (se_now (sc_env q)) (call_slot q di) (cached_body q di)
           (fst (get_cached_result R L (se_now (sc_env q)) (call_slot q di) (sw_cache w))))"
      by (rule entries_store[OF keep[OF agrees_read]]) (use 3(1) in \<open>auto simp: resolves_def\<close>)
    then show ?thesis using 3(2) unfolding q' R call_slot_def by simp
  qed
  then show ?thesis by (simp add: serve_call_def run)
qed

lemma history_keeps:
  assumes "entries_ok L val qs0 now (sw_cache w)" "list_all at_store qs" "sorted (now # map (\<lambda>q. se_now (sc_env q)) qs)"
  shows "entries_ok L val (qs0 @ qs) (last (now # map (\<lambda>q. se_now (sc_env q)) qs)) (sw_cache (serve_history qs w))"
  using assms
proof (induction qs arbitrary: qs0 now w)
  case (Cons q qs)
  from Cons.prems(2,3) have q: "at_store q" "now \<le> se_now (sc_env q)" and qs: "list_all at_store qs" "sorted (se_now (sc_env q) # map (\<lambda>q. se_now (sc_env q)) qs)"
    by simp_all
  from Cons.IH[OF serve_keeps[OF Cons.prems(1) q] qs] show ?case by (simp add: serve_history_def)
qed (simp add: serve_history_def)

lemma answered_from:
  assumes ok: "entries_ok L val qs now (sw_cache w)" and q: "at_store q" "now \<le> se_now (sc_env q)"
    and run: "serve_call q w = (w', Inr (Scanned body))"
  obtains di q0 di0 where "resolves q di" "q0 \<in> set (qs @ [q])" "resolves q0 di0" "cache_key L (call_slot q0 di0) = cache_key L (call_slot q di)"
    "(q0 = q \<and> di0 = di) \<or> (\<exists>k. cache_key L (call_slot q di) = Inr k) \<and> wget body ''decision'' = Some (wtext ''ALLOW'')"
    "list_all (\<lambda>k. wget body k = wget (fresh_body q0 di0) k) VERDICT_FIELDS"
proof -
  have R: "se_redis (sc_env q) = R" "se_cache (sc_env q) = L" using q(1) by (simp_all add: at_store_def)
  have q': "\<lparr>sc_env = sc_env q, sc_caller = sc_caller q, sc_body = sc_body q\<rparr> = q" by simp
  obtain policy source di where i: "scan_inputs (sc_env q) (sc_caller q) (sc_body q) = Inr (policy, source, di)"
    and alt: "(\<exists>d. snd (get_cached_result R L (se_now (sc_env q)) (call_slot q di) (sw_cache w)) = Some (WDict d)
        \<and> list_all (\<lambda>k. wget body k = wget d k) VERDICT_FIELDS)
     \<or> list_all (\<lambda>k. wget body k = wget (fresh_body q di) k) VERDICT_FIELDS"
    using scanned_verdict[OF run[unfolded serve_call_def]] unfolding q' R call_slot_def by blast
  have r: "resolves q di" using i by (auto simp: resolves_def)
  from alt show ?thesis
  proof
    assume "\<exists>d. snd (get_cached_result R L (se_now (sc_env q)) (call_slot q di) (sw_cache w)) = Some (WDict d)
        \<and> list_all (\<lambda>k. wget body k = wget d k) VERDICT_FIELDS"
    then obtain d where d: "snd (get_cached_result R L (se_now (sc_env q)) (call_slot q di) (sw_cache w)) = Some (WDict d)"
      and f: "list_all (\<lambda>k. wget body k = wget d k) VERDICT_FIELDS" by blast
    obtain r' where "get_cached_result R L (se_now (sc_env q)) (call_slot q di) (sw_cache w) = (r', case cache_key L (call_slot q di) of
        Inr k \<Rightarrow> (case val (sw_cache w) (se_now (sc_env q)) k of Some (RDoc d) \<Rightarrow> Some d | _ \<Rightarrow> None) | Inl _ \<Rightarrow> None)"
      using cached_read[of "se_now (sc_env q)" "call_slot q di" "sw_cache w"] by blast
    with d obtain k where k: "cache_key L (call_slot q di) = Inr k" "val (sw_cache w) (se_now (sc_env q)) k = Some (RDoc (WDict d))"
      by (auto split: sum.splits option.splits rval.splits)
    with ok q(2) obtain q0 di0 where q0: "q0 \<in> set qs" "resolves q0 di0" "cache_key L (call_slot q0 di0) = Inr k"
      "RDoc (WDict d) = RDoc (WDict (cached_body q0 di0))" "wget (fresh_body q0 di0) ''decision'' = Some (wtext ''ALLOW'')"
      unfolding entries_ok_def cache_key_of_def by blast
    have "list_all (\<lambda>k. wget body k = wget (fresh_body q0 di0) k) VERDICT_FIELDS"
      using f q0(4) by (simp add: VERDICT_FIELDS_def cached_body_get)
    then show ?thesis using that[OF r, of q0 di0] q0 k(1) by (simp add: VERDICT_FIELDS_def)
  next
    assume "list_all (\<lambda>k. wget body k = wget (fresh_body q di) k) VERDICT_FIELDS"
    then show ?thesis using that[OF r _ r] by simp
  qed
qed

end

interpretation mem_scan: scan_store mem_redis mem_val L for L
  by unfold_locales

section \<open>Scope\<close>

text \<open>Identifiers of tenants and the registered sources have no colon.\<close>

definition plain_call :: "('r, 'z) scan_call \<Rightarrow> bool" where
  "plain_call q \<longleftrightarrow> CHR '':'' \<notin> set (str_or (cl_tenant_id (sc_caller q)) ''global'') \<and> CHR '':'' \<notin> set (sb_input_source (sc_body q))"

lemma plain_call_slot:
  assumes "plain_call q" "\<And>t. CHR '':'' \<notin> set (ca_sha256 (se_cache (sc_env q)) t)"
  shows "plain_slot (call_slot q di)"
proof -
  have "CHR '':'' \<notin> set (mode_value m)" "CHR '':'' \<notin> set (execution_value x)" for m x
    by (cases m; simp) (cases x; simp)
  moreover have "CHR '':'' \<notin> set (policy_identity (se_cache (sc_env q)) di)"
    using assms(2) by (auto simp: policy_identity_def dest: in_set_takeD)
  ultimately show ?thesis using assms(1) by (simp add: plain_slot_def call_slot_def scan_slot_def plain_call_def)
qed

text \<open>
  C11: A cached answer never leaves its scope. Over any history of requests on one store and in the order of their
  times, the verdict of an answered scan (decision, score, reason, confidence, threats) is the one the pipeline reaches
  for that request, or the one it reached for a request of the history with the same tenant, policy digest, input
  source, detection mode, execution mode and folded text, and then that verdict was ALLOW.
\<close>
theorem cached_verdict_in_scope:
  assumes store: "redis_up R val" and digest: "inj (ca_sha256 L)" "\<And>t. CHR '':'' \<notin> set (ca_sha256 L t)"
    and fresh: "\<And>t s k. cache_key L s = Inr k \<Longrightarrow> val (sw_cache w) t k = None"
    and calls: "list_all (\<lambda>q. se_redis (sc_env q) = R \<and> se_cache (sc_env q) = L \<and> plain_call q) (qs @ [q])"
    and times: "sorted (map (\<lambda>q. se_now (sc_env q)) (qs @ [q]))"
    and answer: "serve_call q (serve_history qs w) = (w', Inr (Scanned body))"
  shows "\<exists>di q0 di0. resolves q di \<and> resolves q0 di0 \<and> q0 \<in> set (qs @ [q]) \<and> same_slot L (call_slot q0 di0) (call_slot q di)
     \<and> list_all (\<lambda>k. wget body k = wget (fresh_body q0 di0) k) VERDICT_FIELDS
     \<and> (q0 = q \<or> wget body ''decision'' = Some (wtext ''ALLOW''))"
proof -
  define t0 where "t0 = (case qs of [] \<Rightarrow> se_now (sc_env q) | p # _ \<Rightarrow> se_now (sc_env p))"
  let ?ts = "map (\<lambda>q. se_now (sc_env q)) qs"
  note S = scan_store.intro[OF store]
  have s0: "sorted ((t0 # ?ts) @ [se_now (sc_env q)])"
    using times by (cases qs) (simp_all add: t0_def)
  then have s: "sorted (t0 # ?ts)" and le: "\<forall>t\<in>set (t0 # ?ts). t \<le> se_now (sc_env q)" unfolding sorted_append by simp_all
  have now: "last (t0 # ?ts) \<le> se_now (sc_env q)" using le by (rule bspec) (rule last_in_set, simp)
  have at: "list_all (scan_store.at_store R L) (qs @ [q])"
    using calls by (rule list.pred_mono_strong) (simp add: scan_store.at_store_def[OF S])
  then have at: "list_all (scan_store.at_store R L) qs" "scan_store.at_store R L q" by simp_all
  have "entries_ok L val [] t0 (sw_cache w)" by (auto simp: entries_ok_def cache_key_of_def fresh)
  from scan_store.history_keeps[OF S this at(1) s]
  have ok: "entries_ok L val qs (last (t0 # ?ts)) (sw_cache (serve_history qs w))" by simp
  obtain di q0 di0 where r: "resolves q di" "q0 \<in> set (qs @ [q])" "resolves q0 di0"
    and key: "cache_key L (call_slot q0 di0) = cache_key L (call_slot q di)"
    and own: "(q0 = q \<and> di0 = di) \<or> (\<exists>k. cache_key L (call_slot q di) = Inr k) \<and> wget body ''decision'' = Some (wtext ''ALLOW'')"
    and f: "list_all (\<lambda>k. wget body k = wget (fresh_body q0 di0) k) VERDICT_FIELDS"
    by (rule scan_store.answered_from[OF S ok at(2) now answer])
  have plain: "plain_slot (call_slot p d)" if "p \<in> set (qs @ [q])" for p d
  proof (rule plain_call_slot)
    from calls that have "se_cache (sc_env p) = L \<and> plain_call p" unfolding list_all_iff by blast
    then show "plain_call p" "CHR '':'' \<notin> set (ca_sha256 (se_cache (sc_env p)) t)" for t using digest(2) by simp_all
  qed
  have "same_slot L (call_slot q0 di0) (call_slot q di)"
    using own
  proof
    assume "(\<exists>k. cache_key L (call_slot q di) = Inr k) \<and> wget body ''decision'' = Some (wtext ''ALLOW'')"
    then obtain k where k: "cache_key L (call_slot q di) = Inr k" by blast
    have "plain_slot (call_slot q di)" by (rule plain) simp
    from cache_key_determines[OF digest(1) plain[OF r(2)] this _ k] key k show ?thesis by simp
  qed (simp add: same_slot_def)
  moreover from own have "q0 = q \<or> wget body ''decision'' = Some (wtext ''ALLOW'')" by blast
  ultimately show ?thesis using r f by (intro exI[of _ di] exI[of _ q0] exI[of _ di0] conjI)
qed

section \<open>A history\<close>

text \<open>A digest without collisions and without a colon.\<close>

definition unary :: "ustr \<Rightarrow> string" where
  "unary t = concat (map (\<lambda>n. replicate n CHR ''1'' @ ''0'') t)"

lemma unary_inj: "inj unary"
proof -
  have step: "replicate n CHR ''1'' @ CHR ''0'' # x = replicate m CHR ''1'' @ CHR ''0'' # y \<Longrightarrow> n = m \<and> x = y" for n m and x y :: string
  proof (induction n arbitrary: m)
    case 0
    then show ?case by (cases m) simp_all
  next
    case (Suc n)
    then show ?case by (cases m) simp_all
  qed
  have "unary a = unary b \<Longrightarrow> a = b" for a b
  proof (induction a arbitrary: b)
    case Nil
    then show ?case by (cases b) (auto simp: unary_def)
  next
    case (Cons n a)
    then show ?case by (cases b) (auto simp: unary_def dest!: step)
  qed
  then show ?thesis by (rule injI)
qed

lemma unary_plain: "CHR '':'' \<notin> set (unary t)"
  by (induction t) (auto simp: unary_def)

text \<open>A caller without tenant and application: nothing can fail on a miss, nor on a hit of an allowed answer.\<close>

definition unscoped :: "('r, 'z) scan_call \<Rightarrow> bool" where
  "unscoped q \<longleftrightarrow> cl_tenant_id (sc_caller q) = None \<and> cl_app_id (sc_caller q) = None
     \<and> (\<forall>w. scan_guards (sc_env q) (sc_caller q) (sc_body q) w = (w, Inr ()))
     \<and> (\<exists>b. holds_permission (sc_caller q) ''settings:read'' False = Inr b)"

lemma miss_answered:
  assumes q: "unscoped q" "scan_inputs (sc_env q) (sc_caller q) (sc_body q) = Inr (policy, source, di)"
    and miss: "get_cached_result (se_redis (sc_env q)) (se_cache (sc_env q)) (se_now (sc_env q)) (call_slot q di) (sw_cache w) = (r, None)"
    and ok: "gr_provider_error (fst (process (se_gateway (sc_env q)) (process_args di) (scan_request (sc_env q) (sc_caller q) (sc_body q)))) = None"
  shows "sw_cache (fst (serve_call q w)) =
    set_cached_result (se_redis (sc_env q)) (se_cache (sc_env q)) (se_now (sc_env q)) (call_slot q di) (cached_body q di) r"
proof -
  obtain E c b where e: "sc_env q = E" "sc_caller q = c" "sc_body q = b" by blast
  from q(1) obtain mr where mr: "holds_permission c ''settings:read'' False = Inr mr" and u: "cl_tenant_id c = None" "cl_app_id c = None"
    "scan_guards E c b w = (w, Inr ())" by (auto simp: unscoped_def e)
  let ?p = "process (se_gateway E) (process_args di) (scan_request E c b)"
  have t: "\<exists>t. create (se_digest E) (se_now E) (build_audit_data c (fst ?p) a m x s y l) table = Inr t" for a m x s y l table
    by (rule tenantless_row) (simp add: audit_attribution u(1) of_opt_str_def opt_str_def)
  have slot: "call_slot q di = scan_slot E c b di" by (simp add: call_slot_def e)
  have app: "app_bucket E c policy = sret ()" by (simp add: app_bucket_def u(2))
  have read: "read_cache E (scan_slot E c b di) w = (w\<lparr>sw_cache := r\<rparr>, Inr None)" using miss by (simp add: read_cache_def e slot)
  have body: "cached_body q di = filter (\<lambda>(k, _). k \<noteq> us ''debug'') (build_response (ge_settings (se_gateway E)) (gr_decision (fst ?p)) (sb_debug b \<and> cl_is_admin c) (di_block di) (di_sanitize di) (se_latency E 0))"
    by (simp add: cached_body_def fresh_body_def e)
  obtain tb where tb: "create (se_digest E) (se_now E) (build_audit_data c (fst ?p) (rq_trace_id (scan_request E c b)) (mode_value (sb_detection_mode b))
      (execution_value (sb_execution_mode b)) (Some source) (context_of c b) (se_latency E 0)) (sw_audit w) = Inr tb" using t by blast
  show ?thesis
    using ok[unfolded e] q(2)[unfolded e] unfolding slot body
    by (simp add: serve_call_def e ai_request_def sbind_def lift_def u(3) mr read serve_or_scan_def scan_afresh_def app sret_def call_gateway_def
        case_prod_beta Let_def write_audit_def tb schedule_events_def cache_result_def)
qed

lemma hit_answered:
  assumes q: "unscoped q" "scan_inputs (sc_env q) (sc_caller q) (sc_body q) = Inr (policy, source, di)"
    and hit: "get_cached_result (se_redis (sc_env q)) (se_cache (sc_env q)) (se_now (sc_env q)) (call_slot q di) (sw_cache w) = (r, Some (WDict (cached_body q0 di0)))"
    and allowed: "wget (fresh_body q0 di0) ''decision'' = Some (wtext ''ALLOW'')"
  shows "\<exists>w' body. serve_call q w = (w', Inr (Scanned body)) \<and> sw_calls w' = sw_calls w"
proof -
  obtain E c b where e: "sc_env q = E" "sc_caller q = c" "sc_body q = b" by blast
  from q(1) obtain mr where mr: "holds_permission c ''settings:read'' False = Inr mr" and u: "cl_tenant_id c = None" "cl_app_id c = None"
    "scan_guards E c b w = (w, Inr ())" by (auto simp: unscoped_def e)
  let ?d = "cached_body q0 di0" and ?full = "dict_set (us ''trace_id'') (wtext (mk_trace_id (se_fresh E 0) None)) (cached_body q0 di0)"
  have dec: "wget ?full ''decision'' = Some (wtext ''ALLOW'')" using allowed by (simp add: cached_body_get)
  have "\<exists>kvs. wget ?full ''processing'' = Some (WDict (wdict ((''latency_ms'', WNum (round2 (se_latency (sc_env q0) 0))) # kvs)))"
    by (simp add: cached_body_get) (simp add: fresh_body_def build_response_def Let_def, rule exI, rule refl)
  then obtain kvs where p: "wget ?full ''processing'' = Some (WDict (wdict ((''latency_ms'', WNum (round2 (se_latency (sc_env q0) 0))) # kvs)))" by blast
  have allow: "decision_of (wtext ''ALLOW'') = ALLOW" by (simp add: decision_of_def us_def)
  have "\<exists>data. build_cache_hit_audit (se_cache E) c b (context_of c b) ?full = Inr data"
    using p dec by (simp add: build_cache_hit_audit_def wget_or_def py_bind_def as_number_def cached_severity_def Let_def allow)
  then obtain data where data: "build_cache_hit_audit (se_cache E) c b (context_of c b) ?full = Inr data" by blast
  have "opt_str (dget data ''tenant_id'') = None" using hit_audit_get(8)[OF data] by (simp add: u(1) of_opt_str_def opt_str_def)
  from tenantless_row[OF this] obtain t where t: "create (se_digest E) (se_now E) data (sw_audit w) = Inr t" by blast
  have ne: "?d \<noteq> []" using dec by (auto simp: wget_def)
  have read: "read_cache E (scan_slot E c b di) w = (w\<lparr>sw_cache := r\<rparr>, Inr (Some (WDict ?d)))" using hit by (simp add: read_cache_def e call_slot_def)
  show ?thesis
    using q(2)[unfolded e]
    by (simp add: serve_call_def e ai_request_def sbind_def lift_def u(3) mr read serve_or_scan_def ne serve_hit_def Let_def data crashing_def
        write_audit_def t schedule_events_def sret_def served_def)
qed

definition cache_scan :: "rat \<Rightarrow> (wire mem, zmem) scan_env" where
  "cache_scan t = sample_scan\<lparr>se_cache := \<lparr>ca_sha256 = unary, ca_dumps = \<lambda>_. [], ca_lower = \<lambda>t. t\<rparr>, se_gateway := demo_env, se_now := t\<rparr>"

definition cache_call :: "rat \<Rightarrow> (wire mem, zmem) scan_call" where
  "cache_call t = \<lparr>sc_env = cache_scan t, sc_caller = scan_caller\<lparr>cl_tenant_id := None\<rparr>, sc_body = scan_text\<rparr>"

lemma clean_process:
  assumes "rq_execution_mode rq = SCAN_ONLY"
  shows "gd_decision (gr_decision (fst (process demo_env sample_args rq))) = ALLOW \<and> gr_provider_error (fst (process demo_env sample_args rq)) = None"
proof -
  let ?g = "ig_unsanitized (rq_input rq) (clean ''pii_detector'') False"
  let ?dp = "\<lparr>dp_guard = ?g\<lparr>ig_toxicity_result := clean ''toxicity_detector''\<rparr>, dp_effective_input = rq_input rq, dp_rule = clean ''rule_detector'',
     dp_ml = clean ''ml_detector'', dp_llm = clean ''llm_detector'', dp_failed = False\<rparr>"
  have d: "detect_phase demo_env sample_args rq = Inr ?dp"
    by (simp add: detect_phase_def step1_input_guard_def demo_env_def sample_args_def
        ig_unsanitized_def guarded_scan_def evaluate_views_def normalize_or_raw_def texts_def step4_llm_def inspect_toxicity_def Let_def)
  have s: "step5_score ?dp = \<lparr>sr_final_score = RiskScore 0, sr_rule_score = 0, sr_ml_score = 0, sr_llm_score = 0, sr_pii_score = 0,
      sr_toxicity_score = 0, sr_threats = [], sr_boosted = False\<rparr>"
    by (simp add: step5_score_def ig_unsanitized_def clean_scoring)
  have e: "effective demo_env sample_args rq = \<lparr>et_block = 3 / 4, et_sanitize = 1 / 2\<rparr>"
    by (simp add: effective_def source_posture_def resolve_source_posture_def Let_def apply_posture_def block_thr_def
        sanitize_thr_def sample_args_def demo_env_def demo_settings_def)
  have "step6_decide demo_env sample_args rq (step5_score ?dp) = ALLOW"
    unfolding step6_decide_def s e by (simp add: decide_def Let_def sample_args_def)
  then show ?thesis
    using assms by (simp add: process_def d Let_def policy_verdict_def step8_execute_def build_result_def case_prod_beta)
qed

lemma cache_call_facts:
  "unscoped (cache_call t)" "scan_inputs (sc_env (cache_call t)) (sc_caller (cache_call t)) (sc_body (cache_call t)) = Inr (scan_policy, ''system_default'', scan_inputs_sample)"
  "se_redis (sc_env (cache_call t)) = mem_redis" "se_cache (sc_env (cache_call t)) = \<lparr>ca_sha256 = unary, ca_dumps = \<lambda>_. [], ca_lower = \<lambda>t. t\<rparr>"
  "se_now (sc_env (cache_call t)) = t" "plain_call (cache_call t)"
proof -
  have "holds_permission (scan_caller\<lparr>cl_tenant_id := None\<rparr>) ''settings:read'' False = Inr False" by code_simp
  then have "\<exists>b. holds_permission (scan_caller\<lparr>cl_tenant_id := None\<rparr>) ''settings:read'' False = Inr b" by blast
  moreover have "cl_tenant_id (scan_caller\<lparr>cl_tenant_id := None\<rparr>) = None" "cl_app_id (scan_caller\<lparr>cl_tenant_id := None\<rparr>) = None"
    by (simp_all add: scan_caller_def)
  moreover have "scan_guards (cache_scan t) (scan_caller\<lparr>cl_tenant_id := None\<rparr>) scan_text w = (w, Inr ())" for w
    by (simp add: scan_guards_def Let_def sbind_def lift_def refuse_if_def sret_def principal_from_state_def scan_caller_def scan_text_def)
  ultimately show "unscoped (cache_call t)" by (simp only: unscoped_def cache_call_def scan_call.simps) simp
  obtain core where core: "core_inputs scan_policy = Inr core" "guardrail_inputs scan_policy core = Inr scan_inputs_sample"
    using sample_core by (auto simp: py_bind_Inr_conv)
  have "resolve_scope (cache_scan t) c = Inr (scan_policy, ''system_default'')" for c by (simp add: resolve_scope_def cache_scan_def sample_scan_def)
  with core show "scan_inputs (sc_env (cache_call t)) (sc_caller (cache_call t)) (sc_body (cache_call t)) = Inr (scan_policy, ''system_default'', scan_inputs_sample)"
    by (simp add: scan_inputs_def and_then_def crashing_def scan_text_def cache_call_def)
  show "se_redis (sc_env (cache_call t)) = mem_redis" "se_cache (sc_env (cache_call t)) = \<lparr>ca_sha256 = unary, ca_dumps = \<lambda>_. [], ca_lower = \<lambda>t. t\<rparr>"
    "se_now (sc_env (cache_call t)) = t" by (simp_all add: cache_call_def cache_scan_def) (simp add: sample_scan_def)
  show "plain_call (cache_call t)" by (simp add: plain_call_def cache_call_def scan_caller_def scan_text_def)
qed

lemma cache_call_slot: "call_slot (cache_call t) di = call_slot (cache_call 1) di"
  by (simp add: call_slot_def scan_slot_def cache_call_def cache_scan_def)

text \<open>The second of two equal requests is a hit: it is answered without the pipeline, with the verdict of the first.\<close>

theorem cached_verdict_in_scope_witness:
  "\<exists>w' body q0 di0. serve_call (cache_call 5) (serve_history [cache_call 1] scan_start) = (w', Inr (Scanned body))
     \<and> q0 \<in> set [cache_call 1, cache_call 5] \<and> resolves q0 di0 \<and> wget body ''decision'' = wget (fresh_body q0 di0) ''decision''"
proof -
  let ?di = "scan_inputs_sample" and ?q = "cache_call 1"
  let ?L = "\<lparr>ca_sha256 = unary, ca_dumps = \<lambda>_. [], ca_lower = \<lambda>t. t\<rparr> :: cache_lib"
  obtain k where k: "cache_key ?L (call_slot ?q ?di) = Inr k"
    by (simp add: cache_key_def call_slot_def scan_slot_def cache_call_def scan_caller_def)
  have mode: "rq_execution_mode (scan_request E c scan_text) = SCAN_ONLY" for E :: "(wire mem, zmem) scan_env" and c
    by (simp add: scan_request_def scan_text_def)
  have ok: "gr_provider_error (fst (process (se_gateway (sc_env ?q)) (process_args ?di) (scan_request (sc_env ?q) (sc_caller ?q) (sc_body ?q)))) = None"
    and allow: "wget (fresh_body ?q ?di) ''decision'' = Some (wtext ''ALLOW'')"
    using clean_process[OF mode] by (simp_all add: cache_call_def cache_scan_def fresh_body_def build_response_get sample_gateway_args)
  have miss: "get_cached_result mem_redis ?L 1 (call_slot ?q ?di) (sw_cache scan_start) = (sw_cache scan_start, None)"
    by (simp add: get_cached_result_def with_key_def k rbind_def rtry_def mem_redis_def mem_val_def scan_start_def)
  let ?w = "serve_history [cache_call 1] scan_start"
  have first: "sw_cache ?w = set_cached_result mem_redis ?L 1 (call_slot ?q ?di) (cached_body ?q ?di) (sw_cache scan_start)"
    using miss_answered[OF cache_call_facts(1,2) _ ok, of scan_start "sw_cache scan_start"] miss
    by (simp add: serve_history_def cache_call_facts)
  have "mem_val (sw_cache ?w) 5 k = Some (RDoc (WDict (cached_body ?q ?di)))"
    unfolding first mem_scan.cached_write[OF k, of 1 5, simplified] using allow by (simp add: cached_body_get until_def CACHE_TTL_def)
  then have "get_cached_result mem_redis ?L 5 (call_slot ?q ?di) (sw_cache ?w) = (sw_cache ?w, Some (WDict (cached_body ?q ?di)))"
    by (simp add: get_cached_result_def with_key_def k rbind_def rtry_def mem_redis_def)
  then obtain w' body where run: "serve_call (cache_call 5) ?w = (w', Inr (Scanned body))"
    using hit_answered[OF cache_call_facts(1,2)[of 5] _ allow, of ?w "sw_cache ?w"] by (auto simp: cache_call_facts cache_call_slot[of 5])
  have fresh: "mem_val (sw_cache scan_start) t k' = None" for t k' by (simp add: mem_val_def scan_start_def)
  obtain q0 di0 where "resolves q0 di0" "q0 \<in> set ([cache_call 1] @ [cache_call 5])" "list_all (\<lambda>k. wget body k = wget (fresh_body q0 di0) k) VERDICT_FIELDS"
    using cached_verdict_in_scope[of mem_redis mem_val ?L, OF mem_up.redis_up_axioms _ _ fresh _ _ run] unary_inj unary_plain
    by (auto simp: cache_call_facts)
  then show ?thesis using run by (auto simp: VERDICT_FIELDS_def)
qed

section \<open>What the key leaves out\<close>

text \<open>The model a proxied request names is not part of its slot: a hit answers for another model, without a provider call.\<close>

lemma slot_ignores_model: "scan_slot E c (b\<lparr>sb_model := m\<rparr>) di = scan_slot E c b di"
  by (simp add: scan_slot_def)

lemma hit_makes_no_call:
  assumes "serve_hit E c b may_read d w = (w', Inr a)"
  shows "sw_calls w' = sw_calls w"
  using assms by (rule serve_hit_answered) simp

text \<open>Neither are the case and the surrounding space of the text, which a decoded payload depends on.\<close>

lemma slot_ignores_case:
  assumes "folded L t = folded L t'" "L = se_cache E"
  shows "cache_key L (scan_slot E c (b\<lparr>sb_input := t\<rparr>) di) = cache_key L (scan_slot E c (b\<lparr>sb_input := t'\<rparr>) di)"
  using assms by (intro same_slot_key) (simp add: same_slot_def scan_slot_def)

end
