(* ===== verification/IP_Facts.thy ===== *)
theory IP_Facts
  imports IP_Address
begin

text \<open>
  Printing and parsing of networks are inverse, so the stored form of an allowlist means what the operator typed;
  membership is agreement on the leading bits, whichever of its two spellings an IPv4 address comes in.
\<close>

declare us_simps(2) [simp del]

section \<open>Decimal and hexadecimal\<close>

lemma of_char_char_of: "n < 256 \<Longrightarrow> of_char (char_of n :: char) = (n :: nat)"
  by simp

lemma us_dec_text: "us (dec_text n) = str_nat n"
proof -
  have "c < 256" if "c \<in> set (str_nat n)" for c using str_nat_digits[OF that] by simp
  then show ?thesis by (simp add: us_def dec_text_def map_idI)
qed

lemma digits_ascii: "all_digits s \<longleftrightarrow> s \<noteq> [] \<and> (\<forall>c\<in>set (us s). ascii_digit c)"
  by (simp add: all_digits_def list_all_iff us_def)

lemma dec_value_us: "dec_value s = foldl (\<lambda>v c. v * 10 + (c - 48)) 0 (us s)"
  by (simp add: dec_value_def us_def foldl_map)

lemma dec_text_digits [simp]: "all_digits (dec_text n)" "dec_value (dec_text n) = n" "dec_text n \<noteq> []"
proof -
  show "dec_text n \<noteq> []" by (simp add: dec_text_def)
  then show "all_digits (dec_text n)" using str_nat_ascii by (simp add: digits_ascii us_dec_text)
  show "dec_value (dec_text n) = n" by (simp add: dec_value_us us_dec_text foldl_str_nat)
qed

lemma str_nat_small:
  "n < 10 \<Longrightarrow> str_nat n = [digit_char n]"
  "10 \<le> n \<Longrightarrow> str_nat n = str_nat (n div 10) @ [digit_char (n mod 10)]"
  by (subst str_nat.simps, simp)+

lemma octet_text: "n < 256 \<Longrightarrow> parse_octet (dec_text n) = Some n"
proof -
  assume n: "n < 256"
  have bit: "take_bit 8 (m + 48) = m + 48" if "m < 10" for m :: nat using that by (simp add: take_bit_nat_eq_self)
  consider "n < 10" | "10 \<le> n" "n < 100" | "100 \<le> n" by linarith
  then have "length (dec_text n) \<le> 3 \<and> (length (dec_text n) > 1 \<longrightarrow> hd (dec_text n) \<noteq> CHR ''0'')"
  proof cases
    case 1
    then show ?thesis by (simp add: dec_text_def str_nat_small)
  next
    case 2
    then have "n div 10 < 10" "0 < n div 10" by simp_all
    with 2 show ?thesis by (simp add: dec_text_def str_nat_small digit_char_def char_of_eq_iff bit)
  next
    case 3
    then have "10 \<le> n div 10" "n div 100 < 10" "0 < n div 100" "n div 10 div 10 = n div 100" using n by (simp_all add: div_mult2_eq[symmetric])
    with 3 show ?thesis by (simp add: dec_text_def str_nat_small digit_char_def char_of_eq_iff bit)
  qed
  with n show ?thesis by (simp add: parse_octet_def)
qed

definition digit_text :: "string \<Rightarrow> bool" where
  "digit_text s \<longleftrightarrow> (\<forall>c\<in>set s. ascii_digit (of_char c))"

lemma digit_text_dec: "digit_text (dec_text n)"
  using dec_text_digits(1)[of n] by (simp add: digit_text_def all_digits_def list_all_iff)

lemma not_digit [simp]:
  "\<not> ascii_digit (of_char CHR ''.'')" "\<not> ascii_digit (of_char CHR '':'')" "\<not> ascii_digit (of_char CHR ''/'')" "\<not> ascii_digit (of_char CHR ''%'')"
  by (simp_all add: ascii_digit_def)

lemma digit_text_free: "digit_text s \<Longrightarrow> \<not> ascii_digit (of_char c) \<Longrightarrow> c \<notin> set s"
  by (auto simp: digit_text_def)

lemma v4_value: "n < 2 ^ 32 \<Longrightarrow> (((n div 2 ^ 24 mod 256 * 256 + n div 2 ^ 16 mod 256) * 256 + n div 2 ^ 8 mod 256) * 256 + n mod 256) = (n :: nat)"
proof -
  assume n: "n < 2 ^ 32"
  have a: "n div 2 ^ 24 mod 256 = n div 2 ^ 24" using n by simp
  have s: "x div 256 * 256 + x mod 256 = x" for x :: nat by simp
  have "n div 2 ^ 24 = n div 2 ^ 16 div 256" "n div 2 ^ 16 = n div 2 ^ 8 div 256" "n div 2 ^ 8 = n div 256"
    by (simp_all add: div_mult2_eq[symmetric])
  then show ?thesis unfolding a using s by metis
qed

lemma parse_v4_text:
  assumes "n < 2 ^ 32"
  shows "parse_v4 (v4_text n) = Some n"
proof -
  have sep: "CHR ''.'' \<notin> set (dec_text m)" for m by (rule digit_text_free[OF digit_text_dec]) (simp add: ascii_digit_def)
  have "split_on CHR ''.'' (v4_text n) = [dec_text (n div 2 ^ 24 mod 256), dec_text (n div 2 ^ 16 mod 256), dec_text (n div 2 ^ 8 mod 256), dec_text (n mod 256)]"
    unfolding v4_text_def by (simp add: split_on_append sep split_on_no_sep del: power_numeral)
  then show ?thesis using v4_value[OF assms] by (simp add: parse_v4_def octet_text del: power_numeral)
qed

section \<open>Parts of an IPv6 address\<close>

lemma split_join: "ws \<noteq> [] \<Longrightarrow> \<forall>w\<in>set ws. sep \<notin> set w \<Longrightarrow> split_on sep (join_on sep ws) = ws"
  by (induction sep ws rule: join_on.induct) (simp_all add: split_on_append split_on_no_sep)

definition hex_char :: "nat \<Rightarrow> char" where
  "hex_char k = char_of (if k < 10 then k + 48 else k + 87)"

lemma hex_text_rec: "hex_text n = (if n < 16 then [hex_char n] else hex_text (n div 16) @ [hex_char (n mod 16)])"
  by (subst hex_text.simps) (simp add: hex_char_def Let_def)

lemma hex_digit_char: "k < 16 \<Longrightarrow> hex_digit (hex_char k) = Some k"
  by (simp add: hex_digit_def hex_char_def Let_def take_bit_nat_eq_self)

lemma hex_value_append: "hex_value a (s @ t) = (case hex_value a s of Some n \<Rightarrow> hex_value n t | None \<Rightarrow> None)"
  by (induction s arbitrary: a) (auto split: option.split)

lemma hex_value_text: "hex_value 0 (hex_text n) = Some n"
proof (induction n rule: less_induct)
  case (less n)
  show ?case
  proof (cases "n < 16")
    case True
    then show ?thesis by (simp add: hex_text_rec hex_digit_char)
  next
    case False
    then have "hex_value 0 (hex_text (n div 16)) = Some (n div 16)" by (intro less) simp
    with False show ?thesis by (subst hex_text_rec) (simp add: hex_value_append hex_digit_char)
  qed
qed

lemma hex_text_nonempty [simp]: "hex_text n \<noteq> []"
  by (subst hex_text_rec) simp

lemma hex_text_length: "n < 16 ^ Suc k \<Longrightarrow> length (hex_text n) \<le> Suc k"
proof (induction k arbitrary: n)
  case (Suc k)
  then have "n div 16 < 16 ^ Suc k" by (simp add: less_mult_imp_div_less)
  from Suc.IH[OF this] show ?case by (subst hex_text_rec) simp
qed (simp add: hex_text_rec)

lemma hextet_text: "n < 65536 \<Longrightarrow> parse_hextet (hex_text n) = Some n"
  using hex_text_length[of n 3] by (simp add: parse_hextet_def hex_value_text)

lemma hex_text_plain: "c \<in> set (hex_text n) \<Longrightarrow> hex_digit c \<noteq> None"
proof (induction n rule: less_induct)
  case (less n)
  show ?case
  proof (cases "n < 16")
    case True
    with less.prems hex_text_rec[of n] show ?thesis by (simp add: hex_digit_char)
  next
    case False
    with less.prems hex_text_rec[of n] have "c \<in> set (hex_text (n div 16)) \<or> c = hex_char (n mod 16)" by auto
    with False less.IH[of "n div 16"] show ?thesis by (auto simp: hex_digit_char)
  qed
qed

lemma hex_text_free: "CHR '':'' \<notin> set (hex_text n)" "CHR ''.'' \<notin> set (hex_text n)" "CHR ''%'' \<notin> set (hex_text n)" "CHR ''/'' \<notin> set (hex_text n)"
  using hex_text_plain[of _ n] by (force simp: hex_digit_def)+

lemma hextets_value_text:
  "\<forall>h\<in>set hs. h < 65536 \<Longrightarrow> hextets_value a (map hex_text hs) = Some (foldl (\<lambda>a h. 65536 * a + h) a hs)"
  by (induction hs arbitrary: a) (simp_all add: hextet_text)

lemma hextets_of_small: "\<forall>h\<in>set (hextets_of n). h < 65536" "length (hextets_of n) = 8"
  by (auto simp: hextets_of_def)

lemma foldl_hextets:
  "foldl (\<lambda>a h. 65536 * a + h) a (rev (map (\<lambda>i. n div 65536 ^ i mod 65536) [0..<k])) = a * 65536 ^ k + n mod (65536 ^ k :: nat)"
proof (induction k arbitrary: a)
  case (Suc k)
  have "n mod 65536 ^ Suc k = 65536 ^ k * (n div 65536 ^ k mod 65536) + n mod 65536 ^ k"
    using mod_mult2_eq[of n "65536 ^ k" 65536] by (simp add: mult.commute)
  with Suc.IH[of "65536 * a + n div 65536 ^ k mod 65536"] show ?case by (simp add: algebra_simps)
qed simp

lemma hextets_of_value: "n < 2 ^ 128 \<Longrightarrow> foldl (\<lambda>a h. 65536 * a + h) 0 (hextets_of n) = n"
proof -
  assume n: "n < 2 ^ 128"
  have "hextets_of n = rev (map (\<lambda>i. n div 65536 ^ i mod 65536) [0..<8])"
  proof (rule nth_equalityI)
    fix i :: nat assume "i < length (hextets_of n)"
    then have "i < 8" "[0..<8] ! (7 - i) = 7 - i" using nth_upt[of 0 "7 - i" 8] by (simp_all add: hextets_of_def)
    then show "hextets_of n ! i = rev (map (\<lambda>i. n div 65536 ^ i mod 65536) [0..<8]) ! i" by (simp add: hextets_of_def rev_nth)
  qed (simp add: hextets_of_def)
  moreover have "(65536 :: nat) ^ 8 = 2 ^ 128" by simp
  ultimately show ?thesis using foldl_hextets[of 0 n 8] n by (simp del: power_numeral)
qed

section \<open>The compressed form\<close>

lemma zero_run_zeros: "take (zero_run hs) hs = replicate (zero_run hs) 0" "zero_run hs \<le> length hs"
  unfolding zero_run_def
  by (induction hs) auto

definition run_ok :: "nat list \<Rightarrow> nat \<times> nat \<Rightarrow> bool" where
  "run_ok hs p \<longleftrightarrow> snd p = 0 \<or> (fst p \<le> length hs \<and> snd p = zero_run (drop (fst p) hs))"

lemma run_ok_fold:
  "run_ok hs p \<Longrightarrow> \<forall>i\<in>set is. i \<le> length hs \<Longrightarrow>
     run_ok hs (fold (\<lambda>i (s, l). if zero_run (drop i hs) > l then (i, zero_run (drop i hs)) else (s, l)) is p)"
proof (induction "is" arbitrary: p)
  case (Cons i "is")
  have "run_ok hs (case p of (s, l) \<Rightarrow> if zero_run (drop i hs) > l then (i, zero_run (drop i hs)) else (s, l))"
    using Cons.prems by (cases p) (simp add: run_ok_def)
  with Cons.IH Cons.prems(2) show ?case by simp
qed simp

lemma best_run_sound:
  assumes "best_run hs = (s, l)" "0 < l"
  shows "s + l \<le> length hs \<and> take l (drop s hs) = replicate l 0"
proof -
  have "run_ok hs (s, l)" using run_ok_fold[of hs "(0, 0)" "[0..<length hs]"] assms(1) by (simp add: best_run_def run_ok_def)
  with assms(2) have "s \<le> length hs" "l = zero_run (drop s hs)" by (simp_all add: run_ok_def)
  then show ?thesis using zero_run_zeros[of "drop s hs"] by simp
qed

lemma filter_one: "a \<le> i \<Longrightarrow> i < b \<Longrightarrow> P i \<Longrightarrow> (\<And>j. a \<le> j \<Longrightarrow> j < b \<Longrightarrow> j \<noteq> i \<Longrightarrow> \<not> P j) \<Longrightarrow> filter P [a..<b] = [i]"
proof -
  assume h: "a \<le> i" "i < b" "P i" "\<And>j. a \<le> j \<Longrightarrow> j < b \<Longrightarrow> j \<noteq> i \<Longrightarrow> \<not> P j"
  have "[a..<b] = [a..<i] @ [i] @ [Suc i..<b]" using h(1,2) by (metis append_Cons append_Nil le_add_diff_inverse less_or_eq_imp_le upt_add_eq_append upt_conv_Cons)
  moreover have "filter P [a..<i] = []" "filter P [Suc i..<b] = []" using h by (auto simp: filter_empty_conv)
  ultimately show ?thesis using h(3) by simp
qed

lemma nonempty_parts: "j < length xs \<Longrightarrow> map hex_text xs ! j \<noteq> []"
  by simp

text \<open>The parts of a compressed text: a run of at least two zeros stands for one gap.\<close>

lemma parse_compressed:
  assumes hs: "hs = A @ replicate l 0 @ B" "length hs = 8" "2 \<le> l" "\<forall>h\<in>set hs. h < 65536"
    and parts: "parts = (if A = [] then [[]] else []) @ map hex_text A @ [[]] @ map hex_text B @ (if B = [] then [[]] else [])"
  shows "inner_gaps parts = [length A + (if A = [] then 1 else 0)] \<and> 3 \<le> length parts \<and> length parts \<le> 9
     \<and> (hd parts = [] \<longleftrightarrow> A = []) \<and> (last parts = [] \<longleftrightarrow> B = [])"
proof -
  let ?i = "length A + (if A = [] then 1 else 0)"
  have len: "length parts = length A + length B + 1 + (if A = [] then 1 else 0) + (if B = [] then 1 else 0)"
    by (simp add: parts)
  have sum: "length A + length B + l = 8" using hs(1,2) by simp
  have gap: "parts ! ?i = []" by (simp add: parts nth_append)
  have other: "parts ! j \<noteq> []" if "1 \<le> j" "j < length parts - 1" "j \<noteq> ?i" for j
  proof (cases "j < ?i")
    case True
    with that(1) have "A \<noteq> [] \<and> j < length A" by (cases A) simp_all
    then show ?thesis by (simp add: parts nth_append)
  next
    case False
    define k where "k = j - ?i - 1"
    have j: "j = ?i + 1 + k" "k < length B" using False that(2,3) unfolding len k_def by (simp_all split: if_splits)
    have "parts ! j = (map hex_text B @ (if B = [] then [[]] else [])) ! k" by (simp add: parts j(1) nth_append)
    with j(2) show ?thesis by (simp add: nth_append)
  qed
  have low: "1 \<le> ?i" by (cases A) simp_all
  have high: "?i < length parts - 1" unfolding len by (cases A; cases B) simp_all
  have "inner_gaps parts = [?i]" unfolding inner_gaps_def
    by (rule filter_one[OF low high]) (use gap other in blast)+
  moreover have "3 \<le> length parts" unfolding len by (cases A; cases B) simp_all
  moreover have "length parts \<le> 9" unfolding len using sum hs(3) by simp
  moreover have "(hd parts = []) = (A = [])" by (cases A) (simp_all add: parts)
  moreover have "(last parts = []) = (B = [])" by (cases B rule: rev_cases) (simp_all add: parts)
  ultimately show ?thesis by blast
qed

lemma foldl_zeros: "foldl (\<lambda>a h. 65536 * a + h) a (replicate l 0) = a * (65536 ^ l :: nat)"
  by (induction l arbitrary: a) (simp_all add: algebra_simps)

lemma parse_v6_parts:
  assumes s: "split_on CHR '':'' s = parts" "\<forall>p\<in>set parts. CHR ''.'' \<notin> set p"
    and hs: "hs = A @ replicate l 0 @ B" "length hs = 8" "2 \<le> l" "\<forall>h\<in>set hs. h < 65536"
    and parts: "parts = (if A = [] then [[]] else []) @ map hex_text A @ [[]] @ map hex_text B @ (if B = [] then [[]] else [])"
  shows "parse_v6 s = Some (foldl (\<lambda>a h. 65536 * a + h) 0 hs)"
proof -
  note f = parse_compressed[OF hs parts]
  have "parts \<noteq> []" using f by auto
  then have "v6_parts s = Some (None, parts)" using s f by (simp add: v6_parts_def)
  moreover have "8 - (length A + length B) = l" "length A + length B < 8" using hs(1,2,3) by simp_all
  moreover have "take (length A) (drop (if A = [] then 1 else 0) parts) = map hex_text A" by (simp add: parts)
  moreover have A: "hextets_value 0 (map hex_text A) = Some (foldl (\<lambda>a h. 65536 * a + h) 0 A)"
    by (rule hextets_value_text) (use hs(1,4) in auto)
  moreover have B: "hextets_value a (map hex_text B) = Some (foldl (\<lambda>a h. 65536 * a + h) a B)" for a
    by (rule hextets_value_text) (use hs(1,4) in auto)
  moreover have "take (length B) (drop (length A + (if A = [] then 1 else 0) + 1) parts) = map hex_text B" by (simp add: parts)
  moreover have "length parts = length A + length B + 1 + (if A = [] then 1 else 0) + (if B = [] then 1 else 0)" by (simp add: parts)
  ultimately show ?thesis
    using f hs(3) unfolding parse_v6_def
    by (cases "A = []"; cases "B = []") (simp_all add: Let_def tail_value_def hs(1) foldl_zeros)
qed

lemma parse_v6_text:
  assumes n: "n < 2 ^ 128"
  shows "parse_v6 (v6_text n) = Some n"
proof -
  obtain s l where run: "best_run (hextets_of n) = (s, l)" by (cases "best_run (hextets_of n)")
  note small = hextets_of_small[of n]
  show ?thesis
  proof (cases "l \<le> 1")
    case True
    let ?ps = "map hex_text (hextets_of n)"
    have c: "compressed (hextets_of n) = ?ps" using True run by (simp add: compressed_def)
    have "?ps \<noteq> []" using small(2) by auto
    then have split: "split_on CHR '':'' (v6_text n) = ?ps" unfolding v6_text_def c by (rule split_join) (simp add: hex_text_free)
    have gaps: "inner_gaps ?ps = []" by (auto simp: inner_gaps_def filter_empty_conv)
    have "hextets_of n \<noteq> []" using small(2) by auto
    then have "last ?ps = hex_text (last (hextets_of n))" "hd ?ps = hex_text (hd (hextets_of n))" by (simp_all add: last_map hd_map)
    moreover from this have "v6_parts (v6_text n) = Some (None, ?ps)" by (simp add: v6_parts_def split small(2) hex_text_free)
    ultimately show ?thesis
      using small hextets_value_text[OF small(1)] hextets_of_value[OF n] by (simp add: parse_v6_def gaps Let_def tail_value_def)
  next
    case False
    then have l: "0 < l" by simp
    let ?A = "take s (hextets_of n)" and ?B = "drop (s + l) (hextets_of n)"
    from best_run_sound[OF run l] have b: "s + l \<le> 8" "take l (drop s (hextets_of n)) = replicate l 0" by (simp_all add: small(2))
    have hs: "hextets_of n = ?A @ replicate l 0 @ ?B"
      using append_take_drop_id[of s "hextets_of n"] append_take_drop_id[of l "drop s (hextets_of n)"] b(2) by (simp add: add.commute)
    have e: "(?A = []) = (s = 0)" "(?B = []) = (s + l = 8)" using b(1) l small(2) by auto
    have c: "compressed (hextets_of n) = (if ?A = [] then [[]] else []) @ map hex_text ?A @ [[]] @ map hex_text ?B @ (if ?B = [] then [[]] else [])"
      using False run unfolding e by (simp add: compressed_def small(2))
    have free: "\<forall>p\<in>set (compressed (hextets_of n)). CHR '':'' \<notin> set p \<and> CHR ''.'' \<notin> set p" unfolding c by (auto simp: hex_text_free)
    have "compressed (hextets_of n) \<noteq> []" unfolding c by simp
    then have "split_on CHR '':'' (v6_text n) = compressed (hextets_of n)" unfolding v6_text_def by (rule split_join) (use free in blast)
    from parse_v6_parts[OF this _ hs small(2) _ small(1) c] free False hextets_of_value[OF n] show ?thesis by simp
  qed
qed

lemma join_chars: "c \<in> set (join_on sep ws) \<Longrightarrow> c = sep \<or> (\<exists>w\<in>set ws. c \<in> set w)"
  by (induction sep ws rule: join_on.induct) auto

lemma v6_text_chars: "c \<in> set (v6_text n) \<Longrightarrow> c = CHR '':'' \<or> hex_digit c \<noteq> None"
proof -
  have "c \<in> set w \<Longrightarrow> hex_digit c \<noteq> None" if "w \<in> set (compressed (hextets_of n))" for w
    using that hex_text_plain by (auto simp: compressed_def split: prod.splits if_splits)
  then show "c \<in> set (v6_text n) \<Longrightarrow> c = CHR '':'' \<or> hex_digit c \<noteq> None" unfolding v6_text_def by (auto dest!: join_chars)
qed

lemma v6_text_free: "CHR ''/'' \<notin> set (v6_text n)" "CHR ''%'' \<notin> set (v6_text n)"
  using v6_text_chars[of _ n] by (force simp: hex_digit_def)+

section \<open>Networks\<close>

text \<open>The form every network has.\<close>

definition scope_ok :: "string option \<Rightarrow> bool" where
  "scope_ok sc \<longleftrightarrow> (case sc of None \<Rightarrow> True | Some t \<Rightarrow> t \<noteq> [] \<and> CHR ''%'' \<notin> set t \<and> CHR ''/'' \<notin> set t)"

definition net_ok :: "ip_net \<Rightarrow> bool" where
  "net_ok n \<longleftrightarrow> nt_base n < 2 ^ ip_bits (nt_v6 n) \<and> nt_prefix n \<le> ip_bits (nt_v6 n) \<and> mask_base (nt_v6 n) (nt_prefix n) (nt_base n) = nt_base n
     \<and> scope_ok (nt_scope n) \<and> (nt_scope n \<noteq> None \<longrightarrow> nt_v6 n)"

lemma mask_idem: "mask_base v p (mask_base v p n) = mask_base v p n"
  by (simp add: mask_base_def)

lemma mask_le: "mask_base v p n \<le> n"
  by (simp add: mask_base_def)

lemma mk_net_ok:
  assumes "n < 2 ^ ip_bits v" "p \<le> ip_bits v" "scope_ok sc" "sc \<noteq> None \<longrightarrow> v"
  shows "net_ok (mk_net v n p sc)"
  using assms le_less_trans[OF mask_le[of v p n]] by (auto simp: net_ok_def mk_net_def mask_idem scope_ok_def)

lemma mk_net_self: "net_ok n \<Longrightarrow> mk_net (nt_v6 n) (nt_base n) (nt_prefix n) (nt_scope n) = n"
  by (simp add: mk_net_def net_ok_def)

lemma prefix_text: "p \<le> b \<Longrightarrow> prefix_string b (dec_text p) = Some p"
  by (simp add: prefix_string_def)

lemma slash_free: "CHR ''/'' \<notin> set (dec_text n)" "CHR '':'' \<notin> set (dec_text n)"
  by (rule digit_text_free[OF digit_text_dec], simp add: ascii_digit_def)+

lemma v4_text_free: "CHR ''/'' \<notin> set (v4_text n)"
  by (simp add: v4_text_def slash_free)

lemma octet_digits: "parse_octet s = Some n \<Longrightarrow> digit_text s \<and> n \<le> 255"
  by (auto simp: parse_octet_def all_digits_def digit_text_def list_all_iff split: if_splits)

lemma parse_v4_chars:
  assumes "parse_v4 s = Some n"
  shows "\<forall>c\<in>set s. c = CHR ''.'' \<or> ascii_digit (of_char c)" "n < 2 ^ 32"
proof -
  obtain a b c d w x y z where s: "split_on CHR ''.'' s = [w, x, y, z]" "parse_octet w = Some a" "parse_octet x = Some b"
    "parse_octet y = Some c" "parse_octet z = Some d" and n: "n = ((a * 256 + b) * 256 + c) * 256 + d"
    using assms by (auto simp: parse_v4_def map_eq_Cons_conv split: list.splits option.splits)
  have "s = join_on CHR ''.'' [w, x, y, z]" using join_split[of "CHR ''.''" s] s(1) by simp
  then show "\<forall>c\<in>set s. c = CHR ''.'' \<or> ascii_digit (of_char c)"
    using s(2-)[THEN octet_digits] by (auto simp: digit_text_def dest!: join_chars)
  show "n < 2 ^ 32" using s(2-)[THEN octet_digits] n by simp
qed


lemma parse_v6_colon:
  assumes "n < 2 ^ 128"
  shows "CHR '':'' \<in> set (v6_text n)"
proof (rule ccontr)
  assume "CHR '':'' \<notin> set (v6_text n)"
  then have "v6_parts (v6_text n) = None" by (simp add: v6_parts_def split_on_no_sep)
  with parse_v6_text[OF assms] show False by (simp add: parse_v6_def)
qed

lemma partition_absent: "c \<notin> set s \<Longrightarrow> partition_at c s = (s, False, [])"
proof -
  assume "c \<notin> set s"
  then have e: "dropWhile (\<lambda>d. d \<noteq> c) s = []" by (auto simp: dropWhile_eq_Nil_conv)
  show ?thesis unfolding partition_at_def e by simp
qed

lemma partition_first: "c \<notin> set s \<Longrightarrow> partition_at c (s @ c # t) = (s, True, t)"
proof -
  assume "c \<notin> set s"
  then have "\<forall>d\<in>set s. d \<noteq> c" by auto
  then show ?thesis by (simp add: partition_at_def dropWhile_append3 takeWhile_append2 dropWhile_append2)
qed

lemma split_two: "c \<notin> set a \<Longrightarrow> c \<notin> set b \<Longrightarrow> split_on c (a @ c # b) = [a, b]"
  by (simp add: split_on_append split_on_no_sep)

definition scoped_text :: "nat \<Rightarrow> string option \<Rightarrow> string" where
  "scoped_text n sc = v6_text n @ (case sc of None \<Rightarrow> [] | Some t \<Rightarrow> ''%'' @ t)"

lemma parse_scoped_text: "n < 2 ^ 128 \<Longrightarrow> scope_ok sc \<Longrightarrow> parse_scoped (scoped_text n sc) = Some (n, sc)"
  by (cases sc) (simp_all add: scope_ok_def scoped_text_def parse_scoped_def partition_absent partition_first v6_text_free parse_v6_text del: power_numeral)

lemma scoped_text_plain: "scope_ok sc \<Longrightarrow> CHR ''/'' \<notin> set (scoped_text n sc)"
  by (cases sc) (simp_all add: scope_ok_def scoped_text_def v6_text_free)

lemma scoped_text_not_v4:
  assumes "n < 2 ^ 128"
  shows "parse_v4 (scoped_text n sc) = None"
proof (rule ccontr)
  assume "parse_v4 (scoped_text n sc) \<noteq> None"
  then obtain m where "parse_v4 (scoped_text n sc) = Some m" by blast
  moreover have "CHR '':'' \<in> set (scoped_text n sc)" unfolding scoped_text_def set_append by (rule UnI1) (rule parse_v6_colon[OF assms])
  ultimately have "CHR '':'' = CHR ''.'' \<or> ascii_digit (of_char CHR '':'')" by (rule parse_v4_chars(1)[THEN bspec])
  then show False by (simp add: ascii_digit_def)
qed

lemma parse_net6_text:
  assumes "b < 2 ^ 128" "p \<le> 128" "scope_ok sc"
  shows "parse_network (scoped_text b sc @ ''/'' @ dec_text p) = Some (mk_net True b p sc)"
proof -
  have split: "split_on CHR ''/'' (scoped_text b sc @ ''/'' @ dec_text p) = [scoped_text b sc, dec_text p]"
    using split_two[OF scoped_text_plain[OF assms(3)] slash_free(1)] by simp
  show ?thesis unfolding parse_network_def parse_net4_def parse_net6_def split
    by (simp add: scoped_text_not_v4 parse_scoped_text prefix_text assms del: power_numeral)
qed

lemma parse_net4_text:
  assumes "b < 2 ^ 32" "p \<le> 32"
  shows "parse_network (v4_text b @ ''/'' @ dec_text p) = Some (mk_net False b p None)"
proof -
  have split: "split_on CHR ''/'' (v4_text b @ ''/'' @ dec_text p) = [v4_text b, dec_text p]"
    using split_two[OF v4_text_free slash_free(1)] by simp
  show ?thesis unfolding parse_network_def parse_net4_def split
    by (simp add: parse_v4_text prefix_text assms del: power_numeral)
qed

lemma parse_net_text:
  assumes ok: "net_ok n"
  shows "parse_network (net_text n) = Some n"
proof (cases "nt_v6 n")
  case False
  from ok False have b: "nt_base n < 2 ^ 32" "nt_prefix n \<le> 32" and sc: "nt_scope n = None" by (auto simp: net_ok_def ip_bits_def scope_ok_def)
  show ?thesis using parse_net4_text[OF b] mk_net_self[OF ok] False sc by (simp add: net_text_def)
next
  case True
  from ok True have "nt_base n < 2 ^ 128" "nt_prefix n \<le> 128" "scope_ok (nt_scope n)" by (auto simp: net_ok_def ip_bits_def)
  from parse_net6_text[OF this] show ?thesis using mk_net_self[OF ok] True by (simp add: net_text_def scoped_text_def)
qed

section \<open>Parsed networks\<close>

lemma hex_digit_bound: "hex_digit c = Some d \<Longrightarrow> d < 16"
  by (auto simp: hex_digit_def Let_def split: if_splits)

lemma hex_value_bound: "hex_value a s = Some n \<Longrightarrow> n < (a + 1) * 16 ^ length s"
proof (induction s arbitrary: a)
  case (Cons c s)
  then obtain d where d: "hex_digit c = Some d" "hex_value (16 * a + d) s = Some n" by (auto split: option.splits)
  have "n < (16 * a + d + 1) * 16 ^ length s" using Cons.IH[OF d(2)] .
  also have "\<dots> \<le> (16 * (a + 1)) * 16 ^ length s" using hex_digit_bound[OF d(1)] by (intro mult_right_mono) simp_all
  finally show ?case by (simp add: algebra_simps)
qed simp

lemma parse_hextet_bound: "parse_hextet s = Some n \<Longrightarrow> n < 65536"
proof -
  assume s: "parse_hextet s = Some n"
  then have "n < 16 ^ length s" "length s \<le> 4" using hex_value_bound[of 0 s n] by (auto simp: parse_hextet_def split: if_splits)
  moreover have "(16 :: nat) ^ length s \<le> 16 ^ 4" using \<open>length s \<le> 4\<close> by (intro power_increasing) simp_all
  ultimately show ?thesis by simp
qed

lemma hextets_value_bound: "hextets_value a hs = Some n \<Longrightarrow> n < (a + 1) * 65536 ^ length hs"
proof (induction hs arbitrary: a)
  case (Cons h hs)
  then obtain d where d: "parse_hextet h = Some d" "hextets_value (65536 * a + d) hs = Some n" by (auto split: option.splits)
  have "n < (65536 * a + d + 1) * 65536 ^ length hs" using Cons.IH[OF d(2)] .
  also have "\<dots> \<le> (65536 * (a + 1)) * 65536 ^ length hs" using parse_hextet_bound[OF d(1)] by (intro mult_right_mono) simp_all
  finally show ?case by (simp add: algebra_simps)
qed simp


lemma tail_value_bound:
  assumes "tail_value a quad hs = Some n" "\<And>q. quad = Some q \<Longrightarrow> q < 65536 ^ 2"
  shows "n < (a + 1) * 65536 ^ (length hs + (if quad = None then 0 else 2))"
proof -
  obtain m where m: "hextets_value a hs = Some m" using assms(1) by (cases "hextets_value a hs") (simp_all add: tail_value_def)
  note b = hextets_value_bound[OF m]
  show ?thesis
  proof (cases quad)
    case None
    with assms(1) m b show ?thesis by (simp add: tail_value_def)
  next
    case (Some q)
    then have "n = m * 65536 ^ 2 + q" "q < 65536 ^ 2" using assms m by (simp_all add: tail_value_def)
    then have "n < (m + 1) * 65536 ^ 2" by simp
    also have "\<dots> \<le> ((a + 1) * 65536 ^ length hs) * 65536 ^ 2" using b by (intro mult_right_mono) simp_all
    finally show ?thesis using Some by (simp add: power_add mult.assoc)
  qed
qed

lemma join_bound:
  assumes "v < 65536 ^ hi" "n < (v * 65536 ^ k + 1) * 65536 ^ lo" "hi + lo + k = 8" "0 < k"
  shows "n < (65536 :: nat) ^ 8"
proof -
  have "v * 65536 ^ k + 1 \<le> v * 65536 ^ k + 65536 ^ k" by simp
  also have "\<dots> = (v + 1) * 65536 ^ k" by simp
  also have "\<dots> \<le> 65536 ^ hi * 65536 ^ k" using assms(1) by (intro mult_right_mono) simp_all
  finally have "(v * 65536 ^ k + 1) * 65536 ^ lo \<le> (65536 ^ hi * 65536 ^ k) * 65536 ^ lo" by (intro mult_right_mono) simp_all
  also have "\<dots> = (65536 :: nat) ^ (hi + lo + k)" by (simp add: power_add)
  finally show ?thesis using assms(2,3) by simp
qed

lemma v6_parts_bound:
  assumes "v6_parts s = Some (quad, hs)" "quad = Some q"
  shows "q < 65536 ^ 2"
  using assms parse_v4_chars(2) by (auto simp: v6_parts_def Let_def split: if_splits option.splits)

lemma inner_gap_bounds:
  assumes "inner_gaps (hs @ ext) = [i]" "\<forall>e\<in>set ext. e \<noteq> []"
  shows "1 \<le> i" "i < length hs" "i < length (hs @ ext) - 1"
proof -
  have "i \<in> set (inner_gaps (hs @ ext))" using assms(1) by simp
  then have i: "1 \<le> i \<and> i < length (hs @ ext) - 1 \<and> (hs @ ext) ! i = []" by (simp add: inner_gaps_def)
  moreover have "i < length hs"
  proof (rule ccontr)
    assume "\<not> i < length hs"
    then have "(hs @ ext) ! i = ext ! (i - length hs)" by (simp add: nth_append)
    moreover have "i - length hs < length ext" using i \<open>\<not> i < length hs\<close> by (simp, arith)
    ultimately show False using assms(2) i by (metis nth_mem)
  qed
  ultimately show "1 \<le> i" "i < length hs" "i < length (hs @ ext) - 1" by simp_all
qed


lemma parse_v6_bound:
  assumes "parse_v6 s = Some n"
  shows "n < 2 ^ 128"
proof -
  obtain quad hs where p: "v6_parts s = Some (quad, hs)" using assms by (auto simp: parse_v6_def split: option.splits prod.splits)
  define ext where "ext = (case quad of None \<Rightarrow> [] | Some (_ :: nat) \<Rightarrow> [''0'', ''0''])"
  have ext: "length ext = (if quad = None then 0 else 2)" "\<forall>e\<in>set ext. e \<noteq> []" by (simp_all add: ext_def split: option.split)
  note q = v6_parts_bound[OF p]
  have "n < 65536 ^ 8"
  proof (cases "inner_gaps (hs @ ext)")
    case Nil
    then have "length (hs @ ext) = 8" "tail_value 0 quad hs = Some n"
      using assms p by (auto simp: parse_v6_def Let_def ext_def[symmetric] split: if_splits)
    with tail_value_bound[of 0 quad hs n] q ext(1) show ?thesis by simp
  next
    case (Cons i r)
    then have r: "inner_gaps (hs @ ext) = [i]" using assms p by (cases r) (auto simp: parse_v6_def Let_def ext_def[symmetric] split: if_splits)
    note i = inner_gap_bounds[OF r ext(2)]
    define trail where "trail = (if last (hs @ ext) = [] then 1 else 0 :: nat)"
    define hi where "hi = (if hd (hs @ ext) = [] then i - 1 else i)"
    define lo where "lo = length (hs @ ext) - i - 1 - trail"
    obtain v where v: "hextets_value 0 (take hi (hs @ ext)) = Some v" "hi + lo < 8"
      "tail_value (v * 65536 ^ (8 - (hi + lo))) quad (take (length hs - i - 1 - trail) (drop (i + 1) hs)) = Some n"
      using assms p r unfolding hi_def lo_def trail_def
      by (auto simp: parse_v6_def Let_def ext_def[symmetric] numeral_2_eq_2 split: if_splits option.splits)
    have trail: "trail = 0" if "quad \<noteq> None"
    proof -
      have "ext \<noteq> []" using ext(1) that by auto
      then have "last (hs @ ext) \<noteq> []" using ext(2) last_in_set[of ext] by (simp add: last_append)
      then show ?thesis by (simp add: trail_def)
    qed
    have take_hi: "length (take hi (hs @ ext)) = hi" using i(2) by (auto simp: hi_def)
    have "v < 65536 ^ hi" using hextets_value_bound[OF v(1)] unfolding take_hi by simp
    moreover have "length (take (length hs - i - 1 - trail) (drop (i + 1) hs)) + (if quad = None then 0 else 2) = lo"
      using i ext(1) trail by (cases "quad = None") (auto simp: lo_def)
    with tail_value_bound[OF v(3) q] have "n < (v * 65536 ^ (8 - (hi + lo)) + 1) * 65536 ^ lo" by simp
    ultimately show ?thesis by (rule join_bound) (use v(2) in simp_all)
  qed
  then show ?thesis by simp
qed

lemma split_on_pieces: "p \<in> set (split_on sep s) \<Longrightarrow> sep \<notin> set p"
  by (induction sep s arbitrary: p rule: split_on.induct) (auto split: list.splits if_splits)


lemma parse_scoped_ok:
  assumes "parse_scoped s = Some (n, sc)" "CHR ''/'' \<notin> set s"
  shows "n < 2 ^ 128" "scope_ok sc"
proof -
  obtain addr has scope where p: "partition_at CHR ''%'' s = (addr, has, scope)" by (cases "partition_at CHR ''%'' s")
  have sub: "set scope \<subseteq> set s" using p set_dropWhileD[of _ "\<lambda>d. d \<noteq> CHR ''%''" s]
    by (auto simp: partition_at_def split: list.splits dest: arg_cong[where f = set])
  have v: "parse_v6 addr = Some n" and ok: "\<not> (has \<and> (scope = [] \<or> CHR ''%'' \<in> set scope))" and sc: "sc = (if has then Some scope else None)"
    using assms(1) p by (auto simp: parse_scoped_def split: if_splits option.splits)
  show "n < 2 ^ 128" by (rule parse_v6_bound[OF v])
  show "scope_ok sc" using ok sub assms(2) by (auto simp: sc scope_ok_def)
qed

lemma parse_v4_bits: "parse_v4 s = Some n \<Longrightarrow> n < 2 ^ ip_bits False"
  using parse_v4_chars(2) by (simp add: ip_bits_def)

lemma prefix_string_le: "prefix_string b s = Some p \<Longrightarrow> p \<le> b"
  by (auto simp: prefix_string_def split: if_splits)

lemma mask_length_le: "mask_length m = Some p \<Longrightarrow> p \<le> 32"
proof -
  assume "mask_length m = Some p"
  then have "p \<in> set (rev [0..<33])" unfolding mask_length_def find_Some_iff by (metis nth_mem)
  then show "p \<le> 32" by (simp only: set_rev set_upt) simp
qed

lemma prefix_of_mask_le: "prefix_of_mask s = Some p \<Longrightarrow> p \<le> 32"
  using mask_length_le by (auto simp: prefix_of_mask_def split: option.splits)

lemma parse_net4_ok: "parse_net4 s = Some n \<Longrightarrow> net_ok n"
  by (auto simp: parse_net4_def scope_ok_def ip_bits_def intro!: mk_net_ok dest: parse_v4_chars(2) prefix_string_le prefix_of_mask_le
      split: list.splits option.splits)

lemma parse_net6_ok:
  assumes "parse_net6 s = Some n"
  shows "net_ok n"
proof -
  obtain a m where a: "a \<in> set (split_on CHR ''/'' s)" "parse_scoped a = Some m"
    and n: "\<exists>p \<le> 128. n = mk_net True (fst m) p (snd m)"
    using assms prefix_string_le by (fastforce simp: parse_net6_def split: list.splits option.splits)
  then show ?thesis using parse_scoped_ok[of a "fst m" "snd m"] split_on_pieces[OF a(1)] by (auto simp: ip_bits_def intro!: mk_net_ok)
qed

lemma parse_network_ok: "parse_network s = Some n \<Longrightarrow> net_ok n"
  using parse_net4_ok parse_net6_ok by (auto simp: parse_network_def split: option.splits)

lemma unmap_network_ok: "net_ok n \<Longrightarrow> net_ok (unmap_network n)"
  by (auto simp: unmap_network_def ipv4_mapped_def ip_bits_def scope_ok_def net_ok_def[of n] intro!: mk_net_ok split: option.splits)

lemma unmap_network_idem: "unmap_network (unmap_network n) = unmap_network n"
  by (auto simp: unmap_network_def mk_net_def split: option.splits)

section \<open>The stored allowlist\<close>

text \<open>The networks an operator typed, blanks apart.\<close>

definition typed_networks :: "string list \<Rightarrow> ip_net option list" where
  "typed_networks es = map parse_network (filter (\<lambda>t. t \<noteq> []) (map strip_str es))"

lemma normalize_items_networks:
  "normalize_items es = Inr ns \<Longrightarrow> \<exists>nets. typed_networks es = map Some nets \<and> ns = map (net_text \<circ> unmap_network) nets
     \<and> list_all (\<lambda>n. net_ok (unmap_network n) \<and> nt_prefix (unmap_network n) \<noteq> 0) nets"
proof (induction es arbitrary: ns rule: normalize_items.induct)
  case (2 e es)
  show ?case
  proof (cases "strip_str e = []")
    case True
    with 2 show ?thesis by (simp add: typed_networks_def)
  next
    case False
    then obtain n r where n: "parse_network (strip_str e) = Some n" "nt_prefix (unmap_network n) \<noteq> 0" "normalize_items es = Inr r"
      "ns = net_text (unmap_network n) # r"
      using "2.prems" by (cases "normalize_items es") (auto simp: Let_def py_bind_def split: option.splits if_splits)
    from 2(2)[OF refl False n(1,2) n(3)] obtain nets where "typed_networks es = map Some nets" "r = map (net_text \<circ> unmap_network) nets"
      "list_all (\<lambda>n. net_ok (unmap_network n) \<and> nt_prefix (unmap_network n) \<noteq> 0) nets" by blast
    then show ?thesis using n False unmap_network_ok[OF parse_network_ok[OF n(1)]]
      by (intro exI[of _ "n # nets"]) (simp add: typed_networks_def)
  qed
qed (simp add: typed_networks_def)


lemma not_space: "hex_digit c \<noteq> None \<Longrightarrow> \<not> is_space (of_char c)" "ascii_digit (of_char c) \<Longrightarrow> \<not> is_space (of_char c)"
  by (auto simp: hex_digit_def Let_def is_space_def ascii_digit_def split: if_splits)

lemma strip_str_plain: "t \<noteq> [] \<Longrightarrow> \<not> is_space (of_char (hd t)) \<Longrightarrow> \<not> is_space (of_char (last t)) \<Longrightarrow> strip_str t = t"
  by (rule strip_str_id, rule strip_no_space) (simp_all add: us_def hd_map last_map)

lemma hd_digit: "\<not> is_space (of_char (hd (dec_text n @ t)))" "\<not> is_space (of_char (last (t @ dec_text n)))"
  using digit_text_dec[of n] hd_in_set[OF dec_text_digits(3)[of n]] last_in_set[OF dec_text_digits(3)[of n]] not_space(2)
  by (simp_all add: digit_text_def)

lemma strip_net_text: "net_ok n \<Longrightarrow> strip_str (net_text n) = net_text n"
proof -
  assume ok: "net_ok n"
  have "last (net_text n) = last ((net_text n @ []) @ dec_text (nt_prefix n))" by (simp add: net_text_def)
  then have l: "\<not> is_space (of_char (last (net_text n)))" using hd_digit(2) by metis
  have "\<not> is_space (of_char (hd (net_text n)))"
  proof (cases "nt_v6 n")
    case False
    then show ?thesis using hd_digit(1) by (simp add: net_text_def v4_text_def del: power_numeral)
  next
    case True
    with ok have "nt_base n < 2 ^ 128" by (simp add: net_ok_def ip_bits_def)
    then have "v6_text (nt_base n) \<noteq> []" using parse_v6_colon by fastforce
    then have h: "hd (net_text n) = hd (v6_text (nt_base n))" "hd (v6_text (nt_base n)) \<in> set (v6_text (nt_base n))" using True by (simp_all add: net_text_def)
    have "\<not> is_space (of_char CHR '':'')" by (simp add: is_space_def)
    then show ?thesis using v6_text_chars[OF h(2)] not_space(1) unfolding h(1) by metis
  qed
  with l show ?thesis by (intro strip_str_plain) (simp_all add: net_text_def)
qed

lemma normalize_stored:
  "list_all (\<lambda>n. net_ok (unmap_network n) \<and> nt_prefix (unmap_network n) \<noteq> 0) nets
     \<Longrightarrow> normalize_items (map (net_text \<circ> unmap_network) nets) = Inr (map (net_text \<circ> unmap_network) nets)"
proof (induction nets)
  case (Cons n nets)
  have "net_text (unmap_network n) \<noteq> []" by (simp add: net_text_def)
  with Cons show ?case by (simp add: strip_net_text parse_net_text unmap_network_idem py_bind_def)
qed simp

lemma allowed_stored:
  assumes "list_all (\<lambda>n. net_ok (unmap_network n)) nets" "nets \<noteq> []"
  shows "is_allowed cip (Some (map (net_text \<circ> unmap_network) nets)) \<longleftrightarrow>
     (\<exists>t a n. cip = Some t \<and> t \<noteq> [] \<and> parse_ip (strip_str t) = Some a \<and> n \<in> set nets \<and> in_network (unmap_address a) (unmap_network n))"
  using assms by (auto simp: is_allowed_def truthy_def list_ex_iff list_all_iff parse_net_text unmap_network_idem split: option.splits)


text \<open>C27: What is stored is what was typed. When the entries of an allowlist are accepted, storing them again changes
  nothing, no stored network covers every address, and the stored list admits a client exactly when its address parses and,
  unmapped, lies in one of the networks that were typed, unmapped as well. Only a list of blanks leaves the
  credential unrestricted.\<close>

theorem stored_allowlist_faithful:
  assumes "normalize_entries (Some es) = Inr ns"
  shows "normalize_entries (Some ns) = Inr ns
     \<and> (\<forall>e\<in>set ns. \<exists>n. parse_network e = Some n \<and> unmap_network n = n \<and> nt_prefix n \<noteq> 0)
     \<and> (is_allowed cip (Some ns) \<longleftrightarrow> typed_networks es = []
          \<or> (\<exists>t a n. cip = Some t \<and> t \<noteq> [] \<and> parse_ip (strip_str t) = Some a \<and> Some n \<in> set (typed_networks es)
               \<and> in_network (unmap_address a) (unmap_network n)))"
proof -
  from normalize_items_networks[of es ns] assms obtain nets where nets: "typed_networks es = map Some nets" "ns = map (net_text \<circ> unmap_network) nets"
    and ok: "list_all (\<lambda>n. net_ok (unmap_network n) \<and> nt_prefix (unmap_network n) \<noteq> 0) nets" by (auto simp: normalize_entries_def)
  have "normalize_entries (Some ns) = Inr ns" unfolding nets(2) using normalize_stored[OF ok] by (simp add: normalize_entries_def)
  moreover have "\<forall>e\<in>set ns. \<exists>n. parse_network e = Some n \<and> unmap_network n = n \<and> nt_prefix n \<noteq> 0"
    using ok by (auto simp: nets(2) list_all_iff parse_net_text unmap_network_idem)
  moreover have "is_allowed cip (Some ns) \<longleftrightarrow> typed_networks es = []
          \<or> (\<exists>t a n. cip = Some t \<and> t \<noteq> [] \<and> parse_ip (strip_str t) = Some a \<and> Some n \<in> set (typed_networks es)
               \<and> in_network (unmap_address a) (unmap_network n))"
  proof (cases "nets = []")
    case True
    then show ?thesis by (simp add: nets is_allowed_def truthy_def)
  next
    case False
    have "list_all (\<lambda>n. net_ok (unmap_network n)) nets" using ok by (simp add: list_all_iff)
    from allowed_stored[OF this False] show ?thesis using False by (auto simp: nets)
  qed
  ultimately show ?thesis by blast
qed

lemma typed_example: "normalize_entries (Some ['' 10.9.8.7/8'', []]) = Inr [''10.0.0.0/8'']"
proof -
  have "strip_str '' 10.9.8.7/8'' = ''10.9.8.7/8''" "strip_str [] = []"
    by (simp_all add: strip_str_def us_def strip_def lstrip_def is_space_def char_of_eq_iff take_bit_nat_eq_self)
  moreover have "parse_network ''10.9.8.7/8'' = Some (mk_net False 168364039 8 None)"
    by (simp add: parse_network_def parse_net4_def parse_v4_def parse_octet_def all_digits_def ascii_digit_def dec_value_def prefix_string_def)
  moreover have "unmap_network (mk_net False 168364039 8 None) = mk_net False 167772160 8 None"
    by (simp add: unmap_network_def mk_net_def mask_base_def ip_bits_def)
  moreover have "net_text (mk_net False 167772160 8 None) = ''10.0.0.0/8''"
    by (simp add: net_text_def mk_net_def mask_base_def ip_bits_def v4_text_def dec_text_def str_nat.simps digit_char_def char_of_eq_iff take_bit_nat_eq_self)
  ultimately show ?thesis by (simp add: normalize_entries_def py_bind_def) (simp add: mk_net_def)
qed

theorem stored_allowlist_faithful_witness:
  "normalize_entries (Some [''10.0.0.0/8'']) = Inr [''10.0.0.0/8'']"
  using stored_allowlist_faithful[OF typed_example, of None] by (rule conjunct1)

end
