(* ===== verification/Url_Guard.thy ===== *)
theory Url_Guard
  imports IP_Address Policy_Resolver
begin

text \<open>
  Where the gateway may connect to: the validator of provider addresses (\<^verbatim>\<open>security/url_validator.py\<close>) and the egress
  guard of webhook deliveries (\<^verbatim>\<open>security/webhook_ssrf.py\<close>), over \<^verbatim>\<open>urllib.parse\<close> and the address classes of
  \<^verbatim>\<open>ipaddress\<close> in the Python the image ships (3.10). Texts are ASCII, so the NFKC check of a host has nothing to do;
  name resolution is an argument.
\<close>

section \<open>Parts of a URL\<close>

text \<open>\<^verbatim>\<open>s.rpartition(sep)[2]\<close>.\<close>

definition after_last :: "char \<Rightarrow> string \<Rightarrow> string" where
  "after_last c s = rev (takeWhile (\<lambda>d. d \<noteq> c) (rev s))"

definition ascii_alpha :: "char \<Rightarrow> bool" where
  "ascii_alpha c = (let n = of_char c :: nat in (65 \<le> n \<and> n \<le> 90) \<or> (97 \<le> n \<and> n \<le> 122))"

definition scheme_char :: "char \<Rightarrow> bool" where
  "scheme_char c \<longleftrightarrow> ascii_alpha c \<or> ascii_digit (of_char c) \<or> c \<in> {CHR ''+'', CHR ''-'', CHR ''.''}"

text \<open>Leading control characters and blanks are dropped, tabs and line ends removed.\<close>

definition clean_url :: "string \<Rightarrow> string" where
  "clean_url s = filter (\<lambda>c. of_char c \<notin> {9, 10, 13 :: nat}) (dropWhile (\<lambda>c. of_char c \<le> (32 :: nat)) s)"

definition split_scheme :: "string \<Rightarrow> string \<times> string" where
  "split_scheme s = (case partition_at CHR '':'' s of (before, has, rest) \<Rightarrow>
     if has \<and> before \<noteq> [] \<and> ascii_alpha (hd before) \<and> list_all scheme_char before then (lower_str before, rest) else ([], s))"

definition split_netloc :: "string \<Rightarrow> string" where
  "split_netloc s = (if take 2 s = ''//'' then takeWhile (\<lambda>c. c \<notin> {CHR ''/'', CHR ''?'', CHR ''#''}) (drop 2 s) else [])"

text \<open>What may stand in brackets: an IPv6 address, or a version, a dot and some text.\<close>

definition ipv_future :: "string \<Rightarrow> bool" where
  "ipv_future h = (case partition_at CHR ''.'' h of (v, has, rest) \<Rightarrow>
     has \<and> rest \<noteq> [] \<and> length v \<ge> 2 \<and> list_all (\<lambda>c. hex_digit c \<noteq> None) (tl v) \<and> CHR 10 \<notin> set rest)"

definition bracketed_host_ok :: "string \<Rightarrow> bool" where
  "bracketed_host_ok h = (if h \<noteq> [] \<and> hd h = CHR ''v'' then ipv_future h
     else (case parse_ip h of Some a \<Rightarrow> is_v6 a | None \<Rightarrow> False))"

definition check_bracketed_netloc :: "string \<Rightarrow> bool" where
  "check_bracketed_netloc netloc =
     (case partition_at CHR ''['' (after_last CHR ''@'' netloc) of (before, has, bracketed) \<Rightarrow>
        if has then (case partition_at CHR '']'' bracketed of (h, _, port) \<Rightarrow>
            before = [] \<and> (port = [] \<or> hd port = CHR '':'') \<and> bracketed_host_ok h)
        else bracketed_host_ok (fst (partition_at CHR '':'' (after_last CHR ''@'' netloc))))"

text \<open>\<^verbatim>\<open>urlsplit\<close>: the scheme and the network location.\<close>

definition urlsplit :: "string \<Rightarrow> (string \<times> string) py" where
  "urlsplit url = (case split_scheme (clean_url url) of (scheme, rest) \<Rightarrow>
     let netloc = split_netloc rest; op = (CHR ''['' \<in> set netloc); cl = (CHR '']'' \<in> set netloc)
     in if op \<noteq> cl then Inl ValueError
        else if op \<and> \<not> check_bracketed_netloc netloc then Inl ValueError
        else Inr (scheme, netloc))"

text \<open>\<^verbatim>\<open>.hostname\<close>: without user and port, in lower case up to a zone.\<close>

definition host_info :: "string \<Rightarrow> string" where
  "host_info netloc = (let hostinfo = after_last CHR ''@'' netloc in
     case partition_at CHR ''['' hostinfo of (_, has, bracketed) \<Rightarrow>
       if has then fst (partition_at CHR '']'' bracketed) else fst (partition_at CHR '':'' hostinfo))"

definition url_hostname :: "string \<Rightarrow> string option" where
  "url_hostname netloc = (case host_info netloc of [] \<Rightarrow> None
     | h \<Rightarrow> (case partition_at CHR ''%'' h of (name, has, zone) \<Rightarrow> Some (lower_str name @ (if has then ''%'' else []) @ zone)))"

section \<open>Provider addresses\<close>

definition net :: "bool \<Rightarrow> nat \<Rightarrow> nat \<Rightarrow> ip_net" where
  "net v6 n p = \<lparr>nt_v6 = v6, nt_base = n, nt_prefix = p, nt_scope = None\<rparr>"

definition PRIVATE_NETS :: "ip_net list" where
  "PRIVATE_NETS = [net False 0x7F000000 8, net False 0x0A000000 8, net False 0xAC100000 12, net False 0xC0A80000 16,
     net False 0xA9FE0000 16, net False 0 8, net True 1 128, net True (0xFC00 * 2 ^ 112) 7, net True (0xFE80 * 2 ^ 112) 10]"

definition BLOCKED_HOSTS :: "string list" where
  "BLOCKED_HOSTS = [''localhost'', ''metadata.google.internal'', ''metadata.goog'']"

definition is_ssrf_target :: "string \<Rightarrow> bool py" where
  "is_ssrf_target url = py_bind (urlsplit url) (\<lambda>(_, netloc).
     let host = lower_str (if_none (url_hostname netloc) [])
     in if host \<in> set BLOCKED_HOSTS then Inr True
        else (case parse_ip host of None \<Rightarrow> Inr False | Some a \<Rightarrow> Inr (list_ex (in_network a) PRIVATE_NETS)))"

definition validate_llm_base_url :: "string \<Rightarrow> string py" where
  "validate_llm_base_url v0 =
     (let v = rev (dropWhile (\<lambda>c. c = CHR ''/'') (rev v0)) in
      if \<not> startswith v ''http://'' \<and> \<not> startswith v ''https://'' then Inl ValueError
      else py_bind (is_ssrf_target v) (\<lambda>b. if b then Inl ValueError else Inr v))"

text \<open>An address that is not text has no \<^verbatim>\<open>rstrip\<close>.\<close>

definition check_section_url :: "jdict \<Rightarrow> string \<Rightarrow> unit py" where
  "check_section_url ov name = (case map_of ov name of
     Some (JObj sub) \<Rightarrow> (case map_of sub ''base_url'' of
         Some (JStr u) \<Rightarrow> if u = [] then Inr () else py_bind (validate_llm_base_url u) (\<lambda>_. Inr ())
       | Some v \<Rightarrow> if json_truthy v then Inl (OtherError ''AttributeError'') else Inr ()
       | None \<Rightarrow> Inr ())
   | _ \<Rightarrow> Inr ())"

definition validate_policy_override_urls :: "jdict option \<Rightarrow> unit py" where
  "validate_policy_override_urls override = (case override of None \<Rightarrow> Inr ()
     | Some ov \<Rightarrow> py_bind (check_section_url ov ''llm'') (\<lambda>_. check_section_url ov ''proxy_provider''))"

section \<open>Webhook egress\<close>

text \<open>The address classes of \<^verbatim>\<open>ipaddress\<close>.\<close>

definition V4_PRIVATE :: "ip_net list" where
  "V4_PRIVATE = [net False 0 8, net False 0x0A000000 8, net False 0x7F000000 8, net False 0xA9FE0000 16, net False 0xAC100000 12,
     net False 0xC0000000 24, net False 0xC00000AA 31, net False 0xC0000200 24, net False 0xC0A80000 16, net False 0xC6120000 15,
     net False 0xC6336400 24, net False 0xCB007100 24, net False 0xF0000000 4, net False 0xFFFFFFFF 32]"

definition V4_EXCEPTIONS :: "ip_net list" where
  "V4_EXCEPTIONS = [net False 0xC0000009 32, net False 0xC000000A 32]"

definition V6_PRIVATE :: "ip_net list" where
  "V6_PRIVATE = [net True 1 128, net True 0 128, net True (0xFFFF * 2 ^ 32) 96, net True (0x64FF9B0001 * 2 ^ 80) 48, net True (0x100 * 2 ^ 112) 64,
     net True (0x2001 * 2 ^ 112) 23, net True (0x20010DB8 * 2 ^ 96) 32, net True (0x2002 * 2 ^ 112) 16, net True (0xFC00 * 2 ^ 112) 7,
     net True (0xFE80 * 2 ^ 112) 10]"

definition V6_EXCEPTIONS :: "ip_net list" where
  "V6_EXCEPTIONS = [net True (0x20010001 * 2 ^ 96 + 1) 128, net True (0x20010001 * 2 ^ 96 + 2) 128, net True (0x20010003 * 2 ^ 96) 32,
     net True (0x200100040112 * 2 ^ 80) 48, net True (0x20010020 * 2 ^ 96) 28, net True (0x20010030 * 2 ^ 96) 28]"

definition V6_RESERVED :: "ip_net list" where
  "V6_RESERVED = map (\<lambda>(n, p). net True (n * 2 ^ 112) p) [(0, 8), (0x100, 8), (0x200, 7), (0x400, 6), (0x800, 5), (0x1000, 4), (0x4000, 3),
     (0x6000, 3), (0x8000, 3), (0xA000, 3), (0xC000, 3), (0xE000, 4), (0xF000, 5), (0xF800, 6), (0xFE00, 9)]"

definition among :: "ip \<Rightarrow> ip_net list \<Rightarrow> bool" where
  "among a ns = list_ex (in_network a) ns"

definition is_private :: "ip \<Rightarrow> bool" where
  "is_private a = (if is_v6 a
     then (case ipv4_mapped (ip_num a) of
         Some n \<Rightarrow> among (IP False n) V4_PRIVATE \<and> \<not> among (IP False n) V4_EXCEPTIONS
       | None \<Rightarrow> among a V6_PRIVATE \<and> \<not> among a V6_EXCEPTIONS)
     else among a V4_PRIVATE \<and> \<not> among a V4_EXCEPTIONS)"

definition is_loopback :: "ip \<Rightarrow> bool" where
  "is_loopback a = (if is_v6 a then ip_num a = 1 else in_network a (net False 0x7F000000 8))"

definition is_link_local :: "ip \<Rightarrow> bool" where
  "is_link_local a = (if is_v6 a then in_network a (net True (0xFE80 * 2 ^ 112) 10) else in_network a (net False 0xA9FE0000 16))"

definition is_reserved :: "ip \<Rightarrow> bool" where
  "is_reserved a = (if is_v6 a then among a V6_RESERVED else in_network a (net False 0xF0000000 4))"

definition is_multicast :: "ip \<Rightarrow> bool" where
  "is_multicast a = (if is_v6 a then in_network a (net True (0xFF00 * 2 ^ 112) 8) else in_network a (net False 0xE0000000 4))"

definition is_unspecified :: "ip \<Rightarrow> bool" where
  "is_unspecified a = (ip_num a = 0)"

definition is_internal_ip :: "ip \<Rightarrow> bool" where
  "is_internal_ip ip0 = (let a = unmap_address ip0
     in is_private a \<or> is_loopback a \<or> is_link_local a \<or> is_reserved a \<or> is_multicast a \<or> is_unspecified a)"

definition METADATA_HOSTS :: "string list" where
  "METADATA_HOSTS = [''metadata.google.internal'', ''metadata.goog'']"

record egress_settings =
  webhook_egress_allowlist :: string
  webhook_require_https :: bool
  webhook_block_private_egress :: bool

definition parse_allowlist :: "string \<Rightarrow> string list \<times> ip_net list" where
  "parse_allowlist raw = (let items = filter (\<lambda>i. i \<noteq> []) (map (\<lambda>i. lower_str (strip_str i)) (split_on CHR '','' raw))
     in (filter (\<lambda>i. parse_network i = None) items, List.map_filter parse_network items))"

text \<open>The reason of a refusal; a URL that cannot be parsed raises instead. \<open>resolve\<close> is the resolver's answer.\<close>

definition check_egress :: "egress_settings \<Rightarrow> (string \<Rightarrow> string list py) \<Rightarrow> string \<Rightarrow> string option py" where
  "check_egress S resolve url = py_bind (urlsplit url) (\<lambda>(scheme, netloc).
     let host = lower_str (if_none (url_hostname netloc) []) in
     if host = [] then Inr (Some ''no_host'')
     else case parse_allowlist (webhook_egress_allowlist S) of (allow_hosts, allow_nets) \<Rightarrow>
       if webhook_require_https S \<and> lower_str scheme \<noteq> ''https'' \<and> host \<notin> set allow_hosts then Inr (Some ''https_required'')
       else if \<not> webhook_block_private_egress S then Inr None
       else if host \<in> set allow_hosts then Inr None
       else if host \<in> set METADATA_HOSTS then Inr (Some ''metadata_host'')
       else (case resolve host of
           Inl _ \<Rightarrow> Inr (Some ''dns_resolution_failed'')
         | Inr texts \<Rightarrow> if list_ex (\<lambda>t. parse_ip t = None) texts then Inr (Some ''dns_resolution_failed'')
             else if list_ex (\<lambda>a. \<not> list_ex (in_network a) allow_nets \<and> is_internal_ip a) (List.map_filter parse_ip texts)
             then Inr (Some ''private_address'') else Inr None))"

end
