(* ===== verification/Url_Facts.thy ===== *)
theory Url_Facts
  imports Url_Guard IP_Facts
begin

text \<open>
  Which addresses the guards let through: the lists of networks in the source are compared with the ranges they add up to.
\<close>

section \<open>Networks as ranges\<close>

lemma in_net: "b mod 2 ^ (ip_bits v - p) = 0 \<Longrightarrow>
   in_network a (net v b p) \<longleftrightarrow> is_v6 a = v \<and> ip_num a div 2 ^ (ip_bits v - p) = b div 2 ^ (ip_bits v - p)"
proof -
  assume b: "b mod 2 ^ (ip_bits v - p) = 0"
  have "n - n mod k = b \<longleftrightarrow> n div k = b div k" if "b mod k = 0" for n k :: nat
  proof -
    have "n - n mod k = k * (n div k)" by (simp add: minus_mod_eq_mult_div)
    moreover have "b = k * (b div k)" using that by auto
    ultimately show ?thesis by (metis mult_cancel1 div_by_0)
  qed
  from this[OF b] show ?thesis by (auto simp: in_network_def net_def mask_base_def)
qed

lemma div_in_range: "0 < k \<Longrightarrow> n div k = c \<longleftrightarrow> c * k \<le> n \<and> n < (c + 1) * (k :: nat)"
  by (metis Suc_eq_plus1 div_nat_eqI div_times_less_eq_dividend dividend_less_div_times mult_Suc mult.commute add.commute)

text \<open>Public IPv4 space, by leading octets.\<close>

definition public_v4 :: "nat \<Rightarrow> bool" where
  "public_v4 n \<longleftrightarrow> n div 2 ^ 28 < 14 \<and> n div 2 ^ 24 \<notin> {0, 10, 127} \<and> n div 2 ^ 20 \<noteq> 0xAC1 \<and> n div 2 ^ 17 \<noteq> 0x6309
     \<and> n div 2 ^ 16 \<notin> {0xA9FE, 0xC0A8} \<and> n div 2 ^ 8 \<notin> {0xC00002, 0xC63364, 0xCB0071}
     \<and> (n div 2 ^ 8 = 0xC00000 \<longrightarrow> n \<in> {0xC0000009, 0xC000000A})"

text \<open>Public IPv6 space as the guard draws it: 2000::/3 less its special blocks, and the former site-local block.\<close>

definition public_v6 :: "nat \<Rightarrow> bool" where
  "public_v6 n \<longleftrightarrow> (n div 2 ^ 125 = 1 \<or> n div 2 ^ 118 = 0x3FB) \<and> n div 2 ^ 112 \<noteq> 0x2002 \<and> n div 2 ^ 96 \<noteq> 0x20010DB8
     \<and> (n div 2 ^ 105 = 0x100080 \<longrightarrow> among (IP True n) V6_EXCEPTIONS)"

definition external :: "ip \<Rightarrow> bool" where
  "external a \<longleftrightarrow> (case unmap_address a of IP v n \<Rightarrow> if v then public_v6 n else public_v4 n)"

lemma internal_v4:
  assumes "n < 2 ^ 32"
  shows "is_internal_ip (IP False n) \<longleftrightarrow> \<not> public_v4 n"
proof -
  have a: "n div 2 = 1610612821 \<Longrightarrow> n div 256 = 12582912" by (simp add: div_in_range)
  have c: "n div 268435456 < 14 \<or> n div 268435456 = 14 \<or> n div 268435456 = 15" using assms by simp arith
  note defs = is_internal_ip_def unmap_address_def is_private_def is_loopback_def is_link_local_def is_reserved_def is_multicast_def
    is_unspecified_def among_def V4_PRIVATE_def V4_EXCEPTIONS_def in_net ip_bits_def public_v4_def
  show ?thesis
  proof (cases "n \<in> {0, 3221225481, 3221225482, 4294967295}")
    case True
    then show ?thesis by (auto simp: defs)
  next
    case False
    moreover have "n div 268435456 < 14 \<longleftrightarrow> \<not> (n div 268435456 = 14 \<or> n div 268435456 = 15)" using c by arith
    ultimately show ?thesis using a by (simp add: defs) satx
  qed
qed

text \<open>The reserved, private, link-local and multicast blocks leave two ranges of leading groups.\<close>

lemma leading_group:
  fixes g :: nat
  assumes "g < 65536"
  shows "(g div 256 = 0 \<or> g div 256 = 1 \<or> g div 512 = 1 \<or> g div 1024 = 1 \<or> g div 2048 = 1 \<or> g div 4096 = 1 \<or> g div 8192 = 2
     \<or> g div 8192 = 3 \<or> g div 8192 = 4 \<or> g div 8192 = 5 \<or> g div 8192 = 6 \<or> g div 4096 = 14 \<or> g div 2048 = 30 \<or> g div 1024 = 62
     \<or> g div 128 = 0x1FC \<or> g div 512 = 126 \<or> g div 64 = 0x3FA \<or> g div 256 = 255) \<longleftrightarrow> \<not> (g div 8192 = 1 \<or> g div 64 = 0x3FB)"
proof -
  have "(g < 0x2000 \<or> (0x4000 \<le> g \<and> g < 0xFEC0) \<or> 0xFF00 \<le> g) \<longleftrightarrow> \<not> ((0x2000 \<le> g \<and> g < 0x4000) \<or> (0xFEC0 \<le> g \<and> g < 0xFF00))" by auto
  moreover have "(g div 256 = 0 \<or> g div 256 = 1 \<or> g div 512 = 1 \<or> g div 1024 = 1 \<or> g div 2048 = 1 \<or> g div 4096 = 1) \<longleftrightarrow> g < 0x2000"
    by (simp add: div_in_range) arith
  moreover have "(g div 8192 = 2 \<or> g div 8192 = 3 \<or> g div 8192 = 4 \<or> g div 8192 = 5 \<or> g div 8192 = 6 \<or> g div 4096 = 14 \<or> g div 2048 = 30
     \<or> g div 1024 = 62 \<or> g div 128 = 0x1FC \<or> g div 512 = 126 \<or> g div 64 = 0x3FA) \<longleftrightarrow> 0x4000 \<le> g \<and> g < 0xFEC0"
    by (simp add: div_in_range) arith
  moreover have "g div 256 = 255 \<longleftrightarrow> 0xFF00 \<le> g" using assms by (simp add: div_in_range)
  moreover have "(g div 8192 = 1 \<or> g div 64 = 0x3FB) \<longleftrightarrow> (0x2000 \<le> g \<and> g < 0x4000) \<or> (0xFEC0 \<le> g \<and> g < 0xFF00)"
    by (simp add: div_in_range)
  ultimately show ?thesis by argo
qed

lemma two_powers: "(2 :: nat) ^ 6 = 64" "(2 :: nat) ^ 7 = 128" "(2 :: nat) ^ 8 = 256" "(2 :: nat) ^ 9 = 512" "(2 :: nat) ^ 10 = 1024"
  "(2 :: nat) ^ 11 = 2048" "(2 :: nat) ^ 12 = 4096" "(2 :: nat) ^ 13 = 8192"
  by simp_all

lemma div_pow: "n div 2 ^ (a + b) = n div 2 ^ a div (2 ^ b :: nat)"
  by (simp add: div_mult2_eq power_add)

lemma leading_of:
  fixes n :: nat
  defines "g \<equiv> n div 2 ^ 112"
  shows "n div 2 ^ 120 = g div 256" "n div 2 ^ 121 = g div 512" "n div 2 ^ 122 = g div 1024" "n div 2 ^ 123 = g div 2048" "n div 2 ^ 124 = g div 4096"
    "n div 2 ^ 125 = g div 8192" "n div 2 ^ 119 = g div 128" "n div 2 ^ 118 = g div 64"
proof -
  have "n div 2 ^ (112 + k) = g div 2 ^ k" for k unfolding g_def by (rule div_pow)
  from this[of 8] this[of 9] this[of 10] this[of 11] this[of 12] this[of 13] this[of 7] this[of 6]
  show "n div 2 ^ 120 = g div 256" "n div 2 ^ 121 = g div 512" "n div 2 ^ 122 = g div 1024" "n div 2 ^ 123 = g div 2048" "n div 2 ^ 124 = g div 4096"
    "n div 2 ^ 125 = g div 8192" "n div 2 ^ 119 = g div 128" "n div 2 ^ 118 = g div 64"
    unfolding two_powers by (simp_all only: add_num_simps arith_simps)
qed

lemma steps_down:
  fixes n :: nat
  shows "n div 2 ^ 112 = n div 2 ^ 80 div 2 ^ 32" "n div 2 ^ 112 = n div 2 ^ 64 div 2 ^ 48" "n div 2 ^ 112 = n div 2 ^ 105 div 2 ^ 7"
    "n div 2 ^ 105 = n div 2 ^ 96 div 2 ^ 9" "n div 2 ^ 105 = n div 2 ^ 80 div 2 ^ 25" "n div 2 ^ 105 = n div 2 ^ 100 div 2 ^ 5"
  using div_pow[of n 80 32] div_pow[of n 64 48] div_pow[of n 105 7] div_pow[of n 96 9] div_pow[of n 80 25] div_pow[of n 100 5]
  by (simp_all only: add_num_simps arith_simps)

lemma in_net6:
  assumes "b = c * 2 ^ k" "k + p = 128"
  shows "in_network (IP True n) (net True b p) \<longleftrightarrow> n div 2 ^ k = c"
proof -
  have k: "ip_bits True - p = k" using assms(2) by (simp add: ip_bits_def)
  have "b mod 2 ^ k = 0" "b div 2 ^ k = c" using assms(1) by simp_all
  with in_net[of b True p "IP True n"] show ?thesis unfolding k by simp
qed

lemmas list_ex_rules = among_def list_ex_Cons_iff list_ex_Nil_iff

lemma v6_exceptions:
  "among (IP True n) V6_EXCEPTIONS \<longleftrightarrow> n div 2 ^ 0 = 0x20010001 * 2 ^ 96 + 1 \<or> n div 2 ^ 0 = 0x20010001 * 2 ^ 96 + 2 \<or> n div 2 ^ 96 = 0x20010003
     \<or> n div 2 ^ 80 = 0x200100040112 \<or> n div 2 ^ 100 = 0x2001002 \<or> n div 2 ^ 100 = 0x2001003"
proof -
  have "in_network (IP True n) (net True (0x20010001 * 2 ^ 96 + 1) 128) \<longleftrightarrow> n div 2 ^ 0 = 0x20010001 * 2 ^ 96 + 1"
    "in_network (IP True n) (net True (0x20010001 * 2 ^ 96 + 2) 128) \<longleftrightarrow> n div 2 ^ 0 = 0x20010001 * 2 ^ 96 + 2"
    "in_network (IP True n) (net True (0x20010003 * 2 ^ 96) 32) \<longleftrightarrow> n div 2 ^ 96 = 0x20010003"
    "in_network (IP True n) (net True (0x200100040112 * 2 ^ 80) 48) \<longleftrightarrow> n div 2 ^ 80 = 0x200100040112"
    "in_network (IP True n) (net True (0x20010020 * 2 ^ 96) 28) \<longleftrightarrow> n div 2 ^ 100 = 0x2001002"
    "in_network (IP True n) (net True (0x20010030 * 2 ^ 96) 28) \<longleftrightarrow> n div 2 ^ 100 = 0x2001003"
    by (rule in_net6; simp)+
  then show ?thesis unfolding V6_EXCEPTIONS_def list_ex_rules by (simp only: simp_thms)
qed

lemma exceptions_inside: "among (IP True n) V6_EXCEPTIONS \<Longrightarrow> n div 2 ^ 105 = 0x100080"
proof -
  have "n div 2 ^ 105 = n div 2 ^ 0 div 2 ^ 105" by simp
  moreover have "(0x20010001 * 2 ^ 96 + 1) div 2 ^ 105 = (0x100080 :: nat)" "(0x20010001 * 2 ^ 96 + 2) div 2 ^ 105 = (0x100080 :: nat)"
    "0x20010003 div 2 ^ 9 = (0x100080 :: nat)" "0x200100040112 div 2 ^ 25 = (0x100080 :: nat)" "0x2001002 div 2 ^ 5 = (0x100080 :: nat)"
    "0x2001003 div 2 ^ 5 = (0x100080 :: nat)" by simp_all
  ultimately show "among (IP True n) V6_EXCEPTIONS \<Longrightarrow> n div 2 ^ 105 = 0x100080"
    unfolding v6_exceptions using steps_down[of n] by metis
qed

lemma v6_private:
  "among (IP True n) V6_PRIVATE \<longleftrightarrow> n div 2 ^ 0 = 1 \<or> n div 2 ^ 0 = 0 \<or> n div 2 ^ 32 = 0xFFFF \<or> n div 2 ^ 80 = 0x64FF9B0001
     \<or> n div 2 ^ 64 = 0x100 * 2 ^ 48 \<or> n div 2 ^ 105 = 0x100080 \<or> n div 2 ^ 96 = 0x20010DB8 \<or> n div 2 ^ 112 = 0x2002 \<or> n div 2 ^ 121 = 126
     \<or> n div 2 ^ 118 = 0x3FA"
proof -
  have "in_network (IP True n) (net True 1 128) \<longleftrightarrow> n div 2 ^ 0 = 1" "in_network (IP True n) (net True 0 128) \<longleftrightarrow> n div 2 ^ 0 = 0"
    "in_network (IP True n) (net True (0xFFFF * 2 ^ 32) 96) \<longleftrightarrow> n div 2 ^ 32 = 0xFFFF"
    "in_network (IP True n) (net True (0x64FF9B0001 * 2 ^ 80) 48) \<longleftrightarrow> n div 2 ^ 80 = 0x64FF9B0001"
    "in_network (IP True n) (net True (0x100 * 2 ^ 112) 64) \<longleftrightarrow> n div 2 ^ 64 = 0x100 * 2 ^ 48"
    "in_network (IP True n) (net True (0x2001 * 2 ^ 112) 23) \<longleftrightarrow> n div 2 ^ 105 = 0x100080"
    "in_network (IP True n) (net True (0x20010DB8 * 2 ^ 96) 32) \<longleftrightarrow> n div 2 ^ 96 = 0x20010DB8"
    "in_network (IP True n) (net True (0x2002 * 2 ^ 112) 16) \<longleftrightarrow> n div 2 ^ 112 = 0x2002"
    "in_network (IP True n) (net True (0xFC00 * 2 ^ 112) 7) \<longleftrightarrow> n div 2 ^ 121 = 126"
    "in_network (IP True n) (net True (0xFE80 * 2 ^ 112) 10) \<longleftrightarrow> n div 2 ^ 118 = 0x3FA"
    by (rule in_net6; simp)+
  then show ?thesis unfolding V6_PRIVATE_def list_ex_rules by (simp only: simp_thms)
qed

lemma reserved_net: "k + p = 16 \<Longrightarrow> c * 2 ^ k = g \<Longrightarrow> in_network (IP True n) (net True (g * 2 ^ 112) p) \<longleftrightarrow> n div 2 ^ 112 div 2 ^ k = c"
proof -
  assume a: "k + p = 16" "c * 2 ^ k = g"
  have "g * 2 ^ 112 = c * 2 ^ (112 + k)" unfolding a(2)[symmetric] power_add by (simp only: mult.assoc mult.commute)
  from in_net6[OF this] a(1) show ?thesis unfolding div_pow by simp
qed

lemma reserved_v6:
  fixes n :: nat
  defines "g \<equiv> n div 2 ^ 112"
  shows "is_reserved (IP True n) \<longleftrightarrow> g div 256 = 0 \<or> g div 256 = 1 \<or> g div 512 = 1 \<or> g div 1024 = 1 \<or> g div 2048 = 1
     \<or> g div 4096 = 1 \<or> g div 8192 = 2 \<or> g div 8192 = 3 \<or> g div 8192 = 4 \<or> g div 8192 = 5 \<or> g div 8192 = 6 \<or> g div 4096 = 14
     \<or> g div 2048 = 30 \<or> g div 1024 = 62 \<or> g div 128 = 0x1FC"
proof -
  have r: "in_network (IP True n) (net True (x * 2 ^ 112) p) \<longleftrightarrow> g div 2 ^ k = c" if "k + p = 16" "c * 2 ^ k = x" for x p k c
    unfolding g_def by (rule reserved_net[OF that])
  have nets: "in_network (IP True n) (net True (0 * 2 ^ 112) 8) \<longleftrightarrow> g div 2 ^ 8 = 0"
    "in_network (IP True n) (net True (0x100 * 2 ^ 112) 8) \<longleftrightarrow> g div 2 ^ 8 = 1"
    "in_network (IP True n) (net True (0x200 * 2 ^ 112) 7) \<longleftrightarrow> g div 2 ^ 9 = 1"
    "in_network (IP True n) (net True (0x400 * 2 ^ 112) 6) \<longleftrightarrow> g div 2 ^ 10 = 1"
    "in_network (IP True n) (net True (0x800 * 2 ^ 112) 5) \<longleftrightarrow> g div 2 ^ 11 = 1"
    "in_network (IP True n) (net True (0x1000 * 2 ^ 112) 4) \<longleftrightarrow> g div 2 ^ 12 = 1"
    "in_network (IP True n) (net True (0x4000 * 2 ^ 112) 3) \<longleftrightarrow> g div 2 ^ 13 = 2"
    "in_network (IP True n) (net True (0x6000 * 2 ^ 112) 3) \<longleftrightarrow> g div 2 ^ 13 = 3"
    "in_network (IP True n) (net True (0x8000 * 2 ^ 112) 3) \<longleftrightarrow> g div 2 ^ 13 = 4"
    "in_network (IP True n) (net True (0xA000 * 2 ^ 112) 3) \<longleftrightarrow> g div 2 ^ 13 = 5"
    "in_network (IP True n) (net True (0xC000 * 2 ^ 112) 3) \<longleftrightarrow> g div 2 ^ 13 = 6"
    "in_network (IP True n) (net True (0xE000 * 2 ^ 112) 4) \<longleftrightarrow> g div 2 ^ 12 = 14"
    "in_network (IP True n) (net True (0xF000 * 2 ^ 112) 5) \<longleftrightarrow> g div 2 ^ 11 = 30"
    "in_network (IP True n) (net True (0xF800 * 2 ^ 112) 6) \<longleftrightarrow> g div 2 ^ 10 = 62"
    "in_network (IP True n) (net True (0xFE00 * 2 ^ 112) 9) \<longleftrightarrow> g div 2 ^ 7 = 0x1FC"
    by (rule r; simp)+
  show ?thesis unfolding is_reserved_def V6_RESERVED_def list.map prod.case list_ex_rules ip.sel if_True
    using nets[unfolded two_powers] by (simp del: power_numeral)
qed

lemma inside_blocks:
  fixes n :: nat
  defines "g \<equiv> n div 2 ^ 112"
  shows "n div 2 ^ 80 = 0x64FF9B0001 \<Longrightarrow> g div 256 = 0" "n div 2 ^ 64 = 0x100 * 2 ^ 48 \<Longrightarrow> g div 256 = 1" "n = 0 \<or> n = 1 \<Longrightarrow> g div 256 = 0"
    "n div 2 ^ 105 = 0x100080 \<Longrightarrow> g = 0x2001" "n div 2 ^ 105 = 0x100080 \<Longrightarrow> n div 2 ^ 96 \<noteq> 0x20010DB8"
proof -
  have "0x64FF9B0001 div 2 ^ 32 div 256 = (0 :: nat)" "0x100 * 2 ^ 48 div 2 ^ 48 div 256 = (1 :: nat)" "0x100080 div 2 ^ 7 = (0x2001 :: nat)"
    "0x20010DB8 div 2 ^ 9 \<noteq> (0x100080 :: nat)" by simp_all
  then show "n div 2 ^ 80 = 0x64FF9B0001 \<Longrightarrow> g div 256 = 0" "n div 2 ^ 64 = 0x100 * 2 ^ 48 \<Longrightarrow> g div 256 = 1"
    "n div 2 ^ 105 = 0x100080 \<Longrightarrow> g = 0x2001" "n div 2 ^ 105 = 0x100080 \<Longrightarrow> n div 2 ^ 96 \<noteq> 0x20010DB8"
    unfolding g_def using steps_down[of n] by metis+
  show "n = 0 \<or> n = 1 \<Longrightarrow> g div 256 = 0" unfolding g_def by auto
qed

lemma internal_v6:
  assumes "n < 2 ^ 128" "ipv4_mapped n = None"
  shows "is_internal_ip (IP True n) \<longleftrightarrow> \<not> public_v6 n"
proof -
  define g where "g = n div 2 ^ 112"
  have g: "g < 65536" using assms(1) by (simp add: g_def less_mult_imp_div_less)
  have u: "unmap_address (IP True n) = IP True n" using assms(2) by (simp add: unmap_address_def)
  have "n div 2 ^ 32 \<noteq> 0xFFFF" using assms(2) by (simp add: ipv4_mapped_def split: if_splits)
  then have priv: "is_private (IP True n) \<longleftrightarrow> (n = 1 \<or> n = 0 \<or> n div 2 ^ 80 = 0x64FF9B0001 \<or> n div 2 ^ 64 = 0x100 * 2 ^ 48
      \<or> n div 2 ^ 105 = 0x100080 \<or> n div 2 ^ 96 = 0x20010DB8 \<or> g = 0x2002 \<or> g div 512 = 126 \<or> g div 64 = 0x3FA) \<and> \<not> among (IP True n) V6_EXCEPTIONS"
    unfolding is_private_def ip.sel if_True assms(2) option.case v6_private g_def leading_of by (simp only: power_0 div_by_1 simp_thms)
  have link: "is_link_local (IP True n) \<longleftrightarrow> g div 64 = 0x3FA"
    unfolding is_link_local_def ip.sel if_True g_def leading_of[symmetric] by (rule in_net6) simp_all
  have multi: "is_multicast (IP True n) \<longleftrightarrow> g div 256 = 255"
    unfolding is_multicast_def ip.sel if_True g_def leading_of[symmetric] by (rule in_net6) simp_all
  have g1: "g = 0x2001 \<Longrightarrow> g div 8192 = 1 \<and> g \<noteq> 0x2002" by simp
  have g2: "g = 0x2002 \<or> n div 2 ^ 96 = 0x20010DB8 \<or> \<not> (g = 0x2002 \<or> n div 2 ^ 96 = 0x20010DB8)" by blast
  have internal: "is_internal_ip (IP True n) \<longleftrightarrow> is_private (IP True n) \<or> n = 1 \<or> g div 64 = 0x3FA \<or> is_reserved (IP True n) \<or> g div 256 = 255 \<or> n = 0"
    unfolding is_internal_ip_def u Let_def link multi by (simp only: is_loopback_def is_unspecified_def ip.sel if_True)
  have public: "public_v6 n \<longleftrightarrow> (g div 8192 = 1 \<or> g div 64 = 0x3FB) \<and> g \<noteq> 0x2002 \<and> n div 2 ^ 96 \<noteq> 0x20010DB8
      \<and> (n div 2 ^ 105 = 0x100080 \<longrightarrow> among (IP True n) V6_EXCEPTIONS)"
    unfolding public_v6_def leading_of g_def by (rule refl)
  show ?thesis unfolding internal priv public reserved_v6[of n, folded g_def]
    using leading_group[OF g] inside_blocks[of n, folded g_def] exceptions_inside[of n] g1 by satx
qed

section \<open>What the egress guard lets through\<close>

lemma unmap_bounded: "ip_num a < 2 ^ ip_bits (is_v6 a) \<Longrightarrow> ip_num (unmap_address a) < 2 ^ ip_bits (is_v6 (unmap_address a))"
  by (auto simp: unmap_address_def ipv4_mapped_def ip_bits_def split: option.splits if_splits)

lemma unmap_stable: "unmap_address (unmap_address a) = unmap_address a"
  by (auto simp: unmap_address_def split: option.splits)

lemma unmap_plain: "is_v6 (unmap_address a) \<Longrightarrow> ipv4_mapped (ip_num (unmap_address a)) = None"
  by (auto simp: unmap_address_def split: option.splits if_splits)

lemma internal_external:
  assumes "ip_num a < 2 ^ ip_bits (is_v6 a)"
  shows "is_internal_ip a \<longleftrightarrow> \<not> external a"
proof -
  obtain v n where u: "unmap_address a = IP v n" by (cases "unmap_address a")
  have "is_internal_ip a \<longleftrightarrow> is_internal_ip (IP v n)"
    unfolding is_internal_ip_def using unmap_stable[of a] by (simp only: u)
  moreover have "n < 2 ^ ip_bits v" using unmap_bounded[OF assms] by (simp only: u ip.sel)
  moreover have "v \<Longrightarrow> ipv4_mapped n = None" using unmap_plain[of a] by (simp only: u ip.sel)
  ultimately show ?thesis using internal_v4[of n] internal_v6[of n]
    by (cases v) (simp_all only: external_def u ip.case if_True if_False ip_bits_def simp_thms)
qed

lemma parse_ip_bounded: "parse_ip t = Some a \<Longrightarrow> ip_num a < 2 ^ ip_bits (is_v6 a)"
proof -
  assume a: "parse_ip t = Some a"
  show ?thesis
  proof (cases "parse_v4 t")
    case (Some n)
    with a parse_v4_chars(2)[OF Some] show ?thesis by (auto simp: parse_ip_def ip_bits_def)
  next
    case None
    with a obtain n sc where n: "parse_scoped t = Some (n, sc)" "CHR ''/'' \<notin> set t" "a = IP True n"
      by (auto simp: parse_ip_def split: if_splits option.splits)
    from parse_scoped_ok(1)[OF n(1,2)] n(3) show ?thesis by (simp only: ip.sel ip_bits_def if_True)
  qed
qed

lemma resolved_checked:
  "(\<not> list_ex (\<lambda>t. parse_ip t = None) texts \<and> \<not> list_ex (\<lambda>a. \<not> list_ex (in_network a) nets \<and> is_internal_ip a) (List.map_filter parse_ip texts))
     \<longleftrightarrow> list_all (\<lambda>t. case parse_ip t of None \<Rightarrow> False | Some a \<Rightarrow> external a \<or> list_ex (in_network a) nets) texts"
  by (induction texts) (auto simp: map_filter_simps internal_external[OF parse_ip_bounded] split: option.splits)


lemmas url_eval = urlsplit_def clean_url_def split_scheme_def partition_at_def ascii_alpha_def scheme_char_def ascii_digit_def lower_str_def
  split_netloc_def url_hostname_def host_info_def after_last_def ascii_lower_def char_of_eq_iff take_bit_nat_eq_self Let_def

lemma url_example: "urlsplit ''https://siem.io/in'' = Inr (''https'', ''siem.io'')" "url_hostname ''siem.io'' = Some ''siem.io''"
  "lower_str ''siem.io'' = ''siem.io''" "lower_str ''https'' = ''https''"
  by (simp_all add: url_eval)


text \<open>The former site-local block is let through, although no public host has such an address.\<close>

lemma site_local_let_through: "\<not> is_internal_ip (IP True (0xFEC0 * 2 ^ 112 + 1))"
proof -
  have "(0xFEC0 * 2 ^ 112 + 1) div 2 ^ 32 \<noteq> (65535 :: nat)" by simp
  then have m: "ipv4_mapped (0xFEC0 * 2 ^ 112 + 1) = None" by (simp only: ipv4_mapped_def if_False)
  have d: "(0xFEC0 * 2 ^ 112 + 1) div 2 ^ 118 = (0x3FB :: nat)" "(0xFEC0 * 2 ^ 112 + 1) div 2 ^ 112 \<noteq> (0x2002 :: nat)"
    "(0xFEC0 * 2 ^ 112 + 1) div 2 ^ 96 \<noteq> (0x20010DB8 :: nat)" "(0xFEC0 * 2 ^ 112 + 1) div 2 ^ 105 \<noteq> (0x100080 :: nat)" by simp_all
  have "(0xFEC0 * 2 ^ 112 + 1 :: nat) < 2 ^ 128" by simp
  from internal_v6[OF this m] show ?thesis unfolding public_v6_def using d by satx
qed

text \<open>The validator of provider addresses does not unmap: a private IPv4 address passes in its IPv6 spelling.\<close>

lemma mapped_not_listed: "\<not> list_ex (in_network (IP True (0xFFFF * 2 ^ 32 + 0x0A000001))) PRIVATE_NETS"
proof -
  define n :: nat where "n = 0xFFFF * 2 ^ 32 + 0x0A000001"
  have v4: "in_network (IP True n) (net False b p) \<longleftrightarrow> False" for b p by (simp add: in_network_def net_def)
  have v6: "n div 2 ^ 0 \<noteq> 1" "n div 2 ^ 121 \<noteq> 126" "n div 2 ^ 118 \<noteq> 0x3FA" by (simp_all add: n_def)
  have "in_network (IP True n) (net True 1 128) \<longleftrightarrow> n div 2 ^ 0 = 1" "in_network (IP True n) (net True (0xFC00 * 2 ^ 112) 7) \<longleftrightarrow> n div 2 ^ 121 = 126"
    "in_network (IP True n) (net True (0xFE80 * 2 ^ 112) 10) \<longleftrightarrow> n div 2 ^ 118 = 0x3FA" by (rule in_net6; simp)+
  with v6 show ?thesis unfolding PRIVATE_NETS_def n_def[symmetric] list_ex_rules v4 by satx
qed

end
