(* ===== verification/API_Keys.thy ===== *)
theory API_Keys
  imports Access_Scope Auth_Middleware
begin

text \<open>
  Administration of API keys (\<^verbatim>\<open>api/v1/endpoints/keys.py\<close>, \<^verbatim>\<open>db/repositories/api_key.py\<close>). The state is the tables of
  departments, applications, keys and administrative events, rows in insertion order; identifiers are kept as the texts
  \<^verbatim>\<open>str(uuid)\<close> gives. Random secrets and identifiers, SHA-256, the clock, the parsing of timestamps and whether an event row
  could be written are arguments. An exception before the commit leaves the tables as they were.
\<close>

section \<open>UUIDs\<close>

text \<open>\<^verbatim>\<open>s.replace(w, "")\<close>.\<close>

fun remove_all :: "nat \<Rightarrow> string \<Rightarrow> string \<Rightarrow> string" where
  "remove_all k w [] = []"
| "remove_all (Suc k) w (c # s) = remove_all k w s"
| "remove_all 0 w (c # s) = (if w \<noteq> [] \<and> startswith (c # s) w then remove_all (length w - 1) w s else c # remove_all 0 w s)"

definition strip_braces :: "string \<Rightarrow> string" where
  "strip_braces s = (let f = dropWhile (\<lambda>c. c \<in> {CHR ''{'', CHR ''}''}) in rev (f (rev (f s))))"

text \<open>\<^verbatim>\<open>int(s, 16)\<close>: blanks around, a sign, a prefix and single underscores between digits are allowed.\<close>

fun hex_digits :: "bool \<Rightarrow> nat \<Rightarrow> string \<Rightarrow> nat option" where
  "hex_digits after acc [] = (if after then Some acc else None)"
| "hex_digits after acc (c # s) =
     (if c = CHR ''_'' then (if after \<and> s \<noteq> [] then hex_digits False acc s else None)
      else (case hex_digit c of Some d \<Rightarrow> hex_digits True (16 * acc + d) s | None \<Rightarrow> None))"

definition parse_int16 :: "string \<Rightarrow> int option" where
  "parse_int16 s0 = (let s = strip_str s0; neg = startswith s ''-''; u = (if neg \<or> startswith s ''+'' then tl s else s);
       prefixed = (startswith u ''0x'' \<or> startswith u ''0X''); v = (if prefixed then drop 2 u else u);
       w = (if prefixed \<and> startswith v ''_'' then tl v else v)
     in map_option (\<lambda>n. if neg then - int n else int n) (hex_digits False 0 w))"

fun hex_padded :: "nat \<Rightarrow> nat \<Rightarrow> string" where
  "hex_padded 0 n = []"
| "hex_padded (Suc k) n = hex_padded k (n div 16) @ [char_of (if n mod 16 < 10 then n mod 16 + 48 else n mod 16 + 87)]"

definition uuid_text :: "nat \<Rightarrow> string" where
  "uuid_text n = (let h = hex_padded 32 n in take 8 h @ ''-'' @ take 4 (drop 8 h) @ ''-'' @ take 4 (drop 12 h) @ ''-'' @ take 4 (drop 16 h) @ ''-'' @ drop 20 h)"

text \<open>\<^verbatim>\<open>uuid.UUID(s)\<close>, as its canonical text.\<close>

definition parse_uuid :: "string \<Rightarrow> string py" where
  "parse_uuid s = (let hex = filter (\<lambda>c. c \<noteq> CHR ''-'') (strip_braces (remove_all 0 ''uuid:'' (remove_all 0 ''urn:'' s))) in
     if length hex \<noteq> 32 then Inl ValueError
     else (case parse_int16 hex of Some i \<Rightarrow> if 0 \<le> i \<and> i < 2 ^ 128 then Inr (uuid_text (nat i)) else Inl ValueError | None \<Rightarrow> Inl ValueError))"

section \<open>Tables\<close>

record dept_unit =
  ud_id :: string
  ud_tenant :: string
  ud_name :: string
  ud_active :: bool

record app_unit =
  ua_id :: string
  ua_tenant :: string
  ua_dept :: string
  ua_name :: string
  ua_active :: bool

record api_key =
  ak_key_id :: string
  ak_tenant :: string
  ak_dept :: "string option"
  ak_app :: "string option"
  ak_name :: string
  ak_hash :: string
  ak_type :: string
  ak_admin :: bool
  ak_revoked :: bool
  ak_expires :: "rat option"
  ak_last_used :: "rat option"
  ak_created :: rat
  ak_allowlist :: "string list option"

text \<open>An event \<^verbatim>\<open>key_allowlist_changed\<close>.\<close>

record key_event =
  kv_tenant :: string
  kv_actor :: string
  kv_dept :: "string option"
  kv_key :: string
  kv_change :: string
  kv_previous :: "string list"
  kv_current :: "string list"

record org =
  og_depts :: "dept_unit list"
  og_apps :: "app_unit list"
  og_keys :: "api_key list"
  og_events :: "key_event list"

definition dept_by_id :: "org \<Rightarrow> string \<Rightarrow> dept_unit option" where
  "dept_by_id s i = find (\<lambda>d. ud_id d = i \<and> ud_active d) (og_depts s)"

definition app_by_id :: "org \<Rightarrow> string \<Rightarrow> app_unit option" where
  "app_by_id s i = find (\<lambda>a. ua_id a = i \<and> ua_active a) (og_apps s)"

definition get_active_by_key_id :: "org \<Rightarrow> string \<Rightarrow> api_key option" where
  "get_active_by_key_id s i = find (\<lambda>k. ak_key_id k = i \<and> \<not> ak_revoked k) (og_keys s)"

definition key_by_hash :: "org \<Rightarrow> string \<Rightarrow> api_key option" where
  "key_by_hash s h = find (\<lambda>k. ak_hash k = h \<and> \<not> ak_revoked k) (og_keys s)"

definition update_keys :: "(api_key \<Rightarrow> bool) \<Rightarrow> (api_key \<Rightarrow> api_key) \<Rightarrow> org \<Rightarrow> org" where
  "update_keys P f s = s\<lparr>og_keys := map (\<lambda>k. if P k then f k else k) (og_keys s)\<rparr>"

text \<open>The constraints of the table: unique identifiers and hashes, foreign keys, and a department unless admin.\<close>

definition key_insertable :: "org \<Rightarrow> api_key \<Rightarrow> bool" where
  "key_insertable s k \<longleftrightarrow> list_all (\<lambda>x. ak_key_id x \<noteq> ak_key_id k \<and> ak_hash x \<noteq> ak_hash k) (og_keys s)
     \<and> (case ak_dept k of None \<Rightarrow> True | Some d \<Rightarrow> list_ex (\<lambda>u. ud_id u = d) (og_depts s))
     \<and> (case ak_app k of None \<Rightarrow> True | Some a \<Rightarrow> list_ex (\<lambda>u. ua_id u = a) (og_apps s))
     \<and> (ak_admin k \<or> ak_dept k \<noteq> None)"

definition insert_key :: "api_key \<Rightarrow> org \<Rightarrow> org py" where
  "insert_key k s = (if key_insertable s k then Inr (s\<lparr>og_keys := og_keys s @ [k]\<rparr>) else Inl (OtherError ''IntegrityError''))"

section \<open>Bodies\<close>

record key_body =
  kb_name :: string
  kb_dept :: "string option"
  kb_app :: "string option"
  kb_trial :: bool
  kb_expires :: "string option"
  kb_allowlist :: "string list option"

record key_update =
  ku_name :: string
  ku_allowlist :: "string list option"

definition valid_name :: "string \<Rightarrow> bool" where
  "valid_name n \<longleftrightarrow> 1 \<le> length n \<and> length n \<le> 100"

definition valid_uuid :: "string option \<Rightarrow> unit py" where
  "valid_uuid v = (case v of None \<Rightarrow> Inr () | Some t \<Rightarrow> py_bind (parse_uuid t) (\<lambda>_. Inr ()))"

definition valid_expires :: "(string \<Rightarrow> rat py) \<Rightarrow> string option \<Rightarrow> unit py" where
  "valid_expires parse_iso v = (case v of None \<Rightarrow> Inr () | Some t \<Rightarrow> (case parse_iso t of Inr _ \<Rightarrow> Inr () | Inl _ \<Rightarrow> Inl ValueError))"

definition valid_allowlist :: "string list option \<Rightarrow> string list option py" where
  "valid_allowlist v = (case v of None \<Rightarrow> Inr None | Some es \<Rightarrow> py_bind (normalize_entries (Some es)) (\<lambda>ns. Inr (Some ns)))"

text \<open>The body as the handler gets it: the allowlist is replaced by its canonical form.\<close>

definition validate_key_body :: "(string \<Rightarrow> rat py) \<Rightarrow> key_body \<Rightarrow> api_error + key_body" where
  "validate_key_body parse_iso b =
     (if \<not> valid_name (kb_name b) then Inl (Catalog ''VALIDATION_ERROR'')
      else (case py_bind (valid_uuid (kb_dept b)) (\<lambda>_. py_bind (valid_uuid (kb_app b)) (\<lambda>_.
               py_bind (valid_expires parse_iso (kb_expires b)) (\<lambda>_. valid_allowlist (kb_allowlist b)))) of
          Inl _ \<Rightarrow> Inl (Catalog ''VALIDATION_ERROR'')
        | Inr l \<Rightarrow> Inr (b\<lparr>kb_allowlist := l\<rparr>)))"

definition validate_key_update :: "key_update \<Rightarrow> api_error + key_update" where
  "validate_key_update b =
     (if \<not> valid_name (ku_name b) then Inl (Catalog ''VALIDATION_ERROR'')
      else (case valid_allowlist (ku_allowlist b) of Inl _ \<Rightarrow> Inl (Catalog ''VALIDATION_ERROR'') | Inr l \<Rightarrow> Inr (b\<lparr>ku_allowlist := l\<rparr>)))"

section \<open>Administrative events\<close>

record key_env =
  ne_now :: rat
  ne_sha256 :: "string \<Rightarrow> string"
  ne_parse_iso :: "string \<Rightarrow> rat py"
  ne_secret :: string
  ne_id_hex :: string
  ne_event_written :: bool

text \<open>Best effort: what goes wrong here is logged and forgotten.\<close>

definition record_allowlist_change :: "key_env \<Rightarrow> api_caller \<Rightarrow> principal \<Rightarrow> string \<Rightarrow> string option \<Rightarrow> string list option \<Rightarrow>
    string list option \<Rightarrow> org \<Rightarrow> org" where
  "record_allowlist_change E c p key_id dept previous current s =
     (let before = str_or previous []; after = str_or current [] in
      if before = after then s
      else (case (parse_uuid (if_none (cl_tenant_id c) []), parse_uuid (remove_all 0 ''user:'' (pr_id p))) of
          (Inr t, Inr a) \<Rightarrow> if ne_event_written E
            then s\<lparr>og_events := og_events s @ [\<lparr>kv_tenant = t, kv_actor = a, kv_dept = dept, kv_key = key_id,
                   kv_change = (if before = [] then ''added'' else if after = [] then ''removed'' else ''changed''),
                   kv_previous = before, kv_current = after\<rparr>]\<rparr>
            else s
        | _ \<Rightarrow> s))"

section \<open>Creation\<close>

definition generate_api_key :: "string \<Rightarrow> string \<Rightarrow> string" where
  "generate_api_key key_type secret = (if key_type = ''trial'' then ''wsk_trial_'' else ''wsk_live_'') @ secret"

definition generate_key_id :: "string \<Rightarrow> string" where
  "generate_key_id hex = ''key_'' @ hex"

definition raised :: "'a py \<Rightarrow> api_error + 'a" where
  "raised m = (case m of Inl e \<Rightarrow> Inl (Crash (Raised e)) | Inr x \<Rightarrow> Inr x)"

text \<open>Application, department and tenant of a new key.\<close>

definition new_key_scope :: "api_caller \<Rightarrow> key_body \<Rightarrow> org \<Rightarrow> api_error + (string option \<times> string option \<times> string)" where
  "new_key_scope c b s =
     (if truthy (kb_app b) then and_then (raised (parse_uuid (the (kb_app b)))) (\<lambda>i. case app_by_id s i of
          None \<Rightarrow> Inl (Catalog ''NOT_FOUND'')
        | Some a \<Rightarrow> if Some (ua_tenant a) \<noteq> cl_tenant_id c then Inl (Catalog ''NOT_FOUND'') else Inr (Some (ua_id a), Some (ua_dept a), ua_tenant a))
      else if truthy (kb_dept b) then and_then (raised (parse_uuid (the (kb_dept b)))) (\<lambda>i. case dept_by_id s i of
          None \<Rightarrow> Inl (Catalog ''NOT_FOUND'')
        | Some d \<Rightarrow> if Some (ud_tenant d) \<noteq> cl_tenant_id c then Inl (Catalog ''NOT_FOUND'') else Inr (None, Some (ud_id d), ud_tenant d))
      else and_then (raised (parse_uuid (the (cl_tenant_id c)))) (\<lambda>t.
        if truthy (cl_dept_id c) then and_then (raised (parse_uuid (the (cl_dept_id c)))) (\<lambda>d. Inr (None, Some d, t))
        else Inr (None, None, t)))"

text \<open>Everything up to the flush: the row, its secret and the tables with it.\<close>

definition prepare_key :: "key_env \<Rightarrow> api_caller \<Rightarrow> key_body \<Rightarrow> org \<Rightarrow> api_error + (principal \<times> api_key \<times> string \<times> org)" where
  "prepare_key E c b0 s =
     and_then (require_admin c) (\<lambda>p. and_then (validate_key_body (ne_parse_iso E) b0) (\<lambda>b.
         if \<not> truthy (cl_tenant_id c) then Inl (Catalog ''FORBIDDEN'')
         else and_then (new_key_scope c b s) (\<lambda>(app, dept, tenant).
           if dept = None then Inl (Catalog ''VALIDATION_ERROR'')
           else let key_type = (if kb_trial b then ''trial'' else ''live''); secret = generate_api_key key_type (ne_secret E) in
             and_then (raised (if truthy (kb_expires b) then py_bind (ne_parse_iso E (the (kb_expires b))) (\<lambda>t. Inr (Some t)) else Inr None)) (\<lambda>expires.
               let k = \<lparr>ak_key_id = generate_key_id (ne_id_hex E), ak_tenant = tenant, ak_dept = dept, ak_app = app, ak_name = kb_name b,
                        ak_hash = ne_sha256 E secret, ak_type = key_type, ak_admin = False, ak_revoked = False, ak_expires = expires,
                        ak_last_used = None, ak_created = ne_now E,
                        ak_allowlist = (if truthy (kb_allowlist b) then kb_allowlist b else None)\<rparr>
               in and_then (raised (insert_key k s)) (\<lambda>s'. Inr (p, k, secret, s'))))))"

text \<open>The stored row and, once, the secret.\<close>

definition create_key :: "key_env \<Rightarrow> api_caller \<Rightarrow> key_body \<Rightarrow> org \<Rightarrow> org \<times> (api_error + api_key \<times> string)" where
  "create_key E c b0 s =
     (case prepare_key E c b0 s of
        Inl e \<Rightarrow> (s, Inl e)
      | Inr (p, k, secret, s') \<Rightarrow>
          (if truthy (ak_allowlist k) then record_allowlist_change E c p (ak_key_id k) (ak_dept k) None (ak_allowlist k) s' else s', Inr (k, secret)))"

section \<open>Reading\<close>

record key_view =
  vk_key_id :: string
  vk_name :: string
  vk_app :: "string option"
  vk_dept :: "string option"
  vk_dept_name :: "string option"
  vk_app_name :: "string option"
  vk_type :: string
  vk_created :: rat
  vk_expires :: "rat option"
  vk_last_used :: "rat option"

definition view_key :: "org \<Rightarrow> api_key \<Rightarrow> key_view" where
  "view_key s k = \<lparr>vk_key_id = ak_key_id k, vk_name = ak_name k, vk_app = ak_app k, vk_dept = ak_dept k,
     vk_dept_name = (case ak_dept k of None \<Rightarrow> None | Some d \<Rightarrow> map_option ud_name (dept_by_id s d)),
     vk_app_name = (case ak_app k of None \<Rightarrow> None | Some a \<Rightarrow> map_option ua_name (app_by_id s a)),
     vk_type = (if ak_type k = [] then ''live'' else ak_type k), vk_created = ak_created k, vk_expires = ak_expires k, vk_last_used = ak_last_used k\<rparr>"

text \<open>Newest first, at most a thousand before the filters.\<close>

definition list_active :: "string option \<Rightarrow> org \<Rightarrow> api_key list" where
  "list_active tenant s = take 1000 (rev (sort_key ak_created (filter (\<lambda>k. \<not> ak_revoked k
     \<and> (case tenant of None \<Rightarrow> True | Some t \<Rightarrow> ak_tenant k = t)) (og_keys s))))"

definition confined :: "api_caller \<Rightarrow> bool" where
  "confined c \<longleftrightarrow> \<not> cl_is_admin c \<and> truthy (cl_dept_id c)"

definition list_keys :: "key_env \<Rightarrow> api_caller \<Rightarrow> org \<Rightarrow> api_error + key_view list" where
  "list_keys E c s = and_then (principal_from_state c) (\<lambda>_.
     and_then (raised (if truthy (cl_tenant_id c) then py_bind (parse_uuid (the (cl_tenant_id c))) (\<lambda>t. Inr (Some t)) else Inr None)) (\<lambda>tenant.
       let live = filter (\<lambda>k. case ak_expires k of None \<Rightarrow> True | Some e \<Rightarrow> e > ne_now E) (list_active tenant s);
           mine = (if confined c then filter (\<lambda>k. ak_dept k = cl_dept_id c) live else live)
       in Inr (map (view_key s) mine)))"

text \<open>A key of another tenant, like one that does not exist, is not found.\<close>

definition own_key :: "api_caller \<Rightarrow> string \<Rightarrow> org \<Rightarrow> api_error + api_key" where
  "own_key c key_id s = (case get_active_by_key_id s key_id of
     None \<Rightarrow> Inl (Catalog ''NOT_FOUND'')
   | Some k \<Rightarrow> if Some (ak_tenant k) \<noteq> cl_tenant_id c then Inl (Catalog ''NOT_FOUND'') else Inr k)"

text \<open>The networks are shown to administrators only.\<close>

definition get_key :: "api_caller \<Rightarrow> string \<Rightarrow> org \<Rightarrow> api_error + api_key \<times> string list option" where
  "get_key c key_id s = and_then (principal_from_state c) (\<lambda>_. and_then (own_key c key_id s) (\<lambda>k.
     if confined c \<and> ak_dept k \<noteq> cl_dept_id c then Inl (Catalog ''NOT_FOUND'')
     else Inr (k, if cl_is_admin c then Some (str_or (ak_allowlist k) []) else None)))"

section \<open>Changes\<close>

definition update_key :: "key_env \<Rightarrow> api_caller \<Rightarrow> string \<Rightarrow> key_update \<Rightarrow> org \<Rightarrow> org \<times> (api_error + api_key)" where
  "update_key E c key_id b0 s =
     (case and_then (require_admin c) (\<lambda>p. and_then (validate_key_update b0) (\<lambda>b. and_then (own_key c key_id s) (\<lambda>k. Inr (p, b, k)))) of
        Inl e \<Rightarrow> (s, Inl e)
      | Inr (p, b, k) \<Rightarrow>
          let stored = (case ku_allowlist b of None \<Rightarrow> ak_allowlist k | Some l \<Rightarrow> if l = [] then None else Some l);
              k' = k\<lparr>ak_name := ku_name b, ak_allowlist := stored\<rparr>;
              s' = update_keys (\<lambda>x. ak_key_id x = key_id \<and> \<not> ak_revoked x) (\<lambda>_. k') s
          in (if ku_allowlist b = None then s'
              else record_allowlist_change E c p key_id (ak_dept k) (Some (str_or (ak_allowlist k) [])) (ku_allowlist b) s', Inr k'))"

text \<open>The flag of the answer says whether the key still had an expiry, read as a rotation in its grace period.\<close>

definition delete_key :: "api_caller \<Rightarrow> string \<Rightarrow> org \<Rightarrow> org \<times> (api_error + bool)" where
  "delete_key c key_id s =
     (case and_then (require_admin c) (\<lambda>_. own_key c key_id s) of
        Inl e \<Rightarrow> (s, Inl e)
      | Inr k \<Rightarrow> (update_keys (\<lambda>x. ak_key_id x = key_id \<and> \<not> ak_revoked x) (\<lambda>x. x\<lparr>ak_revoked := True\<rparr>) s, Inr (ak_expires k \<noteq> None)))"

definition prepare_rotation :: "key_env \<Rightarrow> api_caller \<Rightarrow> string \<Rightarrow> int \<Rightarrow> org \<Rightarrow>
    api_error + (principal \<times> api_key \<times> api_key \<times> string \<times> org)" where
  "prepare_rotation E c key_id minutes s =
     and_then (require_admin c) (\<lambda>p.
         if minutes < 0 \<or> 10080 < minutes then Inl (Catalog ''VALIDATION_ERROR'')
         else and_then (own_key c key_id s) (\<lambda>k. case ak_expires k of
             Some e \<Rightarrow> Inl (Catalog (if e > ne_now E then ''KEY_IN_GRACE_PERIOD'' else ''KEY_EXPIRED''))
           | None \<Rightarrow>
               let key_type = (if ak_type k = [] then ''live'' else ak_type k); secret = generate_api_key key_type (ne_secret E);
                   new = \<lparr>ak_key_id = generate_key_id (ne_id_hex E), ak_tenant = ak_tenant k, ak_dept = ak_dept k, ak_app = ak_app k,
                          ak_name = ak_name k, ak_hash = ne_sha256 E secret, ak_type = key_type, ak_admin = ak_admin k, ak_revoked = False,
                          ak_expires = None, ak_last_used = None, ak_created = ne_now E,
                          ak_allowlist = (if truthy (ak_allowlist k) then ak_allowlist k else None)\<rparr>
               in and_then (raised (insert_key new s)) (\<lambda>s'. Inr (p, k, new, secret, s'))))"

text \<open>The new row with its secret, and the end of the old key's grace period.\<close>

definition rotate_key :: "key_env \<Rightarrow> api_caller \<Rightarrow> string \<Rightarrow> int \<Rightarrow> org \<Rightarrow> org \<times> (api_error + api_key \<times> string \<times> rat)" where
  "rotate_key E c key_id minutes s =
     (case prepare_rotation E c key_id minutes s of
        Inl e \<Rightarrow> (s, Inl e)
      | Inr (p, k, new, secret, s') \<Rightarrow>
          let grace = ne_now E + 60 * of_int minutes;
              s'' = update_keys (\<lambda>x. ak_key_id x = key_id \<and> \<not> ak_revoked x) (\<lambda>x. x\<lparr>ak_expires := Some grace\<rparr>) s'
          in (if truthy (ak_allowlist new) then record_allowlist_change E c p (ak_key_id new) (ak_dept k) None (ak_allowlist new) s'' else s'',
              Inr (new, secret, grace)))"

section \<open>What the authentication middleware reads\<close>

definition key_row_of :: "api_key \<Rightarrow> key_row" where
  "key_row_of k = \<lparr>ky_key_id = ak_key_id k, ky_revoked = ak_revoked k, ky_expires_at = ak_expires k, ky_app_id = ak_app k,
     ky_dept_id = ak_dept k, ky_tenant_id = Some (ak_tenant k), ky_ip_allowlist = ak_allowlist k\<rparr>"

definition served_keys :: "org \<Rightarrow> string \<Rightarrow> key_row option py" where
  "served_keys s h = Inr (map_option key_row_of (key_by_hash s h))"

end
