(* ===== verification/API_Key_Facts.thy ===== *)
theory API_Key_Facts
  imports API_Keys Auth_Facts
begin

text \<open>
  What the administration of keys guarantees over any history of changes: a key that authenticates belongs to the
  department and tenant it was made for, a key that was revoked or ran out never comes back, and rotation hands on
  exactly the scope and the networks of the old key.
\<close>

section \<open>Histories\<close>

text \<open>
  The department of a caller is one of its tenant, and both are canonical texts: the middleware takes them from stored rows.
\<close>

definition caller_ok :: "org \<Rightarrow> api_caller \<Rightarrow> bool" where
  "caller_ok s c \<longleftrightarrow> (case cl_tenant_id c of None \<Rightarrow> True | Some t \<Rightarrow> t \<noteq> [] \<longrightarrow> parse_uuid t = Inr t)
     \<and> (case cl_dept_id c of None \<Rightarrow> True | Some d \<Rightarrow> d \<noteq> [] \<longrightarrow> parse_uuid d = Inr d
          \<and> (\<exists>u\<in>set (og_depts s). ud_id u = d \<and> Some (ud_tenant u) = cl_tenant_id c))"

inductive key_step :: "org \<Rightarrow> org \<Rightarrow> bool" where
  created: "caller_ok s c \<Longrightarrow> key_step s (fst (create_key E c b s))"
| updated: "key_step s (fst (update_key E c i u s))"
| deleted: "key_step s (fst (delete_key c i s))"
| rotated: "key_step s (fst (rotate_key E c i m s))"
| used: "key_step s (update_keys (\<lambda>k. ak_hash k = h) (\<lambda>k. k\<lparr>ak_last_used := Some now\<rparr>) s)"

inductive_cases key_stepE: "key_step s s'"

section \<open>What a change does to the rows\<close>

definition key_scoped :: "org \<Rightarrow> api_key \<Rightarrow> bool" where
  "key_scoped s k \<longleftrightarrow>
     (case ak_dept k of None \<Rightarrow> ak_admin k | Some d \<Rightarrow> \<exists>u\<in>set (og_depts s). ud_id u = d \<and> ud_tenant u = ak_tenant k)
     \<and> (case ak_app k of None \<Rightarrow> True | Some a \<Rightarrow> \<exists>u\<in>set (og_apps s). ua_id u = a \<and> ua_tenant u = ak_tenant k \<and> Some (ua_dept u) = ak_dept k)"

lemma key_scoped_cong:
  assumes "ak_tenant a = ak_tenant b" "ak_dept a = ak_dept b" "ak_app a = ak_app b" "ak_admin a = ak_admin b"
  shows "key_scoped s a \<longleftrightarrow> key_scoped s b"
  unfolding key_scoped_def assms by (rule refl)

definition org_ok :: "org \<Rightarrow> bool" where
  "org_ok s \<longleftrightarrow> distinct (map ak_key_id (og_keys s)) \<and> distinct (map ak_hash (og_keys s)) \<and> (\<forall>k\<in>set (og_keys s). key_scoped s k)
     \<and> (\<forall>a\<in>set (og_apps s). \<exists>d\<in>set (og_depts s). ud_id d = ua_dept a \<and> ud_tenant d = ua_tenant a)"

text \<open>A row changes only in name, networks, last use, by being revoked, or by getting an expiry it did not have.\<close>

definition evolves :: "api_key \<Rightarrow> api_key \<Rightarrow> bool" where
  "evolves k k' \<longleftrightarrow> ak_key_id k' = ak_key_id k \<and> ak_hash k' = ak_hash k \<and> ak_tenant k' = ak_tenant k \<and> ak_dept k' = ak_dept k
     \<and> ak_app k' = ak_app k \<and> ak_admin k' = ak_admin k \<and> ak_type k' = ak_type k \<and> (ak_revoked k \<longrightarrow> ak_revoked k')
     \<and> (ak_expires k \<noteq> None \<longrightarrow> ak_expires k' = ak_expires k)"

lemma evolves_refl: "evolves k k"
  by (simp add: evolves_def)

lemma evolves_trans: "evolves a b \<Longrightarrow> evolves b c \<Longrightarrow> evolves a c"
  by (auto simp: evolves_def)

text \<open>A change evolves the rows in place and may add one new, scoped row with fresh names.\<close>

definition changes_to :: "org \<Rightarrow> org \<Rightarrow> bool" where
  "changes_to s s' \<longleftrightarrow> og_depts s' = og_depts s \<and> og_apps s' = og_apps s \<and> (\<exists>f new. og_keys s' = map f (og_keys s) @ new
     \<and> (\<forall>k\<in>set (og_keys s). evolves k (f k)) \<and> (new = [] \<or> (\<exists>k. new = [k] \<and> key_scoped s k
          \<and> (\<forall>x\<in>set (og_keys s). ak_key_id x \<noteq> ak_key_id k \<and> ak_hash x \<noteq> ak_hash k))))"

lemma changes_refl: "changes_to s s"
  unfolding changes_to_def by (auto intro!: exI[of _ id] exI[of _ "[]"] simp: evolves_refl)

lemma record_change_frame [simp]:
  "og_keys (record_allowlist_change E c p i d prev cur s) = og_keys s" "og_depts (record_allowlist_change E c p i d prev cur s) = og_depts s"
  "og_apps (record_allowlist_change E c p i d prev cur s) = og_apps s"
  by (simp_all add: record_allowlist_change_def Let_def split: sum.split)

lemma update_keys_changes: "(\<And>k. k \<in> set (og_keys s) \<Longrightarrow> P k \<Longrightarrow> evolves k (f k)) \<Longrightarrow> changes_to s (update_keys P f s)"
  unfolding changes_to_def update_keys_def
  by (auto intro!: exI[of _ "\<lambda>k. if P k then f k else k"] exI[of _ "[]"] simp: evolves_refl)

lemma changes_cong: "changes_to s a \<Longrightarrow> og_keys b = og_keys a \<Longrightarrow> og_depts b = og_depts a \<Longrightarrow> og_apps b = og_apps a \<Longrightarrow> changes_to s b"
  by (simp add: changes_to_def)

lemma changes_record [simp]: "changes_to s (record_allowlist_change E c p i d prev cur t) \<longleftrightarrow> changes_to s t"
  by (simp add: changes_to_def)

lemma own_keyD: "own_key c i s = Inr k \<Longrightarrow> k \<in> set (og_keys s) \<and> ak_key_id k = i \<and> \<not> ak_revoked k \<and> cl_tenant_id c = Some (ak_tenant k)"
  by (auto simp: own_key_def get_active_by_key_id_def find_Some_iff split: option.splits if_splits)

lemma raised_Inr: "raised m = Inr x \<longleftrightarrow> m = Inr x"
  by (cases m) (simp_all add: raised_def)

lemma insert_key_Inr: "insert_key k s = Inr s' \<longleftrightarrow> key_insertable s k \<and> s' = s\<lparr>og_keys := og_keys s @ [k]\<rparr>"
  by (auto simp: insert_key_def)

lemma unique_row: "distinct (map g xs) \<Longrightarrow> a \<in> set xs \<Longrightarrow> b \<in> set xs \<Longrightarrow> g a = g b \<Longrightarrow> a = b"
  by (metis distinct_map inj_on_def)

lemma update_key_changes:
  assumes "org_ok s"
  shows "changes_to s (fst (update_key E c i u s))"
proof (cases "and_then (require_admin c) (\<lambda>p. and_then (validate_key_update u) (\<lambda>b. and_then (own_key c i s) (\<lambda>k. Inr (p, b, k))))")
  case (Inr x)
  obtain p b k where x: "x = (p, b, k)" by (cases x)
  have k: "own_key c i s = Inr k" using Inr by (auto simp: x and_then_Inr)
  have same: "y = k" if "y \<in> set (og_keys s)" "ak_key_id y = i" for y
    using unique_row[of ak_key_id "og_keys s" y k] that own_keyD[OF k] assms by (simp add: org_ok_def)
  have "changes_to s (update_keys (\<lambda>x. ak_key_id x = i \<and> \<not> ak_revoked x) (\<lambda>_. k') s)" if "evolves k k'" for k'
    by (rule update_keys_changes) (use same that in blast)
  then show ?thesis using Inr by (simp add: update_key_def x Let_def evolves_def)
qed (simp add: update_key_def changes_refl)

lemma delete_key_changes: "changes_to s (fst (delete_key c i s))"
  by (auto simp: delete_key_def changes_refl evolves_def intro!: update_keys_changes split: sum.split)

lemma used_changes: "changes_to s (update_keys (\<lambda>k. ak_hash k = h) (\<lambda>k. k\<lparr>ak_last_used := Some now\<rparr>) s)"
  by (intro update_keys_changes) (simp add: evolves_def)

lemma insert_changes:
  assumes "insert_key k s = Inr s'" "key_scoped s k" "og_keys t = map f (og_keys s) @ [k]" "og_depts t = og_depts s" "og_apps t = og_apps s"
    "\<And>x. x \<in> set (og_keys s) \<Longrightarrow> evolves x (f x)"
  shows "changes_to s t"
  unfolding changes_to_def using assms
  by (intro conjI exI[of _ f] exI[of _ "[k]"]) (auto simp: insert_key_Inr key_insertable_def list_all_iff)

lemma new_scope_ok:
  assumes "new_key_scope c b s = Inr (app, Some dept, tenant)" "truthy (cl_tenant_id c)" "caller_ok s c" "org_ok s"
    "ak_tenant k = tenant" "ak_dept k = Some dept" "ak_app k = app"
  shows "key_scoped s k \<and> cl_tenant_id c = Some tenant"
proof -
  have find: "u \<in> set (og_apps s)" "ua_id u = i" if "app_by_id s i = Some u" for u i using that by (auto simp: app_by_id_def find_Some_iff)
  have findd: "u \<in> set (og_depts s)" "ud_id u = i" if "dept_by_id s i = Some u" for u i using that by (auto simp: dept_by_id_def find_Some_iff)
  consider "truthy (kb_app b)" | "\<not> truthy (kb_app b)" "truthy (kb_dept b)" | "\<not> truthy (kb_app b)" "\<not> truthy (kb_dept b)" by blast
  then show ?thesis
  proof cases
    case 1
    then obtain i a where "app_by_id s i = Some a" "Some (ua_tenant a) = cl_tenant_id c" "app = Some (ua_id a)" "dept = ua_dept a" "tenant = ua_tenant a"
      using assms(1) by (auto simp: new_key_scope_def and_then_Inr split: option.splits if_splits)
    then show ?thesis using find assms(4-7) by (fastforce simp: key_scoped_def org_ok_def)
  next
    case 2
    then obtain i d where "dept_by_id s i = Some d" "Some (ud_tenant d) = cl_tenant_id c" "app = None" "dept = ud_id d" "tenant = ud_tenant d"
      using assms(1) by (auto simp: new_key_scope_def and_then_Inr split: option.splits if_splits)
    then show ?thesis using findd assms(5-7) by (fastforce simp: key_scoped_def)
  next
    case 3
    then show ?thesis using assms
      by (auto simp: new_key_scope_def and_then_Inr raised_Inr key_scoped_def caller_ok_def truthy_def split: if_splits option.splits)
  qed
qed


lemma create_key_changes:
  assumes "caller_ok s c" "org_ok s"
  shows "changes_to s (fst (create_key E c b0 s))"
proof (cases "prepare_key E c b0 s")
  case (Inr x)
  obtain p k secret s' where x: "x = (p, k, secret, s')" by (cases x)
  obtain b app dept tenant where
    scope: "new_key_scope c b s = Inr (app, dept, tenant)" "truthy (cl_tenant_id c)" "dept \<noteq> None"
    and k: "ak_tenant k = tenant" "ak_dept k = dept" "ak_app k = app" and ins: "insert_key k s = Inr s'"
    using Inr unfolding x prepare_key_def by (auto simp: and_then_Inr raised_Inr Let_def split: if_splits)
  have res: "og_keys (fst (create_key E c b0 s)) = og_keys s'" "og_depts (fst (create_key E c b0 s)) = og_depts s'"
    "og_apps (fst (create_key E c b0 s)) = og_apps s'" by (simp_all add: create_key_def Inr x)
  from scope(3) obtain d where d: "dept = Some d" by blast
  have "key_scoped s k" using new_scope_ok[OF scope(1)[unfolded d] scope(2) assms k(1) k(2)[unfolded d] k(3)] by simp
  then show ?thesis by (rule insert_changes[OF ins, where f = id]) (use ins res in \<open>auto simp: insert_key_Inr evolves_refl\<close>)
qed (simp add: create_key_def changes_refl)

lemma rotate_key_changes:
  assumes "org_ok s"
  shows "changes_to s (fst (rotate_key E c i m s))"
proof (cases "prepare_rotation E c i m s")
  case (Inr x)
  let ?f = "\<lambda>y. if ak_key_id y = i \<and> \<not> ak_revoked y then y\<lparr>ak_expires := Some (ne_now E + 60 * of_int m)\<rparr> else y"
  obtain p k new secret s' where x: "x = (p, k, new, secret, s')" by (cases x)
  have k: "own_key c i s = Inr k" "ak_expires k = None"
    and new: "ak_tenant new = ak_tenant k" "ak_dept new = ak_dept k" "ak_app new = ak_app k" "ak_admin new = ak_admin k"
    and ins: "insert_key new s = Inr s'"
    using Inr unfolding x prepare_rotation_def by (auto simp: and_then_Inr raised_Inr Let_def split: if_splits option.splits)
  have res: "og_keys (fst (rotate_key E c i m s)) = map ?f (og_keys s')" "og_depts (fst (rotate_key E c i m s)) = og_depts s'"
    "og_apps (fst (rotate_key E c i m s)) = og_apps s'" by (simp_all add: rotate_key_def Inr x Let_def update_keys_def)
  have old: "k \<in> set (og_keys s)" "ak_key_id k = i" using own_keyD[OF k(1)] by simp_all
  have "key_scoped s k" using old assms by (simp add: org_ok_def)
  then have "key_scoped s new" using key_scoped_cong[OF new] by simp
  moreover have "ak_key_id new \<noteq> i" using ins old by (auto simp: insert_key_Inr key_insertable_def list_all_iff)
  moreover have "evolves y (?f y)" if "y \<in> set (og_keys s)" for y
    using unique_row[of ak_key_id "og_keys s" y k] that old k(2) assms by (auto simp: org_ok_def evolves_def)
  ultimately show ?thesis by (intro insert_changes[OF ins, where f = ?f]) (use ins res in \<open>auto simp: insert_key_Inr\<close>)
qed (simp add: rotate_key_def changes_refl)

lemma key_step_changes: "key_step s s' \<Longrightarrow> org_ok s \<Longrightarrow> changes_to s s'"
  by (erule key_stepE) (auto intro: create_key_changes update_key_changes delete_key_changes rotate_key_changes used_changes)

section \<open>Invariants of histories\<close>

lemma changes_keep_ok:
  assumes "changes_to s s'" "org_ok s"
  shows "org_ok s'"
proof -
  obtain f new where s': "og_keys s' = map f (og_keys s) @ new" "\<forall>k\<in>set (og_keys s). evolves k (f k)"
    and new: "new = [] \<or> (\<exists>k. new = [k] \<and> key_scoped s k \<and> (\<forall>x\<in>set (og_keys s). ak_key_id x \<noteq> ak_key_id k \<and> ak_hash x \<noteq> ak_hash k))"
    and units: "og_depts s' = og_depts s" "og_apps s' = og_apps s" using assms(1) by (auto simp: changes_to_def)
  have scoped: "key_scoped s' k \<longleftrightarrow> key_scoped s k" for k unfolding key_scoped_def units by (rule refl)
  have ids: "map (g \<circ> f) (og_keys s) = map g (og_keys s)" if "\<And>k k'. evolves k k' \<Longrightarrow> g k' = g k" for g :: "api_key \<Rightarrow> string"
    using s'(2) that by simp
  have "ak_key_id k' = ak_key_id k \<and> ak_hash k' = ak_hash k" if "evolves k k'" for k k' using that by (simp add: evolves_def)
  then have "map ak_key_id (og_keys s') = map ak_key_id (og_keys s) @ map ak_key_id new"
    "map ak_hash (og_keys s') = map ak_hash (og_keys s) @ map ak_hash new" using ids s'(1) by simp_all
  then have "distinct (map ak_key_id (og_keys s'))" "distinct (map ak_hash (og_keys s'))" using assms(2) new by (auto simp: org_ok_def)
  moreover have "key_scoped s (f k)" if "k \<in> set (og_keys s)" for k
    using s'(2) that assms(2) key_scoped_cong[of "f k" k s] by (simp add: org_ok_def evolves_def)
  then have "\<forall>k\<in>set (og_keys s'). key_scoped s' k" using s'(1) new by (auto simp: scoped)
  ultimately show ?thesis using assms(2) by (simp add: org_ok_def units)
qed

lemma changes_evolve: "changes_to s s' \<Longrightarrow> k \<in> set (og_keys s) \<Longrightarrow> \<exists>k'\<in>set (og_keys s'). evolves k k'"
  by (auto simp: changes_to_def)

lemma history_ok: "key_step\<^sup>*\<^sup>* s s' \<Longrightarrow> org_ok s \<Longrightarrow> org_ok s'"
  by (induction rule: rtranclp_induct) (auto intro: changes_keep_ok key_step_changes)

lemma history_evolves: "key_step\<^sup>*\<^sup>* s s' \<Longrightarrow> org_ok s \<Longrightarrow> k \<in> set (og_keys s) \<Longrightarrow> \<exists>k'\<in>set (og_keys s'). evolves k k'"
proof (induction rule: rtranclp_induct)
  case base
  then show ?case using evolves_refl by blast
next
  case (step y z)
  from step obtain k' where k': "k' \<in> set (og_keys y)" "evolves k k'" by blast
  from changes_evolve[OF key_step_changes[OF step(2) history_ok[OF step(1) step(4)]] k'(1)] k'(2) show ?case using evolves_trans by blast
qed

section \<open>Keys that authenticate\<close>

lemma served_row:
  assumes "served_keys s h = Inr (Some row)"
  shows "\<exists>k\<in>set (og_keys s). row = key_row_of k \<and> ak_hash k = h \<and> \<not> ak_revoked k"
  using assms by (auto simp: served_keys_def key_by_hash_def find_Some_iff)

lemma accepted_key_row:
  assumes "ae_keys E = served_keys s" "authenticate_api_key E now q key r = (r', Accepted st)" "key \<noteq> ae_admin_key E"
  shows "\<exists>k\<in>set (og_keys s). ak_hash k = ae_sha256 E key \<and> \<not> ak_revoked k \<and> (case ak_expires k of None \<Rightarrow> True | Some e \<Rightarrow> now \<le> e)
     \<and> is_allowed (Some (aq_ip q)) (ak_allowlist k) \<and> st_tenant_id st = Some (ak_tenant k) \<and> st_dept_id st = ak_dept k
     \<and> st_app_id st = ak_app k \<and> \<not> st_is_admin st"
proof -
  obtain row where row: "get_standard_key E now key = Some row" "is_allowed (Some (aq_ip q)) (ky_ip_allowlist row)"
    "st_tenant_id st = ky_tenant_id row" "st_dept_id st = ky_dept_id row" "st_app_id st = ky_app_id row" "\<not> st_is_admin st"
    using assms(2,3) is_allowed_off by (auto simp: authenticate_api_key_def split: if_splits option.splits prod.splits)
  note usable = get_standard_key_usable[OF row(1)]
  then have "served_keys s (ae_sha256 E key) = Inr (Some row)" using assms(1) by simp
  from served_row[OF this] obtain k where "k \<in> set (og_keys s)" "row = key_row_of k" "ak_hash k = ae_sha256 E key" "\<not> ak_revoked k" by blast
  then show ?thesis using row usable by (intro bexI[of _ k]) (simp_all add: key_row_of_def)
qed

text \<open>C24: Whatever administrators created, changed, revoked and rotated before: a request that a key authenticates carries the
  tenant, department and application of the row the key hashes to, that row is neither revoked nor expired, the client is in its
  networks, and department and application exist and belong to that tenant. No such request is an administrator's.\<close>

theorem authenticated_key_scoped:
  assumes "org_ok s0" "key_step\<^sup>*\<^sup>* s0 s" "ae_keys E = served_keys s" "key \<noteq> ae_admin_key E"
    "authenticate_api_key E now q key r = (r', Accepted st)"
  shows "\<exists>k\<in>set (og_keys s). ak_hash k = ae_sha256 E key \<and> \<not> ak_revoked k \<and> (case ak_expires k of None \<Rightarrow> True | Some e \<Rightarrow> now \<le> e)
     \<and> is_allowed (Some (aq_ip q)) (ak_allowlist k) \<and> st_tenant_id st = Some (ak_tenant k) \<and> st_dept_id st = ak_dept k
     \<and> st_app_id st = ak_app k \<and> \<not> st_is_admin st \<and> key_scoped s k"
  using accepted_key_row[OF assms(3,5,4)] history_ok[OF assms(2,1)] by (auto simp: org_ok_def)

text \<open>C25: A key that is out of service stays out of service: once its row is revoked, or has an expiry that has passed, no later
  change of any administrator, a rotation included, makes the secret authenticate again.\<close>

theorem dead_key_stays_dead:
  assumes "org_ok s0" "k \<in> set (og_keys s0)" "ak_revoked k \<or> (\<exists>e. ak_expires k = Some e \<and> e < now)" "key_step\<^sup>*\<^sup>* s0 s"
    "ae_keys E = served_keys s" "ae_sha256 E key = ak_hash k" "key \<noteq> ae_admin_key E"
  shows "snd (authenticate_api_key E now q key r) \<noteq> Accepted st"
proof
  assume "snd (authenticate_api_key E now q key r) = Accepted st"
  then have "authenticate_api_key E now q key r = (fst (authenticate_api_key E now q key r), Accepted st)" by (metis prod.collapse)
  from accepted_key_row[OF assms(5) this assms(7)] obtain x where x: "x \<in> set (og_keys s)" "ak_hash x = ak_hash k" "\<not> ak_revoked x"
    "case ak_expires x of None \<Rightarrow> True | Some e \<Rightarrow> now \<le> e" using assms(6) by auto
  obtain k' where k': "k' \<in> set (og_keys s)" "evolves k k'" using history_evolves[OF assms(4,1,2)] by blast
  have "x = k'" using unique_row[of ak_hash "og_keys s" x k'] history_ok[OF assms(4,1)] x k' by (simp add: org_ok_def evolves_def)
  then show False using x(3,4) k'(2) assms(3) by (auto simp: evolves_def)
qed

section \<open>Rotation\<close>

lemma find_last: "(\<And>x. x \<in> set xs \<Longrightarrow> \<not> P x) \<Longrightarrow> P y \<Longrightarrow> find P (xs @ [y]) = Some y"
  by (induction xs) auto

lemma networks_carried: "is_allowed cip (if truthy l then l else None) \<longleftrightarrow> is_allowed cip l"
  by (simp add: is_allowed_def truthy_def)

text \<open>C26: A rotation hands on what the old key had and takes the old key out of service. The caller is an administrator of the key's
  tenant; the new row is the only new one, is found under its secret, and has the tenant, department, application, type and
  name of the old one and admits the same clients; the old row expires after the grace period and every other row is unchanged.\<close>

theorem rotation_hands_on:
  assumes "org_ok s" "rotate_key E c i m s = (s', Inr (new, secret, grace))"
  shows "\<exists>k\<in>set (og_keys s). ak_key_id k = i \<and> \<not> ak_revoked k \<and> cl_tenant_id c = Some (ak_tenant k) \<and> (\<exists>p. require_admin c = Inr p)
     \<and> og_keys s' = map (\<lambda>x. if x = k then k\<lparr>ak_expires := Some grace\<rparr> else x) (og_keys s) @ [new]
     \<and> grace = ne_now E + 60 * of_int m \<and> 0 \<le> m \<and> m \<le> 10080
     \<and> key_by_hash s' (ne_sha256 E secret) = Some new \<and> ak_expires new = None
     \<and> ak_tenant new = ak_tenant k \<and> ak_dept new = ak_dept k \<and> ak_app new = ak_app k \<and> ak_name new = ak_name k \<and> ak_admin new = ak_admin k
     \<and> ak_type new = str_or (Some (ak_type k)) ''live'' \<and> (\<forall>cip. is_allowed cip (ak_allowlist new) \<longleftrightarrow> is_allowed cip (ak_allowlist k))"
proof -
  obtain p k s1 where prep: "prepare_rotation E c i m s = Inr (p, k, new, secret, s1)" and g: "grace = ne_now E + 60 * of_int m"
    using assms(2) by (auto simp: rotate_key_def Let_def split: sum.splits)
  have own: "own_key c i s = Inr k" and adm: "require_admin c = Inr p" and range: "0 \<le> m" "m \<le> 10080" and ins: "insert_key new s = Inr s1"
    and new: "ak_tenant new = ak_tenant k" "ak_dept new = ak_dept k" "ak_app new = ak_app k" "ak_name new = ak_name k" "ak_admin new = ak_admin k"
      "ak_type new = (if ak_type k = [] then ''live'' else ak_type k)" "ak_expires new = None" "\<not> ak_revoked new" "ak_hash new = ne_sha256 E secret"
      "ak_allowlist new = (if truthy (ak_allowlist k) then ak_allowlist k else None)"
    using prep unfolding prepare_rotation_def by (auto simp: and_then_Inr raised_Inr Let_def split: if_splits option.splits)
  note k = own_keyD[OF own]
  have fresh: "ak_key_id x \<noteq> ak_key_id new \<and> ak_hash x \<noteq> ak_hash new" if "x \<in> set (og_keys s)" for x
    using ins that by (simp add: insert_key_Inr key_insertable_def list_all_iff)
  have same: "ak_key_id x = i \<and> \<not> ak_revoked x \<longleftrightarrow> x = k" if "x \<in> set (og_keys s)" for x
    using unique_row[of ak_key_id "og_keys s" x k] that k assms(1) by (auto simp: org_ok_def)
  have "og_keys s' = map (\<lambda>x. if ak_key_id x = i \<and> \<not> ak_revoked x then x\<lparr>ak_expires := Some grace\<rparr> else x) (og_keys s @ [new])"
    using assms(2) ins by (auto simp: rotate_key_def prep Let_def update_keys_def insert_key_Inr g)
  moreover have "ak_key_id new \<noteq> i" using fresh[of k] k by auto
  ultimately have keys: "og_keys s' = map (\<lambda>x. if x = k then k\<lparr>ak_expires := Some grace\<rparr> else x) (og_keys s) @ [new]"
    using same by (auto cong: map_cong)
  have "key_by_hash s' (ne_sha256 E secret) = Some new"
    unfolding key_by_hash_def keys by (rule find_last) (use fresh new(8,9) k in auto)
  with keys show ?thesis using k adm range g new networks_carried by (intro bexI[of _ k]) (auto simp: str_or_def)
qed

text \<open>
  A key that was created with an expiry cannot be rotated: the answer claims that it already was.
\<close>

lemma expiring_key_not_rotated:
  assumes "own_key c i s = Inr k" "ak_expires k = Some e" "ne_now E < e" "require_admin c = Inr p" "0 \<le> m" "m \<le> 10080"
  shows "rotate_key E c i m s = (s, Inl (Catalog ''KEY_IN_GRACE_PERIOD''))"
  using assms by (simp add: rotate_key_def prepare_rotation_def and_then_def)

section \<open>An organisation at work\<close>

definition sample_key :: api_key where
  "sample_key = \<lparr>ak_key_id = ''k'', ak_tenant = ''t'', ak_dept = Some ''d'', ak_app = None, ak_name = ''n'', ak_hash = ''wsk_live_a'', ak_type = ''live'',
     ak_admin = False, ak_revoked = False, ak_expires = None, ak_last_used = None, ak_created = 0, ak_allowlist = None\<rparr>"

definition sample_org :: org where
  "sample_org = \<lparr>og_depts = [\<lparr>ud_id = ''d'', ud_tenant = ''t'', ud_name = ''D'', ud_active = True\<rparr>], og_apps = [], og_keys = [sample_key], og_events = []\<rparr>"

definition sample_admin :: api_caller where
  "sample_admin = \<lparr>cl_principal_type = Some ''user'', cl_key_id = Some ''user:a'', cl_key_type = ''live'', cl_key_name = None, cl_tenant_id = Some ''t'',
     cl_dept_id = None, cl_app_id = None, cl_ip_address = None, cl_user_agent = None, cl_is_admin = True, cl_user_role = Some ''ADMIN''\<rparr>"

definition sample_key_env :: key_env where
  "sample_key_env = \<lparr>ne_now = 10, ne_sha256 = (\<lambda>x. x), ne_parse_iso = (\<lambda>_. Inl ValueError), ne_secret = ''b'', ne_id_hex = ''b'', ne_event_written = True\<rparr>"

lemma sample_org_ok: "org_ok sample_org"
  by (simp add: org_ok_def sample_org_def sample_key_def key_scoped_def)

lemma sample_admin_ok: "\<exists>p. require_admin sample_admin = Inr p"
  by (simp add: require_admin_def require_role_def require_jwt_def principal_from_state_def sample_admin_def truthy_def and_then_def has_role_def)

lemma sample_own: "own_key sample_admin ''k'' sample_org = Inr sample_key"
  by (simp add: own_key_def get_active_by_key_id_def sample_org_def sample_key_def sample_admin_def)

lemma sample_rotation: "\<exists>s' new. rotate_key sample_key_env sample_admin ''k'' 60 sample_org = (s', Inr (new, ''wsk_live_b'', 3610))"
proof -
  obtain p where "require_admin sample_admin = Inr p" using sample_admin_ok by blast
  then show ?thesis
    by (simp add: rotate_key_def prepare_rotation_def sample_own and_then_def)
      (simp add: sample_key_def sample_key_env_def sample_org_def insert_key_def key_insertable_def raised_def generate_api_key_def
        generate_key_id_def truthy_def and_then_def Let_def)
qed

theorem rotation_hands_on_witness:
  "\<exists>s' new. key_by_hash s' ''wsk_live_b'' = Some new \<and> ak_tenant new = ''t'' \<and> ak_dept new = Some ''d''"
proof -
  obtain s' new where r: "rotate_key sample_key_env sample_admin ''k'' 60 sample_org = (s', Inr (new, ''wsk_live_b'', 3610))" using sample_rotation by blast
  from rotation_hands_on[OF sample_org_ok r] show ?thesis by (auto simp: sample_org_def sample_key_def sample_key_env_def)
qed

text \<open>Another administrator revokes the key: its secret stops working, until then it does.\<close>

definition key_sample_env :: "org \<Rightarrow> cached_user mem auth_env" where
  "key_sample_env s = sample_env sample_auth_db\<lparr>ae_keys := served_keys s\<rparr>"

theorem authenticated_key_scoped_witness:
  "\<exists>st. snd (authenticate_api_key (key_sample_env sample_org) 20 sample_request ''wsk_live_a'' Map.empty) = Accepted st
     \<and> st_tenant_id st = Some ''t'' \<and> st_dept_id st = Some ''d''"
proof -
  have "\<exists>st r'. authenticate_api_key (key_sample_env sample_org) 20 sample_request ''wsk_live_a'' Map.empty = (r', Accepted st)"
    by (simp add: authenticate_api_key_def key_sample_env_def sample_env_def startswith_def get_standard_key_def served_keys_def key_by_hash_def
        sample_org_def sample_key_def key_row_of_def truthy_def tenant_suspended_def mem_redis_def mem_val_def rtry_def Let_def)
  then obtain st r' where a: "authenticate_api_key (key_sample_env sample_org) 20 sample_request ''wsk_live_a'' Map.empty = (r', Accepted st)" by blast
  have "ae_keys (key_sample_env sample_org) = served_keys sample_org" "''wsk_live_a'' \<noteq> ae_admin_key (key_sample_env sample_org)"
    by (simp_all add: key_sample_env_def sample_env_def)
  from authenticated_key_scoped[OF sample_org_ok rtranclp.rtrancl_refl this a] a show ?thesis by (auto simp: sample_org_def sample_key_def)
qed

theorem dead_key_stays_dead_witness:
  "\<forall>st. snd (authenticate_api_key (key_sample_env (fst (delete_key sample_admin ''k'' sample_org))) 20 sample_request ''wsk_live_a'' Map.empty) \<noteq> Accepted st"
proof
  fix st
  let ?s = "fst (delete_key sample_admin ''k'' sample_org)"
  obtain p where "require_admin sample_admin = Inr p" using sample_admin_ok by blast
  then have s: "?s = sample_org\<lparr>og_keys := [sample_key\<lparr>ak_revoked := True\<rparr>]\<rparr>"
    by (simp add: delete_key_def sample_own and_then_def) (simp add: update_keys_def sample_org_def sample_key_def)
  have ok: "org_ok ?s" by (rule changes_keep_ok[OF delete_key_changes sample_org_ok])
  show "snd (authenticate_api_key (key_sample_env ?s) 20 sample_request ''wsk_live_a'' Map.empty) \<noteq> Accepted st"
    by (rule dead_key_stays_dead[OF ok _ _ rtranclp.rtrancl_refl, where k = "sample_key\<lparr>ak_revoked := True\<rparr>"])
      (simp_all add: s key_sample_env_def sample_env_def, simp_all add: sample_key_def)
qed

end
