(* ===== verification/Spec2Isabelle.thy ===== *)
theory Spec2Isabelle
  imports Domain Base64_Views Gateway_Facts Policy_Resolver_Facts Rate_Limit_Facts Auth_Facts Webhook_Signing Webhook_Facts Audit_Digest MCP_Facts Chat_Proxy_Facts Idempotency_Facts Scan_Cache_Facts IP_Facts Url_Facts API_Key_Facts
begin

text \<open>
  WrapSec is an HTTP gateway that stands between applications and language models. A request is authenticated, charged
  to rate limits, scanned for attacks and personal data, decided by a policy, possibly forwarded to a provider, and recorded in a
  tamper-evident log; events of it are delivered to webhooks. A second gateway does the same for tools of the MCP
  protocol. This library translates the decision-making core of the Python sources into definitions and proves what makes it
  correct. Every definition is executable; paths below are relative to the repository.

  The way of a request. The authentication middleware (Auth_Middleware) establishes the caller, the rate limiter
  (Rate_Limit) and the idempotency middleware (Idempotency) may answer in its place, then an endpoint runs: the scan API
  (Scan_API, Scan_Endpoints) or the chat proxy (Chat_Proxy). Both resolve a policy (Policy_Resolver), call the gateway
  service (Gateway), which runs normalization, guardrails, detectors, scoring and the policy engine, write audit rows
  (Audit_Chain) and schedule webhook events (Webhooks). The scan API keeps answers in a cache (Semantic_Cache).

  Foundations.
  \<^item> Prelude: exceptions as values, truth-value idioms, insertion-ordered dictionaries.
  \<^item> Py_Float, Py_Int, Py_Text, Py_Value, Json: doubles with every operation rounded, decimal integers, code points, values of mixed type.
  \<^item> Py_Regex: the fragment of \<^verbatim>\<open>re\<close> in use, as a backtracking matcher and as a denotation, shown to agree.
  \<^item> Redis: the commands of the store as parameters; the locales \<open>redis_kv\<close>, \<open>redis_zset\<close>, \<open>redis_up\<close> state their
    documented effect and are interpreted on an in-memory store with expiry.

  Scanning and deciding.
  \<^item> Domain (\<^verbatim>\<open>domain\<close>): enumerations, value objects, entities, principals with their permissions.
  \<^item> Normalization, Base64_Views (\<^verbatim>\<open>engine/normalization\<close>): the stages, the caps on views, decoding.
  \<^item> Detection, Detection_Facts, Rule_Patterns (\<^verbatim>\<open>engine/detection\<close>): detectors under the locale \<open>detector\<close>.
  \<^item> Guardrails, Guardrail_Facts, PII_Patterns (\<^verbatim>\<open>engine/guardrails\<close>): under \<open>pii_engine\<close>.
  \<^item> Scoring (\<^verbatim>\<open>engine/scoring\<close>), Policy (\<^verbatim>\<open>engine/policy\<close>, \<^verbatim>\<open>engine/provenance\<close>): score, decision, source posture.
  \<^item> Policy_Resolver, Policy_Resolver_Facts (\<^verbatim>\<open>services/policy_resolver.py\<close>, \<^verbatim>\<open>policy_layers.py\<close>,
    \<^verbatim>\<open>security/policy_override.py\<close>): layering, validation, masking of credentials.
  \<^item> Gateway, Gateway_Facts (\<^verbatim>\<open>services/gateway/service.py\<close>): the whole of \<^verbatim>\<open>process\<close>; it fails closed, the provider sees
    only a judged prompt, an output leaves only through the output guard.

  Endpoints.
  \<^item> Provider_Router, Chat_Proxy, Chat_Proxy_Facts (\<^verbatim>\<open>api/v1/endpoints/proxy.py\<close>, \<^verbatim>\<open>services/gateway/fanout.py\<close>,
    \<^verbatim>\<open>engine/proxy\<close>): what is forwarded was judged, what is released was guarded, what happened is recorded.
  \<^item> Access_Scope (\<^verbatim>\<open>api/v1/dependencies\<close>), Scan_API, Scan_Endpoints, Scan_Facts, Scan_Examples
    (\<^verbatim>\<open>api/v1/endpoints/ai.py\<close>, \<^verbatim>\<open>api/v1/schemas/request.py\<close>): the routes thread one state through cache, limits, audit
    table and event queue.
  \<^item> Semantic_Cache, Scan_Cache_Facts (\<^verbatim>\<open>cache/semantic_cache.py\<close>): cached verdicts over any history of requests.
  \<^item> Idempotency, Idempotency_Facts (\<^verbatim>\<open>api/v1/middleware/idempotency.py\<close>): a request is a begin and an end step, so that
    histories interleave; an invariant over the steps gives the guarantees of a window.

  Access.
  \<^item> Lockout, Sessions, Auth_Middleware, Auth_Facts (\<^verbatim>\<open>services/auth\<close>, \<^verbatim>\<open>api/v1/middleware/auth.py\<close>, the token and user
    repositories): the tables are lists of rows; revocation is an invariant of all operations.
  \<^item> IP_Address, IP_Facts (\<^verbatim>\<open>security/ip_allowlist.py\<close>): addresses and networks are numbers; printing and parsing are inverse,
    so the stored allowlist is the typed one. The middleware asks \<open>is_allowed\<close> of this theory.
  \<^item> Url_Guard, Url_Facts (\<^verbatim>\<open>security/url_validator.py\<close>, \<^verbatim>\<open>security/webhook_ssrf.py\<close>): the guards of outgoing connections; the
    address classes of the source are compared with explicit ranges.
  \<^item> API_Keys, API_Key_Facts (\<^verbatim>\<open>api/v1/endpoints/keys.py\<close>, \<^verbatim>\<open>db/repositories/api_key.py\<close>): administration of keys as steps over the
    tables; what any history of steps keeps is combined with the authentication of the resulting rows.
  \<^item> Rate_Limit, Rate_Limit_Facts (\<^verbatim>\<open>cache/rate_limit_store.py\<close>, \<^verbatim>\<open>api/v1/middleware/rate_limit.py\<close>): the script over the sorted set.

  Records and deliveries.
  \<^item> Audit_Chain, Audit_Facts, Audit_Digest (\<^verbatim>\<open>security/audit_chain.py\<close>, \<^verbatim>\<open>db/repositories/audit.py\<close>,
    \<^verbatim>\<open>scripts/verify_audit_chain.py\<close>): writer and verifier over any digest (\<open>chain_digest\<close>); tampering needs a collision.
  \<^item> Webhooks, Webhook_Facts, Webhook_Signing (\<^verbatim>\<open>services/webhooks\<close>, \<^verbatim>\<open>workers/webhook_delivery.py\<close>,
    \<^verbatim>\<open>security/webhook_signing.py\<close>): handler, queue commands in order, retries, signatures.
  \<^item> MCP_Config, MCP_Gateway, MCP_Facts (\<^verbatim>\<open>mcp_gateway\<close>): configuration, routing, inspection of tools, arguments and results.

  Bounds. Recursion is structural or has a measure, so there is no fuel in the translated code except in two places. The matcher of
  Py_Regex has fuel for the minimum number of iterations plus one per character of the text, which is enough because beyond the
  minimum an iteration that consumes nothing is not repeated. The life of a webhook message (Webhook_Facts) is run for \<open>MAX_ATTEMPTS\<close> steps and shown to end within
  them. Times are rationals; one operation reads the clock once. Integers of the source are unbounded, as in Python. Texts that are
  scanned are lists of code points; identifiers, header values, addresses and URLs are ASCII or Latin-1 texts.

  Parameters. Model inference, language models, SHA-256, HMAC, JWT signatures, authenticated encryption, Unicode tables
  (NFKC, categories), the HTTP clients, name resolution and the SQL reads of rows are arguments. What is assumed of
  them is a named hypothesis or a locale with an interpretation. The outcome of the egress check is an argument of the
  webhook handler; Url_Guard models the check itself.

  Where the code does less than it says, a lemma exhibits it: for instance \<open>list_content_not_scanned\<close>,
  \<open>stale_answer_replayed\<close>, \<open>slot_ignores_case\<close>, \<open>poison_message_requeued\<close>, \<open>site_local_let_through\<close>.

  Not modelled.
  \<^item> Administration of departments, applications, users, tenants, settings and webhook endpoints: handlers that edit single
    tables behind the access dependencies. What they store is modelled where it is read. Of the keys, the statistics of the addresses they were used from.
  \<^item> Audit, interaction and statistics queries: filtering, counting and paging are done by SQL.
  \<^item> E-mail, webhook connectors, LLM clients: templates, vendor formats and transports.
  \<^item> Encryption at rest and key management: wrappers around an AEAD library, parameters here.
  \<^item> Of the sessions the invitation and reset links, of authentication the event rows of refusals, of the MCP gateway the stdio
    transport, of the audit repository the read queries.
  \<^item> Configuration, logging, metrics, response schemas, migrations, SDKs, the dashboard and deployment files.
\<close>

end
